(* ===== verification/Adept_Prelude.thy ===== *)
theory Adept_Prelude
  imports Complex_Main "HOL-Library.Product_Lexorder" "HOL-Library.Multiset"
begin

text \<open>
  Shared vocabulary of the development: instants and identifiers, the exceptions the
  engine raises, Python's rounding and slicing, and the shape of the SQL statements the
  engine issues (\<^verbatim>\<open>UPDATE ... WHERE\<close>, \<^verbatim>\<open>SELECT ... LIMIT 1\<close>) on a table kept as a list
  of rows.

  An instant is the number of microseconds since the Unix epoch, the resolution of both
  Python's \<^verbatim>\<open>datetime\<close> and PostgreSQL's \<^verbatim>\<open>timestamptz\<close>.  A Python \<^verbatim>\<open>float\<close> or
  \<^verbatim>\<open>Decimal\<close> that the code only adds, scales, compares and rounds is an exact rational:
  binary rounding error is not modelled.  A UUID is its 128-bit number, which is the order
  both Python and PostgreSQL compare UUIDs by.
\<close>

type_synonym time = int
type_synonym uuid = nat

definition second :: time where "second = 1000000"
definition minute :: time where "minute = 60 * second"
definition hour :: time where "hour = 60 * minute"
definition day :: time where "day = 24 * hour"

lemmas time_units = second_def minute_def hour_def day_def

section \<open>Exceptions\<close>

text \<open>
  The exception classes the engine distinguishes.  \<open>ProviderError\<close> carries the optional
  \<^verbatim>\<open>retry_after_seconds\<close>; its two subclasses are constructors of their own.
  \<open>OtherError\<close> stands for every exception the engine only handles as \<^verbatim>\<open>Exception\<close>
  (database errors, \<^verbatim>\<open>RuntimeError\<close>, \<^verbatim>\<open>TypeError\<close>, ...).
\<close>

datatype exn =
    ValueError string
  | OverflowError string
  | JobOwnershipError string
  | PermanentJobError string
  | RequeueWithPayloadError
  | JobScopeBusy string
  | ProviderError string "rat option"
  | ProviderPermanentError string "rat option"
  | ProviderConfigurationError string "rat option"
  | OtherError string

text \<open>\<^verbatim>\<open>str(exc)\<close>.\<close>

fun exn_str :: "exn \<Rightarrow> string" where
  "exn_str (ValueError m) = m"
| "exn_str (OverflowError m) = m"
| "exn_str (JobOwnershipError m) = m"
| "exn_str (PermanentJobError m) = m"
| "exn_str RequeueWithPayloadError = ''''"
| "exn_str (JobScopeBusy m) = m"
| "exn_str (ProviderError m r) = m"
| "exn_str (ProviderPermanentError m r) = m"
| "exn_str (ProviderConfigurationError m r) = m"
| "exn_str (OtherError m) = m"

type_synonym 'a result = "exn + 'a"

fun is_ok :: "'a result \<Rightarrow> bool" where
  "is_ok (Inr _) = True"
| "is_ok (Inl _) = False"

lemma is_ok_iff: "is_ok r \<longleftrightarrow> (\<exists>x. r = Inr x)"
  by (cases r) auto

text \<open>Sequencing: the first exception wins.\<close>

definition bindr :: "'a result \<Rightarrow> ('a \<Rightarrow> 'b result) \<Rightarrow> 'b result" where
  "bindr r f = (case r of Inl e \<Rightarrow> Inl e | Inr x \<Rightarrow> f x)"

lemma bindr_simps [simp]: "bindr (Inl e) f = Inl e" "bindr (Inr x) f = f x"
  by (simp_all add: bindr_def)

lemma bindr_Inr: "bindr r f = Inr y \<longleftrightarrow> (\<exists>x. r = Inr x \<and> f x = Inr y)"
  by (cases r) auto

lemma bindr_Inl: "bindr r f = Inl e \<longleftrightarrow> r = Inl e \<or> (\<exists>x. r = Inr x \<and> f x = Inl e)"
  by (cases r) auto

fun map_result :: "('a \<Rightarrow> 'b result) \<Rightarrow> 'a list \<Rightarrow> 'b list result" where
  "map_result f [] = Inr []"
| "map_result f (x # xs) = bindr (f x) (\<lambda>y. bindr (map_result f xs) (\<lambda>ys. Inr (y # ys)))"

lemma map_result_Inr: "map_result f xs = Inr ys \<longleftrightarrow> list_all2 (\<lambda>x y. f x = Inr y) xs ys"
  by (induction xs arbitrary: ys) (auto simp: bindr_Inr list_all2_Cons1)

section \<open>Rational arithmetic of the code\<close>

text \<open>Rounding to the nearest integer, ties to even: Python's \<^verbatim>\<open>round\<close>, PostgreSQL's
  rounding of an interval to whole microseconds, \<^verbatim>\<open>timedelta\<close> division.\<close>

definition round_half_even :: "rat \<Rightarrow> int" where
  "round_half_even x =
     (let f = \<lfloor>x\<rfloor>; d = x - of_int f in
      if d < 1 / 2 then f
      else if 1 / 2 < d then f + 1
      else if even f then f else f + 1)"

text \<open>\<^verbatim>\<open>round(x, n)\<close>.\<close>

definition py_round :: "nat \<Rightarrow> rat \<Rightarrow> rat" where
  "py_round n x = of_int (round_half_even (x * 10 ^ n)) / 10 ^ n"

lemma round_half_even_bounds:
  "of_int (round_half_even x) - 1 / 2 \<le> x \<and> x \<le> of_int (round_half_even x) + 1 / 2"
proof -
  have lo: "of_int \<lfloor>x\<rfloor> \<le> x" and hi: "x < of_int \<lfloor>x\<rfloor> + 1"
    by linarith+
  let ?f = "of_int \<lfloor>x\<rfloor> :: rat"
  consider "x - ?f < 1 / 2" | "1 / 2 < x - ?f" | "x - ?f = 1 / 2" by linarith
  then show ?thesis
  proof cases
    case 1
    then have "round_half_even x = \<lfloor>x\<rfloor>" by (simp add: round_half_even_def Let_def)
    with 1 lo show ?thesis by linarith
  next
    case 2
    then have "round_half_even x = \<lfloor>x\<rfloor> + 1" by (simp add: round_half_even_def Let_def)
    with 2 hi show ?thesis by linarith
  next
    case 3
    then have "round_half_even x = \<lfloor>x\<rfloor> \<or> round_half_even x = \<lfloor>x\<rfloor> + 1"
      by (auto simp: round_half_even_def Let_def)
    with 3 show ?thesis by auto
  qed
qed

lemma round_half_even_of_int [simp]: "round_half_even (of_int k) = k"
  by (simp add: round_half_even_def)

lemma round_half_even_mono: "x \<le> y \<Longrightarrow> round_half_even x \<le> round_half_even y"
proof -
  assume le: "x \<le> y"
  have fl: "\<lfloor>x\<rfloor> \<le> \<lfloor>y\<rfloor>" using le by (rule floor_mono)
  show ?thesis
  proof (cases "\<lfloor>x\<rfloor> = \<lfloor>y\<rfloor>")
    case True
    with le show ?thesis by (auto simp: round_half_even_def Let_def)
  next
    case False
    with fl have "\<lfloor>x\<rfloor> + 1 \<le> \<lfloor>y\<rfloor>" by simp
    moreover have "round_half_even x \<le> \<lfloor>x\<rfloor> + 1"
      by (simp add: round_half_even_def Let_def)
    moreover have "\<lfloor>y\<rfloor> \<le> round_half_even y"
      by (simp add: round_half_even_def Let_def)
    ultimately show ?thesis by linarith
  qed
qed

lemma round_half_even_nonneg: "0 \<le> x \<Longrightarrow> 0 \<le> round_half_even x"
  using round_half_even_mono [of 0 x] round_half_even_of_int [of 0] by simp

lemma py_round_mono: "x \<le> y \<Longrightarrow> py_round n x \<le> py_round n y"
  unfolding py_round_def
  by (intro divide_right_mono) (simp_all add: round_half_even_mono)

lemma py_round_of_int [simp]: "py_round n (of_int k) = of_int k"
proof -
  have "(of_int k :: rat) * 10 ^ n = of_int (k * 10 ^ n)" by simp
  then show ?thesis
    by (simp only: py_round_def round_half_even_of_int) simp
qed

lemma py_round_zero [simp]: "py_round n 0 = 0"
  using py_round_of_int [of n 0] by simp

lemma py_round_error: "\<bar>py_round n x - x\<bar> \<le> 1 / (2 * 10 ^ n)"
proof -
  let ?p = "(10 :: rat) ^ n"
  let ?r = "of_int (round_half_even (x * ?p)) :: rat"
  have pos: "0 < ?p" by simp
  from round_half_even_bounds [of "x * ?p"] have "\<bar>?r - x * ?p\<bar> \<le> 1 / 2" by linarith
  then have "\<bar>?r - x * ?p\<bar> / ?p \<le> (1 / 2) / ?p"
    using pos by (intro divide_right_mono) simp_all
  moreover have "\<bar>?r - x * ?p\<bar> / ?p = \<bar>?r / ?p - x\<bar>"
  proof -
    have "?r / ?p - x = (?r - x * ?p) / ?p" using pos by (simp add: field_simps)
    then show ?thesis using pos by (simp add: abs_divide)
  qed
  ultimately show ?thesis by (simp add: py_round_def)
qed

lemma py_round_bounds:
  "of_int a \<le> x \<Longrightarrow> x \<le> of_int b \<Longrightarrow> of_int a \<le> py_round n x \<and> py_round n x \<le> of_int b"
  using py_round_mono [of "of_int a" x n] py_round_mono [of x "of_int b" n] by simp

text \<open>Seconds to microseconds, as \<^verbatim>\<open>make_interval(secs => :d)\<close> does.\<close>

definition interval_secs :: "rat \<Rightarrow> time" where
  "interval_secs d = round_half_even (d * of_int second)"

lemma interval_secs_of_int [simp]: "interval_secs (of_int k) = k * second"
proof -
  have "(of_int k :: rat) * of_int second = of_int (k * second)" by simp
  then show ?thesis by (simp only: interval_secs_def round_half_even_of_int)
qed

lemma interval_secs_mono: "d \<le> e \<Longrightarrow> interval_secs d \<le> interval_secs e"
  unfolding interval_secs_def
  by (intro round_half_even_mono mult_right_mono) (simp_all add: second_def)

text \<open>\<^verbatim>\<open>td.total_seconds()\<close>.\<close>

definition total_seconds :: "time \<Rightarrow> rat" where
  "total_seconds t = of_int t / of_int second"

lemma total_seconds_nonneg [simp]: "0 \<le> total_seconds t \<longleftrightarrow> 0 \<le> t"
  by (simp add: total_seconds_def second_def)

section \<open>Python sequences\<close>

text \<open>\<^verbatim>\<open>xs[:n]\<close>, with Python's meaning of a negative bound.\<close>

definition py_take :: "int \<Rightarrow> 'a list \<Rightarrow> 'a list" where
  "py_take n xs = (if 0 \<le> n then take (nat n) xs else take (nat (int (length xs) + n)) xs)"

lemma length_py_take: "0 \<le> n \<Longrightarrow> length (py_take n xs) \<le> nat n"
  by (simp add: py_take_def)

text \<open>\<^verbatim>\<open>min(values)\<close> and \<^verbatim>\<open>max(values)\<close> over possibly empty collections.\<close>

fun list_min :: "('a :: linorder) list \<Rightarrow> 'a option" where
  "list_min [] = None"
| "list_min (x # xs) = Some (case list_min xs of None \<Rightarrow> x | Some m \<Rightarrow> min x m)"

fun list_max :: "('a :: linorder) list \<Rightarrow> 'a option" where
  "list_max [] = None"
| "list_max (x # xs) = Some (case list_max xs of None \<Rightarrow> x | Some m \<Rightarrow> max x m)"

lemma list_min_None [simp]: "list_min xs = None \<longleftrightarrow> xs = []"
  by (cases xs) simp_all

lemma list_max_None [simp]: "list_max xs = None \<longleftrightarrow> xs = []"
  by (cases xs) simp_all

lemma list_max_Some: "list_max xs = Some m \<Longrightarrow> m \<in> set xs \<and> (\<forall>x \<in> set xs. x \<le> m)"
proof (induction xs arbitrary: m)
  case Nil
  then show ?case by simp
next
  case (Cons a xs)
  show ?case
  proof (cases "list_max xs")
    case None
    with Cons.prems show ?thesis by simp
  next
    case (Some n)
    with Cons.IH have "n \<in> set xs \<and> (\<forall>x \<in> set xs. x \<le> n)" by simp
    with Some Cons.prems show ?thesis
      by (auto simp: max_def) (metis linorder_le_cases order_trans)
  qed
qed

lemma list_min_Some: "list_min xs = Some m \<Longrightarrow> m \<in> set xs \<and> (\<forall>x \<in> set xs. m \<le> x)"
proof (induction xs arbitrary: m)
  case Nil
  then show ?case by simp
next
  case (Cons a xs)
  show ?case
  proof (cases "list_min xs")
    case None
    with Cons.prems show ?thesis by simp
  next
    case (Some n)
    with Cons.IH have "n \<in> set xs \<and> (\<forall>x \<in> set xs. n \<le> x)" by simp
    with Some Cons.prems show ?thesis by (auto simp: min_def intro: order_trans)
  qed
qed

lemma list_min_set: "set xs = set ys \<Longrightarrow> list_min xs = list_min ys"
proof -
  assume eq: "set xs = set ys"
  show ?thesis
  proof (cases "list_min xs")
    case None
    with eq show ?thesis by simp
  next
    case (Some m)
    with eq have "ys \<noteq> []" by (cases xs) auto
    then obtain n where n: "list_min ys = Some n" by (cases "list_min ys") auto
    from list_min_Some [OF Some] list_min_Some [OF n] eq have "m = n" by (simp add: order_antisym)
    with Some n show ?thesis by simp
  qed
qed

section \<open>SQL statements on a list of rows\<close>

text \<open>\<^verbatim>\<open>UPDATE t SET f WHERE p\<close> and its \<^verbatim>\<open>rowcount\<close>.\<close>

definition sql_update :: "('r \<Rightarrow> bool) \<Rightarrow> ('r \<Rightarrow> 'r) \<Rightarrow> 'r list \<Rightarrow> 'r list" where
  "sql_update p f t = map (\<lambda>r. if p r then f r else r) t"

definition sql_count :: "('r \<Rightarrow> bool) \<Rightarrow> 'r list \<Rightarrow> nat" where
  "sql_count p t = length (filter p t)"

lemma sql_update_Nil [simp]: "sql_update p f [] = []"
  by (simp add: sql_update_def)

lemma sql_update_Cons [simp]:
  "sql_update p f (r # t) = (if p r then f r else r) # sql_update p f t"
  by (simp add: sql_update_def)

lemma sql_count_Nil [simp]: "sql_count p [] = 0"
  by (simp add: sql_count_def)

lemma sql_count_Cons [simp]: "sql_count p (r # t) = (if p r then 1 else 0) + sql_count p t"
  by (simp add: sql_count_def)

lemma set_sql_update: "set (sql_update p f t) = (\<lambda>r. if p r then f r else r) ` set t"
  by (simp add: sql_update_def)

lemma length_sql_update [simp]: "length (sql_update p f t) = length t"
  by (simp add: sql_update_def)

lemma map_sql_update_key:
  "(\<And>r. k (f r) = k r) \<Longrightarrow> map k (sql_update p f t) = map k t"
  by (simp add: sql_update_def)

lemma sql_update_id: "(\<And>r. r \<in> set t \<Longrightarrow> \<not> p r) \<Longrightarrow> sql_update p f t = t"
  by (induction t) auto

lemma sql_count_zero [simp]: "sql_count p t = 0 \<longleftrightarrow> (\<forall>r \<in> set t. \<not> p r)"
  by (simp add: sql_count_def filter_empty_conv)

lemma sql_count_update_same:
  "(\<And>r. q r \<Longrightarrow> p (f r) = p r) \<Longrightarrow> sql_count p (sql_update q f t) = sql_count p t"
  by (induction t) auto

lemma sql_count_append: "sql_count p (xs @ ys) = sql_count p xs + sql_count p ys"
  by (simp add: sql_count_def)

text \<open>A table whose key \<open>k\<close> is unique: primary-key lookup.\<close>

definition row_with :: "('r \<Rightarrow> 'k) \<Rightarrow> 'k \<Rightarrow> 'r list \<Rightarrow> 'r option" where
  "row_with k x t = find (\<lambda>r. k r = x) t"

lemma row_with_Nil [simp]: "row_with k x [] = None"
  by (simp add: row_with_def)

lemma row_with_Cons [simp]:
  "row_with k x (r # t) = (if k r = x then Some r else row_with k x t)"
  by (simp add: row_with_def)

lemma row_with_Some_set: "row_with k x t = Some r \<Longrightarrow> r \<in> set t \<and> k r = x"
  by (induction t) (auto split: if_splits)

lemma row_with_None: "row_with k x t = None \<longleftrightarrow> x \<notin> k ` set t"
  by (induction t) auto

lemma row_with_in_set:
  "distinct (map k t) \<Longrightarrow> r \<in> set t \<Longrightarrow> row_with k (k r) t = Some r"
  by (induction t) (auto simp: image_iff)

lemma row_with_sql_update:
  assumes "\<And>r. k (f r) = k r"
  shows "row_with k x (sql_update p f t) =
           map_option (\<lambda>r. if p r then f r else r) (row_with k x t)"
  using assms by (induction t) auto

lemma sql_count_unique:
  assumes "distinct (map k t)" and "\<And>r. p r \<Longrightarrow> k r = x"
  shows "sql_count p t = (case row_with k x t of None \<Rightarrow> 0 | Some r \<Rightarrow> if p r then 1 else 0)"
  using assms
proof (induction t)
  case Nil
  then show ?case by simp
next
  case (Cons r t)
  show ?case
  proof (cases "k r = x")
    case True
    with Cons.prems have "\<forall>q \<in> set t. \<not> p q" by (auto simp: image_iff)
    then have "sql_count p t = 0" by simp
    with True show ?thesis by simp
  next
    case False
    with Cons.prems(2) have "\<not> p r" by blast
    with False Cons show ?thesis by simp
  qed
qed

end
