(* ===== verification/Py_Values.thy ===== *)
theory Py_Values
  imports Adept_Prelude
begin

text \<open>
  The values the engine reads from provider payloads and job payloads: JSON with Python's
  rules for truth, \<^verbatim>\<open>dict.get\<close>, \<^verbatim>\<open>int(str(x))\<close>, \<^verbatim>\<open>UUID(str(x))\<close> and the string methods
  the source calls.  Strings are lists of 8-bit characters; case conversion is the ASCII
  one.
\<close>

section \<open>Strings\<close>

text \<open>\<^verbatim>\<open>str.isspace\<close> on Latin-1.\<close>

definition py_space :: "char \<Rightarrow> bool" where
  "py_space c =
     (let n = of_char c :: nat
      in (9 \<le> n \<and> n \<le> 13) \<or> (28 \<le> n \<and> n \<le> 32) \<or> n = 133 \<or> n = 160)"

definition lstrip_by :: "('a \<Rightarrow> bool) \<Rightarrow> 'a list \<Rightarrow> 'a list" where
  "lstrip_by p s = dropWhile p s"

definition rstrip_by :: "('a \<Rightarrow> bool) \<Rightarrow> 'a list \<Rightarrow> 'a list" where
  "rstrip_by p s = rev (dropWhile p (rev s))"

definition strip_by :: "('a \<Rightarrow> bool) \<Rightarrow> 'a list \<Rightarrow> 'a list" where
  "strip_by p s = rstrip_by p (lstrip_by p s)"

text \<open>\<^verbatim>\<open>s.strip()\<close>.\<close>

definition py_strip :: "string \<Rightarrow> string" where
  "py_strip s = strip_by py_space s"

text \<open>\<^verbatim>\<open>s.split()\<close>: the maximal runs of non-space characters.\<close>

function py_words :: "string \<Rightarrow> string list" where
  "py_words s =
     (case dropWhile py_space s of
        [] \<Rightarrow> []
      | c # cs \<Rightarrow>
          takeWhile (\<lambda>x. \<not> py_space x) (c # cs) #
          py_words (dropWhile (\<lambda>x. \<not> py_space x) (c # cs)))"
  by pat_completeness auto
termination
proof (relation "measure length", goal_cases)
  case 1
  then show ?case by simp
next
  case (2 s c cs)
  then have "\<not> py_space c" by (metis hd_dropWhile list.distinct(1) list.sel(1))
  then have "length (dropWhile (\<lambda>x. \<not> py_space x) (c # cs)) \<le> length cs"
    by (simp add: length_dropWhile_le)
  also have "\<dots> < length (dropWhile py_space s)" using 2 by simp
  also have "\<dots> \<le> length s" by (rule length_dropWhile_le)
  finally show ?case by simp
qed

declare py_words.simps [simp del]

text \<open>\<^verbatim>\<open>sep.join(xs)\<close>.\<close>

fun py_join :: "'a list \<Rightarrow> 'a list list \<Rightarrow> 'a list" where
  "py_join sep [] = []"
| "py_join sep [x] = x"
| "py_join sep (x # y # xs) = x @ sep @ py_join sep (y # xs)"

text \<open>\<^verbatim>\<open>s.split(c)\<close> for a one-character separator: never empty.\<close>

fun py_split :: "'a \<Rightarrow> 'a list \<Rightarrow> 'a list list" where
  "py_split c [] = [[]]"
| "py_split c (x # xs) =
     (if x = c then [] # py_split c xs
      else (case py_split c xs of [] \<Rightarrow> [[x]] | w # ws \<Rightarrow> (x # w) # ws))"

lemma py_split_not_Nil [simp]: "py_split c s \<noteq> []"
  by (induction s) (auto split: list.splits)

lemma py_join_split: "py_join [c] (py_split c s) = s"
proof (induction s)
  case Nil
  then show ?case by simp
next
  case (Cons x s)
  then show ?case
    by (cases "py_split c s") (auto, (metis list.exhaust py_join.simps(2,3) append_Cons append_Nil)+)
qed

definition ascii_lower_char :: "char \<Rightarrow> char" where
  "ascii_lower_char c =
     (let n = of_char c :: nat in if 65 \<le> n \<and> n \<le> 90 then char_of (n + 32) else c)"

definition ascii_upper_char :: "char \<Rightarrow> char" where
  "ascii_upper_char c =
     (let n = of_char c :: nat in if 97 \<le> n \<and> n \<le> 122 then char_of (n - 32) else c)"

definition py_lower :: "string \<Rightarrow> string" where "py_lower s = map ascii_lower_char s"
definition py_upper :: "string \<Rightarrow> string" where "py_upper s = map ascii_upper_char s"

text \<open>\<^verbatim>\<open>s.replace(old, new)\<close> for a non-empty \<^verbatim>\<open>old\<close>.\<close>

function py_replace :: "string \<Rightarrow> string \<Rightarrow> string \<Rightarrow> string" where
  "py_replace old new s =
     (case s of
        [] \<Rightarrow> []
      | c # cs \<Rightarrow>
          if old \<noteq> [] \<and> take (length old) s = old
          then new @ py_replace old new (drop (length old) s)
          else c # py_replace old new cs)"
  by pat_completeness auto
termination
proof (relation "measure (\<lambda>(old, new, s). length s)", goal_cases)
  case 1
  then show ?case by simp
next
  case (2 old new s c cs)
  then show ?case by (cases old) auto
next
  case (3 old new s c cs)
  then show ?case by simp
qed

declare py_replace.simps [simp del]

text \<open>\<^verbatim>\<open>str(n)\<close> for an integer.\<close>

definition digit_char :: "nat \<Rightarrow> char" where
  "digit_char d = (if d < 10 then char_of (48 + d) else char_of (87 + d))"

fun str_nat_base :: "nat \<Rightarrow> nat \<Rightarrow> string" where
  "str_nat_base b n =
     (if b < 2 then [] else if n < b then [digit_char n]
      else str_nat_base b (n div b) @ [digit_char (n mod b)])"

declare str_nat_base.simps [simp del]

definition str_int :: "int \<Rightarrow> string" where
  "str_int k = (if k < 0 then ''-'' @ str_nat_base 10 (nat (- k)) else str_nat_base 10 (nat k))"

text \<open>
  \<^verbatim>\<open>int(s, base)\<close>: surrounding whitespace, a sign, for base 16 an optional \<^verbatim>\<open>0x\<close>,
  then digits with single underscores between them.
\<close>

definition digit_value :: "char \<Rightarrow> nat option" where
  "digit_value c =
     (let n = of_char c :: nat in
      if 48 \<le> n \<and> n \<le> 57 then Some (n - 48)
      else if 97 \<le> n \<and> n \<le> 122 then Some (n - 87)
      else if 65 \<le> n \<and> n \<le> 90 then Some (n - 55)
      else None)"

text \<open>\<open>after_digit\<close>: whether an underscore (or the end) is allowed here.\<close>

fun parse_digits :: "nat \<Rightarrow> bool \<Rightarrow> nat \<Rightarrow> string \<Rightarrow> nat option" where
  "parse_digits b after_digit acc [] = (if after_digit then Some acc else None)"
| "parse_digits b after_digit acc (c # cs) =
     (if c = CHR ''_'' then (if after_digit then parse_digits b False acc cs else None)
      else case digit_value c of
             None \<Rightarrow> None
           | Some d \<Rightarrow> if d < b then parse_digits b True (acc * b + d) cs else None)"

definition parse_unsigned :: "nat \<Rightarrow> string \<Rightarrow> nat option" where
  "parse_unsigned b s =
     (if b = 16 \<and> (take 2 s = ''0x'' \<or> take 2 s = ''0X'')
      then (let r = drop 2 s in
            parse_digits b False 0 (if take 1 r = ''_'' then drop 1 r else r))
      else parse_digits b False 0 s)"

definition py_int :: "nat \<Rightarrow> string \<Rightarrow> int option" where
  "py_int b s =
     (case py_strip s of
        [] \<Rightarrow> None
      | c # cs \<Rightarrow>
          if c = CHR ''-'' then map_option (\<lambda>n. - int n) (parse_unsigned b cs)
          else if c = CHR ''+'' then map_option int (parse_unsigned b cs)
          else map_option int (parse_unsigned b (c # cs)))"

section \<open>UUID text\<close>

text \<open>\<^verbatim>\<open>str(uuid)\<close>: 32 lower-case hexadecimal digits in groups of 8-4-4-4-12.\<close>

fun hex_fixed :: "nat \<Rightarrow> nat \<Rightarrow> string" where
  "hex_fixed 0 n = []"
| "hex_fixed (Suc k) n = hex_fixed k (n div 16) @ [digit_char (n mod 16)]"

definition uuid_str :: "uuid \<Rightarrow> string" where
  "uuid_str u =
     (let h = hex_fixed 32 u in
      take 8 h @ ''-'' @ take 4 (drop 8 h) @ ''-'' @ take 4 (drop 12 h) @ ''-'' @
      take 4 (drop 16 h) @ ''-'' @ drop 20 h)"

text \<open>\<^verbatim>\<open>UUID(s)\<close>; \<open>None\<close> is \<^verbatim>\<open>ValueError\<close>.\<close>

definition uuid_of_string :: "string \<Rightarrow> uuid option" where
  "uuid_of_string s =
     (let h = py_replace ''uuid:'' [] (py_replace ''urn:'' [] s);
          h = filter (\<lambda>c. c \<noteq> CHR ''-'') (strip_by (\<lambda>c. c = CHR ''{'' \<or> c = CHR ''}'') h)
      in if length h \<noteq> 32 then None
         else case py_int 16 h of
                None \<Rightarrow> None
              | Some k \<Rightarrow> if 0 \<le> k \<and> k < 2 ^ 128 then Some (nat k) else None)"

section \<open>JSON values\<close>

datatype json =
    JNull
  | JBool bool
  | JInt int
  | JFloat rat
  | JStr string
  | JList "json list"
  | JObj "(string \<times> json) list"

type_synonym dict = "(string \<times> json) list"

text \<open>Python's truth value of a decoded JSON value.\<close>

fun truthy :: "json \<Rightarrow> bool" where
  "truthy JNull = False"
| "truthy (JBool b) = b"
| "truthy (JInt k) = (k \<noteq> 0)"
| "truthy (JFloat r) = (r \<noteq> 0)"
| "truthy (JStr s) = (s \<noteq> [])"
| "truthy (JList xs) = (xs \<noteq> [])"
| "truthy (JObj d) = (d \<noteq> [])"

text \<open>\<^verbatim>\<open>d.get(key)\<close>, \<^verbatim>\<open>d.get(key, default)\<close>, \<^verbatim>\<open>{**d, key: v}\<close> and \<^verbatim>\<open>a or b\<close>.\<close>

definition dict_get :: "dict \<Rightarrow> string \<Rightarrow> json" where
  "dict_get d k = (case map_of d k of None \<Rightarrow> JNull | Some v \<Rightarrow> v)"

definition dict_get_or :: "dict \<Rightarrow> string \<Rightarrow> json \<Rightarrow> json" where
  "dict_get_or d k v = (case map_of d k of None \<Rightarrow> v | Some w \<Rightarrow> w)"

fun dict_put :: "dict \<Rightarrow> string \<Rightarrow> json \<Rightarrow> dict" where
  "dict_put [] k v = [(k, v)]"
| "dict_put ((k', v') # d) k v = (if k' = k then (k, v) # d else (k', v') # dict_put d k v)"

definition py_or :: "json \<Rightarrow> json \<Rightarrow> json" where
  "py_or a b = (if truthy a then a else b)"

lemma map_of_dict_put [simp]: "map_of (dict_put d k v) = (map_of d)(k \<mapsto> v)"
  by (induction d) (auto simp: fun_eq_iff)

lemma dict_get_put [simp]:
  "dict_get (dict_put d k v) k' = (if k' = k then v else dict_get d k')"
  by (simp add: dict_get_def)

lemma dict_get_or_put [simp]: "dict_get_or (dict_put d k v) k' w = (if k' = k then v else dict_get_or d k' w)"
  by (simp add: dict_get_or_def)

text \<open>\<^verbatim>\<open>value if isinstance(value, dict) else {}\<close>, and the object list filter.\<close>

fun as_dict :: "json \<Rightarrow> dict" where
  "as_dict (JObj d) = d"
| "as_dict _ = []"

text \<open>
  \<^verbatim>\<open>int(str(value))\<close>, \<open>None\<close> for \<^verbatim>\<open>ValueError\<close>: only an integer or a string spelling
  one converts, since the text of a float, a bool, \<^verbatim>\<open>None\<close>, a list or an object never does.
\<close>

fun int_of_str_of :: "json \<Rightarrow> int option" where
  "int_of_str_of (JInt k) = Some k"
| "int_of_str_of (JStr s) = py_int 10 s"
| "int_of_str_of _ = None"

text \<open>\<^verbatim>\<open>UUID(str(value))\<close>: likewise only a string or an integer can spell a UUID.\<close>

fun uuid_of_json :: "json \<Rightarrow> uuid option" where
  "uuid_of_json (JStr s) = uuid_of_string s"
| "uuid_of_json (JInt k) = uuid_of_string (str_int k)"
| "uuid_of_json _ = None"

text \<open>\<^verbatim>\<open>int(value)\<close> and \<^verbatim>\<open>isinstance(value, int)\<close>, which a bool is.\<close>

definition truncate :: "rat \<Rightarrow> int" where
  "truncate r = (if r < 0 then \<lceil>r\<rceil> else \<lfloor>r\<rfloor>)"

fun int_of_json :: "json \<Rightarrow> int result" where
  "int_of_json (JInt k) = Inr k"
| "int_of_json (JBool b) = Inr (if b then 1 else 0)"
| "int_of_json (JFloat r) = Inr (truncate r)"
| "int_of_json (JStr s) =
     (case py_int 10 s of None \<Rightarrow> Inl (ValueError ''invalid literal for int()'') | Some k \<Rightarrow> Inr k)"
| "int_of_json _ = Inl (OtherError ''int() argument must be a string or a number'')"

fun as_int :: "json \<Rightarrow> int option" where
  "as_int (JInt k) = Some k"
| "as_int (JBool b) = Some (if b then 1 else 0)"
| "as_int _ = None"

text \<open>Integers that are no bools, non-empty texts, the dictionaries of a list.\<close>

fun strict_int :: "json \<Rightarrow> int option" where
  "strict_int (JInt k) = Some k"
| "strict_int _ = None"

fun nonempty_text :: "json \<Rightarrow> string option" where
  "nonempty_text (JStr s) = (if s = [] then None else Some s)"
| "nonempty_text _ = None"

fun as_text :: "json \<Rightarrow> string option" where
  "as_text (JStr s) = Some s"
| "as_text _ = None"

fun dicts_of :: "json list \<Rightarrow> dict list" where
  "dicts_of [] = []"
| "dicts_of (JObj d # vs) = d # dicts_of vs"
| "dicts_of (_ # vs) = dicts_of vs"

section \<open>Facts about words and joins\<close>

lemma py_words_no_space: "w \<in> set (py_words s) \<Longrightarrow> c \<in> set w \<Longrightarrow> \<not> py_space c"
proof (induction s arbitrary: w rule: py_words.induct)
  case (1 s)
  show ?case
  proof (cases "dropWhile py_space s")
    case Nil
    with 1 show ?thesis by (simp add: py_words.simps [of s])
  next
    case (Cons d ds)
    with 1(2) have "w = takeWhile (\<lambda>x. \<not> py_space x) (d # ds)
        \<or> w \<in> set (py_words (dropWhile (\<lambda>x. \<not> py_space x) (d # ds)))"
      by (simp only: py_words.simps [of s] list.case list.set insert_iff)
    then show ?thesis
      using 1(1) [OF Cons _ 1(3)] 1(3) by (auto dest: set_takeWhileD)
  qed
qed

lemma set_py_join: "set (py_join sep xs) \<subseteq> set sep \<union> \<Union> (set ` set xs)"
  by (induction sep xs rule: py_join.induct) auto

section \<open>Round trip of UUID text\<close>

lemma length_hex_fixed [simp]: "length (hex_fixed k n) = k"
  by (induction k arbitrary: n) simp_all

lemma of_char_char_of_small: "n < 256 \<Longrightarrow> (of_char (char_of n :: char) :: nat) = n"
  by simp

lemma digit_value_digit_char: "d < 16 \<Longrightarrow> digit_value (digit_char d) = Some d"
  by (auto simp: digit_value_def digit_char_def Let_def)

lemma digit_char_not_punct:
  assumes "d < 16"
  shows "digit_char d \<noteq> CHR ''-'' \<and> digit_char d \<noteq> CHR ''_'' \<and> digit_char d \<noteq> CHR ''{''
    \<and> digit_char d \<noteq> CHR ''}'' \<and> digit_char d \<noteq> CHR ''u'' \<and> digit_char d \<noteq> CHR ''+''
    \<and> digit_char d \<noteq> CHR ''x'' \<and> digit_char d \<noteq> CHR ''X'' \<and> \<not> py_space (digit_char d)"
proof -
  have "\<forall>d \<in> set [0..<16]. digit_char d \<noteq> CHR ''-'' \<and> digit_char d \<noteq> CHR ''_''
    \<and> digit_char d \<noteq> CHR ''{'' \<and> digit_char d \<noteq> CHR ''}'' \<and> digit_char d \<noteq> CHR ''u''
    \<and> digit_char d \<noteq> CHR ''+'' \<and> digit_char d \<noteq> CHR ''x'' \<and> digit_char d \<noteq> CHR ''X''
    \<and> \<not> py_space (digit_char d)"
    by code_simp
  moreover have "d \<in> set [0..<16]" using assms by simp
  ultimately show ?thesis by blast
qed

definition hex_digits :: "string set" where
  "hex_digits = {s. \<forall>c \<in> set s. \<exists>d < 16. c = digit_char d}"

lemma hex_fixed_digits: "hex_fixed k n \<in> hex_digits"
proof (induction k arbitrary: n)
  case 0
  then show ?case by (simp add: hex_digits_def)
next
  case (Suc k)
  have "n mod 16 < 16" by simp
  then have "\<exists>d < 16. digit_char (n mod 16) = digit_char d" by blast
  with Suc [of "n div 16"] show ?case by (auto simp: hex_digits_def)
qed

lemma parse_digits_append_hex:
  assumes "s \<in> hex_digits" and "s \<noteq> []"
  shows "\<exists>v. parse_digits 16 ad acc s = Some v
     \<and> (\<forall>t. parse_digits 16 ad acc (s @ t) = parse_digits 16 True v t)"
  using assms
proof (induction s arbitrary: ad acc)
  case Nil
  then show ?case by simp
next
  case (Cons c s)
  then obtain d where d: "d < 16" "c = digit_char d" by (auto simp: hex_digits_def)
  have step: "parse_digits 16 ad acc (c # r) = parse_digits 16 True (acc * 16 + d) r" for r
    using d digit_char_not_punct [OF d(1)] digit_value_digit_char [OF d(1)] by simp
  show ?case
  proof (cases "s = []")
    case True
    then show ?thesis using step by simp
  next
    case False
    from Cons.prems have "s \<in> hex_digits" by (auto simp: hex_digits_def)
    from Cons.IH [OF this False] show ?thesis using step by simp
  qed
qed

lemma parse_digits_hex_fixed:
  "n < 16 ^ k \<Longrightarrow> 0 < k \<Longrightarrow> parse_digits 16 ad 0 (hex_fixed k n) = Some n"
proof (induction k arbitrary: n)
  case 0
  then show ?case by simp
next
  case (Suc k)
  have dig: "n mod 16 < 16" by simp
  have last: "parse_digits 16 b v [digit_char (n mod 16)] = Some (v * 16 + n mod 16)" for b v
    using digit_char_not_punct [OF dig] digit_value_digit_char [OF dig] by simp
  show ?case
  proof (cases "k = 0")
    case True
    with Suc.prems last show ?thesis by simp
  next
    case False
    have small: "n div 16 < 16 ^ k" using Suc.prems(1) by (simp add: less_mult_imp_div_less mult.commute)
    with Suc.IH False have eq: "parse_digits 16 ad 0 (hex_fixed k (n div 16)) = Some (n div 16)"
      by simp
    have "hex_fixed k (n div 16) \<noteq> []" using False by (metis length_hex_fixed list.size(3))
    from parse_digits_append_hex [OF hex_fixed_digits this, of ad 0] eq
    have "parse_digits 16 ad 0 (hex_fixed k (n div 16) @ [digit_char (n mod 16)])
       = parse_digits 16 True (n div 16) [digit_char (n mod 16)]" by auto
    with last show ?thesis by simp
  qed
qed

lemma py_replace_not_in: "c \<notin> set s \<Longrightarrow> py_replace (c # cs) new s = s"
proof (induction s)
  case Nil
  then show ?case by (simp add: py_replace.simps)
next
  case (Cons x s)
  then show ?case by (subst py_replace.simps) auto
qed

lemma strip_by_none: "\<forall>c \<in> set s. \<not> p c \<Longrightarrow> strip_by p s = s"
proof -
  assume none: "\<forall>c \<in> set s. \<not> p c"
  then have "dropWhile p s = s" by (cases s) simp_all
  moreover have "dropWhile p (rev s) = rev s"
  proof (cases "rev s")
    case (Cons c cs)
    then have "c \<in> set s" by (metis list.set_intros(1) set_rev)
    with none Cons show ?thesis by simp
  qed simp
  ultimately show ?thesis by (simp add: strip_by_def lstrip_by_def rstrip_by_def)
qed

lemma hex_fixed_chars:
  assumes "c \<in> set (hex_fixed k n)"
  shows "\<not> py_space c \<and> c \<noteq> CHR ''-'' \<and> c \<noteq> CHR ''+'' \<and> c \<noteq> CHR ''x'' \<and> c \<noteq> CHR ''X''
    \<and> c \<noteq> CHR ''u'' \<and> c \<noteq> CHR ''{'' \<and> c \<noteq> CHR ''}''"
proof -
  from assms hex_fixed_digits [of k n] obtain d where "d < 16" "c = digit_char d"
    by (auto simp: hex_digits_def)
  with digit_char_not_punct [of d] show ?thesis by simp
qed

lemma cut_groups:
  "take 8 h @ take 4 (drop 8 h) @ take 4 (drop 12 h) @ take 4 (drop 16 h) @ drop 20 h = h"
proof -
  have "take 4 (drop 16 h) @ drop 20 h = drop 16 h"
    using append_take_drop_id [of 4 "drop 16 h"] by simp
  moreover have "take 4 (drop 12 h) @ drop 16 h = drop 12 h"
    using append_take_drop_id [of 4 "drop 12 h"] by simp
  moreover have "take 4 (drop 8 h) @ drop 12 h = drop 8 h"
    using append_take_drop_id [of 4 "drop 8 h"] by simp
  ultimately show ?thesis by simp
qed

lemma uuid_str_filter: "filter (\<lambda>c. c \<noteq> CHR ''-'') (uuid_str u) = hex_fixed 32 u"
proof -
  let ?h = "hex_fixed 32 u"
  have "\<forall>c \<in> set ?h. c \<noteq> CHR ''-''"
    using hex_fixed_chars by blast
  then have id: "set xs \<subseteq> set ?h \<Longrightarrow> filter (\<lambda>c. c \<noteq> CHR ''-'') xs = xs" for xs
    by (intro filter_True) auto
  have sub: "set (take a (drop b ?h)) \<subseteq> set ?h" for a b
    by (meson order_trans set_drop_subset set_take_subset)
  have cut: "take 8 ?h @ take 4 (drop 8 ?h) @ take 4 (drop 12 ?h) @ take 4 (drop 16 ?h) @ drop 20 ?h = ?h"
    by (rule cut_groups)
  show ?thesis
    using cut id [OF sub] id [OF set_take_subset] id [OF set_drop_subset]
    by (simp add: uuid_str_def Let_def)
qed

lemma uuid_str_chars: "c \<in> set (uuid_str u) \<Longrightarrow> c = CHR ''-'' \<or> c \<in> set (hex_fixed 32 u)"
proof -
  assume "c \<in> set (uuid_str u)"
  then have "c = CHR ''-'' \<or> c \<in> set (filter (\<lambda>c. c \<noteq> CHR ''-'') (uuid_str u))" by auto
  then show ?thesis by (simp only: uuid_str_filter)
qed

text \<open>\<^verbatim>\<open>UUID(str(u)) == u\<close>.\<close>

lemma uuid_of_string_uuid_str:
  assumes "u < 2 ^ 128"
  shows "uuid_of_string (uuid_str u) = Some u"
proof -
  let ?h = "hex_fixed 32 u"
  have nou: "CHR ''u'' \<notin> set (uuid_str u)"
    using uuid_str_chars [of "CHR ''u''" u] hex_fixed_chars [of "CHR ''u''" 32 u] by auto
  have nob: "\<forall>c \<in> set (uuid_str u). \<not> (c = CHR ''{'' \<or> c = CHR ''}'')"
  proof
    fix c assume "c \<in> set (uuid_str u)"
    then show "\<not> (c = CHR ''{'' \<or> c = CHR ''}'')"
      using uuid_str_chars [of c u] hex_fixed_chars [of c 32 u] by auto
  qed
  have small: "u < 16 ^ 32" using assms by simp
  have parse: "parse_digits 16 False 0 ?h = Some u"
    using parse_digits_hex_fixed [OF small] by simp
  have nospace: "\<forall>c \<in> set ?h. \<not> py_space c \<and> c \<noteq> CHR ''-'' \<and> c \<noteq> CHR ''+'' \<and> c \<noteq> CHR ''x'' \<and> c \<noteq> CHR ''X''"
    using hex_fixed_chars by blast
  then have strip: "py_strip ?h = ?h" unfolding py_strip_def by (intro strip_by_none) blast
  obtain c cs where h: "?h = c # cs" by (metis length_hex_fixed list.exhaust list.size(3) zero_neq_numeral)
  have no0x: "take 2 ?h \<noteq> ''0x'' \<and> take 2 ?h \<noteq> ''0X''"
  proof -
    have "CHR ''x'' \<notin> set (take 2 ?h)"
      using nospace in_set_takeD [of "CHR ''x''" 2 ?h] by blast
    moreover have "CHR ''X'' \<notin> set (take 2 ?h)"
      using nospace in_set_takeD [of "CHR ''X''" 2 ?h] by blast
    ultimately show ?thesis by (metis list.set_intros)
  qed
  have uns: "parse_unsigned 16 (c # cs) = Some u"
    using no0x parse unfolding parse_unsigned_def h by presburger
  have "c \<noteq> CHR ''-''" "c \<noteq> CHR ''+''" using nospace h by simp_all
  with strip uns have "py_int 16 ?h = Some (int u)"
    unfolding py_int_def h by (simp del: parse_digits.simps)
  then show ?thesis
    using assms
    by (simp add: uuid_of_string_def Let_def py_replace_not_in [OF nou] strip_by_none [OF nob]
        uuid_str_filter)
qed

section \<open>The text of integers\<close>

lemma str_nat_small: "n < 10 \<Longrightarrow> str_nat_base 10 n = [digit_char n]"
  by (simp add: str_nat_base.simps [of 10 n])

lemma str_nat_large:
  "\<not> n < 10 \<Longrightarrow> str_nat_base 10 n = str_nat_base 10 (n div 10) @ [digit_char (n mod 10)]"
  by (simp add: str_nat_base.simps [of 10 n])

lemma digit_char_ascii: "d < 10 \<Longrightarrow> digit_char d \<noteq> CHR '':'' \<and> digit_char d \<noteq> CHR ''-''"
proof -
  assume "d < 10"
  moreover have "\<forall>d \<in> set [0..<10]. digit_char d \<noteq> CHR '':'' \<and> digit_char d \<noteq> CHR ''-''" by code_simp
  ultimately show ?thesis by simp
qed

lemma str_nat_chars: "c \<in> set (str_nat_base 10 n) \<Longrightarrow> c \<noteq> CHR '':'' \<and> c \<noteq> CHR ''-''"
proof (induction n rule: less_induct)
  case (less n)
  show ?case
  proof (cases "n < 10")
    case True
    with less.prems have "c = digit_char n" by (simp add: str_nat_small)
    with digit_char_ascii [OF True] show ?thesis by simp
  next
    case False
    have "n mod 10 < 10" by simp
    from less.prems False have "c \<in> set (str_nat_base 10 (n div 10)) \<or> c = digit_char (n mod 10)"
      by (auto simp: str_nat_large [of n])
    then show ?thesis
    proof
      assume "c \<in> set (str_nat_base 10 (n div 10))"
      with less.IH [of "n div 10"] False show ?thesis by simp
    next
      assume "c = digit_char (n mod 10)"
      with digit_char_ascii [OF \<open>n mod 10 < 10\<close>] show ?thesis by simp
    qed
  qed
qed

lemma digit_char_inj: "d < 10 \<Longrightarrow> e < 10 \<Longrightarrow> digit_char d = digit_char e \<Longrightarrow> d = e"
proof -
  assume "d < 10" "e < 10" and eq: "digit_char d = digit_char e"
  then have "digit_value (digit_char d) = Some d" "digit_value (digit_char e) = Some e"
    by (intro digit_value_digit_char, linarith)+
  then show "d = e" unfolding eq by simp
qed

lemma str_nat_nonempty: "str_nat_base 10 n \<noteq> []"
  by (cases "n < 10") (simp_all add: str_nat_small str_nat_large [of n])

lemma str_nat_single: "str_nat_base 10 n = [x] \<Longrightarrow> n < 10"
  using str_nat_nonempty [of "n div 10"] by (cases "n < 10") (simp_all add: str_nat_large [of n])

lemma str_nat_inj: "str_nat_base 10 m = str_nat_base 10 n \<Longrightarrow> m = n"
proof (induction m arbitrary: n rule: less_induct)
  case (less m)
  show ?case
  proof (cases "m < 10 \<or> n < 10")
    case True
    then have "m < 10 \<and> n < 10"
    proof
      assume "m < 10"
      with less.prems have "str_nat_base 10 n = [digit_char m]" by (simp add: str_nat_small)
      with \<open>m < 10\<close> show ?thesis by (simp add: str_nat_single)
    next
      assume "n < 10"
      with less.prems have "str_nat_base 10 m = [digit_char n]" by (simp add: str_nat_small)
      with \<open>n < 10\<close> show ?thesis by (simp add: str_nat_single)
    qed
    with less.prems digit_char_inj [of m n] show ?thesis by (simp add: str_nat_small)
  next
    case False
    with less.prems have e: "str_nat_base 10 (m div 10) = str_nat_base 10 (n div 10)"
      and d: "digit_char (m mod 10) = digit_char (n mod 10)"
      by (simp_all add: str_nat_large [of m] str_nat_large [of n])
    have "m div 10 < m" using False by simp
    from less.IH [OF this e] have "m div 10 = n div 10" .
    moreover have "m mod 10 = n mod 10" using digit_char_inj [OF _ _ d] by simp
    ultimately show ?thesis by (metis div_mult_mod_eq)
  qed
qed

lemma str_int_inj: "str_int a = str_int b \<Longrightarrow> a = b"
proof -
  assume eq: "str_int a = str_int b"
  have neg: "str_nat_base 10 n \<noteq> CHR ''-'' # r" for n r
    using str_nat_chars [of "CHR ''-''" n] by auto
  consider "a < 0" "b < 0" | "a < 0" "\<not> b < 0" | "\<not> a < 0" "b < 0" | "\<not> a < 0" "\<not> b < 0" by blast
  then show "a = b"
  proof cases
    case 1
    with eq str_nat_inj [of "nat (- a)" "nat (- b)"] show ?thesis by (simp add: str_int_def)
  next
    case 2
    with eq neg [of "nat b"] show ?thesis by (simp add: str_int_def) metis
  next
    case 3
    with eq neg [of "nat a"] show ?thesis by (simp add: str_int_def)
  next
    case 4
    with eq str_nat_inj [of "nat a" "nat b"] show ?thesis by (simp add: str_int_def)
  qed
qed

lemma str_int_chars: "CHR '':'' \<notin> set (str_int k)"
  using str_nat_chars [of "CHR '':''"] by (auto simp: str_int_def)

end
