(* ===== verification/Job_Queue.thy ===== *)
theory Job_Queue
  imports Py_Values
begin

text \<open>
  The durable job queue: the table \<^verbatim>\<open>processing_jobs\<close> and the transactions of
  \<^verbatim>\<open>app/jobs/retry.py\<close> (finish, fail, requeue), \<^verbatim>\<open>app/jobs/claimer.py\<close> (recover stale rows,
  claim) and \<^verbatim>\<open>app/jobs/queue_metrics.py\<close> (snapshot).  Each transaction is a function of
  the table and of PostgreSQL's \<^verbatim>\<open>now()\<close>; an exception rolls it back, so an \<open>Inl\<close> result
  carries no new table.  The locale \<open>job_finalizer\<close> is the contract the three ways of
  ending an attempt share.
\<close>

section \<open>Rows\<close>

datatype job_status = PENDING | RUNNING | SUCCEEDED | FAILED | DEAD

record processing_job =
  pj_id :: uuid
  pj_workspace_id :: "uuid option"
  pj_repository_id :: "uuid option"
  pj_raw_event_id :: "uuid option"
  pj_job_type :: string
  pj_payload :: dict
  pj_status :: job_status
  pj_priority :: int
  pj_attempts :: int
  pj_max_attempts :: int
  pj_available_at :: time
  pj_locked_at :: "time option"
  pj_locked_by :: "string option"
  pj_last_error :: "string option"
  pj_finished_at :: "time option"
  pj_created_at :: time
  pj_updated_at :: time
  pj_version :: int

type_synonym jobs = "processing_job list"

record claimed_job =
  cj_id :: uuid
  cj_job_type :: string
  cj_payload :: dict
  cj_priority :: int
  cj_attempts :: int
  cj_max_attempts :: int
  cj_locked_by :: "string option"
  cj_created_at :: time
  cj_updated_at :: time
  cj_version :: int

definition from_row :: "processing_job \<Rightarrow> claimed_job" where
  "from_row j =
     \<lparr> cj_id = pj_id j, cj_job_type = pj_job_type j, cj_payload = pj_payload j,
       cj_priority = pj_priority j, cj_attempts = pj_attempts j,
       cj_max_attempts = pj_max_attempts j, cj_locked_by = pj_locked_by j,
       cj_created_at = pj_created_at j, cj_updated_at = pj_updated_at j,
       cj_version = pj_version j \<rparr>"

definition job_row :: "jobs \<Rightarrow> uuid \<Rightarrow> processing_job option" where
  "job_row t i = row_with pj_id i t"

text \<open>\<^verbatim>\<open>id = :job_id AND status = 'RUNNING' AND locked_by = :worker_id\<close>.\<close>

definition owned_row :: "uuid \<Rightarrow> string \<Rightarrow> processing_job \<Rightarrow> bool" where
  "owned_row i w j \<longleftrightarrow> pj_id j = i \<and> pj_status j = RUNNING \<and> pj_locked_by j = Some w"

definition owns :: "jobs \<Rightarrow> uuid \<Rightarrow> string \<Rightarrow> bool" where
  "owns t i w \<longleftrightarrow> (\<exists>j. job_row t i = Some j \<and> owned_row i w j)"

section \<open>Retry arithmetic\<close>

text \<open>
  The back-off before the next attempt.  \<open>u\<close> is the sample \<^verbatim>\<open>uniform(0.0, 1.0)\<close> returned;
  \<^verbatim>\<open>float(2**attempts)\<close> overflows from 1024 on.
\<close>

definition retry_delay_seconds :: "rat \<Rightarrow> int \<Rightarrow> rat option \<Rightarrow> rat result" where
  "retry_delay_seconds u attempts jitter_seconds =
     (if attempts < 0 then Inl (ValueError ''attempts cannot be negative'')
      else let jitter = (case jitter_seconds of None \<Rightarrow> u | Some s \<Rightarrow> s) in
        if 1024 \<le> attempts then Inl (OverflowError ''int too large to convert to float'')
        else Inr (min 900 (2 ^ nat attempts + max 0 jitter)))"

definition sanitize_error :: "string \<Rightarrow> string" where
  "sanitize_error e = py_take 2000 (py_join '' '' (py_words e))"

section \<open>Ending an attempt\<close>

definition not_owned :: exn where
  "not_owned = JobOwnershipError ''job is not owned by this worker''"

definition succeed_row :: "time \<Rightarrow> processing_job \<Rightarrow> processing_job" where
  "succeed_row now j = j\<lparr>pj_status := SUCCEEDED, pj_locked_at := None, pj_locked_by := None,
     pj_last_error := None, pj_finished_at := Some now, pj_updated_at := now,
     pj_version := pj_version j + 1\<rparr>"

definition mark_succeeded :: "time \<Rightarrow> jobs \<Rightarrow> uuid \<Rightarrow> string \<Rightarrow> (unit \<times> jobs) result" where
  "mark_succeeded now t i w =
     (let rowcount = sql_count (owned_row i w) t in
      if rowcount \<noteq> 1 then Inl not_owned
      else Inr ((), sql_update (owned_row i w) (succeed_row now) t))"

definition dead_row :: "time \<Rightarrow> string \<Rightarrow> processing_job \<Rightarrow> processing_job" where
  "dead_row now err j = j\<lparr>pj_status := DEAD, pj_locked_at := None, pj_locked_by := None,
     pj_last_error := Some err, pj_finished_at := Some now, pj_updated_at := now,
     pj_version := pj_version j + 1\<rparr>"

definition failed_row :: "time \<Rightarrow> time \<Rightarrow> string \<Rightarrow> processing_job \<Rightarrow> processing_job" where
  "failed_row now available err j = j\<lparr>pj_status := FAILED, pj_available_at := available,
     pj_locked_at := None, pj_locked_by := None, pj_last_error := Some err,
     pj_finished_at := None, pj_updated_at := now, pj_version := pj_version j + 1\<rparr>"

text \<open>The delay of a retry: the back-off, stretched to a provider's Retry-After.\<close>

definition failure_delay :: "rat \<Rightarrow> int \<Rightarrow> rat option \<Rightarrow> rat option \<Rightarrow> rat result" where
  "failure_delay u attempts jitter_seconds retry_after =
     (case retry_delay_seconds u attempts jitter_seconds of
        Inl e \<Rightarrow> Inl e
      | Inr delay \<Rightarrow>
          Inr (case retry_after of
                 None \<Rightarrow> delay
               | Some r \<Rightarrow> min 900 (max delay (max 0 r))))"

definition mark_failed ::
  "time \<Rightarrow> rat \<Rightarrow> jobs \<Rightarrow> uuid \<Rightarrow> string \<Rightarrow> string \<Rightarrow> bool \<Rightarrow> rat option \<Rightarrow> rat option
     \<Rightarrow> (job_status \<times> jobs) result" where
  "mark_failed now u t i w error permanent jitter_seconds retry_after =
     (let safe_error = sanitize_error error in
      case find (owned_row i w) t of
        None \<Rightarrow> Inl not_owned
      | Some row \<Rightarrow>
          let dead = permanent \<or> pj_max_attempts row \<le> pj_attempts row in
          if dead
          then Inr (DEAD, sql_update (\<lambda>j. pj_id j = i) (dead_row now safe_error) t)
          else (case failure_delay u (pj_attempts row) jitter_seconds retry_after of
                  Inl e \<Rightarrow> Inl e
                | Inr delay \<Rightarrow>
                    Inr (FAILED, sql_update (\<lambda>j. pj_id j = i)
                           (failed_row now (now + interval_secs delay) safe_error) t)))"

definition requeued_row :: "time \<Rightarrow> time \<Rightarrow> dict \<Rightarrow> bool \<Rightarrow> processing_job \<Rightarrow> processing_job" where
  "requeued_row now available new_payload reset_attempts j =
     j\<lparr>pj_status := PENDING,
       pj_attempts := (if reset_attempts then 0 else max (pj_attempts j - 1) 0),
       pj_available_at := available, pj_locked_at := None, pj_locked_by := None,
       pj_payload := new_payload, pj_updated_at := now, pj_version := pj_version j + 1\<rparr>"

definition requeue_txn ::
  "time \<Rightarrow> jobs \<Rightarrow> uuid \<Rightarrow> string \<Rightarrow> dict \<Rightarrow> rat \<Rightarrow> bool \<Rightarrow> (unit \<times> jobs) result" where
  "requeue_txn now t i w new_payload delay_seconds reset_attempts =
     (let rowcount = sql_count (owned_row i w) t in
      if rowcount \<noteq> 1 then Inl not_owned
      else Inr ((), sql_update (owned_row i w)
             (requeued_row now (now + interval_secs delay_seconds) new_payload reset_attempts) t))"

text \<open>\<^verbatim>\<open>requeue_with_payload\<close> always raises: the requeue signal after the commit, or the
  ownership error.\<close>

definition requeue_with_payload ::
  "time \<Rightarrow> jobs \<Rightarrow> uuid \<Rightarrow> string \<Rightarrow> dict \<Rightarrow> rat \<Rightarrow> bool \<Rightarrow> exn \<times> jobs" where
  "requeue_with_payload now t i w new_payload delay_seconds reset_attempts =
     (case requeue_txn now t i w new_payload delay_seconds reset_attempts of
        Inl e \<Rightarrow> (e, t)
      | Inr (_, t') \<Rightarrow> (RequeueWithPayloadError, t'))"

section \<open>Claiming\<close>

record stale_job_recovery =
  retryable :: nat
  dead_count :: nat

definition recovery_total :: "stale_job_recovery \<Rightarrow> nat" where
  "recovery_total r = retryable r + dead_count r"

definition STALE_LOCK_ERROR :: string where
  "STALE_LOCK_ERROR =
     ''STALE_LOCK_RECOVERED: previous worker lock expired before completion''"

definition STALE_LOCK_EXHAUSTED_ERROR :: string where
  "STALE_LOCK_EXHAUSTED_ERROR =
     ''STALE_LOCK_EXHAUSTED: previous worker lock expired after the final attempt''"

text \<open>\<^verbatim>\<open>status IN ('PENDING', 'FAILED') AND available_at <= now() AND attempts < max_attempts\<close>.\<close>

definition claimable :: "time \<Rightarrow> processing_job \<Rightarrow> bool" where
  "claimable now j \<longleftrightarrow> (pj_status j = PENDING \<or> pj_status j = FAILED) \<and>
     pj_available_at j \<le> now \<and> pj_attempts j < pj_max_attempts j"

text \<open>
  A stale row: RUNNING, its lock missing or expired.  \<open>held i\<close>: another session holds the
  advisory lock of job \<open>i\<close>, so \<^verbatim>\<open>pg_try_advisory_xact_lock\<close> answers false;
  \<open>skip i\<close>: another transaction has locked the row, so \<^verbatim>\<open>SKIP LOCKED\<close> passes over it.
\<close>

definition stale_lock :: "time \<Rightarrow> int \<Rightarrow> processing_job \<Rightarrow> bool" where
  "stale_lock now stale_after j \<longleftrightarrow> pj_status j = RUNNING \<and>
     (case pj_locked_at j of None \<Rightarrow> True | Some since \<Rightarrow> since \<le> now - stale_after * second)"

definition recoverable ::
  "time \<Rightarrow> (uuid \<Rightarrow> bool) \<Rightarrow> (uuid \<Rightarrow> bool) \<Rightarrow> int \<Rightarrow> processing_job \<Rightarrow> bool" where
  "recoverable now skip held stale_after j \<longleftrightarrow>
     stale_lock now stale_after j \<and> \<not> held (pj_id j) \<and> \<not> skip (pj_id j)"

definition recover_stale_jobs ::
  "time \<Rightarrow> (uuid \<Rightarrow> bool) \<Rightarrow> (uuid \<Rightarrow> bool) \<Rightarrow> int \<Rightarrow> jobs \<Rightarrow> stale_job_recovery \<times> jobs" where
  "recover_stale_jobs now skip held stale_after t =
     (let exhausted = (\<lambda>j. recoverable now skip held stale_after j \<and>
            pj_max_attempts j \<le> pj_attempts j);
          t1 = sql_update exhausted (dead_row now STALE_LOCK_EXHAUSTED_ERROR) t;
          again = (\<lambda>j. recoverable now skip held stale_after j \<and>
            pj_attempts j < pj_max_attempts j);
          t2 = sql_update again (failed_row now now STALE_LOCK_ERROR) t1
      in (\<lparr>retryable = sql_count again t1, dead_count = sql_count exhausted t\<rparr>, t2))"

definition claim_key :: "processing_job \<Rightarrow> int \<times> time \<times> uuid" where
  "claim_key j = (pj_priority j, pj_created_at j, pj_id j)"

definition claim_row :: "time \<Rightarrow> string \<Rightarrow> processing_job \<Rightarrow> processing_job" where
  "claim_row now w j = j\<lparr>pj_status := RUNNING, pj_locked_at := Some now,
     pj_locked_by := Some w, pj_attempts := pj_attempts j + 1, pj_updated_at := now,
     pj_version := pj_version j + 1\<rparr>"

text \<open>The CTE of \<^verbatim>\<open>CLAIM_SQL\<close>: the ids it selects, then the UPDATE ... RETURNING.\<close>

definition claim_selection :: "time \<Rightarrow> (uuid \<Rightarrow> bool) \<Rightarrow> nat \<Rightarrow> jobs \<Rightarrow> jobs" where
  "claim_selection now skip limit t =
     take limit (sort_key claim_key (filter (\<lambda>j. claimable now j \<and> \<not> skip (pj_id j)) t))"

definition claim_sql :: "time \<Rightarrow> (uuid \<Rightarrow> bool) \<Rightarrow> string \<Rightarrow> nat \<Rightarrow> jobs \<Rightarrow> jobs \<times> jobs" where
  "claim_sql now skip w limit t =
     (let ids = map pj_id (claim_selection now skip limit t);
          t' = sql_update (\<lambda>j. pj_id j \<in> set ids) (claim_row now w) t
      in (filter (\<lambda>j. pj_id j \<in> set ids) t', t'))"

text \<open>
  \<^verbatim>\<open>claim_jobs\<close>: the jobs, and the recovery handed to \<^verbatim>\<open>on_stale_recovery\<close> when it is not
  empty (its exceptions are swallowed).
\<close>

definition claim_jobs ::
  "time \<Rightarrow> (uuid \<Rightarrow> bool) \<Rightarrow> (uuid \<Rightarrow> bool) \<Rightarrow> jobs \<Rightarrow> string \<Rightarrow> int \<Rightarrow> int
     \<Rightarrow> ((claimed_job list \<times> stale_job_recovery option) \<times> jobs) result" where
  "claim_jobs now skip held t w limit stale_after =
     (if w = [] \<or> 128 < length w
      then Inl (ValueError ''worker_id must contain 1 to 128 characters'')
      else if limit < 1 \<or> 100 < limit
      then Inl (ValueError ''limit must be between 1 and 100'')
      else if stale_after < 30 \<or> 86400 < stale_after
      then Inl (ValueError ''stale_after_seconds must be between 30 and 86400'')
      else
        let (recovery, t1) = recover_stale_jobs now skip held stale_after t;
            (rows, t2) = claim_sql now skip w (nat limit) t1;
            claimed = sort_key (\<lambda>c. (cj_priority c, cj_created_at c, cj_id c)) (map from_row rows)
        in Inr ((claimed, if recovery_total recovery \<noteq> 0 then Some recovery else None), t2))"

section \<open>Queue snapshot\<close>

record queue_snapshot =
  qs_ready :: nat
  qs_oldest_ready_wait_seconds :: rat
  qs_running :: nat
  qs_dead_letter :: nat

definition collect_queue_snapshot :: "time \<Rightarrow> jobs \<Rightarrow> int \<Rightarrow> queue_snapshot result" where
  "collect_queue_snapshot now t statement_timeout_seconds =
     (if \<not> (1 \<le> statement_timeout_seconds \<and> statement_timeout_seconds \<le> 60)
      then Inl (ValueError ''statement_timeout_seconds must be between 1 and 60'')
      else Inr
        \<lparr> qs_ready = sql_count (claimable now) t,
          qs_oldest_ready_wait_seconds =
            (case list_min (map pj_available_at (filter (claimable now) t)) of
               None \<Rightarrow> 0
             | Some m \<Rightarrow> total_seconds (now - m)),
          qs_running = sql_count (\<lambda>j. pj_status j = RUNNING) t,
          qs_dead_letter = sql_count (\<lambda>j. pj_status j = DEAD) t \<rparr>)"

section \<open>Row-level facts\<close>

named_theorems row_defs \<open>what one transaction does to one row\<close>

lemmas [row_defs] = succeed_row_def dead_row_def failed_row_def requeued_row_def claim_row_def

lemma row_ids [simp]:
  "pj_id (succeed_row n j) = pj_id j" "pj_id (dead_row n e j) = pj_id j"
  "pj_id (failed_row n a e j) = pj_id j" "pj_id (requeued_row n a p b j) = pj_id j"
  "pj_id (claim_row n w j) = pj_id j"
  by (simp_all add: row_defs)

lemma row_status [simp]:
  "pj_status (succeed_row n j) = SUCCEEDED" "pj_status (dead_row n e j) = DEAD"
  "pj_status (failed_row n a e j) = FAILED" "pj_status (requeued_row n a p b j) = PENDING"
  "pj_status (claim_row n w j) = RUNNING"
  by (simp_all add: row_defs)

lemma row_locked_by [simp]:
  "pj_locked_by (succeed_row n j) = None" "pj_locked_by (dead_row n e j) = None"
  "pj_locked_by (failed_row n a e j) = None" "pj_locked_by (requeued_row n a p b j) = None"
  "pj_locked_by (claim_row n w j) = Some w"
  by (simp_all add: row_defs)

lemma owned_rowD: "owned_row i w j \<Longrightarrow> pj_id j = i \<and> pj_status j = RUNNING \<and> pj_locked_by j = Some w"
  by (simp add: owned_row_def)

lemma job_row_Some: "job_row t i = Some j \<Longrightarrow> j \<in> set t \<and> pj_id j = i"
  unfolding job_row_def by (rule row_with_Some_set)

lemma job_row_in_set: "distinct (map pj_id t) \<Longrightarrow> j \<in> set t \<Longrightarrow> job_row t (pj_id j) = Some j"
  unfolding job_row_def by (rule row_with_in_set)

lemma job_row_update:
  "(\<And>j. pj_id (f j) = pj_id j) \<Longrightarrow>
   job_row (sql_update p f t) i = map_option (\<lambda>j. if p j then f j else j) (job_row t i)"
  unfolding job_row_def by (rule row_with_sql_update)

lemma ids_update: "(\<And>j. pj_id (f j) = pj_id j) \<Longrightarrow> map pj_id (sql_update p f t) = map pj_id t"
  by (rule map_sql_update_key)

lemma owned_count:
  assumes "distinct (map pj_id t)"
  shows "sql_count (owned_row i w) t = (if owns t i w then 1 else 0)"
  using sql_count_unique [OF assms, of "owned_row i w" i]
  by (auto simp: owns_def job_row_def owned_row_def split: option.splits)

lemma find_owned:
  assumes "distinct (map pj_id t)"
  shows "find (owned_row i w) t =
           (case job_row t i of None \<Rightarrow> None | Some j \<Rightarrow> if owned_row i w j then Some j else None)"
  using assms
proof (induction t)
  case Nil
  then show ?case by (simp add: job_row_def)
next
  case (Cons r t)
  show ?case
  proof (cases "pj_id r = i")
    case True
    with Cons.prems have "\<forall>j \<in> set t. \<not> owned_row i w j" by (auto simp: owned_row_def image_iff)
    then have "find (owned_row i w) t = None" by (simp add: find_None_iff)
    with True show ?thesis by (simp add: job_row_def)
  next
    case False
    then have "\<not> owned_row i w r" by (simp add: owned_row_def)
    with False Cons show ?thesis by (simp add: job_row_def)
  qed
qed

section \<open>The queue invariant\<close>

text \<open>
  What holds of every row between transactions: the lock columns are set exactly while the
  row is RUNNING, \<^verbatim>\<open>finished_at\<close> exactly when it is final, attempts stay within their bound,
  and a row that waits to be claimed always has an attempt left.
\<close>

definition job_ok :: "processing_job \<Rightarrow> bool" where
  "job_ok j \<longleftrightarrow>
     0 \<le> pj_attempts j \<and> pj_attempts j \<le> pj_max_attempts j \<and>
     (pj_status j = RUNNING \<longleftrightarrow> pj_locked_by j \<noteq> None) \<and>
     (pj_status j = RUNNING \<longleftrightarrow> pj_locked_at j \<noteq> None) \<and>
     (case pj_locked_by j of None \<Rightarrow> True | Some w \<Rightarrow> w \<noteq> [] \<and> length w \<le> 128) \<and>
     (pj_status j = RUNNING \<longrightarrow> 1 \<le> pj_attempts j) \<and>
     (pj_status j \<in> {SUCCEEDED, DEAD} \<longleftrightarrow> pj_finished_at j \<noteq> None) \<and>
     (pj_status j \<in> {PENDING, FAILED} \<longrightarrow> pj_attempts j < pj_max_attempts j)"

definition queue_ok :: "jobs \<Rightarrow> bool" where
  "queue_ok t \<longleftrightarrow> distinct (map pj_id t) \<and> (\<forall>j \<in> set t. job_ok j)"

lemma queue_ok_distinct [simp]: "queue_ok t \<Longrightarrow> distinct (map pj_id t)"
  by (simp add: queue_ok_def)

lemma queue_ok_row: "queue_ok t \<Longrightarrow> job_row t i = Some j \<Longrightarrow> job_ok j"
  by (auto simp: queue_ok_def dest: job_row_Some)

lemma queue_ok_update:
  assumes "queue_ok t" and "\<And>j. pj_id (f j) = pj_id j"
    and "\<And>j. j \<in> set t \<Longrightarrow> job_ok j \<Longrightarrow> p j \<Longrightarrow> job_ok (f j)"
  shows "queue_ok (sql_update p f t)"
  using assms by (auto simp: queue_ok_def ids_update set_sql_update)

lemma job_ok_succeed: "job_ok j \<Longrightarrow> job_ok (succeed_row n j)"
  by (auto simp: job_ok_def succeed_row_def)

lemma job_ok_dead: "job_ok j \<Longrightarrow> job_ok (dead_row n e j)"
  by (auto simp: job_ok_def dead_row_def)

lemma job_ok_failed: "job_ok j \<Longrightarrow> pj_attempts j < pj_max_attempts j \<Longrightarrow> job_ok (failed_row n a e j)"
  by (auto simp: job_ok_def failed_row_def)

lemma job_ok_requeued: "job_ok j \<Longrightarrow> pj_status j = RUNNING \<Longrightarrow> job_ok (requeued_row n a p b j)"
  by (auto simp: job_ok_def requeued_row_def)

lemma job_ok_claim:
  "job_ok j \<Longrightarrow> claimable n j \<Longrightarrow> w \<noteq> [] \<Longrightarrow> length w \<le> 128 \<Longrightarrow> job_ok (claim_row n w j)"
  by (auto simp: job_ok_def claim_row_def claimable_def)

section \<open>Ending an attempt: the shared contract\<close>

text \<open>
  Every transaction that ends an attempt is allowed to the owner only, takes the row out of
  RUNNING, leaves every other row alone and keeps the queue invariant.
\<close>

locale job_finalizer =
  fixes fin :: "jobs \<Rightarrow> uuid \<Rightarrow> string \<Rightarrow> ('a \<times> jobs) result"
  assumes fin_owned: "queue_ok t \<Longrightarrow> fin t i w = Inr (a, t') \<Longrightarrow> owns t i w"
    and fin_not_owned: "queue_ok t \<Longrightarrow> \<not> owns t i w \<Longrightarrow> fin t i w = Inl not_owned"
    and fin_released: "queue_ok t \<Longrightarrow> fin t i w = Inr (a, t') \<Longrightarrow>
      \<exists>j. job_row t' i = Some j \<and> pj_status j \<noteq> RUNNING \<and> pj_locked_by j = None"
    and fin_frame: "queue_ok t \<Longrightarrow> fin t i w = Inr (a, t') \<Longrightarrow> k \<noteq> i \<Longrightarrow> job_row t' k = job_row t k"
    and fin_ok: "queue_ok t \<Longrightarrow> fin t i w = Inr (a, t') \<Longrightarrow> queue_ok t'"
begin

lemma nobody_owns: "queue_ok t \<Longrightarrow> fin t i w = Inr (a, t') \<Longrightarrow> \<not> owns t' i v"
  using fin_released [of t i w a t'] by (auto simp: owns_def owned_row_def)

lemma only_the_owner: "queue_ok t \<Longrightarrow> fin t i w = Inr (a, t') \<Longrightarrow> v \<noteq> w \<Longrightarrow> fin t i v = Inl not_owned"
  using fin_owned [of t i w a t'] fin_not_owned [of t i v]
  by (auto simp: owns_def owned_row_def)

lemma ended_once:
  assumes "queue_ok t" and "fin t i w = Inr (a, t')"
  shows "fin t' i v = Inl not_owned"
  using fin_not_owned [OF fin_ok [OF assms] nobody_owns [OF assms]] .

end

lemma mark_succeeded_eq:
  "queue_ok t \<Longrightarrow> mark_succeeded now t i w =
     (if owns t i w then Inr ((), sql_update (owned_row i w) (succeed_row now) t) else Inl not_owned)"
  by (simp add: mark_succeeded_def owned_count)

lemma requeue_txn_eq:
  "queue_ok t \<Longrightarrow> requeue_txn now t i w p d b =
     (if owns t i w
      then Inr ((), sql_update (owned_row i w) (requeued_row now (now + interval_secs d) p b) t)
      else Inl not_owned)"
  by (simp add: requeue_txn_def owned_count)

lemma owned_update_id:
  assumes "queue_ok t" and "job_row t i = Some r" and "owned_row i w r"
  shows "sql_update (\<lambda>j. pj_id j = i) f t = sql_update (owned_row i w) f t"
proof -
  have "pj_id j = i \<longleftrightarrow> owned_row i w j" if "j \<in> set t" for j
  proof
    assume "pj_id j = i"
    with job_row_in_set [OF queue_ok_distinct [OF assms(1)] that] assms(2) have "j = r" by simp
    with assms(3) show "owned_row i w j" by simp
  qed (simp add: owned_row_def)
  then show ?thesis by (simp add: sql_update_def)
qed

lemma mark_failed_eq:
  assumes "queue_ok t"
  shows "mark_failed now u t i w err perm jit ra =
     (case job_row t i of
        None \<Rightarrow> Inl not_owned
      | Some r \<Rightarrow>
          if \<not> owned_row i w r then Inl not_owned
          else if perm \<or> pj_max_attempts r \<le> pj_attempts r
          then Inr (DEAD, sql_update (owned_row i w) (dead_row now (sanitize_error err)) t)
          else (case failure_delay u (pj_attempts r) jit ra of
                  Inl e \<Rightarrow> Inl e
                | Inr d \<Rightarrow> Inr (FAILED, sql_update (owned_row i w)
                    (failed_row now (now + interval_secs d) (sanitize_error err)) t)))"
  using owned_update_id [OF assms]
  by (auto simp: mark_failed_def find_owned assms Let_def split: option.splits sum.splits)

text \<open>A conditional update of the owned row meets the contract, whatever guards it.\<close>

lemma owned_update_row:
  "(\<And>j. pj_id (f j) = pj_id j) \<Longrightarrow> owns t i w \<Longrightarrow>
   \<exists>j. job_row t i = Some j \<and> owned_row i w j \<and> job_row (sql_update (owned_row i w) f t) i = Some (f j)"
  by (auto simp: owns_def job_row_update)

lemma owned_update_frame:
  "(\<And>j. pj_id (f j) = pj_id j) \<Longrightarrow> k \<noteq> i \<Longrightarrow>
   job_row (sql_update (owned_row i w) f t) k = job_row t k"
  by (cases "job_row t k") (auto simp: job_row_update owned_row_def dest: job_row_Some)

lemma mark_failed_cases:
  assumes "queue_ok t" and "mark_failed now u t i w err perm jit ra = Inr (st, t')"
  obtains (dead) r where "job_row t i = Some r" "owned_row i w r"
      "perm \<or> pj_max_attempts r \<le> pj_attempts r" "st = DEAD"
      "t' = sql_update (owned_row i w) (dead_row now (sanitize_error err)) t"
    | (failed) r d where "job_row t i = Some r" "owned_row i w r" "\<not> perm"
      "pj_attempts r < pj_max_attempts r" "failure_delay u (pj_attempts r) jit ra = Inr d" "st = FAILED"
      "t' = sql_update (owned_row i w) (failed_row now (now + interval_secs d) (sanitize_error err)) t"
  using assms by (auto simp: mark_failed_eq split: option.splits if_splits sum.splits)

lemma queue_ok_succeed: "queue_ok t \<Longrightarrow> queue_ok (sql_update (owned_row i w) (succeed_row now) t)"
  by (rule queue_ok_update) (simp_all add: job_ok_succeed)

lemma queue_ok_requeue:
  "queue_ok t \<Longrightarrow> queue_ok (sql_update (owned_row i w) (requeued_row now a p b) t)"
  by (rule queue_ok_update) (auto simp: job_ok_requeued dest: owned_rowD)

interpretation succeed: job_finalizer "mark_succeeded now" for now
proof (unfold_locales, goal_cases)
  case (1 t i w a t')
  then show ?case by (simp add: mark_succeeded_eq split: if_splits)
next
  case (2 t i w)
  then show ?case by (simp add: mark_succeeded_eq)
next
  case (3 t i w a t')
  then show ?case
    using owned_update_row [of "succeed_row now" t i w]
    by (auto simp: mark_succeeded_eq split: if_splits)
next
  case (4 t i w a t' k)
  then show ?case by (auto simp: mark_succeeded_eq owned_update_frame split: if_splits)
next
  case (5 t i w a t')
  then show ?case by (auto simp: mark_succeeded_eq queue_ok_succeed split: if_splits)
qed

interpretation requeue: job_finalizer "\<lambda>t i w. requeue_txn now t i w p d b" for now p d b
proof (unfold_locales, goal_cases)
  case (1 t i w a t')
  then show ?case by (simp add: requeue_txn_eq split: if_splits)
next
  case (2 t i w)
  then show ?case by (simp add: requeue_txn_eq)
next
  case (3 t i w a t')
  then show ?case
    using owned_update_row [of "requeued_row now (now + interval_secs d) p b" t i w]
    by (auto simp: requeue_txn_eq split: if_splits)
next
  case (4 t i w a t' k)
  then show ?case by (auto simp: requeue_txn_eq owned_update_frame split: if_splits)
next
  case (5 t i w a t')
  then show ?case by (auto simp: requeue_txn_eq queue_ok_requeue split: if_splits)
qed

lemma queue_ok_mark_failed:
  assumes "queue_ok t" and "mark_failed now u t i w err perm jit ra = Inr (st, t')"
  shows "queue_ok t'"
  using assms
proof (cases rule: mark_failed_cases)
  case (dead r)
  have "queue_ok (sql_update (owned_row i w) (dead_row now (sanitize_error err)) t)"
    by (rule queue_ok_update [OF assms(1)]) (simp_all add: job_ok_dead)
  with dead show ?thesis by simp
next
  case (failed r d)
  have less: "pj_attempts j < pj_max_attempts j" if "j \<in> set t" "owned_row i w j" for j
  proof -
    have "job_row t i = Some j"
      using that job_row_in_set [OF queue_ok_distinct [OF assms(1)] that(1)] by (simp add: owned_row_def)
    with failed(1,4) show ?thesis by simp
  qed
  have "queue_ok (sql_update (owned_row i w)
          (failed_row now (now + interval_secs d) (sanitize_error err)) t)"
    by (rule queue_ok_update [OF assms(1)]) (simp_all add: job_ok_failed less)
  with failed show ?thesis by simp
qed

interpretation failing: job_finalizer "\<lambda>t i w. mark_failed now u t i w err perm jit ra"
  for now u err perm jit ra
proof (unfold_locales, goal_cases)
  case (1 t i w a t')
  then show ?case by (cases rule: mark_failed_cases) (auto simp: owns_def)
next
  case (2 t i w)
  then show ?case by (auto simp: mark_failed_eq owns_def split: option.splits)
next
  case (3 t i w a t')
  then show ?case by (cases rule: mark_failed_cases) (auto simp: job_row_update)
next
  case (4 t i w a t' k)
  from 4(1,2) show ?case by (cases rule: mark_failed_cases) (use 4(3) in \<open>auto simp: owned_update_frame\<close>)
next
  case (5 t i w a t')
  then show ?case by (rule queue_ok_mark_failed)
qed

end
