(* ===== verification/Job_Queue_Facts.thy ===== *)
theory Job_Queue_Facts
  imports Job_Queue
begin

text \<open>
  What the queue transactions guarantee: the back-off bounds, stale-lock recovery row by
  row, the order and completeness of a claim, and that an attempt is ended at most once and
  by its owner only.
\<close>

section \<open>Back-off\<close>

lemma retry_delay_ok:
  "retry_delay_seconds u a jit = Inr d \<Longrightarrow>
     0 \<le> a \<and> d = min 900 (2 ^ nat a + max 0 (case jit of None \<Rightarrow> u | Some s \<Rightarrow> s))"
  by (auto simp: retry_delay_seconds_def Let_def split: if_splits)

lemma one_le_power_two: "(1 :: rat) \<le> 2 ^ n"
  by (rule one_le_power) simp

lemma failure_delay_bounds:
  assumes "failure_delay u a jit ra = Inr d"
  shows "1 \<le> d \<and> d \<le> 900 \<and> (\<forall>r. ra = Some r \<longrightarrow> min 900 r \<le> d)"
proof -
  from assms obtain b where b: "retry_delay_seconds u a jit = Inr b"
    and d: "d = (case ra of None \<Rightarrow> b | Some r \<Rightarrow> min 900 (max b (max 0 r)))"
    by (auto simp: failure_delay_def split: sum.splits)
  let ?j = "max 0 (case jit of None \<Rightarrow> u | Some s \<Rightarrow> s)"
  have "b = min 900 (2 ^ nat a + ?j)" using retry_delay_ok [OF b] by simp
  moreover have "1 \<le> 2 ^ nat a + ?j"
    using one_le_power_two [of "nat a"] by (intro add_increasing2) simp_all
  ultimately have "1 \<le> b" "b \<le> 900" by simp_all
  with d show ?thesis by (auto simp: min_def max_def split: option.splits)
qed

lemma failure_delay_mono:
  assumes "failure_delay u a jit ra = Inr d" and "failure_delay u a' jit ra = Inr d'" and "a \<le> a'"
  shows "d \<le> d'"
proof -
  from assms(1) obtain b where b: "retry_delay_seconds u a jit = Inr b"
    and d: "d = (case ra of None \<Rightarrow> b | Some r \<Rightarrow> min 900 (max b (max 0 r)))"
    by (auto simp: failure_delay_def split: sum.splits)
  from assms(2) obtain b' where b': "retry_delay_seconds u a' jit = Inr b'"
    and d': "d' = (case ra of None \<Rightarrow> b' | Some r \<Rightarrow> min 900 (max b' (max 0 r)))"
    by (auto simp: failure_delay_def split: sum.splits)
  have "(2 :: rat) ^ nat a \<le> 2 ^ nat a'" by (rule power_increasing) (use assms(3) in auto)
  then have "b \<le> b'"
    using retry_delay_ok [OF b] retry_delay_ok [OF b']
    by (clarsimp simp only:) (intro min.mono add_right_mono order_refl)
  with d d' show ?thesis by (auto simp: min_def max_def split: option.splits)
qed

section \<open>Recovery\<close>

definition recovered_row :: "time \<Rightarrow> processing_job \<Rightarrow> processing_job" where
  "recovered_row now j =
     (if pj_max_attempts j \<le> pj_attempts j then dead_row now STALE_LOCK_EXHAUSTED_ERROR j
      else failed_row now now STALE_LOCK_ERROR j)"

lemma recovered_row_id [simp]: "pj_id (recovered_row now j) = pj_id j"
  by (simp add: recovered_row_def)

lemma recovered_not_running [simp]: "pj_status (recovered_row now j) \<noteq> RUNNING"
  by (simp add: recovered_row_def)

lemma not_recoverable_after [simp]:
  "\<not> recoverable now skip held s (recovered_row n j)"
  "\<not> recoverable now skip held s (dead_row n e j)"
  by (simp_all add: recoverable_def stale_lock_def)

lemma recover_stale_jobs_eq:
  "recover_stale_jobs now skip held s t =
     (\<lparr>retryable = sql_count (\<lambda>j. recoverable now skip held s j \<and> pj_attempts j < pj_max_attempts j) t,
       dead_count = sql_count (\<lambda>j. recoverable now skip held s j \<and> pj_max_attempts j \<le> pj_attempts j) t\<rparr>,
      sql_update (recoverable now skip held s) (recovered_row now) t)"
  by (induction t) (auto simp: recover_stale_jobs_def Let_def recovered_row_def not_le)

lemma recovery_total_eq:
  "recovery_total (fst (recover_stale_jobs now skip held s t)) = sql_count (recoverable now skip held s) t"
  unfolding recover_stale_jobs_eq recovery_total_def
  by (induction t) (auto simp: not_le)

lemma job_ok_recovered: "job_ok j \<Longrightarrow> job_ok (recovered_row now j)"
  by (simp add: recovered_row_def job_ok_dead job_ok_failed)

lemma queue_ok_recover: "queue_ok t \<Longrightarrow> queue_ok (snd (recover_stale_jobs now skip held s t))"
  by (simp add: recover_stale_jobs_eq queue_ok_update job_ok_recovered)

lemma recover_twice:
  "recover_stale_jobs now skip held s (snd (recover_stale_jobs now skip held s t)) =
     (\<lparr>retryable = 0, dead_count = 0\<rparr>, snd (recover_stale_jobs now skip held s t))"
proof -
  let ?t = "sql_update (recoverable now skip held s) (recovered_row now) t"
  have none: "\<forall>j \<in> set ?t. \<not> recoverable now skip held s j"
    by (auto simp: set_sql_update)
  then have "sql_update (recoverable now skip held s) (recovered_row now) ?t = ?t"
    by (intro sql_update_id) blast
  with none show ?thesis by (simp add: recover_stale_jobs_eq)
qed

text \<open>
  C10: Stale recovery rewrites exactly the rows that are RUNNING with a missing or expired lock
  and that no live lease or transaction holds: without attempts left they become DEAD, with
  attempts left FAILED and claimable at once.  Every other row, in particular every leased
  one, is unchanged; the reported counts add up to the rows rewritten; the queue invariant
  is kept; and running recovery again at the same instant finds nothing.
\<close>

theorem stale_recovery_exact:
  assumes "queue_ok t" and "recover_stale_jobs now skip held s t = (r, t')"
  shows "queue_ok t' \<and> recovery_total r = sql_count (recoverable now skip held s) t \<and>
     (\<forall>i. job_row t' i = map_option
        (\<lambda>j. if \<not> recoverable now skip held s j then j
             else if pj_max_attempts j \<le> pj_attempts j
             then dead_row now STALE_LOCK_EXHAUSTED_ERROR j
             else failed_row now now STALE_LOCK_ERROR j) (job_row t i)) \<and>
     (\<forall>i. held i \<longrightarrow> job_row t' i = job_row t i) \<and>
     recover_stale_jobs now skip held s t' = (\<lparr>retryable = 0, dead_count = 0\<rparr>, t')"
proof -
  from assms(2) have r: "r = fst (recover_stale_jobs now skip held s t)"
    and t': "t' = snd (recover_stale_jobs now skip held s t)" by simp_all
  have row: "job_row t' i = map_option (\<lambda>j. if recoverable now skip held s j
      then recovered_row now j else j) (job_row t i)" for i
    unfolding t' recover_stale_jobs_eq by (simp add: job_row_update)
  have "job_row t' i = job_row t i" if "held i" for i
    using that row [of i]
    by (cases "job_row t i") (auto simp: recoverable_def dest: job_row_Some)
  moreover have "job_row t' i = map_option
        (\<lambda>j. if \<not> recoverable now skip held s j then j
             else if pj_max_attempts j \<le> pj_attempts j
             then dead_row now STALE_LOCK_EXHAUSTED_ERROR j
             else failed_row now now STALE_LOCK_ERROR j) (job_row t i)" for i
    unfolding row by (rule option.map_cong) (simp_all add: recovered_row_def)
  ultimately show ?thesis
    using queue_ok_recover [OF assms(1)] recovery_total_eq recover_twice
    unfolding r t' by simp
qed

section \<open>Claiming\<close>

lemma claim_key_inj: "distinct (map pj_id t) \<Longrightarrow> inj_on claim_key (set t)"
  by (auto simp: inj_on_def claim_key_def distinct_map)

lemma claim_selection_set:
  "set (claim_selection now skip limit t) \<subseteq> {j \<in> set t. claimable now j \<and> \<not> skip (pj_id j)}"
  unfolding claim_selection_def using set_take_subset by fastforce

lemma claim_selection_sorted: "sorted (map claim_key (claim_selection now skip limit t))"
  unfolding claim_selection_def take_map [symmetric]
  by (simp add: sorted_wrt_take)

lemma claim_selection_distinct:
  "distinct (map pj_id t) \<Longrightarrow> distinct (map pj_id (claim_selection now skip limit t))"
proof -
  assume d: "distinct (map pj_id t)"
  let ?f = "filter (\<lambda>j. claimable now j \<and> \<not> skip (pj_id j)) t"
  have "distinct (map pj_id ?f)" using d by (simp add: distinct_map_filter)
  then have "distinct (map pj_id (sort_key claim_key ?f))"
    by (simp add: distinct_map)
  then show ?thesis unfolding claim_selection_def take_map [symmetric] by (rule distinct_take)
qed

text \<open>Rows the claim passed over have a later key than every row it took.\<close>

lemma claim_selection_least:
  assumes "j \<in> set t" "claimable now j" "\<not> skip (pj_id j)"
    and "j \<notin> set (claim_selection now skip limit t)"
  shows "length (claim_selection now skip limit t) = limit \<and>
     (\<forall>k \<in> set (claim_selection now skip limit t). claim_key k \<le> claim_key j)"
proof -
  let ?s = "sort_key claim_key (filter (\<lambda>j. claimable now j \<and> \<not> skip (pj_id j)) t)"
  have "j \<in> set ?s" using assms by simp
  then have "j \<in> set (take limit ?s) \<or> j \<in> set (drop limit ?s)"
    by (metis Un_iff append_take_drop_id set_append)
  with assms(4) have dr: "j \<in> set (drop limit ?s)" by (simp add: claim_selection_def)
  then have len: "limit \<le> length ?s" by (cases "limit \<le> length ?s") auto
  have "sorted (map claim_key (take limit ?s @ drop limit ?s))" by simp
  then have "\<forall>k \<in> set (take limit ?s). claim_key k \<le> claim_key j"
    using dr unfolding map_append sorted_append by auto
  with len show ?thesis by (simp add: claim_selection_def)
qed

lemma claimed_sorted:
  assumes "distinct (map pj_id t)"
  shows "sort_key (\<lambda>c. (cj_priority c, cj_created_at c, cj_id c))
           (map from_row (fst (claim_sql now skip w limit t))) =
         map (\<lambda>j. from_row (claim_row now w j)) (claim_selection now skip limit t)"
    (is "sort_key ?k ?rows = ?sel")
proof (rule map_sorted_distinct_set_unique [of ?k])
  let ?S = "claim_selection now skip limit t"
  have sub: "set ?S \<subseteq> set t" using claim_selection_set by fast
  have ids: "j \<in> set t \<Longrightarrow> pj_id j \<in> pj_id ` set ?S \<longleftrightarrow> j \<in> set ?S" for j
    using assms sub by (auto simp: distinct_map inj_on_def)
  have "set (fst (claim_sql now skip w limit t)) = claim_row now w ` set ?S"
    using ids sub by (auto simp: claim_sql_def Let_def set_sql_update image_iff)
  then have rows: "set ?rows = set ?sel" by (simp add: image_image)
  have key: "?k (from_row (claim_row now w j)) = claim_key j" for j
    by (simp add: from_row_def claim_row_def claim_key_def)
  have dk: "distinct (map claim_key ?S)"
    using claim_key_inj [OF assms] sub claim_selection_distinct [OF assms, of now skip limit]
    by (auto simp: distinct_map intro: inj_on_subset)
  show "inj_on ?k (set (sort_key ?k ?rows) \<union> set ?sel)"
  proof -
    have "set (sort_key ?k ?rows) \<union> set ?sel = set ?sel"
      unfolding set_sort using rows by blast
    moreover have "inj_on ?k (set ?sel)"
      unfolding set_map by (rule inj_on_imageI)
        (simp add: comp_def key inj_on_subset [OF claim_key_inj [OF assms] sub])
    ultimately show ?thesis by (simp only:)
  qed
  show "sorted (map ?k (sort_key ?k ?rows))" by simp
  show "sorted (map ?k ?sel)" using claim_selection_sorted by (simp add: comp_def key)
  show "distinct (map ?k ?sel)" using dk by (simp add: comp_def key)
  show "set (sort_key ?k ?rows) = set ?sel" unfolding set_sort by (rule rows)
  have "distinct (map pj_id (fst (claim_sql now skip w limit t)))"
    using assms by (simp add: claim_sql_def Let_def distinct_map_filter ids_update)
  then show "distinct (map ?k (sort_key ?k ?rows))"
    by (auto simp: distinct_map inj_on_def from_row_def claim_key_def)
qed

lemma claim_jobs_ok:
  assumes "claim_jobs now skip held t w limit s = Inr ((cs, cb), t')"
  shows "w \<noteq> [] \<and> length w \<le> 128 \<and> 1 \<le> limit \<and> limit \<le> 100 \<and> 30 \<le> s \<and> s \<le> 86400"
  using assms by (auto simp: claim_jobs_def split: if_splits)

lemma claim_jobs_unfold:
  assumes "claim_jobs now skip held t w limit s = Inr ((cs, cb), t')" and "queue_ok t"
  defines "t1 \<equiv> snd (recover_stale_jobs now skip held s t)"
  defines "sel \<equiv> claim_selection now skip (nat limit) t1"
  shows "cs = map (\<lambda>j. from_row (claim_row now w j)) sel"
    and "t' = sql_update (\<lambda>j. pj_id j \<in> pj_id ` set sel) (claim_row now w) t1"
proof -
  have d: "distinct (map pj_id t1)" unfolding t1_def by (rule queue_ok_distinct [OF queue_ok_recover [OF assms(2)]])
  obtain r where split: "recover_stale_jobs now skip held s t = (r, t1)"
    by (metis prod.collapse t1_def)
  obtain rows where sq: "claim_sql now skip w (nat limit) t1 = (rows,
      sql_update (\<lambda>j. pj_id j \<in> pj_id ` set sel) (claim_row now w) t1)"
    by (simp add: claim_sql_def Let_def sel_def)
  from assms(1) claim_jobs_ok [OF assms(1)]
  have "cs = sort_key (\<lambda>c. (cj_priority c, cj_created_at c, cj_id c)) (map from_row rows)
    \<and> t' = sql_update (\<lambda>j. pj_id j \<in> pj_id ` set sel) (claim_row now w) t1"
    by (simp add: claim_jobs_def split sq)
  moreover have "rows = fst (claim_sql now skip w (nat limit) t1)" by (simp add: sq)
  ultimately have "cs = map (\<lambda>j. from_row (claim_row now w j)) sel
    \<and> t' = sql_update (\<lambda>j. pj_id j \<in> pj_id ` set sel) (claim_row now w) t1"
    by (simp add: claimed_sorted [OF d] sel_def)
  then show "cs = map (\<lambda>j. from_row (claim_row now w j)) sel"
    and "t' = sql_update (\<lambda>j. pj_id j \<in> pj_id ` set sel) (claim_row now w) t1"
    by simp_all
qed


lemma queue_ok_claim:
  assumes "claim_jobs now skip held t w limit s = Inr ((cs, cb), t')" and "queue_ok t"
  shows "queue_ok t'"
proof -
  let ?t1 = "snd (recover_stale_jobs now skip held s t)"
  let ?sel = "claim_selection now skip (nat limit) ?t1"
  have ok: "queue_ok ?t1" using assms(2) by (rule queue_ok_recover)
  have "claimable now j" if "j \<in> set ?t1" "pj_id j \<in> pj_id ` set ?sel" for j
  proof -
    from that(2) obtain k where k: "k \<in> set ?sel" "pj_id k = pj_id j" by auto
    with claim_selection_set have "k \<in> set ?t1" "claimable now k" by fastforce+
    with that(1) k ok show ?thesis by (auto simp: queue_ok_def distinct_map inj_on_def)
  qed
  with claim_jobs_ok [OF assms(1)] show ?thesis
    unfolding claim_jobs_unfold(2) [OF assms]
    by (intro queue_ok_update [OF ok]) (simp_all add: job_ok_claim)
qed

text \<open>
  C5: A successful claim takes, in the order priority, creation time, id, the first
  claimable rows that no transaction has locked, at most \<open>limit\<close> of them and fewer only when
  there are no more; each taken row becomes RUNNING, owned by the worker, with one more
  attempt; every other row is as stale recovery left it; and the queue invariant is kept.
\<close>

theorem claim_jobs_exact:
  assumes "queue_ok t" and "claim_jobs now skip held t w limit s = Inr ((cs, cb), t')"
  defines "t1 \<equiv> snd (recover_stale_jobs now skip held s t)"
  shows "\<exists>sel. cs = map (\<lambda>j. from_row (claim_row now w j)) sel \<and> length sel \<le> nat limit \<and>
     sorted (map (\<lambda>j. (pj_priority j, pj_created_at j, pj_id j)) sel) \<and>
     (\<forall>j \<in> set sel. job_row t1 (pj_id j) = Some j \<and> claimable now j \<and> \<not> skip (pj_id j)) \<and>
     (\<forall>j \<in> set t1 - set sel. claimable now j \<and> \<not> skip (pj_id j) \<longrightarrow> length sel = nat limit \<and>
        (\<forall>k \<in> set sel. (pj_priority k, pj_created_at k, pj_id k)
           \<le> (pj_priority j, pj_created_at j, pj_id j))) \<and>
     (\<forall>i. job_row t' i = map_option
        (\<lambda>j. if j \<in> set sel then claim_row now w j else j) (job_row t1 i)) \<and>
     queue_ok t'"
proof -
  define sel where "sel = claim_selection now skip (nat limit) t1"
  have ok1: "queue_ok t1" unfolding t1_def by (rule queue_ok_recover [OF assms(1)])
  note d = queue_ok_distinct [OF ok1]
  note unf = claim_jobs_unfold [OF assms(2,1), folded t1_def, folded sel_def]
  have sub: "set sel \<subseteq> {j \<in> set t1. claimable now j \<and> \<not> skip (pj_id j)}"
    unfolding sel_def by (rule claim_selection_set)
  have row: "job_row t' i = map_option (\<lambda>j. if j \<in> set sel then claim_row now w j else j) (job_row t1 i)" for i
    unfolding unf(2) job_row_update [OF row_ids(5)]
  proof (rule option.map_cong [OF refl])
    fix j assume "j \<in> set_option (job_row t1 i)"
    then have j: "j \<in> set t1" by (auto dest: job_row_Some)
    have "pj_id j \<in> pj_id ` set sel \<longleftrightarrow> j \<in> set sel"
      using d j sub by (auto simp: distinct_map inj_on_def)
    then show "(if pj_id j \<in> pj_id ` set sel then claim_row now w j else j)
       = (if j \<in> set sel then claim_row now w j else j)" by simp
  qed
  have "length sel \<le> nat limit" by (simp add: sel_def claim_selection_def)
  moreover have "sorted (map (\<lambda>j. (pj_priority j, pj_created_at j, pj_id j)) sel)"
    using claim_selection_sorted [of now skip "nat limit" t1]
    unfolding sel_def claim_key_def [abs_def] .
  moreover have "\<forall>j \<in> set sel. job_row t1 (pj_id j) = Some j \<and> claimable now j \<and> \<not> skip (pj_id j)"
    using sub job_row_in_set [OF d] by fast
  moreover have "\<forall>j \<in> set t1 - set sel. claimable now j \<and> \<not> skip (pj_id j) \<longrightarrow> length sel = nat limit \<and>
        (\<forall>k \<in> set sel. (pj_priority k, pj_created_at k, pj_id k)
           \<le> (pj_priority j, pj_created_at j, pj_id j))"
    using claim_selection_least [of _ t1 now skip "nat limit", folded sel_def]
    unfolding claim_key_def by blast
  moreover have "queue_ok t'" by (rule queue_ok_claim [OF assms(2,1)])
  ultimately show ?thesis using unf(1) row by (intro exI [of _ sel]) blast
qed

section \<open>Ending an attempt\<close>

text \<open>The three transactions that can end the attempt of job \<open>i\<close> by worker \<open>w\<close>.\<close>

definition endings :: "time \<Rightarrow> jobs \<Rightarrow> uuid \<Rightarrow> string \<Rightarrow> (time \<times> rat \<times> string \<times> bool \<times> rat option \<times> rat option)
     \<Rightarrow> (dict \<times> rat \<times> bool) \<Rightarrow> jobs result list" where
  "endings now t i w f q =
     [map_sum id snd (mark_succeeded now t i w),
      (case f of (fnow, u, err, perm, jit, ra) \<Rightarrow>
         map_sum id snd (mark_failed fnow u t i w err perm jit ra)),
      (case q of (p, d, b) \<Rightarrow> map_sum id snd (requeue_txn now t i w p d b))]"

lemma ending_cases:
  assumes "Inr t' \<in> set (endings now t i w f q)"
  obtains (succeeded) "mark_succeeded now t i w = Inr ((), t')"
    | (failing) st fnow u err perm jit ra where "mark_failed fnow u t i w err perm jit ra = Inr (st, t')"
    | (requeued) p d b where "requeue_txn now t i w p d b = Inr ((), t')"
proof -
  have inr: "map_sum id snd x = Inr y \<Longrightarrow> \<exists>a. x = Inr (a, y)" for x :: "('b \<times> jobs) result" and y
    by (cases x) auto
  from assms show thesis
    by (auto simp: endings_def split: prod.splits dest!: inr [OF sym] intro: that)
qed

text \<open>
  C11: An attempt is ended at most once, and only by the worker that owns it: once any of the
  three transactions (succeed, fail, requeue) has committed for a job, the row is out of
  RUNNING, all other rows are unchanged, the queue invariant holds, and every further
  ending of that job, of whatever kind and by whatever worker, raises JobOwnershipError.
\<close>

theorem attempt_ended_once:
  assumes "queue_ok t" and "Inr t' \<in> set (endings now t i w f q)"
  shows "owns t i w \<and> queue_ok t' \<and> (\<forall>k. k \<noteq> i \<longrightarrow> job_row t' k = job_row t k) \<and>
     (\<exists>j. job_row t' i = Some j \<and> pj_status j \<noteq> RUNNING) \<and>
     (\<forall>r \<in> set (endings now' t' i w' f' q'). r = Inl not_owned)"
proof -
  have base: "owns t i w \<and> queue_ok t' \<and> (\<forall>k. k \<noteq> i \<longrightarrow> job_row t' k = job_row t k) \<and>
     (\<exists>j. job_row t' i = Some j \<and> pj_status j \<noteq> RUNNING) \<and> (\<forall>v. \<not> owns t' i v)"
    using assms(2)
  proof (cases rule: ending_cases)
    case succeeded
    note l = assms(1) succeeded
    show ?thesis using succeed.fin_owned [OF l] succeed.fin_ok [OF l] succeed.fin_frame [OF l]
      succeed.fin_released [OF l] succeed.nobody_owns [OF l] by blast
  next
    case (failing st fnow u err perm jit ra)
    note l = assms(1) failing
    show ?thesis using failing.fin_owned [OF l] failing.fin_ok [OF l] failing.fin_frame [OF l]
      failing.fin_released [OF l] failing.nobody_owns [OF l] by blast
  next
    case (requeued p d b)
    note l = assms(1) requeued
    show ?thesis using requeue.fin_owned [OF l] requeue.fin_ok [OF l] requeue.fin_frame [OF l]
      requeue.fin_released [OF l] requeue.nobody_owns [OF l] by blast
  qed
  then have ok: "queue_ok t'" and no: "\<not> owns t' i w'" by blast+
  have "\<forall>r \<in> set (endings now' t' i w' f' q'). r = Inl not_owned"
    using succeed.fin_not_owned [OF ok no] failing.fin_not_owned [OF ok no]
      requeue.fin_not_owned [OF ok no]
    by (auto simp: endings_def split: prod.splits)
  with base show ?thesis by blast
qed


section \<open>What a failure records\<close>

lemma sanitize_error_safe:
  "length (sanitize_error e) \<le> 2000 \<and> (\<forall>c \<in> set (sanitize_error e). py_space c \<longrightarrow> c = CHR '' '')"
proof -
  have "set (sanitize_error e) \<subseteq> set (py_join '' '' (py_words e))"
    by (simp add: sanitize_error_def py_take_def set_take_subset)
  then have "c = CHR '' '' \<or> \<not> py_space c" if "c \<in> set (sanitize_error e)" for c
    using that set_py_join [of "'' ''" "py_words e"] py_words_no_space by auto
  then show ?thesis by (auto simp: sanitize_error_def py_take_def)
qed

text \<open>
  C12: A recorded failure leaves the attempt count alone and makes the row DEAD exactly when the
  failure is permanent or the attempts are used up; otherwise the row is FAILED and becomes
  available between one second and 900 seconds later, never earlier than the provider's
  Retry-After (capped at 900 seconds).  The stored message has at most 2000 characters and no
  white space but single-line spaces.
\<close>

theorem mark_failed_schedule:
  assumes "queue_ok t" and "job_row t i = Some r"
    and "mark_failed now u t i w err perm jit ra = Inr (st, t')"
  shows "\<exists>r' msg. job_row t' i = Some r' \<and> pj_status r' = st \<and> pj_attempts r' = pj_attempts r \<and>
     (st = DEAD \<longleftrightarrow> perm \<or> pj_max_attempts r \<le> pj_attempts r) \<and>
     (st \<noteq> DEAD \<longrightarrow> st = FAILED \<and> now + second \<le> pj_available_at r' \<and>
        pj_available_at r' \<le> now + 900 * second \<and>
        (\<forall>s. ra = Some s \<longrightarrow> now + interval_secs (min 900 s) \<le> pj_available_at r')) \<and>
     pj_last_error r' = Some msg \<and> length msg \<le> 2000 \<and>
     (\<forall>c \<in> set msg. py_space c \<longrightarrow> c = CHR '' '')"
  using assms(1,3)
proof (cases rule: mark_failed_cases)
  case (dead q)
  with assms(2) have "job_row t' i = Some (dead_row now (sanitize_error err) r)"
    by (simp add: job_row_update)
  with dead assms(2) sanitize_error_safe [of err] show ?thesis by (simp add: dead_row_def)
next
  case (failed q d)
  let ?r = "failed_row now (now + interval_secs d) (sanitize_error err) r"
  from failed assms(2) have row: "job_row t' i = Some ?r" by (simp add: job_row_update)
  from failure_delay_bounds [OF failed(5)]
  have d: "1 \<le> d" "d \<le> 900" "\<forall>s. ra = Some s \<longrightarrow> min 900 s \<le> d" by blast+
  have "second \<le> interval_secs d" "interval_secs d \<le> 900 * second"
    using interval_secs_mono [OF d(1)] interval_secs_mono [OF d(2)]
      interval_secs_of_int [of 1] interval_secs_of_int [of 900] by simp_all
  moreover have "\<forall>s. ra = Some s \<longrightarrow> interval_secs (min 900 s) \<le> interval_secs d"
    using d(3) interval_secs_mono by blast
  ultimately show ?thesis
    using row failed assms(2) sanitize_error_safe [of err]
    by (intro exI [of _ ?r] exI [of _ "sanitize_error err"]) (simp add: failed_row_def)
qed

section \<open>Witnesses\<close>

definition sample_job :: "uuid \<Rightarrow> processing_job" where
  "sample_job i =
     \<lparr> pj_id = i, pj_workspace_id = None, pj_repository_id = None, pj_raw_event_id = None,
       pj_job_type = ''EVALUATE_ALERTS'', pj_payload = [], pj_status = PENDING, pj_priority = 100,
       pj_attempts = 0, pj_max_attempts = 8, pj_available_at = 0, pj_locked_at = None,
       pj_locked_by = None, pj_last_error = None, pj_finished_at = None, pj_created_at = 0,
       pj_updated_at = 0, pj_version = 0 \<rparr>"

text \<open>Two waiting jobs, and three stale RUNNING ones: exhausted, leased, retryable.\<close>

definition sample_queue :: jobs where
  "sample_queue =
     [sample_job 1, (sample_job 2)\<lparr>pj_priority := 50\<rparr>,
      (sample_job 3)\<lparr>pj_status := RUNNING, pj_attempts := 8, pj_locked_at := Some 0,
         pj_locked_by := Some ''w1''\<rparr>,
      (sample_job 4)\<lparr>pj_status := RUNNING, pj_attempts := 1, pj_locked_at := Some 0,
         pj_locked_by := Some ''w1''\<rparr>,
      (sample_job 5)\<lparr>pj_status := RUNNING, pj_attempts := 1, pj_locked_at := Some 0,
         pj_locked_by := Some ''w2''\<rparr>]"

lemma sample_queue_ok: "queue_ok sample_queue"
  by (simp add: queue_ok_def sample_queue_def sample_job_def job_ok_def)

theorem stale_recovery_exact_witness:
  "\<exists>r t'. recover_stale_jobs (2000 * second) (\<lambda>_. False) (\<lambda>i. i = 4) 900 sample_queue = (r, t') \<and>
     recovery_total r = 2 \<and> job_row t' 4 = job_row sample_queue 4"
proof -
  obtain r t' where e:
    "recover_stale_jobs (2000 * second) (\<lambda>_. False) (\<lambda>i. i = 4) 900 sample_queue = (r, t')"
    by fastforce
  have "sql_count (recoverable (2000 * second) (\<lambda>_. False) (\<lambda>i. i = 4) 900) sample_queue = 2"
    by (simp add: sample_queue_def sample_job_def recoverable_def stale_lock_def second_def)
  with stale_recovery_exact [OF sample_queue_ok e] e show ?thesis by auto
qed

theorem claim_jobs_exact_witness:
  "\<exists>cs cb t'. claim_jobs 5 (\<lambda>_. False) (\<lambda>_. False) sample_queue ''w9'' 1 900 = Inr ((cs, cb), t') \<and>
     length cs \<le> 1 \<and> map cj_id cs = [2]"
proof -
  obtain cs cb t' where
    e: "claim_jobs 5 (\<lambda>_. False) (\<lambda>_. False) sample_queue ''w9'' 1 900 = Inr ((cs, cb), t')"
      and ids: "map cj_id cs = [2]"
    by (simp add: claim_jobs_def recover_stale_jobs_def claim_sql_def claim_selection_def
        sample_queue_def sample_job_def recoverable_def stale_lock_def second_def claimable_def
        claim_key_def claim_row_def from_row_def)
  from claim_jobs_exact [OF sample_queue_ok e] have "length cs \<le> 1" by auto
  with e ids show ?thesis by (intro exI conjI)
qed

theorem attempt_ended_once_witness:
  "\<exists>t'. mark_succeeded 7 sample_queue 4 ''w1'' = Inr ((), t') \<and>
     mark_failed 8 0 t' 4 ''w1'' ''late'' False None None = Inl not_owned"
proof -
  obtain t' where e: "mark_succeeded 7 sample_queue 4 ''w1'' = Inr ((), t')"
    by (simp add: mark_succeeded_def sample_queue_def sample_job_def owned_row_def)
  define f :: "time \<times> rat \<times> string \<times> bool \<times> rat option \<times> rat option"
    where "f = (8, 0, ''late'', False, None, None)"
  have "Inr t' \<in> set (endings 7 sample_queue 4 ''w1'' f ([], 0, False))"
    by (simp add: endings_def e)
  from attempt_ended_once [OF sample_queue_ok this, of 8 "''w1''" f "([], 0, False)"]
  have "map_sum id snd (mark_failed 8 0 t' 4 ''w1'' ''late'' False None None) = Inl not_owned"
    by (simp add: endings_def f_def)
  then have "mark_failed 8 0 t' 4 ''w1'' ''late'' False None None = Inl not_owned"
    by (cases "mark_failed 8 0 t' 4 ''w1'' ''late'' False None None") auto
  with e show ?thesis by blast
qed

theorem mark_failed_schedule_witness:
  "\<exists>t' r'. mark_failed 0 (1 / 2) sample_queue 4 ''w1'' ''HTTP 429'' False None (Some 60) = Inr (FAILED, t') \<and>
     job_row t' 4 = Some r' \<and> 60 * second \<le> pj_available_at r'"
proof -
  have e: "\<exists>t'. mark_failed 0 (1 / 2) sample_queue 4 ''w1'' ''HTTP 429'' False None (Some 60) = Inr (FAILED, t')"
    by (simp add: mark_failed_def sample_queue_def sample_job_def owned_row_def failure_delay_def
        retry_delay_seconds_def)
  then obtain t' where t': "mark_failed 0 (1 / 2) sample_queue 4 ''w1'' ''HTTP 429'' False None (Some 60)
      = Inr (FAILED, t')" by blast
  obtain r where r: "job_row sample_queue 4 = Some r"
    by (simp add: job_row_def sample_queue_def sample_job_def)
  from mark_failed_schedule [OF sample_queue_ok r t'] interval_secs_of_int [of 60] t' show ?thesis by auto
qed

end
