(* ===== verification/Job_Lease.thy ===== *)
theory Job_Lease
  imports Job_Queue_Facts
begin

text \<open>
  Leases (\<^verbatim>\<open>app/jobs/lease.py\<close>): PostgreSQL session advisory locks, the scope a job locks
  (the job, its workspace, its repository), the heartbeat, and the life of the guard
  thread.  \<^verbatim>\<open>hashtextextended\<close> is the parameter \<open>h\<close>: nothing is assumed of it, so the
  theorems also cover hash collisions.
\<close>

section \<open>Advisory locks\<close>

text \<open>One entry per lock a session holds: hashed key, session, and whether it is shared.\<close>

type_synonym session = string
type_synonym advisory = "(int \<times> session \<times> bool) list"

text \<open>A request conflicts with another session's lock on the key unless both are shared.\<close>

definition lock_free :: "advisory \<Rightarrow> int \<Rightarrow> session \<Rightarrow> bool \<Rightarrow> bool" where
  "lock_free locks k s shared \<longleftrightarrow>
     (\<forall>(k', s', shared') \<in> set locks. k' = k \<and> s' \<noteq> s \<longrightarrow> shared \<and> shared')"

definition release_session :: "session \<Rightarrow> advisory \<Rightarrow> advisory" where
  "release_session s locks = filter (\<lambda>(k, s', shared). s' \<noteq> s) locks"

text \<open>\<^verbatim>\<open>_lock\<close>: \<^verbatim>\<open>pg_try_advisory_lock[_shared]\<close>, raising \<^verbatim>\<open>JobScopeBusy\<close>.\<close>

definition try_lock ::
  "(string \<Rightarrow> int) \<Rightarrow> session \<Rightarrow> string \<Rightarrow> bool \<Rightarrow> advisory \<Rightarrow> advisory result" where
  "try_lock h s key shared locks =
     (if lock_free locks (h key) s shared then Inr ((h key, s, shared) # locks)
      else Inl (JobScopeBusy key))"

definition job_key :: "uuid \<Rightarrow> string" where "job_key i = ''adept:job:'' @ uuid_str i"
definition workspace_key :: "uuid \<Rightarrow> string" where "workspace_key i = ''adept:workspace:'' @ uuid_str i"
definition repository_key :: "uuid \<Rightarrow> string" where "repository_key i = ''adept:repository:'' @ uuid_str i"

text \<open>\<^verbatim>\<open>pg_try_advisory_xact_lock\<close> on a job fails exactly when some lease session holds it.\<close>

definition job_lock_held :: "(string \<Rightarrow> int) \<Rightarrow> advisory \<Rightarrow> uuid \<Rightarrow> bool" where
  "job_lock_held h locks i \<longleftrightarrow> (\<exists>(k, s, shared) \<in> set locks. k = h (job_key i))"

section \<open>The scope of a job\<close>

text \<open>What \<^verbatim>\<open>_acquire\<close> reads besides the queue: the workspace and repository of a raw event,
  the workspace of a repository, the workspace of a Jira integration (a missing row and a
  NULL column both read as \<open>None\<close>).\<close>

record scope_tables =
  event_scope :: "uuid \<Rightarrow> (uuid option \<times> uuid option) option"
  repository_workspace :: "uuid \<Rightarrow> uuid option"
  jira_workspace :: "uuid \<Rightarrow> uuid option"

definition coalesce :: "'a option \<Rightarrow> 'a option \<Rightarrow> 'a option" where
  "coalesce a b = (case a of None \<Rightarrow> b | Some x \<Rightarrow> Some x)"

definition WORKSPACE_WIDE :: "string list" where
  "WORKSPACE_WIDE =
     [''DELETE_WORKSPACE'', ''SYNC_GITHUB_REPOSITORIES'', ''SYNC_JIRA_PROJECTS'',
      ''RENEW_JIRA_WEBHOOK'']"

definition payload_either :: "dict \<Rightarrow> string \<Rightarrow> string \<Rightarrow> json" where
  "payload_either p a b = py_or (dict_get p a) (dict_get p b)"

text \<open>The ownership query of \<^verbatim>\<open>_acquire\<close>: workspace and repository of the row or of its event.\<close>

definition scope_row ::
  "jobs \<Rightarrow> scope_tables \<Rightarrow> claimed_job \<Rightarrow> string \<Rightarrow> (uuid option \<times> uuid option) option" where
  "scope_row t T c w =
     (case job_row t (cj_id c) of
        None \<Rightarrow> None
      | Some j \<Rightarrow>
          if owned_row (cj_id c) w j \<and> pj_attempts j = cj_attempts c
          then let raw = coalesce (pj_raw_event_id j)
                     (uuid_of_json (payload_either (cj_payload c) ''rawEventId'' ''raw_event_id''));
                   ev = (case raw of None \<Rightarrow> None | Some e \<Rightarrow> event_scope T e);
                   ev_ws = (case ev of None \<Rightarrow> None | Some (ws, _) \<Rightarrow> ws);
                   ev_repo = (case ev of None \<Rightarrow> None | Some (_, repo) \<Rightarrow> repo)
               in Some (coalesce (pj_workspace_id j) ev_ws, coalesce (pj_repository_id j) ev_repo)
          else None)"

text \<open>From the row to the scope that is locked.\<close>

definition job_scope ::
  "scope_tables \<Rightarrow> claimed_job \<Rightarrow> uuid option \<times> uuid option \<Rightarrow> uuid option \<times> uuid option" where
  "job_scope T c row =
     (let repo0 = coalesce (snd row)
            (uuid_of_json (payload_either (cj_payload c) ''repositoryId'' ''repository_id''));
          repo = (if cj_job_type c \<in> set WORKSPACE_WIDE then None else repo0);
          ws0 = coalesce (fst row)
            (uuid_of_json (payload_either (cj_payload c) ''workspaceId'' ''workspace_id''));
          ws1 = (if ws0 = None \<and> cj_job_type c = ''RENEW_JIRA_WEBHOOK''
                 then (case uuid_of_json (dict_get (cj_payload c) ''jiraIntegrationId'') of
                         None \<Rightarrow> None
                       | Some i \<Rightarrow> jira_workspace T i)
                 else ws0);
          ws = (case repo of
                  None \<Rightarrow> ws1
                | Some r \<Rightarrow> coalesce (repository_workspace T r) ws1)
      in (ws, repo))"

text \<open>
  \<^verbatim>\<open>_acquire\<close>: the job lock, the ownership check, then workspace before repository; a
  workspace is locked shared when a repository narrows the job down.
\<close>

definition acquire ::
  "(string \<Rightarrow> int) \<Rightarrow> jobs \<Rightarrow> scope_tables \<Rightarrow> advisory \<Rightarrow> claimed_job \<Rightarrow> string
     \<Rightarrow> ((uuid option \<times> uuid option) \<times> advisory) result" where
  "acquire h t T locks c w =
     (case try_lock h w (job_key (cj_id c)) False locks of
        Inl e \<Rightarrow> Inl e
      | Inr locks1 \<Rightarrow>
          (case scope_row t T c w of
             None \<Rightarrow> Inl (JobOwnershipError ''job ownership changed before execution'')
           | Some row \<Rightarrow>
               (case job_scope T c row of
                  (ws, repo) \<Rightarrow>
                    (case (case ws of
                             None \<Rightarrow> Inr locks1
                           | Some x \<Rightarrow> try_lock h w (workspace_key x) (repo \<noteq> None) locks1) of
                       Inl e \<Rightarrow> Inl e
                     | Inr locks2 \<Rightarrow>
                         (case (case repo of
                                  None \<Rightarrow> Inr locks2
                                | Some r \<Rightarrow> try_lock h w (repository_key r) False locks2) of
                            Inl e \<Rightarrow> Inl e
                          | Inr locks3 \<Rightarrow> Inr ((ws, repo), locks3))))))"

text \<open>
  Entering a lease: on an error the guard closes its detached connection, which drops
  every lock of the session.
\<close>

definition lease_enter ::
  "(string \<Rightarrow> int) \<Rightarrow> jobs \<Rightarrow> scope_tables \<Rightarrow> advisory \<Rightarrow> claimed_job \<Rightarrow> string
     \<Rightarrow> (uuid option \<times> uuid option) result \<times> advisory" where
  "lease_enter h t T locks c w =
     (case acquire h t T locks c w of
        Inl e \<Rightarrow> (Inl e, release_session w locks)
      | Inr (scope, locks') \<Rightarrow> (Inr scope, locks'))"

definition heartbeat :: "time \<Rightarrow> (uuid \<Rightarrow> bool) \<Rightarrow> jobs \<Rightarrow> claimed_job \<Rightarrow> string \<Rightarrow> jobs" where
  "heartbeat now skip t c w =
     sql_update (\<lambda>j. owned_row (cj_id c) w j \<and> pj_attempts j = cj_attempts c \<and> \<not> skip (pj_id j))
       (\<lambda>j. j\<lparr>pj_locked_at := Some now\<rparr>) t"

section \<open>The guard thread\<close>

text \<open>
  \<open>ready\<close> is the event \<^verbatim>\<open>__enter__\<close> waits for, \<open>lease_error\<close> what it re-raises,
  \<open>lost\<close> whether \<^verbatim>\<open>on_connection_lost\<close> was called.
\<close>

record lease_run =
  ready :: bool
  lease_error :: "exn option"
  lost :: bool

text \<open>The heartbeats until stop is set: each with its outcome and whether stop was set by then.\<close>

fun maintain_loop :: "(unit result \<times> bool) list \<Rightarrow> lease_run" where
  "maintain_loop [] = \<lparr>ready = True, lease_error = None, lost = False\<rparr>"
| "maintain_loop ((Inr _, _) # beats) = maintain_loop beats"
| "maintain_loop ((Inl e, stopping) # beats) =
     \<lparr>ready = True, lease_error = Some e, lost = \<not> stopping\<rparr>"

text \<open>\<^verbatim>\<open>_maintain\<close>: acquisition and first heartbeat, then the loop; \<^verbatim>\<open>finally\<close> sets ready.\<close>

definition maintain :: "unit result \<Rightarrow> (unit result \<times> bool) list \<Rightarrow> lease_run" where
  "maintain acquired beats =
     (case acquired of
        Inl e \<Rightarrow> \<lparr>ready = True, lease_error = Some e, lost = False\<rparr>
      | Inr _ \<Rightarrow> maintain_loop beats)"

section \<open>Facts\<close>

text \<open>The lock table never holds two conflicting entries.\<close>

definition locks_ok :: "advisory \<Rightarrow> bool" where
  "locks_ok locks \<longleftrightarrow>
     (\<forall>x \<in> set locks. \<forall>y \<in> set locks.
        fst x = fst y \<and> fst (snd x) \<noteq> fst (snd y) \<longrightarrow> snd (snd x) \<and> snd (snd y))"

lemma locks_okD:
  "locks_ok locks \<Longrightarrow> (k, s, a) \<in> set locks \<Longrightarrow> (k, s', a') \<in> set locks \<Longrightarrow> s \<noteq> s' \<Longrightarrow> a \<and> a'"
  unfolding locks_ok_def by (drule (1) bspec, drule (1) bspec) simp

lemma locks_ok_Nil [simp]: "locks_ok []"
  by (simp add: locks_ok_def)

lemma try_lock_ok: "try_lock h s key a locks = Inr locks' \<Longrightarrow>
   locks' = (h key, s, a) # locks \<and> lock_free locks (h key) s a"
  by (simp add: try_lock_def split: if_splits)

lemma locks_ok_insert: "locks_ok locks \<Longrightarrow> lock_free locks k s a \<Longrightarrow> locks_ok ((k, s, a) # locks)"
  unfolding locks_ok_def lock_free_def split_beta by (simp add: ball_Un) metis

lemma try_lock_granted:
  assumes "try_lock h s key a locks = Inr locks'" and "locks_ok locks"
  shows "locks_ok locks' \<and> set locks' = {(h key, s, a)} \<union> set locks"
  using try_lock_ok [OF assms(1)] locks_ok_insert [OF assms(2), of "h key" s a] by simp

lemma locks_ok_subset: "set l' \<subseteq> set l \<Longrightarrow> locks_ok l \<Longrightarrow> locks_ok l'"
  unfolding locks_ok_def by blast

lemma locks_ok_release: "locks_ok l \<Longrightarrow> locks_ok (release_session s l)"
  by (erule locks_ok_subset [rotated]) (auto simp: release_session_def)

lemma release_other: "s' \<noteq> s \<Longrightarrow> (k, s', a) \<in> set (release_session s l) \<longleftrightarrow> (k, s', a) \<in> set l"
  by (simp add: release_session_def)

lemma release_own: "(k, s, a) \<notin> set (release_session s l)"
  by (simp add: release_session_def)

text \<open>What a granted lease leaves in the lock table.\<close>

definition lease_locks ::
  "(string \<Rightarrow> int) \<Rightarrow> uuid \<Rightarrow> uuid option \<times> uuid option \<Rightarrow> session \<Rightarrow> (int \<times> session \<times> bool) set" where
  "lease_locks h i scope w =
     {(h (job_key i), w, False)} \<union>
     (case fst scope of None \<Rightarrow> {} | Some x \<Rightarrow> {(h (workspace_key x), w, snd scope \<noteq> None)}) \<union>
     (case snd scope of None \<Rightarrow> {} | Some r \<Rightarrow> {(h (repository_key r), w, False)})"

lemma acquire_steps:
  assumes "acquire h t T locks c w = Inr ((ws, repo), locks')"
  obtains l1 l2 row where "try_lock h w (job_key (cj_id c)) False locks = Inr l1"
    and "scope_row t T c w = Some row" and "job_scope T c row = (ws, repo)"
    and "(case ws of None \<Rightarrow> Inr l1 | Some x \<Rightarrow> try_lock h w (workspace_key x) (repo \<noteq> None) l1) = Inr l2"
    and "(case repo of None \<Rightarrow> Inr l2 | Some r \<Rightarrow> try_lock h w (repository_key r) False l2) = Inr locks'"
proof -
  from assms obtain l1 where l1: "try_lock h w (job_key (cj_id c)) False locks = Inr l1"
    by (cases "try_lock h w (job_key (cj_id c)) False locks") (simp_all add: acquire_def)
  with assms obtain row where row: "scope_row t T c w = Some row"
    by (cases "scope_row t T c w") (simp_all add: acquire_def)
  obtain ws' repo' where sc: "job_scope T c row = (ws', repo')" by fastforce
  let ?two = "case ws' of None \<Rightarrow> Inr l1 | Some x \<Rightarrow> try_lock h w (workspace_key x) (repo' \<noteq> None) l1"
  from assms l1 row sc obtain l2 where l2: "?two = Inr l2"
    by (cases ?two) (simp_all add: acquire_def)
  let ?three = "case repo' of None \<Rightarrow> Inr l2 | Some r \<Rightarrow> try_lock h w (repository_key r) False l2"
  from assms l1 row sc l2 obtain l3 where l3: "?three = Inr l3"
    by (cases ?three) (simp_all add: acquire_def)
  from assms l1 row sc l2 l3 have "ws' = ws" "repo' = repo" "l3 = locks'"
    by (simp_all add: acquire_def)
  with l1 row sc l2 l3 that show thesis by blast
qed

lemma acquire_granted:
  assumes "acquire h t T locks c w = Inr (scope, locks')" and "locks_ok locks"
  shows "locks_ok locks' \<and> set locks' = lease_locks h (cj_id c) scope w \<union> set locks \<and>
     (\<exists>row. scope_row t T c w = Some row \<and> scope = job_scope T c row)"
proof -
  obtain ws repo where sc: "scope = (ws, repo)" by (cases scope)
  from assms(1) have "acquire h t T locks c w = Inr ((ws, repo), locks')" unfolding sc .
  then obtain l1 l2 row where
    l1: "try_lock h w (job_key (cj_id c)) False locks = Inr l1"
    and row: "scope_row t T c w = Some row" "job_scope T c row = (ws, repo)"
    and l2: "(case ws of None \<Rightarrow> Inr l1 | Some x \<Rightarrow> try_lock h w (workspace_key x) (repo \<noteq> None) l1) = Inr l2"
    and l3: "(case repo of None \<Rightarrow> Inr l2 | Some r \<Rightarrow> try_lock h w (repository_key r) False l2) = Inr locks'"
    by (rule acquire_steps)
  from try_lock_granted [OF l1 assms(2)]
  have ok1: "locks_ok l1" and s1: "set l1 = {(h (job_key (cj_id c)), w, False)} \<union> set locks" by simp_all
  have two: "locks_ok l2 \<and> set l2 = (case ws of None \<Rightarrow> {} | Some x \<Rightarrow> {(h (workspace_key x), w, repo \<noteq> None)}) \<union> set l1"
  proof (cases ws)
    case None
    with l2 ok1 show ?thesis by simp
  next
    case (Some x)
    with l2 have "try_lock h w (workspace_key x) (repo \<noteq> None) l1 = Inr l2" by simp
    from try_lock_granted [OF this ok1] Some show ?thesis by simp
  qed
  then have ok2: "locks_ok l2" by (rule conjunct1)
  have three: "locks_ok locks' \<and> set locks' = (case repo of None \<Rightarrow> {} | Some r \<Rightarrow> {(h (repository_key r), w, False)}) \<union> set l2"
  proof (cases repo)
    case None
    with l3 ok2 show ?thesis by simp
  next
    case (Some r)
    with l3 have "try_lock h w (repository_key r) False l2 = Inr locks'" by simp
    from try_lock_granted [OF this ok2] Some show ?thesis by simp
  qed
  have "set locks' = lease_locks h (cj_id c) scope w \<union> set locks"
    unfolding lease_locks_def sc fst_conv snd_conv conjunct2 [OF three] conjunct2 [OF two] s1 by blast
  with conjunct1 [OF three] row sc show ?thesis by (intro conjI exI [of _ row]) simp_all
qed

lemma scope_row_owned: "scope_row t T c w = Some row \<Longrightarrow>
   \<exists>j. job_row t (cj_id c) = Some j \<and> owned_row (cj_id c) w j \<and> pj_attempts j = cj_attempts c"
  by (auto simp: scope_row_def split: option.splits if_splits)

lemma heartbeat_row:
  "job_row (heartbeat now skip t c w) i =
     map_option (\<lambda>j. if owned_row (cj_id c) w j \<and> pj_attempts j = cj_attempts c \<and> \<not> skip (pj_id j)
       then j\<lparr>pj_locked_at := Some now\<rparr> else j) (job_row t i)"
  unfolding heartbeat_def by (rule job_row_update) simp

lemma queue_ok_heartbeat: "queue_ok t \<Longrightarrow> queue_ok (heartbeat now skip t c w)"
  unfolding heartbeat_def by (rule queue_ok_update) (auto simp: job_ok_def owned_row_def)

lemma owns_heartbeat: "owns (heartbeat now skip t c w) i v = owns t i v"
  by (cases "job_row t i") (simp_all add: owns_def heartbeat_row owned_row_def)

lemma maintain_ready: "ready (maintain acq beats)"
proof -
  have "ready (maintain_loop beats)" by (induction beats rule: maintain_loop.induct) simp_all
  then show ?thesis by (simp add: maintain_def split: sum.splits)
qed

lemma maintain_loop_lost:
  "lost (maintain_loop beats) \<longleftrightarrow> (\<exists>pre e post. beats = pre @ (Inl e, False) # post \<and> (\<forall>b \<in> set pre. is_ok (fst b)))"
proof (induction beats rule: maintain_loop.induct)
  case 1
  then show ?case by simp
next
  case (2 u b beats)
  have "(\<exists>pre e post. (Inr u, b) # beats = pre @ (Inl e, False) # post \<and> (\<forall>b \<in> set pre. is_ok (fst b)))
     \<longleftrightarrow> (\<exists>pre e post. beats = pre @ (Inl e, False) # post \<and> (\<forall>b \<in> set pre. is_ok (fst b)))"
    (is "?l \<longleftrightarrow> ?r")
  proof
    assume ?l
    then obtain pre e post where p: "(Inr u, b) # beats = pre @ (Inl e, False) # post"
      "\<forall>b \<in> set pre. is_ok (fst b)" by blast
    then show ?r by (cases pre) auto
  next
    assume ?r
    then obtain pre e post where "beats = pre @ (Inl e, False) # post" "\<forall>b \<in> set pre. is_ok (fst b)" by blast
    then show ?l by (intro exI [of _ "(Inr u, b) # pre"]) auto
  qed
  with 2 show ?case by simp
next
  case (3 e stopping beats)
  show ?case
  proof (cases stopping)
    case True
    have "\<not> ((Inl e, stopping) # beats = pre @ (Inl e', False) # post \<and> (\<forall>b \<in> set pre. is_ok (fst b)))"
      for pre e' post using True by (cases pre) auto
    with True show ?thesis by (simp only: maintain_loop.simps lease_run.select_convs) blast
  next
    case False
    then have "(Inl e, stopping) # beats = [] @ (Inl e, False) # beats" by simp
    then show ?thesis using False by (metis empty_iff list.set(1) lease_run.select_convs(3) maintain_loop.simps(3))
  qed
qed

end
