(* ===== verification/Lease_System.thy ===== *)
theory Lease_System
  imports Job_Lease
begin

text \<open>
  The consumers of all worker processes on one database, as a step relation: polling
  (\<^verbatim>\<open>consume_jobs\<close> in \<^verbatim>\<open>app/worker.py\<close>), the statements of \<^verbatim>\<open>_acquire\<close> one by one, heartbeats,
  the transactions that end an attempt, the deferral of a busy job, the loss of a lease
  connection, crashes, and the other clients of the queue (the API inserts jobs, deleting a
  workspace deletes its jobs).  The theorems state what the leases are for: no two live
  leases share a job, a repository or an exclusively used workspace; stale recovery never
  takes a leased job; and even a consumer whose lease connection is gone can only end the
  attempt that it claimed.
\<close>

section \<open>States and steps\<close>

text \<open>
  Where a consumer is.  \<open>Claimed\<close>: it holds a claim but no lock (not yet, or no longer after a
  failed acquisition).  \<open>JobLocked\<close>, \<open>Scoped\<close>, \<open>WorkspaceLocked\<close>: inside \<^verbatim>\<open>_acquire\<close>.
  \<open>Executing c scope alive ended\<close>: the lease is granted; \<open>alive\<close> as long as its connection is,
  \<open>ended\<close> once a transaction ended the attempt.
\<close>

datatype phase =
    Idle
  | Claimed claimed_job
  | JobLocked claimed_job
  | Scoped claimed_job "uuid option \<times> uuid option"
  | WorkspaceLocked claimed_job "uuid option \<times> uuid option"
  | Executing claimed_job "uuid option \<times> uuid option" bool bool

record system =
  queue :: jobs
  advisory_locks :: advisory
  phase_of :: "session \<Rightarrow> phase"

fun current_job :: "phase \<Rightarrow> claimed_job option" where
  "current_job Idle = None"
| "current_job (Claimed c) = Some c"
| "current_job (JobLocked c) = Some c"
| "current_job (Scoped c _) = Some c"
| "current_job (WorkspaceLocked c _) = Some c"
| "current_job (Executing c _ _ _) = Some c"

definition set_phase :: "session \<Rightarrow> phase \<Rightarrow> system \<Rightarrow> system" where
  "set_phase w p s = s\<lparr>phase_of := (phase_of s)(w := p)\<rparr>"

text \<open>
  Other clients may insert waiting jobs, change rows that are not RUNNING and delete rows.
  They neither touch a RUNNING row otherwise nor reuse the id of a job a consumer works on.
\<close>

definition other_clients :: "system \<Rightarrow> jobs \<Rightarrow> bool" where
  "other_clients s t' \<longleftrightarrow> queue_ok t' \<and>
     (\<forall>i j. job_row (queue s) i = Some j \<and> pj_status j = RUNNING \<longrightarrow> job_row t' i \<in> {None, Some j}) \<and>
     (\<forall>i j. job_row t' i = Some j \<and> pj_status j = RUNNING \<longrightarrow> job_row (queue s) i = Some j) \<and>
     (\<forall>w c. current_job (phase_of s w) = Some c \<and> job_row (queue s) (cj_id c) = None \<longrightarrow>
        job_row t' (cj_id c) = None)"

inductive step :: "(string \<Rightarrow> int) \<Rightarrow> system \<Rightarrow> system \<Rightarrow> bool" for h where
  poll_idle: "phase_of s w = Idle \<Longrightarrow>
     (\<forall>i. job_lock_held h (advisory_locks s) i \<longrightarrow> held i) \<Longrightarrow>
     claim_jobs now skip held (queue s) w 1 stale_after = Inr (([], recovered), t') \<Longrightarrow>
     step h s (s\<lparr>queue := t'\<rparr>)"
| poll_claim: "phase_of s w = Idle \<Longrightarrow>
     (\<forall>i. job_lock_held h (advisory_locks s) i \<longrightarrow> held i) \<Longrightarrow>
     claim_jobs now skip held (queue s) w 1 stale_after = Inr (([c], recovered), t') \<Longrightarrow>
     step h s (set_phase w (Claimed c) (s\<lparr>queue := t'\<rparr>))"
| lock_job: "phase_of s w = Claimed c \<Longrightarrow>
     try_lock h w (job_key (cj_id c)) False (advisory_locks s) = Inr locks' \<Longrightarrow>
     step h s (set_phase w (JobLocked c) (s\<lparr>advisory_locks := locks'\<rparr>))"
| check_owner: "phase_of s w = JobLocked c \<Longrightarrow>
     scope_row (queue s) T c w = Some row \<Longrightarrow>
     step h s (set_phase w (Scoped c (job_scope T c row)) s)"
| lock_workspace: "phase_of s w = Scoped c (ws, repo) \<Longrightarrow>
     (case ws of None \<Rightarrow> Inr (advisory_locks s)
      | Some x \<Rightarrow> try_lock h w (workspace_key x) (repo \<noteq> None) (advisory_locks s)) = Inr locks' \<Longrightarrow>
     step h s (set_phase w (WorkspaceLocked c (ws, repo)) (s\<lparr>advisory_locks := locks'\<rparr>))"
| lock_repository: "phase_of s w = WorkspaceLocked c (ws, repo) \<Longrightarrow>
     (case repo of None \<Rightarrow> Inr (advisory_locks s)
      | Some r \<Rightarrow> try_lock h w (repository_key r) False (advisory_locks s)) = Inr locks' \<Longrightarrow>
     step h s (set_phase w (Executing c (ws, repo) True False)
       (s\<lparr>advisory_locks := locks', queue := heartbeat now skip (queue s) c w\<rparr>))"
| acquisition_fails: "phase_of s w \<in> {JobLocked c, Scoped c sc, WorkspaceLocked c sc} \<Longrightarrow>
     step h s (set_phase w (Claimed c)
       (s\<lparr>advisory_locks := release_session w (advisory_locks s)\<rparr>))"
| defer_job: "phase_of s w = Claimed c \<Longrightarrow>
     requeue_txn now (queue s) (cj_id c) w (cj_payload c) 5 False = Inr ((), t') \<Longrightarrow>
     step h s (set_phase w Idle (s\<lparr>queue := t'\<rparr>))"
| give_up: "phase_of s w = Claimed c \<Longrightarrow> step h s (set_phase w Idle s)"
| beat: "phase_of s w = Executing c sc True ended \<Longrightarrow>
     step h s (s\<lparr>queue := heartbeat now skip (queue s) c w\<rparr>)"
| end_attempt: "phase_of s w = Executing c sc alive ended \<Longrightarrow>
     Inr t' \<in> set (endings now (queue s) (cj_id c) w f q) \<Longrightarrow>
     step h s (set_phase w (Executing c sc alive True) (s\<lparr>queue := t'\<rparr>))"
| lease_connection_lost: "phase_of s w = Executing c sc True ended \<Longrightarrow>
     step h s (set_phase w (Executing c sc False ended)
       (s\<lparr>advisory_locks := release_session w (advisory_locks s)\<rparr>))"
| leave_lease: "phase_of s w = Executing c sc alive ended \<Longrightarrow>
     step h s (set_phase w Idle (s\<lparr>advisory_locks := release_session w (advisory_locks s)\<rparr>))"
| crash: "step h s (set_phase w Idle (s\<lparr>advisory_locks := release_session w (advisory_locks s)\<rparr>))"
| others: "other_clients s t' \<Longrightarrow> step h s (s\<lparr>queue := t'\<rparr>)"

definition initial_system :: "jobs \<Rightarrow> system" where
  "initial_system t = \<lparr>queue = t, advisory_locks = [], phase_of = (\<lambda>_. Idle)\<rparr>"

inductive reachable :: "(string \<Rightarrow> int) \<Rightarrow> system \<Rightarrow> bool" for h where
  start: "queue_ok t \<Longrightarrow> reachable h (initial_system t)"
| next_step: "reachable h s \<Longrightarrow> step h s s' \<Longrightarrow> reachable h s'"

section \<open>The invariant\<close>

text \<open>The locks a consumer's session holds in each phase.\<close>

fun phase_locks :: "(string \<Rightarrow> int) \<Rightarrow> session \<Rightarrow> phase \<Rightarrow> (int \<times> session \<times> bool) set" where
  "phase_locks h w (JobLocked c) = {(h (job_key (cj_id c)), w, False)}"
| "phase_locks h w (Scoped c sc) = {(h (job_key (cj_id c)), w, False)}"
| "phase_locks h w (WorkspaceLocked c sc) =
     {(h (job_key (cj_id c)), w, False)} \<union>
     (case fst sc of None \<Rightarrow> {} | Some x \<Rightarrow> {(h (workspace_key x), w, snd sc \<noteq> None)})"
| "phase_locks h w (Executing c sc alive ended) = (if alive then lease_locks h (cj_id c) sc w else {})"
| "phase_locks h w _ = {}"

text \<open>The phases in which the ownership check has passed and the attempt is still open.\<close>

fun protected_job :: "phase \<Rightarrow> claimed_job option" where
  "protected_job (Scoped c sc) = Some c"
| "protected_job (WorkspaceLocked c sc) = Some c"
| "protected_job (Executing c sc True False) = Some c"
| "protected_job _ = None"

definition row_is_mine :: "jobs \<Rightarrow> session \<Rightarrow> claimed_job \<Rightarrow> bool" where
  "row_is_mine t w c \<longleftrightarrow>
     (case job_row t (cj_id c) of
        None \<Rightarrow> True
      | Some j \<Rightarrow> owned_row (cj_id c) w j \<and> pj_attempts j = cj_attempts c)"

definition same_attempt :: "jobs \<Rightarrow> session \<Rightarrow> claimed_job \<Rightarrow> bool" where
  "same_attempt t w c \<longleftrightarrow>
     (\<forall>j. job_row t (cj_id c) = Some j \<and> owned_row (cj_id c) w j \<longrightarrow> pj_attempts j = cj_attempts c)"

definition locks_match :: "(string \<Rightarrow> int) \<Rightarrow> advisory \<Rightarrow> (session \<Rightarrow> phase) \<Rightarrow> bool" where
  "locks_match h locks ph \<longleftrightarrow> (\<forall>k w a. (k, w, a) \<in> set locks \<longleftrightarrow> (k, w, a) \<in> phase_locks h w (ph w))"

definition jobs_match :: "jobs \<Rightarrow> (session \<Rightarrow> phase) \<Rightarrow> bool" where
  "jobs_match t ph \<longleftrightarrow>
     (\<forall>w c. (current_job (ph w) = Some c \<longrightarrow> same_attempt t w c) \<and>
            (protected_job (ph w) = Some c \<longrightarrow> row_is_mine t w c))"

definition system_ok :: "(string \<Rightarrow> int) \<Rightarrow> system \<Rightarrow> bool" where
  "system_ok h s \<longleftrightarrow> queue_ok (queue s) \<and> locks_ok (advisory_locks s) \<and>
     locks_match h (advisory_locks s) (phase_of s) \<and> jobs_match (queue s) (phase_of s)"

section \<open>How the parts of the invariant move\<close>

lemma phase_locks_session: "(k, w', a) \<in> phase_locks h w p \<Longrightarrow> w' = w"
  by (cases p) (auto simp: lease_locks_def split: option.splits if_splits)

lemma locks_match_insert:
  assumes "locks_match h locks ph" and "set locks' = X \<union> set locks"
    and "phase_locks h w p = X \<union> phase_locks h w (ph w)"
  shows "locks_match h locks' (ph(w := p))"
  unfolding locks_match_def
proof (intro allI)
  fix k v a
  have "(k, v, a) \<in> X \<Longrightarrow> v = w" using assms(3) phase_locks_session [of k v a h w p] by blast
  then show "(k, v, a) \<in> set locks' \<longleftrightarrow> (k, v, a) \<in> phase_locks h v ((ph(w := p)) v)"
    using assms by (cases "v = w") (auto simp: locks_match_def)
qed

lemma locks_match_same:
  "locks_match h locks ph \<Longrightarrow> phase_locks h w p = phase_locks h w (ph w) \<Longrightarrow> locks_match h locks (ph(w := p))"
  by (rule locks_match_insert [of h locks ph locks "{}"]) simp_all

lemma locks_match_release:
  "locks_match h locks ph \<Longrightarrow> phase_locks h w p = {} \<Longrightarrow> locks_match h (release_session w locks) (ph(w := p))"
  by (simp add: locks_match_def release_session_def)

lemma jobs_match_phase:
  assumes "jobs_match t ph"
    and "\<And>c. current_job p = Some c \<Longrightarrow> same_attempt t w c"
    and "\<And>c. protected_job p = Some c \<Longrightarrow> row_is_mine t w c"
  shows "jobs_match t (ph(w := p))"
  using assms by (simp add: jobs_match_def)

lemma jobs_match_queue:
  assumes "jobs_match t ph"
    and "\<And>w c. current_job (ph w) = Some c \<Longrightarrow> same_attempt t w c \<Longrightarrow> same_attempt t' w c"
    and "\<And>w c. protected_job (ph w) = Some c \<Longrightarrow> row_is_mine t w c \<Longrightarrow> row_is_mine t' w c"
  shows "jobs_match t' ph"
  using assms unfolding jobs_match_def by blast

text \<open>A claim changes RUNNING rows only by taking them, and no leased row at all.\<close>

lemma claim_rows:
  assumes "claim_jobs now skip held t w limit s = Inr ((cs, cb), t')" and "queue_ok t"
  shows claim_new: "job_row t' i = Some j' \<Longrightarrow> pj_status j' = RUNNING \<Longrightarrow>
      job_row t i = Some j' \<or>
      (\<exists>c \<in> set cs. cj_id c = i \<and> pj_locked_by j' = Some w \<and> pj_attempts j' = cj_attempts c)"
    and claim_held: "held i \<Longrightarrow> job_row t i = Some j \<Longrightarrow> pj_status j = RUNNING \<Longrightarrow> job_row t' i = Some j"
    and claim_absent: "job_row t i = None \<Longrightarrow> job_row t' i = None"
    and claim_mine: "c \<in> set cs \<Longrightarrow> same_attempt t' w c"
proof -
  define t1 where "t1 = snd (recover_stale_jobs now skip held s t)"
  define sel where "sel = claim_selection now skip (nat limit) t1"
  have ok1: "queue_ok t1" unfolding t1_def using assms(2) by (rule queue_ok_recover)
  note unf = claim_jobs_unfold [OF assms, folded t1_def, folded sel_def]
  have rec: "job_row t1 i = map_option (\<lambda>j. if recoverable now skip held s j then recovered_row now j else j)
      (job_row t i)" for i
    unfolding t1_def recover_stale_jobs_eq snd_conv by (rule job_row_update) simp
  have cl: "job_row t' i = map_option (\<lambda>j. if pj_id j \<in> pj_id ` set sel then claim_row now w j else j)
      (job_row t1 i)" for i
    unfolding unf(2) by (rule job_row_update) simp
  have selD: "job_row t1 (pj_id j) = Some j \<and> claimable now j" if "j \<in> set sel" for j
    using that claim_selection_set job_row_in_set [OF queue_ok_distinct [OF ok1]]
    unfolding sel_def by fastforce
  have taken: "\<exists>c \<in> set cs. cj_id c = i \<and> pj_attempts (claim_row now w j) = cj_attempts c"
    if "job_row t1 i = Some j" "i \<in> pj_id ` set sel" for i j
  proof -
    from that(2) obtain k where k: "k \<in> set sel" "pj_id k = i" by auto
    with selD [OF k(1)] that(1) have "k = j" by simp
    with k unf(1) show ?thesis by (auto simp: from_row_def)
  qed
  show "job_row t i = Some j' \<or>
      (\<exists>c \<in> set cs. cj_id c = i \<and> pj_locked_by j' = Some w \<and> pj_attempts j' = cj_attempts c)"
    if j': "job_row t' i = Some j'" "pj_status j' = RUNNING"
  proof -
    from j'(1) cl [of i] obtain j where j: "job_row t1 i = Some j"
      "j' = (if pj_id j \<in> pj_id ` set sel then claim_row now w j else j)" by auto
    have id: "pj_id j = i" using job_row_Some [OF j(1)] by simp
    show ?thesis
    proof (cases "i \<in> pj_id ` set sel")
      case True
      with taken [OF j(1) True] j(2) id show ?thesis by auto
    next
      case False
      with j id have "job_row t1 i = Some j'" by simp
      with rec [of i] j'(2) show ?thesis by (cases "job_row t i") (auto split: if_splits)
    qed
  qed
  show "job_row t' i = Some j" if "held i" "job_row t i = Some j" "pj_status j = RUNNING"
  proof -
    have id: "pj_id j = i" using job_row_Some [OF that(2)] by simp
    with that rec [of i] have t1: "job_row t1 i = Some j" by (simp add: recoverable_def)
    have "i \<notin> pj_id ` set sel"
    proof
      assume "i \<in> pj_id ` set sel"
      then obtain k where "k \<in> set sel" "pj_id k = i" by auto
      with selD [of k] t1 that(3) show False by (auto simp: claimable_def)
    qed
    with t1 cl [of i] id show ?thesis by simp
  qed
  show "job_row t' i = None" if "job_row t i = None" using that rec [of i] cl [of i] by simp
  show "same_attempt t' w c" if c: "c \<in> set cs"
  proof -
    from c unf(1) obtain k where k: "k \<in> set sel" "c = from_row (claim_row now w k)" by auto
    then have id: "cj_id c = pj_id k" and att: "cj_attempts c = pj_attempts (claim_row now w k)"
      by (simp_all add: from_row_def)
    have "job_row t' (cj_id c) = Some (claim_row now w k)"
      using selD [OF k(1)] cl [of "pj_id k"] k(1) id by simp
    with att show ?thesis by (simp add: same_attempt_def)
  qed
qed

lemma heartbeat_same_attempt: "same_attempt (heartbeat now skip t d v) w c = same_attempt t w c"
  by (cases "job_row t (cj_id c)") (simp_all add: same_attempt_def heartbeat_row owned_row_def)

lemma heartbeat_mine: "row_is_mine (heartbeat now skip t d v) w c = row_is_mine t w c"
  by (cases "job_row t (cj_id c)") (simp_all add: row_is_mine_def heartbeat_row owned_row_def)

lemma row_is_mine_attempt: "row_is_mine t w c \<Longrightarrow> same_attempt t w c"
  by (auto simp: row_is_mine_def same_attempt_def)

text \<open>Ending an attempt: facts about every other consumer's claim.\<close>

lemma ending_rows:
  assumes "queue_ok t" and "Inr t' \<in> set (endings now t i w f q)"
  shows ending_ok: "queue_ok t'"
    and ending_owner: "owns t i w"
    and ending_same: "same_attempt t v c \<Longrightarrow> same_attempt t' v c"
    and ending_mine: "v \<noteq> w \<Longrightarrow> row_is_mine t v c \<Longrightarrow> row_is_mine t' v c"
proof -
  have base: "owns t i w \<and> queue_ok t' \<and> (\<forall>k. k \<noteq> i \<longrightarrow> job_row t' k = job_row t k) \<and> (\<forall>v. \<not> owns t' i v)"
    using assms(2)
  proof (cases rule: ending_cases)
    case succeeded
    note l = assms(1) succeeded
    show ?thesis using succeed.fin_owned [OF l] succeed.fin_ok [OF l] succeed.fin_frame [OF l]
      succeed.nobody_owns [OF l] by blast
  next
    case (failing st fnow u err perm jit ra)
    note l = assms(1) failing
    show ?thesis using failing.fin_owned [OF l] failing.fin_ok [OF l] failing.fin_frame [OF l]
      failing.nobody_owns [OF l] by blast
  next
    case (requeued p d b)
    note l = assms(1) requeued
    show ?thesis using requeue.fin_owned [OF l] requeue.fin_ok [OF l] requeue.fin_frame [OF l]
      requeue.nobody_owns [OF l] by blast
  qed
  then show "queue_ok t'" and own: "owns t i w" by blast+
  from base have frame: "k \<noteq> i \<Longrightarrow> job_row t' k = job_row t k" and none: "\<not> owns t' i v" for k v by blast+
  show "same_attempt t v c \<Longrightarrow> same_attempt t' v c"
    using frame [of "cj_id c"] none by (cases "cj_id c = i") (auto simp: same_attempt_def owns_def)
  show "row_is_mine t v c \<Longrightarrow> row_is_mine t' v c" if "v \<noteq> w"
  proof -
    assume mine: "row_is_mine t v c"
    have "cj_id c \<noteq> i"
    proof
      assume "cj_id c = i"
      with mine own that show False by (auto simp: row_is_mine_def owns_def owned_row_def)
    qed
    with mine frame show ?thesis by (simp add: row_is_mine_def)
  qed
qed

lemma requeue_ending: "requeue_txn now t i w p d b = Inr ((), t') \<Longrightarrow>
    Inr t' \<in> set (endings now t i w (0, 0, [], False, None, None) (p, d, b))"
  by (simp add: endings_def)

lemma others_rows:
  assumes "other_clients s t'"
  shows "queue_ok t'"
    and "current_job (phase_of s w) = Some c \<Longrightarrow> same_attempt (queue s) w c \<Longrightarrow> same_attempt t' w c"
    and "current_job (phase_of s w) = Some c \<Longrightarrow> row_is_mine (queue s) w c \<Longrightarrow> row_is_mine t' w c"
proof -
  show "queue_ok t'" using assms by (simp add: other_clients_def)
  show "same_attempt t' w c" if "same_attempt (queue s) w c"
    using that assms by (auto simp: other_clients_def same_attempt_def owned_row_def)
  show "row_is_mine t' w c" if c: "current_job (phase_of s w) = Some c" "row_is_mine (queue s) w c"
  proof (cases "job_row (queue s) (cj_id c)")
    case None
    with c assms have "job_row t' (cj_id c) = None" unfolding other_clients_def by blast
    then show ?thesis by (simp add: row_is_mine_def)
  next
    case (Some j)
    with c(2) have j: "owned_row (cj_id c) w j" "pj_attempts j = cj_attempts c" by (simp_all add: row_is_mine_def)
    with Some assms have "job_row t' (cj_id c) \<in> {None, Some j}"
      unfolding other_clients_def by (auto simp: owned_row_def)
    with j show ?thesis by (auto simp: row_is_mine_def)
  qed
qed

section \<open>Every step keeps the invariant\<close>

lemma protected_locked: "protected_job p = Some c \<Longrightarrow> (h (job_key (cj_id c)), w, False) \<in> phase_locks h w p"
  by (cases p rule: protected_job.cases) (auto simp: lease_locks_def)

lemma protected_current: "protected_job p = Some c \<Longrightarrow> current_job p = Some c"
  by (cases p rule: protected_job.cases) simp_all

lemma protected_held:
  assumes "locks_match h locks ph" and "protected_job (ph w) = Some c"
    and "\<forall>i. job_lock_held h locks i \<longrightarrow> held i"
  shows "held (cj_id c)"
proof -
  have "(h (job_key (cj_id c)), w, False) \<in> set locks"
    using assms(1) protected_locked [OF assms(2)] by (simp add: locks_match_def)
  then have "job_lock_held h locks (cj_id c)" by (auto simp: job_lock_held_def)
  with assms(3) show ?thesis by blast
qed

lemma poll_keeps:
  assumes ok: "system_ok h s" and idle: "phase_of s w = Idle"
    and held: "\<forall>i. job_lock_held h (advisory_locks s) i \<longrightarrow> held i"
    and cl: "claim_jobs now skip held (queue s) w 1 sa = Inr ((cs, cb), t')"
  shows "queue_ok t' \<and> jobs_match t' (phase_of s)"
proof -
  from ok have q: "queue_ok (queue s)" and lm: "locks_match h (advisory_locks s) (phase_of s)"
    and jm: "jobs_match (queue s) (phase_of s)" by (simp_all add: system_ok_def)
  note rows = claim_rows [OF cl q]
  have "jobs_match t' (phase_of s)"
  proof (rule jobs_match_queue [OF jm])
    fix v c assume cur: "current_job (phase_of s v) = Some c" and sa: "same_attempt (queue s) v c"
    from cur idle have "v \<noteq> w" by auto
    with sa rows(1) show "same_attempt t' v c" by (fastforce simp: same_attempt_def owned_row_def)
  next
    fix v c assume pr: "protected_job (phase_of s v) = Some c" and mine: "row_is_mine (queue s) v c"
    have h: "held (cj_id c)" by (rule protected_held [OF lm pr held])
    show "row_is_mine t' v c"
    proof (cases "job_row (queue s) (cj_id c)")
      case None
      with rows(3) show ?thesis by (simp add: row_is_mine_def)
    next
      case (Some j)
      with mine have "owned_row (cj_id c) v j \<and> pj_attempts j = cj_attempts c" by (simp add: row_is_mine_def)
      with rows(2) [OF h Some] show ?thesis by (simp add: row_is_mine_def owned_row_def)
    qed
  qed
  with queue_ok_claim [OF cl q] show ?thesis by simp
qed

lemma set_phase_simps [simp]:
  "queue (set_phase w p s) = queue s"
  "advisory_locks (set_phase w p s) = advisory_locks s"
  "phase_of (set_phase w p s) = (phase_of s)(w := p)"
  by (simp_all add: set_phase_def)

lemma set_phase_queue: "set_phase w p (s\<lparr>queue := t\<rparr>) = (set_phase w p s)\<lparr>queue := t\<rparr>"
  by (cases s) (simp add: set_phase_def)

text \<open>The three shapes of a step: it takes locks, it releases the session's locks, it writes the queue.\<close>

lemma ok_locking:
  assumes ok: "system_ok h s" and "locks_ok locks'" and "set locks' = X \<union> set (advisory_locks s)"
    and "phase_locks h w p = X \<union> phase_locks h w (phase_of s w)"
    and "\<And>c. current_job p = Some c \<Longrightarrow> same_attempt (queue s) w c"
    and "\<And>c. protected_job p = Some c \<Longrightarrow> row_is_mine (queue s) w c"
  shows "system_ok h (set_phase w p (s\<lparr>advisory_locks := locks'\<rparr>))"
  using assms locks_match_insert [of h "advisory_locks s" "phase_of s" locks' X w p]
  by (simp add: system_ok_def jobs_match_phase)

lemma ok_releasing:
  assumes "system_ok h s" and "phase_locks h w p = {}" and "protected_job p = None"
    and "\<And>c. current_job p = Some c \<Longrightarrow> same_attempt (queue s) w c"
  shows "system_ok h (set_phase w p (s\<lparr>advisory_locks := release_session w (advisory_locks s)\<rparr>))"
proof -
  have "jobs_match (queue s) ((phase_of s)(w := p))"
    by (rule jobs_match_phase) (use assms in \<open>simp_all add: system_ok_def\<close>)
  with assms(1,2) show ?thesis by (simp add: system_ok_def locks_ok_release locks_match_release)
qed

lemma ok_phase:
  assumes "system_ok h s" and "phase_locks h w p = phase_locks h w (phase_of s w)"
    and "\<And>c. current_job p = Some c \<Longrightarrow> same_attempt (queue s) w c"
    and "\<And>c. protected_job p = Some c \<Longrightarrow> row_is_mine (queue s) w c"
  shows "system_ok h (set_phase w p s)"
  using assms by (simp add: system_ok_def locks_match_same jobs_match_phase)

lemma ok_heartbeat:
  "system_ok h s \<Longrightarrow> system_ok h (s\<lparr>queue := heartbeat now skip (queue s) c w\<rparr>)"
  by (simp add: system_ok_def queue_ok_heartbeat jobs_match_def heartbeat_same_attempt heartbeat_mine)

lemma ok_attempt:
  "system_ok h s \<Longrightarrow> current_job (phase_of s w) = Some c \<Longrightarrow> same_attempt (queue s) w c"
  by (simp add: system_ok_def jobs_match_def)

lemma ok_mine:
  "system_ok h s \<Longrightarrow> protected_job (phase_of s w) = Some c \<Longrightarrow> row_is_mine (queue s) w c"
  by (simp add: system_ok_def jobs_match_def)

lemma ok_ending:
  assumes ok: "system_ok h s" and cur: "current_job (phase_of s w) = Some c"
    and e: "Inr t' \<in> set (endings now (queue s) (cj_id c) w f q)"
    and locks: "phase_locks h w p = phase_locks h w (phase_of s w)" and pr: "protected_job p = None"
    and p: "\<And>d. current_job p = Some d \<Longrightarrow> d = c"
  shows "system_ok h (set_phase w p (s\<lparr>queue := t'\<rparr>))"
proof -
  have q: "queue_ok (queue s)" using ok by (simp add: system_ok_def)
  note rows = ending_rows [OF q e]
  have "jobs_match t' ((phase_of s)(w := p))"
    unfolding jobs_match_def
  proof (intro allI conjI impI)
    fix v d assume "current_job (((phase_of s)(w := p)) v) = Some d"
    then have "current_job (phase_of s v) = Some d" using p cur by (auto split: if_splits)
    from rows(3) [OF ok_attempt [OF ok this]] show "same_attempt t' v d" .
  next
    fix v d assume d: "protected_job (((phase_of s)(w := p)) v) = Some d"
    then have "v \<noteq> w" using pr by auto
    with d have "protected_job (phase_of s v) = Some d" by simp
    from rows(4) [OF \<open>v \<noteq> w\<close> ok_mine [OF ok this]] show "row_is_mine t' v d" .
  qed
  with ok rows(1) locks show ?thesis by (simp add: system_ok_def locks_match_same)
qed

lemma step_keeps: "step h s s' \<Longrightarrow> system_ok h s \<Longrightarrow> system_ok h s'"
proof (induction rule: step.induct)
  case (poll_idle s w held now skip stale_after recovered t')
  from poll_keeps [OF poll_idle(4,1,2,3)] poll_idle(4) show ?case by (simp add: system_ok_def)
next
  case (poll_claim s w held now skip stale_after c recovered t')
  from poll_keeps [OF poll_claim(4,1,2,3)] poll_claim(4)
  have "system_ok h (s\<lparr>queue := t'\<rparr>)" by (simp add: system_ok_def)
  moreover have "same_attempt t' w c"
    using claim_rows(4) [OF poll_claim(3)] poll_claim(4) by (simp add: system_ok_def)
  ultimately show ?case using poll_claim(1) by (intro ok_phase) simp_all
next
  case (lock_job s w c locks')
  from lock_job(3) have "locks_ok (advisory_locks s)" by (simp add: system_ok_def)
  from try_lock_granted [OF lock_job(2) this] lock_job(1) ok_attempt [OF lock_job(3), of w]
  show ?case
    by (intro ok_locking [OF lock_job(3), of _ "{(h (job_key (cj_id c)), w, False)}"]) simp_all
next
  case (check_owner s w c T row)
  from scope_row_owned [OF check_owner(2)]
  have "row_is_mine (queue s) w c" by (auto simp: row_is_mine_def)
  with check_owner show ?case
    by (intro ok_phase [OF check_owner(3)]) (simp_all add: row_is_mine_attempt)
next
  case (lock_workspace s w c ws repo locks')
  from lock_workspace(3) have lo: "locks_ok (advisory_locks s)" by (simp add: system_ok_def)
  let ?X = "case ws of None \<Rightarrow> {} | Some x \<Rightarrow> {(h (workspace_key x), w, repo \<noteq> None)}"
  have "locks_ok locks' \<and> set locks' = ?X \<union> set (advisory_locks s)"
    using lock_workspace(2) lo try_lock_granted [OF _ lo] by (cases ws) simp_all
  then show ?case
    using lock_workspace(1) ok_attempt [OF lock_workspace(3), of w] ok_mine [OF lock_workspace(3), of w]
    by (intro ok_locking [OF lock_workspace(3), of _ ?X]) (auto split: option.splits)
next
  case (lock_repository s w c ws repo locks' now skip)
  from lock_repository(3) have lo: "locks_ok (advisory_locks s)" by (simp add: system_ok_def)
  let ?X = "case repo of None \<Rightarrow> {} | Some r \<Rightarrow> {(h (repository_key r), w, False)}"
  have "locks_ok locks' \<and> set locks' = ?X \<union> set (advisory_locks s)"
    using lock_repository(2) lo try_lock_granted [OF _ lo] by (cases repo) simp_all
  then have "system_ok h (set_phase w (Executing c (ws, repo) True False) (s\<lparr>advisory_locks := locks'\<rparr>))"
    using lock_repository(1) ok_attempt [OF lock_repository(3), of w] ok_mine [OF lock_repository(3), of w]
    by (intro ok_locking [OF lock_repository(3), of _ ?X]) (auto simp: lease_locks_def)
  from ok_heartbeat [OF this, of now skip c w] show ?case by (simp add: set_phase_queue)
next
  case (acquisition_fails s w c sc)
  then show ?case using ok_attempt [OF acquisition_fails(2), of w] by (intro ok_releasing) auto
next
  case (defer_job s w c now t')
  from requeue_ending [OF defer_job(2)] defer_job(1)
  show ?case by (intro ok_ending [OF defer_job(3), of w c]) simp_all
next
  case (give_up s w c)
  then show ?case by (intro ok_phase) simp_all
next
  case (beat s w c sc ended now skip)
  then show ?case by (simp add: ok_heartbeat)
next
  case (end_attempt s w c sc alive ended t' now f q)
  then show ?case by (intro ok_ending [OF end_attempt(3), of w c]) simp_all
next
  case (lease_connection_lost s w c sc ended)
  then show ?case using ok_attempt [OF lease_connection_lost(2), of w] by (intro ok_releasing) simp_all
next
  case (leave_lease s w c sc alive ended)
  then show ?case by (intro ok_releasing) simp_all
next
  case (crash s w)
  then show ?case by (intro ok_releasing) simp_all
next
  case (others s t')
  note rows = others_rows [OF others(1)]
  have "jobs_match t' (phase_of s)"
    by (rule jobs_match_queue [of "queue s"])
      (use others(2) in \<open>auto simp: system_ok_def intro: rows(2,3) protected_current\<close>)
  with others(2) rows(1) show ?case by (simp add: system_ok_def)
qed

lemma reachable_ok: "reachable h s \<Longrightarrow> system_ok h s"
proof (induction rule: reachable.induct)
  case (start t)
  then show ?case by (simp add: initial_system_def system_ok_def locks_match_def jobs_match_def)
next
  case (next_step s s')
  then show ?case using step_keeps by blast
qed

section \<open>What the leases guarantee\<close>

text \<open>
  C1: No two consumers hold live leases on conflicting work: while two leases are alive, they are
  on different jobs and different repositories, and if they are on the same workspace then
  both are narrowed to a repository (work on a whole workspace runs alone in it).  This holds
  in every reachable state, whatever the interleaving and whatever the lock hash.
\<close>

theorem lease_mutual_exclusion:
  assumes "reachable h s" and "v \<noteq> w"
    and "phase_of s v = Executing c (ws1, repo1) True e1"
    and "phase_of s w = Executing d (ws2, repo2) True e2"
  shows "cj_id c \<noteq> cj_id d \<and> (repo1 = None \<or> repo1 \<noteq> repo2) \<and>
     (ws1 = None \<or> ws1 \<noteq> ws2 \<or> repo1 \<noteq> None \<and> repo2 \<noteq> None)"
proof -
  from reachable_ok [OF assms(1)] have lo: "locks_ok (advisory_locks s)"
    and lm: "locks_match h (advisory_locks s) (phase_of s)" by (simp_all add: system_ok_def)
  have excl: "a \<and> b" if "(k, v, a) \<in> lease_locks h (cj_id c) (ws1, repo1) v"
      "(k, w, b) \<in> lease_locks h (cj_id d) (ws2, repo2) w" for k a b
  proof -
    have "(k, v, a) \<in> set (advisory_locks s)" "(k, w, b) \<in> set (advisory_locks s)"
      using lm that assms(3,4) by (simp_all add: locks_match_def)
    from locks_okD [OF lo this assms(2)] show ?thesis .
  qed
  have "cj_id c \<noteq> cj_id d"
    using excl [of "h (job_key (cj_id c))" False False] by (auto simp: lease_locks_def)
  moreover have "repo1 = None \<or> repo1 \<noteq> repo2"
  proof (cases repo1)
    case (Some r)
    with excl [of "h (repository_key r)" False False] show ?thesis by (auto simp: lease_locks_def)
  qed simp
  moreover have "ws1 = None \<or> ws1 \<noteq> ws2 \<or> repo1 \<noteq> None \<and> repo2 \<noteq> None"
  proof (cases ws1)
    case (Some x)
    with excl [of "h (workspace_key x)" "repo1 \<noteq> None" "repo2 \<noteq> None"]
    show ?thesis by (auto simp: lease_locks_def)
  qed simp
  ultimately show ?thesis by blast
qed

text \<open>
  C2: While a lease is alive and its attempt is open, nobody takes the job away: its row is
  still RUNNING, owned by the consumer and at the attempt it claimed (or it was deleted), and
  stale recovery, at any time and with any expiry, leaves the row as it is.
\<close>

theorem lease_protects_attempt:
  assumes "reachable h s" and "phase_of s w = Executing c sc True False"
    and "\<forall>i. job_lock_held h (advisory_locks s) i \<longrightarrow> held i"
  shows "(case job_row (queue s) (cj_id c) of
            None \<Rightarrow> True
          | Some j \<Rightarrow> owned_row (cj_id c) w j \<and> pj_attempts j = cj_attempts c) \<and>
     job_row (snd (recover_stale_jobs now skip held expiry (queue s))) (cj_id c) =
       job_row (queue s) (cj_id c)"
proof -
  note ok = reachable_ok [OF assms(1)]
  then have q: "queue_ok (queue s)" and lm: "locks_match h (advisory_locks s) (phase_of s)"
    by (simp_all add: system_ok_def)
  have pr: "protected_job (phase_of s w) = Some c" using assms(2) by simp
  have "held (cj_id c)" by (rule protected_held [OF lm pr assms(3)])
  then have "job_row (snd (recover_stale_jobs now skip held expiry (queue s))) (cj_id c) =
       job_row (queue s) (cj_id c)"
    unfolding recover_stale_jobs_eq snd_conv job_row_update [OF recovered_row_id]
    by (cases "job_row (queue s) (cj_id c)") (auto simp: recoverable_def dest: job_row_Some)
  with ok_mine [OF ok pr] show ?thesis by (simp add: row_is_mine_def)
qed

text \<open>
  A consumer can end only the attempt that it claimed, even after its lease connection is
  lost and the job has been recovered and claimed again: whenever one of the three ending
  transactions succeeds for the job a consumer works on, the row is at the attempt number of
  the consumer's claim.
\<close>

theorem endings_are_fenced:
  assumes "reachable h s" and "current_job (phase_of s w) = Some c"
    and "Inr t' \<in> set (endings now (queue s) (cj_id c) w f q)"
  shows "\<exists>j. job_row (queue s) (cj_id c) = Some j \<and> owned_row (cj_id c) w j \<and>
     pj_attempts j = cj_attempts c"
proof -
  note ok = reachable_ok [OF assms(1)]
  then have "queue_ok (queue s)" by (simp add: system_ok_def)
  from ending_rows(2) [OF this assms(3)] ok_attempt [OF ok assms(2)]
  show ?thesis by (auto simp: owns_def same_attempt_def)
qed

section \<open>The statements of an acquisition refine it\<close>

inductive steps :: "(string \<Rightarrow> int) \<Rightarrow> system \<Rightarrow> system \<Rightarrow> bool" for h where
  no_step: "steps h s s"
| one_more: "steps h s s' \<Longrightarrow> step h s' s'' \<Longrightarrow> steps h s s''"

lemma reachable_steps: "steps h s s' \<Longrightarrow> reachable h s \<Longrightarrow> reachable h s'"
  by (induction rule: steps.induct) (auto intro: reachable.next_step)

definition with_lease ::
  "time \<Rightarrow> (uuid \<Rightarrow> bool) \<Rightarrow> session \<Rightarrow> claimed_job \<Rightarrow> uuid option \<times> uuid option \<Rightarrow> advisory \<Rightarrow> system \<Rightarrow> system" where
  "with_lease now skip w c scope locks' s =
     s\<lparr>queue := heartbeat now skip (queue s) c w, advisory_locks := locks',
       phase_of := (phase_of s)(w := Executing c scope True False)\<rparr>"

lemma acquire_path:
  assumes "phase_of s w = Claimed c"
    and "acquire h (queue s) T (advisory_locks s) c w = Inr (scope, locks')"
  shows "steps h s (with_lease now skip w c scope locks' s)"
proof -
  obtain ws repo where sc: "scope = (ws, repo)" by fastforce
  from assms(2) have "acquire h (queue s) T (advisory_locks s) c w = Inr ((ws, repo), locks')" unfolding sc .
  then obtain l1 l2 row where
    l1: "try_lock h w (job_key (cj_id c)) False (advisory_locks s) = Inr l1"
    and row: "scope_row (queue s) T c w = Some row" "job_scope T c row = (ws, repo)"
    and l2: "(case ws of None \<Rightarrow> Inr l1 | Some x \<Rightarrow> try_lock h w (workspace_key x) (repo \<noteq> None) l1) = Inr l2"
    and l3: "(case repo of None \<Rightarrow> Inr l2 | Some r \<Rightarrow> try_lock h w (repository_key r) False l2) = Inr locks'"
    by (rule acquire_steps)
  define s1 where "s1 = set_phase w (JobLocked c) (s\<lparr>advisory_locks := l1\<rparr>)"
  define s2 where "s2 = set_phase w (Scoped c (ws, repo)) s1"
  define s3 where "s3 = set_phase w (WorkspaceLocked c (ws, repo)) (s2\<lparr>advisory_locks := l2\<rparr>)"
  define s4 where "s4 = set_phase w (Executing c (ws, repo) True False)
       (s3\<lparr>advisory_locks := locks', queue := heartbeat now skip (queue s3) c w\<rparr>)"
  note ds = s1_def s2_def s3_def s4_def
  have a2: "advisory_locks s2 = l1" and a3: "advisory_locks s3 = l2"
    by (simp_all add: s1_def s2_def s3_def)
  have t1: "step h s s1" unfolding s1_def by (rule step.lock_job [OF assms(1) l1])
  have t2: "step h s1 s2" unfolding s2_def row(2) [symmetric]
    by (rule step.check_owner) (use row in \<open>simp_all add: s1_def\<close>)
  have t3: "step h s2 s3" unfolding s3_def
    by (rule step.lock_workspace [of s2 w c ws repo h l2, OF _ l2 [folded a2]]) (simp add: s2_def)
  have t4: "step h s3 s4" unfolding s4_def
    by (rule step.lock_repository [of s3 w c ws repo h locks', OF _ l3 [folded a3]]) (simp add: s3_def)
  have "steps h s s4"
    by (rule steps.one_more [OF steps.one_more [OF steps.one_more [OF steps.one_more [OF
          steps.no_step t1] t2] t3] t4])
  moreover have "s4 = with_lease now skip w c scope locks' s"
    unfolding ds sc by (cases s) (simp add: set_phase_def with_lease_def)
  ultimately show ?thesis by simp
qed

text \<open>
  C13: The uninterrupted acquisition is an execution of the system: if \<^verbatim>\<open>lease_enter\<close> grants a
  lease to a consumer that has claimed the job, the single steps lead from the claim to the
  granted lease with the same scope, the same lock table and the first heartbeat written; and
  if it raises, the lock table is as before, however many locks it had taken.
\<close>

theorem acquisition_refined:
  assumes "phase_of s w = Claimed c" and "locks_match h (advisory_locks s) (phase_of s)"
  shows "case lease_enter h (queue s) T (advisory_locks s) c w of
      (Inr scope, locks') \<Rightarrow> steps h s (with_lease now skip w c scope locks' s)
    | (Inl e, locks') \<Rightarrow> set locks' = set (advisory_locks s)"
proof (cases "acquire h (queue s) T (advisory_locks s) c w")
  case (Inl e)
  have "(k, w, a) \<notin> set (advisory_locks s)" for k a
    using assms by (simp add: locks_match_def)
  then have "set (release_session w (advisory_locks s)) = set (advisory_locks s)"
    by (auto simp: release_session_def)
  then show ?thesis using Inl by (simp add: lease_enter_def)
next
  case (Inr r)
  obtain scope locks' where r: "r = (scope, locks')" by (cases r)
  from acquire_path [OF assms(1) Inr [unfolded r]] Inr r show ?thesis by (simp add: lease_enter_def)
qed

end
