(* ===== verification/Lease_Examples.thy ===== *)
theory Lease_Examples
  imports Lease_System
begin

text \<open>
  Two consumers on two repositories of one workspace, run step by step to the state where both
  execute, and the lease theorems applied there.
\<close>

section \<open>The run\<close>

definition sample_hash :: "string \<Rightarrow> int" where
  "sample_hash k = 256 * int (length k) + of_char (last k)"

definition sample_tables :: scope_tables where
  "sample_tables = \<lparr>event_scope = (\<lambda>_. None), repository_workspace = (\<lambda>r. Some 20), jira_workspace = (\<lambda>_. None)\<rparr>"

text \<open>Two jobs on different repositories of workspace 20.\<close>

definition two_jobs :: jobs where
  "two_jobs = [(sample_job 1)\<lparr>pj_repository_id := Some 10, pj_job_type := ''BACKFILL_REPOSITORY''\<rparr>,
     (sample_job 2)\<lparr>pj_repository_id := Some 11, pj_job_type := ''BACKFILL_REPOSITORY''\<rparr>]"

definition claim_by :: "session \<Rightarrow> system \<Rightarrow> ((claimed_job list \<times> stale_job_recovery option) \<times> jobs) result" where
  "claim_by w s = claim_jobs 5 (\<lambda>_. False) (job_lock_held sample_hash (advisory_locks s)) (queue s) w 1 900"

definition taken_by :: "session \<Rightarrow> system \<Rightarrow> claimed_job" where
  "taken_by w s = hd (fst (fst (projr (claim_by w s))))"

definition enter_by :: "session \<Rightarrow> system \<Rightarrow> system" where
  "enter_by w s =
     (let c = taken_by w s;
          s1 = set_phase w (Claimed c) (s\<lparr>queue := snd (projr (claim_by w s))\<rparr>)
      in case acquire sample_hash (queue s1) sample_tables (advisory_locks s) c w of
           Inr (scope, locks) \<Rightarrow> with_lease 6 (\<lambda>_. False) w c scope locks s1
         | Inl _ \<Rightarrow> s)"

lemma enter_by_reachable:
  assumes "reachable sample_hash s" and "phase_of s w = Idle"
    and "claim_by w s = Inr (([taken_by w s], None), snd (projr (claim_by w s)))"
  shows "reachable sample_hash (enter_by w s)"
proof -
  let ?c = "taken_by w s"
  let ?s1 = "set_phase w (Claimed ?c) (s\<lparr>queue := snd (projr (claim_by w s))\<rparr>)"
  have "step sample_hash s ?s1"
  proof (rule step.poll_claim [OF assms(2)])
    show "\<forall>i. job_lock_held sample_hash (advisory_locks s) i \<longrightarrow>
        job_lock_held sample_hash (advisory_locks s) i" by simp
    show "claim_jobs 5 (\<lambda>_. False) (job_lock_held sample_hash (advisory_locks s)) (queue s) w 1 900
        = Inr (([?c], None), snd (projr (claim_by w s)))"
      using assms(3) by (simp only: claim_by_def)
  qed
  with assms(1) have r: "reachable sample_hash ?s1" by (rule reachable.next_step)
  show ?thesis
  proof (cases "acquire sample_hash (queue ?s1) sample_tables (advisory_locks s) ?c w")
    case (Inl e)
    with assms(1) show ?thesis by (simp add: enter_by_def Let_def)
  next
    case (Inr q)
    obtain scope locks where q: "q = (scope, locks)" by (cases q)
    have "steps sample_hash ?s1 (with_lease 6 (\<lambda>_. False) w ?c scope locks ?s1)"
      by (rule acquire_path) (use Inr q in simp_all)
    from reachable_steps [OF this r] Inr q show ?thesis by (simp add: enter_by_def Let_def)
  qed
qed

definition both_running :: system where
  "both_running = enter_by ''b'' (enter_by ''a'' (initial_system two_jobs))"

lemma sample_first: "reachable sample_hash (enter_by ''a'' (initial_system two_jobs))"
proof (rule enter_by_reachable)
  have "queue_ok two_jobs" by (simp add: queue_ok_def two_jobs_def sample_job_def job_ok_def)
  then show "reachable sample_hash (initial_system two_jobs)" by (rule reachable.start)
qed (code_simp, code_simp)

lemma sample_second_idle: "phase_of (enter_by ''a'' (initial_system two_jobs)) ''b'' = Idle"
  by code_simp

lemma sample_second_claim:
  "claim_by ''b'' (enter_by ''a'' (initial_system two_jobs)) =
     Inr (([taken_by ''b'' (enter_by ''a'' (initial_system two_jobs))], None),
       snd (projr (claim_by ''b'' (enter_by ''a'' (initial_system two_jobs)))))"
  by code_simp

lemma both_running_reachable: "reachable sample_hash both_running"
  unfolding both_running_def
  by (rule enter_by_reachable [OF sample_first sample_second_idle sample_second_claim])

definition sample_claim :: "session \<Rightarrow> uuid \<Rightarrow> claimed_job" where
  "sample_claim w i = \<lparr>cj_id = i, cj_job_type = ''BACKFILL_REPOSITORY'', cj_payload = [],
     cj_priority = 100, cj_attempts = 1, cj_max_attempts = 8, cj_locked_by = Some w,
     cj_created_at = 0, cj_updated_at = 5, cj_version = 1\<rparr>"

lemma both_running_phases:
  "phase_of both_running ''a'' = Executing (sample_claim ''a'' 1) (Some 20, Some 10) True False"
  "phase_of both_running ''b'' = Executing (sample_claim ''b'' 2) (Some 20, Some 11) True False"
  by code_simp+

theorem lease_mutual_exclusion_witness:
  "phase_of both_running ''a'' = Executing (sample_claim ''a'' 1) (Some 20, Some 10) True False \<and>
   phase_of both_running ''b'' = Executing (sample_claim ''b'' 2) (Some 20, Some 11) True False \<and>
   cj_id (sample_claim ''a'' 1) \<noteq> cj_id (sample_claim ''b'' 2)"
  using lease_mutual_exclusion [OF both_running_reachable _ both_running_phases] both_running_phases by simp

theorem lease_protects_attempt_witness:
  "job_row (snd (recover_stale_jobs (9000 * second) (\<lambda>_. False)
      (job_lock_held sample_hash (advisory_locks both_running)) 30 (queue both_running))) 1
    = job_row (queue both_running) 1"
proof -
  have "cj_id (sample_claim ''a'' 1) = 1" by (simp add: sample_claim_def)
  with lease_protects_attempt [OF both_running_reachable both_running_phases(1),
      of "job_lock_held sample_hash (advisory_locks both_running)"] show ?thesis by simp
qed

theorem endings_are_fenced_witness:
  "\<exists>t' j. mark_succeeded 7 (queue both_running) 1 ''a'' = Inr ((), t') \<and>
     job_row (queue both_running) 1 = Some j \<and> pj_attempts j = 1"
proof -
  have "is_ok (mark_succeeded 7 (queue both_running) 1 ''a'')" by code_simp
  then obtain t' where t': "mark_succeeded 7 (queue both_running) 1 ''a'' = Inr ((), t')"
    by (auto simp: is_ok_iff)
  define f :: "time \<times> rat \<times> string \<times> bool \<times> rat option \<times> rat option"
    where "f = (8, 0, [], False, None, None)"
  have id: "cj_id (sample_claim ''a'' 1) = 1" "cj_attempts (sample_claim ''a'' 1) = 1"
    by (simp_all add: sample_claim_def)
  have "Inr t' \<in> set (endings 7 (queue both_running) (cj_id (sample_claim ''a'' 1)) ''a'' f ([], 0, False))"
    by (simp only: id endings_def t') simp
  moreover have "current_job (phase_of both_running ''a'') = Some (sample_claim ''a'' 1)"
    by (simp add: both_running_phases)
  ultimately show ?thesis using endings_are_fenced [OF both_running_reachable] t' id by fastforce
qed

theorem acquisition_refined_witness:
  "\<exists>s c locks'. phase_of s ''a'' = Claimed c \<and>
     lease_enter sample_hash (queue s) sample_tables (advisory_locks s) c ''a'' = (Inr (Some 20, Some 10), locks') \<and>
     steps sample_hash s (with_lease 6 (\<lambda>_. False) ''a'' c (Some 20, Some 10) locks' s)"
proof -
  let ?i = "initial_system two_jobs"
  define s where "s = set_phase ''a'' (Claimed (sample_claim ''a'' 1)) (?i\<lparr>queue := snd (projr (claim_by ''a'' ?i))\<rparr>)"
  have ph: "phase_of s ''a'' = Claimed (sample_claim ''a'' 1)" by (simp add: s_def)
  have lm: "locks_match sample_hash (advisory_locks s) (phase_of s)"
    by (simp add: s_def initial_system_def locks_match_def)
  have "fst (lease_enter sample_hash (queue s) sample_tables (advisory_locks s) (sample_claim ''a'' 1) ''a'')
      = Inr (Some 20, Some 10)"
    unfolding s_def by code_simp
  then obtain locks' where e: "lease_enter sample_hash (queue s) sample_tables (advisory_locks s)
      (sample_claim ''a'' 1) ''a'' = (Inr (Some 20, Some 10), locks')"
    by (metis prod.collapse)
  from acquisition_refined [OF ph lm, where T = sample_tables and now = 6 and skip = "\<lambda>_. False"] e ph show ?thesis by auto
qed

end
