(* ===== verification/Dispatcher.thy ===== *)
theory Dispatcher
  imports Job_Queue_Facts
begin

text \<open>
  The dispatcher (\<^verbatim>\<open>app/jobs/dispatcher.py\<close>): it runs the handler of a claimed job and alone
  writes the terminal state.  A handler is a function of the database, the claimed job and
  the worker's id; it commits transactions as it goes, so it returns a database even when it
  raises.  The locale \<open>job_handler\<close> is the contract the dispatcher relies on; the handlers'
  theories interpret it.
\<close>

section \<open>The database the handlers share\<close>

text \<open>The handlers' theories extend this record with the tables they use.\<close>

record engine_db =
  ed_jobs :: jobs
  ed_workspaces :: "uuid \<Rightarrow> string option"

type_synonym 'd handler =
  "'d engine_db_scheme \<Rightarrow> claimed_job \<Rightarrow> string \<Rightarrow> exn option \<times> 'd engine_db_scheme"

section \<open>Dispatch\<close>

text \<open>The keys of \<^verbatim>\<open>HANDLERS\<close>; \<open>impl\<close> gives the function behind each.\<close>

definition handler_names :: "string list" where
  "handler_names =
     [''PROCESS_GITHUB_EVENT'', ''PROCESS_JIRA_EVENT'', ''BACKFILL_REPOSITORY'',
      ''SYNC_GITHUB_REPOSITORIES'', ''SYNC_JIRA_PROJECTS'', ''RENEW_JIRA_WEBHOOK'',
      ''DELETE_WORKSPACE'', ''RECALCULATE_METRICS'', ''EVALUATE_ALERTS'']"

definition HANDLERS :: "(string \<Rightarrow> 'd handler) \<Rightarrow> string \<Rightarrow> 'd handler option" where
  "HANDLERS impl job_type = (if job_type \<in> set handler_names then Some (impl job_type) else None)"

datatype job_dispatch_outcome =
    OutcomeSucceeded | RetryScheduled | DeadLettered | ContinuationRequeued

fun failure_outcome :: "job_status \<Rightarrow> job_dispatch_outcome result" where
  "failure_outcome FAILED = Inr RetryScheduled"
| "failure_outcome DEAD = Inr DeadLettered"
| "failure_outcome _ = Inl (OtherError ''unexpected durable job failure status'')"

text \<open>\<^verbatim>\<open>_failure_outcome(mark_failed(...))\<close>.\<close>

definition fail_job ::
  "time \<Rightarrow> rat \<Rightarrow> 'd engine_db_scheme \<Rightarrow> uuid \<Rightarrow> string \<Rightarrow> string \<Rightarrow> bool \<Rightarrow> rat option
     \<Rightarrow> job_dispatch_outcome result \<times> 'd engine_db_scheme" where
  "fail_job now u db i w error permanent retry_after =
     (case mark_failed now u (ed_jobs db) i w error permanent None retry_after of
        Inl e \<Rightarrow> (Inl e, db)
      | Inr (st, t') \<Rightarrow> (failure_outcome st, db\<lparr>ed_jobs := t'\<rparr>))"

text \<open>The \<^verbatim>\<open>except\<close> clauses, in their order; a \<open>ProviderPermanentError\<close> is a \<open>ProviderError\<close>.\<close>

fun handler_raised ::
  "time \<Rightarrow> rat \<Rightarrow> 'd engine_db_scheme \<Rightarrow> uuid \<Rightarrow> string \<Rightarrow> exn
     \<Rightarrow> job_dispatch_outcome result \<times> 'd engine_db_scheme" where
  "handler_raised now u db i w RequeueWithPayloadError = (Inr ContinuationRequeued, db)"
| "handler_raised now u db i w (PermanentJobError m) = fail_job now u db i w m True None"
| "handler_raised now u db i w (ProviderError m r) = fail_job now u db i w m False r"
| "handler_raised now u db i w (ProviderPermanentError m r) = fail_job now u db i w m False r"
| "handler_raised now u db i w (ProviderConfigurationError m r) = fail_job now u db i w m False r"
| "handler_raised now u db i w e = fail_job now u db i w (exn_str e) False None"

definition dispatch_job ::
  "time \<Rightarrow> rat \<Rightarrow> (string \<Rightarrow> 'd handler) \<Rightarrow> 'd engine_db_scheme \<Rightarrow> claimed_job \<Rightarrow> string
     \<Rightarrow> job_dispatch_outcome result \<times> 'd engine_db_scheme" where
  "dispatch_job now u impl db job w =
     (case HANDLERS impl (cj_job_type job) of
        None \<Rightarrow> fail_job now u db (cj_id job) w (''UNSUPPORTED_JOB_TYPE: '' @ cj_job_type job) True None
      | Some handler \<Rightarrow>
          (case handler db job w of
             (Some e, db') \<Rightarrow> handler_raised now u db' (cj_id job) w e
           | (None, db') \<Rightarrow>
               (case mark_succeeded now (ed_jobs db') (cj_id job) w of
                  Inl e \<Rightarrow> (Inl e, db')
                | Inr (_, t') \<Rightarrow> (Inr OutcomeSucceeded, db'\<lparr>ed_jobs := t'\<rparr>))))"

section \<open>The contract of a handler\<close>

text \<open>
  A handler keeps the queue invariant.  It raises the requeue signal exactly after it put its
  own job back to PENDING; otherwise it leaves its own row as it found it: terminal states
  are the dispatcher's.
\<close>

locale job_handler =
  fixes handle :: "'d handler"
  assumes handle_ok: "queue_ok (ed_jobs db) \<Longrightarrow> handle db c w = (r, db') \<Longrightarrow> queue_ok (ed_jobs db')"
    and handle_requeue: "queue_ok (ed_jobs db) \<Longrightarrow> handle db c w = (Some RequeueWithPayloadError, db') \<Longrightarrow>
      \<exists>j. job_row (ed_jobs db') (cj_id c) = Some j \<and> pj_status j = PENDING"
    and handle_frame: "queue_ok (ed_jobs db) \<Longrightarrow> handle db c w = (r, db') \<Longrightarrow> r \<noteq> Some RequeueWithPayloadError \<Longrightarrow>
      owns (ed_jobs db) (cj_id c) w \<Longrightarrow> job_row (ed_jobs db') (cj_id c) = job_row (ed_jobs db) (cj_id c)"
begin

lemma still_owned:
  "queue_ok (ed_jobs db) \<Longrightarrow> handle db c w = (r, db') \<Longrightarrow> r \<noteq> Some RequeueWithPayloadError \<Longrightarrow>
   owns (ed_jobs db) (cj_id c) w \<Longrightarrow> owns (ed_jobs db') (cj_id c) w"
  using handle_frame [of db c w r db'] by (simp add: owns_def)

end

text \<open>The durable status each outcome stands for.\<close>

fun outcome_status :: "job_dispatch_outcome \<Rightarrow> job_status" where
  "outcome_status OutcomeSucceeded = SUCCEEDED"
| "outcome_status RetryScheduled = FAILED"
| "outcome_status DeadLettered = DEAD"
| "outcome_status ContinuationRequeued = PENDING"

text \<open>A dispatch reports what the row says, and only reports when the row is settled.\<close>

definition reports :: "(job_dispatch_outcome result \<times> 'd engine_db_scheme) \<Rightarrow> uuid \<Rightarrow> bool" where
  "reports res i \<longleftrightarrow> queue_ok (ed_jobs (snd res)) \<and>
     (\<exists>out j. fst res = Inr out \<and> job_row (ed_jobs (snd res)) i = Some j \<and> pj_status j = outcome_status out)"

lemma fail_job_reports:
  assumes "queue_ok (ed_jobs db)" and "job_row (ed_jobs db) i = Some j" and "owned_row i w j"
    and "pj_attempts j < 1024"
  shows "reports (fail_job now u db i w err perm ra) i"
proof -
  have "0 \<le> pj_attempts j" using queue_ok_row [OF assms(1,2)] by (simp add: job_ok_def)
  with assms(4) obtain d where d: "failure_delay u (pj_attempts j) None ra = Inr d"
    by (simp add: failure_delay_def retry_delay_seconds_def Let_def)
  have "\<exists>st t'. mark_failed now u (ed_jobs db) i w err perm None ra = Inr (st, t')"
    using assms(2,3) d by (simp add: mark_failed_eq [OF assms(1)])
  then obtain st t' where m: "mark_failed now u (ed_jobs db) i w err perm None ra = Inr (st, t')"
    by blast
  have "(st = FAILED \<or> st = DEAD) \<and> (\<exists>j'. job_row t' i = Some j' \<and> pj_status j' = st)"
    using assms(1) m by (cases rule: mark_failed_cases) (auto simp: job_row_update)
  moreover have "queue_ok t'" by (rule queue_ok_mark_failed [OF assms(1) m])
  ultimately show ?thesis using m by (auto simp: reports_def fail_job_def)
qed

lemma handler_raised_reports:
  assumes "queue_ok (ed_jobs db)" and "job_row (ed_jobs db) i = Some j" and "owned_row i w j"
    and "pj_attempts j < 1024" and "e \<noteq> RequeueWithPayloadError"
  shows "reports (handler_raised now u db i w e) i"
  using assms(5) fail_job_reports [OF assms(1-4)] by (cases e) simp_all

context job_handler
begin

lemma dispatch_reports:
  assumes q: "queue_ok (ed_jobs db)" and j: "job_row (ed_jobs db) (cj_id c) = Some j"
    and own: "owned_row (cj_id c) w j" and att: "pj_attempts j < 1024"
    and impl: "cj_job_type c \<in> set handler_names \<Longrightarrow> impl (cj_job_type c) = handle"
  shows "reports (dispatch_job now u impl db c w) (cj_id c)"
proof (cases "cj_job_type c \<in> set handler_names")
  case False
  with fail_job_reports [OF q j own att] show ?thesis by (simp add: dispatch_job_def HANDLERS_def)
next
  case True
  obtain r db' where h: "handle db c w = (r, db')" by fastforce
  note q' = handle_ok [OF q h]
  have owns: "owns (ed_jobs db) (cj_id c) w" using j own by (simp add: owns_def)
  consider (requeued) "r = Some RequeueWithPayloadError" | (returned) "r = None"
    | (raised) e where "r = Some e" "e \<noteq> RequeueWithPayloadError" by (cases r) auto
  then show ?thesis
  proof cases
    case requeued
    from handle_requeue [OF q h [unfolded requeued]] q' show ?thesis
      using True impl h requeued by (auto simp: dispatch_job_def HANDLERS_def reports_def)
  next
    case returned
    then have row: "job_row (ed_jobs db') (cj_id c) = Some j"
      using handle_frame [OF q h _ owns] j by simp
    then have "owns (ed_jobs db') (cj_id c) w" using own by (simp add: owns_def)
    then obtain t' where m: "mark_succeeded now (ed_jobs db') (cj_id c) w = Inr ((), t')"
      by (simp add: mark_succeeded_eq [OF q'])
    then have "t' = sql_update (owned_row (cj_id c) w) (succeed_row now) (ed_jobs db')"
      by (simp add: mark_succeeded_eq [OF q'] split: if_splits)
    then have "job_row t' (cj_id c) = Some (succeed_row now j)"
      using row own by (simp add: job_row_update)
    with succeed.fin_ok [OF q' m] m True impl h returned show ?thesis
      by (simp add: dispatch_job_def HANDLERS_def reports_def)
  next
    case raised
    then have row: "job_row (ed_jobs db') (cj_id c) = Some j"
      using handle_frame [OF q h _ owns] j by simp
    from handler_raised_reports [OF q' row own att raised(2)] True impl h raised(1)
    show ?thesis by (simp add: dispatch_job_def HANDLERS_def)
  qed
qed

end

text \<open>
  If the handlers keep their contract, dispatching a job that the worker owns always settles
  it and reports the truth: the result is an outcome, not an exception, and the row then has
  exactly the status the outcome names (succeeded, retry scheduled, dead-lettered, or put back
  for a continuation), so no dispatched job is left RUNNING.  An unknown job type is
  dead-lettered.
\<close>

theorem dispatch_outcome_is_durable:
  assumes "\<forall>n \<in> set handler_names. job_handler (impl n)"
    and "queue_ok (ed_jobs db)" and "job_row (ed_jobs db) (cj_id c) = Some j"
    and "owned_row (cj_id c) w j" and "pj_attempts j < 1024"
    and "dispatch_job now u impl db c w = (r, db')"
  shows "\<exists>out j'. r = Inr out \<and> job_row (ed_jobs db') (cj_id c) = Some j' \<and>
     pj_status j' = outcome_status out \<and> pj_locked_by j' = None \<and> queue_ok (ed_jobs db') \<and>
     (cj_job_type c \<notin> set handler_names \<longrightarrow> out = DeadLettered)"
proof -
  have "reports (dispatch_job now u impl db c w) (cj_id c)"
  proof (cases "cj_job_type c \<in> set handler_names")
    case True
    with assms(1) have "job_handler (impl (cj_job_type c))" by blast
    from job_handler.dispatch_reports [OF this assms(2-5)] show ?thesis by simp
  next
    case False
    with fail_job_reports [OF assms(2-5)] show ?thesis by (simp add: dispatch_job_def HANDLERS_def)
  qed
  then obtain out j' where o: "r = Inr out" "job_row (ed_jobs db') (cj_id c) = Some j'"
    "pj_status j' = outcome_status out" "queue_ok (ed_jobs db')"
    unfolding assms(6) reports_def by auto
  have "pj_status j' \<noteq> RUNNING" using o(3) by (cases out) simp_all
  with queue_ok_row [OF o(4,2)] have "pj_locked_by j' = None" by (simp add: job_ok_def)
  moreover have "out = DeadLettered" if "cj_job_type c \<notin> set handler_names"
  proof -
    from that assms(6) o(1) have f: "fail_job now u db (cj_id c) w
        (''UNSUPPORTED_JOB_TYPE: '' @ cj_job_type c) True None = (Inr out, db')"
      by (simp add: dispatch_job_def HANDLERS_def)
    with assms(3,4) show ?thesis
      by (auto simp: fail_job_def mark_failed_eq [OF assms(2)])
  qed
  ultimately show ?thesis using o by blast
qed

end
