(* ===== verification/Delete_Workspace.thy ===== *)
theory Delete_Workspace
  imports Dispatcher
begin

text \<open>
  The handler of DELETE_WORKSPACE (\<^verbatim>\<open>app/jobs/handlers/delete_workspace.py\<close>).  The foreign keys
  that delete a workspace's rows with it belong to the database schema, which is not in this
  repository: they are the parameter \<open>cascade\<close> of the queue table, and the locale
  \<open>tenant_cascade\<close> states what the handler relies on.
\<close>

section \<open>The handler\<close>

definition workspace_id_from_payload :: "claimed_job \<Rightarrow> uuid result" where
  "workspace_id_from_payload job =
     (case dict_get (cj_payload job) ''workspaceId'' of
        JStr raw \<Rightarrow>
          if py_strip raw = [] then Inl (PermanentJobError ''Missing workspaceId'')
          else (case uuid_of_string raw of
                  None \<Rightarrow> Inl (PermanentJobError ''Invalid workspaceId'')
                | Some u \<Rightarrow> Inr u)
      | _ \<Rightarrow> Inl (PermanentJobError ''Missing workspaceId''))"

text \<open>The transaction; an exception rolls it back.\<close>

definition delete_workspace_txn ::
  "(uuid \<Rightarrow> jobs \<Rightarrow> jobs) \<Rightarrow> 'd engine_db_scheme \<Rightarrow> uuid \<Rightarrow> string \<Rightarrow> uuid
     \<Rightarrow> 'd engine_db_scheme result" where
  "delete_workspace_txn cascade db i w ws =
     (case find (owned_row i w) (ed_jobs db) of
        None \<Rightarrow> Inl (OtherError ''DELETE_WORKSPACE job is not owned by this worker'')
      | Some job_scope \<Rightarrow>
          if pj_workspace_id job_scope \<noteq> None \<or> pj_repository_id job_scope \<noteq> None
             \<or> pj_raw_event_id job_scope \<noteq> None
          then Inl (PermanentJobError ''DELETE_WORKSPACE job must not reference tenant data'')
          else (case ed_workspaces db ws of
                  None \<Rightarrow> Inr db
                | Some status \<Rightarrow>
                    if status \<noteq> ''DELETING''
                    then Inl (PermanentJobError
                           (''Workspace must be DELETING before removal; found '' @ status))
                    else Inr (db\<lparr>ed_jobs := cascade ws (ed_jobs db),
                                 ed_workspaces := (ed_workspaces db)(ws := None)\<rparr>)))"

definition handle_delete_workspace :: "(uuid \<Rightarrow> jobs \<Rightarrow> jobs) \<Rightarrow> 'd handler" where
  "handle_delete_workspace cascade db job w =
     (case workspace_id_from_payload job of
        Inl e \<Rightarrow> (Some e, db)
      | Inr ws \<Rightarrow>
          (case delete_workspace_txn cascade db (cj_id job) w ws of
             Inl e \<Rightarrow> (Some e, db)
           | Inr db' \<Rightarrow> (None, db')))"

section \<open>The contract\<close>

text \<open>
  The cascade removes rows only, and never a row that references no tenant data.
\<close>

locale tenant_cascade =
  fixes cascade :: "uuid \<Rightarrow> jobs \<Rightarrow> jobs"
  assumes cascade_deletes: "\<exists>keep. cascade ws t = filter keep t \<and>
     (\<forall>j. pj_workspace_id j = None \<and> pj_repository_id j = None \<and> pj_raw_event_id j = None \<longrightarrow> keep j)"
begin

lemma cascade_ok: "queue_ok t \<Longrightarrow> queue_ok (cascade ws t)"
proof -
  assume q: "queue_ok t"
  obtain keep where c: "cascade ws t = filter keep t" using cascade_deletes by blast
  with q show ?thesis by (auto simp: queue_ok_def distinct_map_filter)
qed

lemma cascade_keeps:
  assumes "queue_ok t" and "job_row t i = Some j"
    and "pj_workspace_id j = None" "pj_repository_id j = None" "pj_raw_event_id j = None"
  shows "job_row (cascade ws t) i = Some j"
proof -
  obtain keep where c: "cascade ws t = filter keep t" and k: "keep j"
    using cascade_deletes assms(3-5) by metis
  from job_row_Some [OF assms(2)] k c have "j \<in> set (cascade ws t)" "pj_id j = i" by simp_all
  with job_row_in_set [OF queue_ok_distinct [OF cascade_ok [OF assms(1)]]] show ?thesis by blast
qed

end

lemma workspace_id_error:
  "workspace_id_from_payload job = Inl e \<Longrightarrow> \<exists>m. e = PermanentJobError m"
  by (auto simp: workspace_id_from_payload_def split: json.splits if_splits option.splits)

lemma delete_txn_cases:
  assumes "queue_ok (ed_jobs db)" and "delete_workspace_txn cascade db i w ws = Inr db'"
  obtains j where "job_row (ed_jobs db) i = Some j" "owned_row i w j" "pj_workspace_id j = None"
    "pj_repository_id j = None" "pj_raw_event_id j = None"
    "ed_workspaces db ws = None \<and> db' = db \<or> ed_workspaces db ws = Some ''DELETING'' \<and>
       db' = db\<lparr>ed_jobs := cascade ws (ed_jobs db), ed_workspaces := (ed_workspaces db)(ws := None)\<rparr>"
proof -
  from assms obtain j where j: "job_row (ed_jobs db) i = Some j" "owned_row i w j"
    and f: "find (owned_row i w) (ed_jobs db) = Some j"
    by (auto simp: delete_workspace_txn_def find_owned split: option.splits if_splits)
  with assms(2) have cols: "pj_workspace_id j = None" "pj_repository_id j = None" "pj_raw_event_id j = None"
    by (auto simp: delete_workspace_txn_def split: if_splits)
  from assms(2) f cols have "ed_workspaces db ws = None \<and> db' = db \<or> ed_workspaces db ws = Some ''DELETING'' \<and>
       db' = db\<lparr>ed_jobs := cascade ws (ed_jobs db), ed_workspaces := (ed_workspaces db)(ws := None)\<rparr>"
    by (simp add: delete_workspace_txn_def split: option.splits if_splits)
  with j cols that show thesis by blast
qed

lemma delete_txn_error:
  "delete_workspace_txn cascade db i w ws = Inl e \<Longrightarrow> e \<noteq> RequeueWithPayloadError"
  by (auto simp: delete_workspace_txn_def split: option.splits if_splits)

lemma delete_cases:
  assumes "queue_ok (ed_jobs db)" and "handle_delete_workspace cascade db c w = (r, db')"
  obtains (unchanged) "db' = db" "r \<noteq> Some RequeueWithPayloadError"
    | (deleted) j ws where "r = None" "job_row (ed_jobs db) (cj_id c) = Some j" "owned_row (cj_id c) w j"
        "pj_workspace_id j = None" "pj_repository_id j = None" "pj_raw_event_id j = None"
        "workspace_id_from_payload c = Inr ws" "ed_workspaces db ws = Some ''DELETING''"
        "db' = db\<lparr>ed_jobs := cascade ws (ed_jobs db), ed_workspaces := (ed_workspaces db)(ws := None)\<rparr>"
proof (cases "workspace_id_from_payload c")
  case (Inl e)
  with assms(2) workspace_id_error [OF Inl] unchanged show thesis
    by (auto simp: handle_delete_workspace_def)
next
  case (Inr ws)
  show thesis
  proof (cases "delete_workspace_txn cascade db (cj_id c) w ws")
    case (Inl e)
    with assms(2) \<open>workspace_id_from_payload c = Inr ws\<close> have "db' = db" "r = Some e"
      by (simp_all add: handle_delete_workspace_def)
    with delete_txn_error [OF Inl] unchanged show thesis by simp
  next
    case ok: (Inr db'')
    with assms(2) Inr have r: "r = None" "db'' = db'" by (simp_all add: handle_delete_workspace_def)
    from delete_txn_cases [OF assms(1) ok] r Inr unchanged deleted show thesis by (metis option.distinct(1))
  qed
qed

sublocale tenant_cascade \<subseteq> deleting: job_handler "handle_delete_workspace cascade"
proof (unfold_locales, goal_cases)
  case (1 db c w r db')
  from 1 show ?case by (cases rule: delete_cases) (simp_all add: 1(1) cascade_ok)
next
  case (2 db c w db')
  from 2 show ?case by (cases rule: delete_cases) simp_all
next
  case (3 db c w r db')
  from 3(1,2) show ?case
    by (cases rule: delete_cases) (simp_all add: cascade_keeps [OF 3(1)])
qed

text \<open>
  The instance: a foreign key to the workspace, one to a repository of it, one to an event of it.
\<close>

definition tenant_row :: "(uuid \<Rightarrow> uuid option) \<Rightarrow> (uuid \<Rightarrow> uuid option) \<Rightarrow> uuid \<Rightarrow> processing_job \<Rightarrow> bool" where
  "tenant_row repository_ws event_ws ws j \<longleftrightarrow> pj_workspace_id j = Some ws \<or>
     (\<exists>r. pj_repository_id j = Some r \<and> repository_ws r = Some ws) \<or>
     (\<exists>e. pj_raw_event_id j = Some e \<and> event_ws e = Some ws)"

definition tenant_rows_deleted ::
  "(uuid \<Rightarrow> uuid option) \<Rightarrow> (uuid \<Rightarrow> uuid option) \<Rightarrow> uuid \<Rightarrow> jobs \<Rightarrow> jobs" where
  "tenant_rows_deleted repository_ws event_ws ws t = filter (\<lambda>j. \<not> tenant_row repository_ws event_ws ws j) t"

interpretation tenants: tenant_cascade "tenant_rows_deleted repository_ws event_ws" for repository_ws event_ws
proof
  show "\<exists>keep. tenant_rows_deleted repository_ws event_ws ws t = filter keep t \<and>
     (\<forall>j. pj_workspace_id j = None \<and> pj_repository_id j = None \<and> pj_raw_event_id j = None \<longrightarrow> keep j)" for ws t
    by (intro exI [of _ "\<lambda>j. \<not> tenant_row repository_ws event_ws ws j"])
      (simp add: tenant_rows_deleted_def tenant_row_def)
qed

section \<open>What a deletion does\<close>

text \<open>
  C17: The workspace handler removes a workspace only if the job names it and the API has marked
  it DELETING; it then removes exactly that workspace and leaves its own job row as it was, so
  that the dispatcher can still finish the job; in every other case, errors included, the
  database is unchanged.
\<close>

theorem delete_workspace_safe:
  assumes "tenant_cascade cascade" and "queue_ok (ed_jobs db)"
    and "handle_delete_workspace cascade db c w = (r, db')"
  shows "db' = db \<and> (\<forall>ws. r = None \<and> workspace_id_from_payload c = Inr ws \<longrightarrow> ed_workspaces db ws = None) \<or>
     (\<exists>ws. r = None \<and> workspace_id_from_payload c = Inr ws \<and> ed_workspaces db ws = Some ''DELETING'' \<and>
        ed_workspaces db' = (ed_workspaces db)(ws := None) \<and> queue_ok (ed_jobs db') \<and>
        owns (ed_jobs db') (cj_id c) w \<and>
        job_row (ed_jobs db') (cj_id c) = job_row (ed_jobs db) (cj_id c))"
  using assms(2,3)
proof (cases rule: delete_cases)
  case unchanged
  have "ed_workspaces db ws = None" if "r = None" "workspace_id_from_payload c = Inr ws" for ws
  proof (rule ccontr)
    assume some: "ed_workspaces db ws \<noteq> None"
    from that assms(3) unchanged(1) have ok: "delete_workspace_txn cascade db (cj_id c) w ws = Inr db"
      by (simp add: handle_delete_workspace_def split: sum.splits)
    from delete_txn_cases [OF assms(2) ok] some
    have "db = db\<lparr>ed_jobs := cascade ws (ed_jobs db), ed_workspaces := (ed_workspaces db)(ws := None)\<rparr>"
      by metis
    then have "ed_workspaces db = (ed_workspaces db)(ws := None)" by (metis engine_db.select_convs(2) engine_db.update_convs(2) engine_db.surjective)
    then have "ed_workspaces db ws = None" by (metis fun_upd_same)
    with some show False by simp
  qed
  with unchanged show ?thesis by blast
next
  case (deleted j ws)
  with tenant_cascade.cascade_ok [OF assms(1,2)] tenant_cascade.cascade_keeps [OF assms(1,2)]
  show ?thesis by (intro disjI2 exI [of _ ws]) (simp add: owns_def)
qed

section \<open>Witnesses\<close>

definition deletion_db :: "unit engine_db_scheme" where
  "deletion_db =
     \<lparr>ed_jobs = [(sample_job 1)\<lparr>pj_job_type := ''DELETE_WORKSPACE'', pj_status := RUNNING,
                   pj_attempts := 1, pj_locked_at := Some 0, pj_locked_by := Some ''w1''\<rparr>,
                 (sample_job 2)\<lparr>pj_workspace_id := Some 7\<rparr>],
      ed_workspaces = [7 \<mapsto> ''DELETING'']\<rparr>"

definition deletion_job :: claimed_job where
  "deletion_job = (from_row (hd (ed_jobs deletion_db)))\<lparr>cj_payload :=
     [(''workspaceId'', JStr ''00000000-0000-0000-0000-000000000007'')]\<rparr>"

definition workspace_rows_deleted :: "uuid \<Rightarrow> jobs \<Rightarrow> jobs" where
  "workspace_rows_deleted = tenant_rows_deleted (\<lambda>_. None) (\<lambda>_. None)"

lemma workspace_rows_cascade: "tenant_cascade workspace_rows_deleted"
  unfolding workspace_rows_deleted_def by (rule tenants.tenant_cascade_axioms)

lemma deletion_db_ok: "queue_ok (ed_jobs deletion_db)"
  by (simp add: deletion_db_def queue_ok_def sample_job_def job_ok_def)

lemma deletion_parses: "workspace_id_from_payload deletion_job = Inr 7"
  by code_simp

theorem delete_workspace_safe_witness:
  "\<exists>db'. handle_delete_workspace workspace_rows_deleted deletion_db deletion_job ''w1'' = (None, db') \<and>
     ed_workspaces db' 7 = None \<and> owns (ed_jobs db') 1 ''w1''"
proof -
  have id: "cj_id deletion_job = 1" by (simp add: deletion_job_def deletion_db_def from_row_def sample_job_def)
  have f: "find (owned_row 1 ''w1'') (ed_jobs deletion_db) = Some (hd (ed_jobs deletion_db))"
    by (simp add: deletion_db_def owned_row_def sample_job_def)
  have n: "ed_workspaces deletion_db 7 = Some ''DELETING''" by (simp add: deletion_db_def)
  have cols: "pj_workspace_id (hd (ed_jobs deletion_db)) = None" "pj_repository_id (hd (ed_jobs deletion_db)) = None"
    "pj_raw_event_id (hd (ed_jobs deletion_db)) = None" by (simp_all add: deletion_db_def sample_job_def)
  obtain db' where h: "handle_delete_workspace workspace_rows_deleted deletion_db deletion_job ''w1'' = (None, db')"
    by (simp add: handle_delete_workspace_def deletion_parses delete_workspace_txn_def id f n cols del: One_nat_def)
  from delete_workspace_safe [OF workspace_rows_cascade deletion_db_ok h] n
  show ?thesis using h by (auto simp: deletion_parses id)
qed

theorem dispatch_outcome_is_durable_witness:
  "\<exists>db' out j'. dispatch_job 9 0 (\<lambda>_. handle_delete_workspace workspace_rows_deleted) deletion_db deletion_job ''w1''
       = (Inr out, db') \<and>
     job_row (ed_jobs db') 1 = Some j' \<and> pj_status j' = outcome_status out"
proof -
  have id: "cj_id deletion_job = 1" by (simp add: deletion_job_def deletion_db_def from_row_def sample_job_def)
  have contract: "\<forall>n \<in> set handler_names. job_handler (handle_delete_workspace workspace_rows_deleted ::
      engine_db \<Rightarrow> claimed_job \<Rightarrow> string \<Rightarrow> exn option \<times> engine_db)"
    unfolding workspace_rows_deleted_def using tenants.deleting.job_handler_axioms by blast
  obtain j where j: "job_row (ed_jobs deletion_db) (cj_id deletion_job) = Some j"
    "owned_row (cj_id deletion_job) ''w1'' j" "pj_attempts j < 1024"
    by (simp add: id deletion_db_def owned_row_def sample_job_def job_row_def)
  obtain r db' where d: "dispatch_job 9 0 (\<lambda>_. handle_delete_workspace workspace_rows_deleted)
      deletion_db deletion_job ''w1'' = (r, db')" by fastforce
  from dispatch_outcome_is_durable [OF contract deletion_db_ok j d] d id show ?thesis by auto
qed

end
