(* ===== verification/Worker.thy ===== *)
theory Worker
  imports Lease_System Delete_Workspace
begin

text \<open>
  One consumer thread (\<^verbatim>\<open>app/worker.py\<close>): its identity, the deferral of a job, the dispatch of
  claimed jobs and the polling loop of \<^verbatim>\<open>consume_jobs\<close> on the database and the lock table.
  What the outside decides in one iteration (clocks, failures of the database, signals) is
  the record \<open>tick_env\<close>.  Metrics are an observable trace of events: \<^verbatim>\<open>_record_metric\<close> swallows
  every failure, so they cannot change what the loop does.
\<close>

section \<open>Identity of a consumer\<close>

definition consumer_id :: "string \<Rightarrow> string \<Rightarrow> int \<Rightarrow> string" where
  "consumer_id prefix boot_id slot =
     (let suffix = '':'' @ boot_id @ '':'' @ str_int slot
      in py_take (128 - int (length suffix)) prefix @ suffix)"

section \<open>Events\<close>

datatype event =
    ThreadStarted nat
  | ThreadStopped nat
  | PollSuccess nat
  | PollError nat
  | StaleRecovery nat nat
  | JobStarted nat
  | JobStopped nat
  | DispatchOutcome string job_dispatch_outcome rat
  | DispatchError string rat
  | Deferral string string
  | JobOperationError string string
  | LeaseFailure nat string

section \<open>Dispatching claimed jobs\<close>

text \<open>\<open>clock job\<close>: the database's now, the jitter sample and the measured duration.\<close>

fun dispatch_claimed_jobs ::
  "(claimed_job \<Rightarrow> time \<times> rat \<times> rat) \<Rightarrow> (string \<Rightarrow> 'd handler) \<Rightarrow> 'd engine_db_scheme
     \<Rightarrow> claimed_job list \<Rightarrow> string \<Rightarrow> event list \<times> 'd engine_db_scheme" where
  "dispatch_claimed_jobs clock impl db [] w = ([], db)"
| "dispatch_claimed_jobs clock impl db (job # jobs) w =
     (let (now, u, duration) = clock job;
          (outcome, db1) = dispatch_job now u impl db job w;
          event = (case outcome of
                     Inl _ \<Rightarrow> DispatchError (cj_job_type job) duration
                   | Inr out \<Rightarrow> DispatchOutcome (cj_job_type job) out duration);
          (events, db2) = dispatch_claimed_jobs clock impl db1 jobs w
      in (event # events, db2))"

section \<open>One iteration of the loop\<close>


record tick_env =
  claim_now :: time
  claim_skip :: "uuid \<Rightarrow> bool"
  claim_failure :: "exn option"
  stop_after_claim :: bool
  lease_tables :: scope_tables
  lease_failure :: "exn option"
  beat_now :: time
  beat_skip :: "uuid \<Rightarrow> bool"
  dispatch_clock :: "claimed_job \<Rightarrow> time \<times> rat \<times> rat"
  defer_now :: time
  defer_failure :: "exn option"
  schema_failure :: "exn option"

text \<open>\<^verbatim>\<open>_defer\<close>: the requeue signal is suppressed, any other exception escapes.\<close>

definition defer_to ::
  "tick_env \<Rightarrow> 'd engine_db_scheme \<Rightarrow> claimed_job \<Rightarrow> string \<Rightarrow> exn option \<times> 'd engine_db_scheme" where
  "defer_to env db job w =
     (case defer_failure env of
        Some e \<Rightarrow> (Some e, db)
      | None \<Rightarrow>
          (case requeue_with_payload (defer_now env) (ed_jobs db) (cj_id job) w (cj_payload job) 5 False of
             (e, t') \<Rightarrow> (if e = RequeueWithPayloadError then None else Some e, db\<lparr>ed_jobs := t'\<rparr>)))"

definition defer_with_metrics ::
  "tick_env \<Rightarrow> 'd engine_db_scheme \<Rightarrow> claimed_job \<Rightarrow> string \<Rightarrow> string
     \<Rightarrow> event list \<times> 'd engine_db_scheme" where
  "defer_with_metrics env db job w reason =
     (case defer_to env db job w of
        (Some e, db') \<Rightarrow> ([JobOperationError (cj_job_type job) ''deferral''], db')
      | (None, db') \<Rightarrow> ([Deferral (cj_job_type job) reason], db'))"

text \<open>Entering the lease: a database failure, or \<^verbatim>\<open>_acquire\<close> and the first heartbeat.\<close>

definition enter_lease ::
  "(string \<Rightarrow> int) \<Rightarrow> tick_env \<Rightarrow> jobs \<Rightarrow> advisory \<Rightarrow> claimed_job \<Rightarrow> string \<Rightarrow> (jobs \<times> advisory) result" where
  "enter_lease h env t locks job w =
     (case lease_failure env of
        Some e \<Rightarrow> Inl e
      | None \<Rightarrow>
          (case lease_enter h t (lease_tables env) locks job w of
             (Inl e, _) \<Rightarrow> Inl e
           | (Inr _, locks') \<Rightarrow> Inr (heartbeat (beat_now env) (beat_skip env) t job w, locks')))"

text \<open>The body of the lease: the job is marked active while it is dispatched.\<close>

definition leased_dispatch ::
  "tick_env \<Rightarrow> (string \<Rightarrow> 'd handler) \<Rightarrow> nat \<Rightarrow> 'd engine_db_scheme \<Rightarrow> claimed_job list \<Rightarrow> string
     \<Rightarrow> event list \<times> 'd engine_db_scheme" where
  "leased_dispatch env impl slot db jobs w =
     (case dispatch_claimed_jobs (dispatch_clock env) impl db jobs w of
        (events, db') \<Rightarrow> ([JobStarted slot] @ events @ [JobStopped slot], db'))"

text \<open>The branch \<^verbatim>\<open>if jobs:\<close>; the last component says that the loop returned.\<close>

definition work_on ::
  "(string \<Rightarrow> int) \<Rightarrow> tick_env \<Rightarrow> (string \<Rightarrow> 'd handler) \<Rightarrow> nat \<Rightarrow> 'd engine_db_scheme \<Rightarrow> advisory
     \<Rightarrow> claimed_job list \<Rightarrow> string \<Rightarrow> event list \<times> ('d engine_db_scheme \<times> advisory) \<times> bool" where
  "work_on h env impl slot db locks jobs w =
     (let job = hd jobs in
      if stop_after_claim env
      then (case defer_with_metrics env db job w ''shutdown'' of
              (events, db') \<Rightarrow> (events, (db', locks), True))
      else (case enter_lease h env (ed_jobs db) locks job w of
              Inl (JobScopeBusy _) \<Rightarrow>
                (case defer_with_metrics env db job w ''scope_busy'' of
                   (events, db') \<Rightarrow> (events, (db', locks), False))
            | Inl e \<Rightarrow> ([LeaseFailure slot ''acquire''], (db, locks), False)
            | Inr (t', locks') \<Rightarrow>
                (case leased_dispatch env impl slot (db\<lparr>ed_jobs := t'\<rparr>) jobs w of
                   (events, db') \<Rightarrow> (events, (db', release_session w locks'), False))))"

definition consume_tick ::
  "(string \<Rightarrow> int) \<Rightarrow> tick_env \<Rightarrow> (string \<Rightarrow> 'd handler) \<Rightarrow> int \<Rightarrow> nat \<Rightarrow> 'd engine_db_scheme \<times> advisory
     \<Rightarrow> string \<Rightarrow> event list \<times> ('d engine_db_scheme \<times> advisory) \<times> bool" where
  "consume_tick h env impl stale_after slot world w =
     (case world of (db, locks) \<Rightarrow>
        (case (case claim_failure env of
                 Some e \<Rightarrow> Inl e
               | None \<Rightarrow> claim_jobs (claim_now env) (claim_skip env) (job_lock_held h locks)
                           (ed_jobs db) w 1 stale_after) of
           Inl e \<Rightarrow> ([PollError slot], world, False)
         | Inr ((jobs, recovered), t') \<Rightarrow>
             let db1 = db\<lparr>ed_jobs := t'\<rparr>;
                 polled = (case recovered of None \<Rightarrow> [] | Some r \<Rightarrow> [StaleRecovery (retryable r) (dead_count r)])
                            @ [PollSuccess slot]
             in if jobs \<noteq> []
                then (case work_on h env impl slot db1 locks jobs w of
                        (events, world', ret) \<Rightarrow> (polled @ events, world', ret))
                else (polled @ (if schema_failure env = None then [] else [PollError slot]),
                      (db1, locks), False)))"

text \<open>
  \<^verbatim>\<open>while not stop.is_set()\<close>: the environments of the iterations that start before stop is set.
\<close>

fun consume_loop ::
  "(string \<Rightarrow> int) \<Rightarrow> (string \<Rightarrow> 'd handler) \<Rightarrow> int \<Rightarrow> nat \<Rightarrow> tick_env list \<Rightarrow> 'd engine_db_scheme \<times> advisory
     \<Rightarrow> string \<Rightarrow> event list \<times> ('d engine_db_scheme \<times> advisory)" where
  "consume_loop h impl stale_after slot [] world w = ([], world)"
| "consume_loop h impl stale_after slot (env # envs) world w =
     (case consume_tick h env impl stale_after slot world w of
        (events, world', True) \<Rightarrow> (events, world')
      | (events, world', False) \<Rightarrow>
          (case consume_loop h impl stale_after slot envs world' w of
             (later, world'') \<Rightarrow> (events @ later, world'')))"

definition consume_jobs ::
  "(string \<Rightarrow> int) \<Rightarrow> (string \<Rightarrow> 'd handler) \<Rightarrow> int \<Rightarrow> nat \<Rightarrow> tick_env list \<Rightarrow> 'd engine_db_scheme \<times> advisory
     \<Rightarrow> string \<Rightarrow> event list \<times> ('d engine_db_scheme \<times> advisory)" where
  "consume_jobs h impl stale_after slot envs world w =
     (case consume_loop h impl stale_after slot envs world w of
        (events, world') \<Rightarrow> ([ThreadStarted slot] @ events @ [ThreadStopped slot], world'))"

section \<open>Identities are unique\<close>

lemma last_field_unique:
  assumes "xs @ c # a = ys @ c # b" and "c \<notin> set a" and "c \<notin> set b"
  shows "xs = ys \<and> a = b"
proof -
  have rev: "rev a @ c # rev xs = rev b @ c # rev ys" using arg_cong [OF assms(1), of rev] by simp
  have "takeWhile (\<lambda>x. x \<noteq> c) (rev a @ c # rev xs) = rev a"
    "takeWhile (\<lambda>x. x \<noteq> c) (rev b @ c # rev ys) = rev b"
    using assms(2,3) by (subst takeWhile_append2; auto)+
  with rev have "a = b" by (metis rev_rev_ident)
  with assms(1) show ?thesis by simp
qed

text \<open>
  Consumer identities fit the 128 characters of \<^verbatim>\<open>locked_by\<close> and tell consumers apart: for
  boot ids without a colon, two identities are equal only for the same boot and the same slot,
  whatever the configured prefixes are.
\<close>

theorem consumer_id_unique:
  assumes "CHR '':'' \<notin> set boot" and "CHR '':'' \<notin> set boot'"
    and "length boot \<le> 32" and "1 \<le> slot" and "slot < 10"
  shows "length (consumer_id prefix boot slot) \<le> 128 \<and> consumer_id prefix boot slot \<noteq> [] \<and>
     (consumer_id prefix boot slot = consumer_id prefix' boot' slot' \<longrightarrow> boot = boot' \<and> slot = slot')"
proof -
  have "length (str_int slot) = 1"
    using assms(4,5) by (simp add: str_int_def str_nat_base.simps [of 10 "nat slot"] nat_less_iff)
  then have len: "length (consumer_id prefix boot slot) \<le> 128"
    using assms(3) length_py_take [of "126 - int (length boot) - 1" prefix]
    by (simp add: consumer_id_def Let_def)
  have form: "\<exists>p. consumer_id q b k = (p @ '':'' @ b) @ CHR '':'' # str_int k" for q b k
    by (simp add: consumer_id_def Let_def)
  have "boot = boot' \<and> slot = slot'" if eq: "consumer_id prefix boot slot = consumer_id prefix' boot' slot'"
  proof -
    obtain p where p: "consumer_id prefix boot slot = (p @ '':'' @ boot) @ CHR '':'' # str_int slot"
      using form by blast
    obtain q where q: "consumer_id prefix' boot' slot' = (q @ '':'' @ boot') @ CHR '':'' # str_int slot'"
      using form by blast
    have "(p @ '':'' @ boot) @ CHR '':'' # str_int slot = (q @ '':'' @ boot') @ CHR '':'' # str_int slot'"
      using eq p q by simp
    from last_field_unique [OF this str_int_chars str_int_chars]
    have a: "p @ CHR '':'' # boot = q @ CHR '':'' # boot'" and b: "str_int slot = str_int slot'" by simp_all
    from last_field_unique [OF a assms(1,2)] str_int_inj [OF b] show ?thesis by simp
  qed
  moreover have "consumer_id prefix boot slot \<noteq> []" by (simp add: consumer_id_def Let_def)
  ultimately show ?thesis using len by blast
qed

section \<open>What one iteration does to the claimed job\<close>

lemma claim_one:
  assumes "claim_jobs now skip held t w 1 s = Inr ((cs, cb), t')" and "queue_ok t" and "cs \<noteq> []"
  obtains c j where "cs = [c]" "queue_ok t'" "job_row t' (cj_id c) = Some j" "owned_row (cj_id c) w j"
    "pj_attempts j = cj_attempts c" "c = from_row j"
proof -
  define t1 where "t1 = snd (recover_stale_jobs now skip held s t)"
  define sel where "sel = claim_selection now skip (nat 1) t1"
  have ok1: "queue_ok t1" unfolding t1_def using assms(2) by (rule queue_ok_recover)
  note unf = claim_jobs_unfold [OF assms(1,2), folded t1_def, folded sel_def]
  have "length sel \<le> 1" by (simp add: sel_def claim_selection_def)
  with assms(3) unf(1) obtain k where sel: "sel = [k]" by (cases sel) auto
  let ?j = "claim_row now w k"
  have c: "cs = [from_row ?j]" using unf(1) sel by simp
  have "k \<in> set t1" using claim_selection_set [of now skip "nat 1" t1] sel unfolding sel_def by auto
  then have "job_row t1 (pj_id k) = Some k" by (rule job_row_in_set [OF queue_ok_distinct [OF ok1]])
  then have "job_row t' (pj_id k) = Some ?j" unfolding unf(2) sel by (simp add: job_row_update)
  with c queue_ok_claim [OF assms(1,2)] show thesis
    by (intro that [of "from_row ?j" ?j]) (simp_all add: from_row_def owned_row_def claim_row_def)
qed

lemma lease_enter_busy:
  assumes "job_row t (cj_id c) = Some j" "owned_row (cj_id c) w j" "pj_attempts j = cj_attempts c"
    and "lease_enter h t T locks c w = (Inl e, locks')"
  shows "\<exists>key. e = JobScopeBusy key"
proof -
  from assms(4) have a: "acquire h t T locks c w = Inl e"
    by (simp add: lease_enter_def split: sum.splits prod.splits)
  have busy: "try_lock h w key sh l = Inl x \<Longrightarrow> \<exists>key. x = JobScopeBusy key" for key sh l x
    by (auto simp: try_lock_def split: if_splits)
  from assms(1-3) obtain row where row: "scope_row t T c w = Some row" by (simp add: scope_row_def Let_def)
  obtain ws repo where sc: "job_scope T c row = (ws, repo)" by fastforce
  show ?thesis
  proof (cases "try_lock h w (job_key (cj_id c)) False locks")
    case (Inl x)
    with a have "x = e" by (simp add: acquire_def)
    with busy [OF Inl] show ?thesis by simp
  next
    case (Inr l1)
    let ?two = "case ws of None \<Rightarrow> Inr l1 | Some x \<Rightarrow> try_lock h w (workspace_key x) (repo \<noteq> None) l1"
    show ?thesis
    proof (cases ?two)
      case (Inl x)
      with a Inr row sc have "x = e" by (simp add: acquire_def)
      with Inl show ?thesis by (auto split: option.splits dest: busy)
    next
      case two: (Inr l2)
      let ?three = "case repo of None \<Rightarrow> Inr l2 | Some r \<Rightarrow> try_lock h w (repository_key r) False l2"
      show ?thesis
      proof (cases ?three)
        case (Inl x)
        with a Inr row sc two have "x = e" by (simp add: acquire_def)
        with Inl show ?thesis by (auto split: option.splits dest: busy)
      next
        case three: (Inr l3)
        with a Inr row sc two show ?thesis by (simp add: acquire_def)
      qed
    qed
  qed
qed

lemma defer_result:
  assumes "queue_ok (ed_jobs db)" and "job_row (ed_jobs db) (cj_id c) = Some j" and "owned_row (cj_id c) w j"
  shows "defer_failure env = None \<Longrightarrow> \<exists>db'. defer_with_metrics env db c w reason = ([Deferral (cj_job_type c) reason], db') \<and>
       queue_ok (ed_jobs db') \<and>
       job_row (ed_jobs db') (cj_id c) = Some (requeued_row (defer_now env) (defer_now env + 5 * second) (cj_payload c) False j)"
    and "defer_failure env = Some e \<Longrightarrow> defer_with_metrics env db c w reason = ([JobOperationError (cj_job_type c) ''deferral''], db)"
proof -
  have owns: "owns (ed_jobs db) (cj_id c) w" using assms(2,3) by (simp add: owns_def)
  have five: "interval_secs 5 = 5 * second" using interval_secs_of_int [of 5] by simp
  let ?t = "sql_update (owned_row (cj_id c) w)
     (requeued_row (defer_now env) (defer_now env + 5 * second) (cj_payload c) False) (ed_jobs db)"
  have r: "requeue_txn (defer_now env) (ed_jobs db) (cj_id c) w (cj_payload c) 5 False = Inr ((), ?t)"
    by (simp add: requeue_txn_eq [OF assms(1)] owns five)
  show "\<exists>db'. defer_with_metrics env db c w reason = ([Deferral (cj_job_type c) reason], db') \<and>
       queue_ok (ed_jobs db') \<and>
       job_row (ed_jobs db') (cj_id c) = Some (requeued_row (defer_now env) (defer_now env + 5 * second) (cj_payload c) False j)"
    if "defer_failure env = None"
    using that r requeue.fin_ok [OF assms(1) r] assms(2,3)
    by (simp add: defer_with_metrics_def defer_to_def requeue_with_payload_def job_row_update)
  show "defer_with_metrics env db c w reason = ([JobOperationError (cj_job_type c) ''deferral''], db)"
    if "defer_failure env = Some e"
    using that by (simp add: defer_with_metrics_def defer_to_def)
qed

text \<open>How a claimed job can leave the iteration.\<close>

definition settled :: "event list \<Rightarrow> jobs \<Rightarrow> claimed_job \<Rightarrow> bool" where
  "settled events t c \<longleftrightarrow> (\<exists>out d j. DispatchOutcome (cj_job_type c) out d \<in> set events \<and>
     job_row t (cj_id c) = Some j \<and> pj_status j = outcome_status out)"

definition deferred :: "event list \<Rightarrow> jobs \<Rightarrow> claimed_job \<Rightarrow> time \<Rightarrow> bool" where
  "deferred events t c now \<longleftrightarrow> (\<exists>reason j. Deferral (cj_job_type c) reason \<in> set events \<and>
     job_row t (cj_id c) = Some j \<and> pj_status j = PENDING \<and> pj_attempts j = cj_attempts c - 1 \<and>
     pj_available_at j = now + 5 * second)"

definition stuck_with_alarm :: "event list \<Rightarrow> jobs \<Rightarrow> claimed_job \<Rightarrow> string \<Rightarrow> nat \<Rightarrow> bool" where
  "stuck_with_alarm events t c w slot \<longleftrightarrow>
     (LeaseFailure slot ''acquire'' \<in> set events \<or> JobOperationError (cj_job_type c) ''deferral'' \<in> set events) \<and>
     owns t (cj_id c) w"

lemma work_on_settles:
  assumes contract: "\<forall>n \<in> set handler_names. job_handler (impl n)"
    and q: "queue_ok (ed_jobs db)" and j: "job_row (ed_jobs db) (cj_id c) = Some j"
    and own: "owned_row (cj_id c) w j" and att: "pj_attempts j = cj_attempts c" "1 \<le> cj_attempts c" "cj_attempts c < 1024"
    and free: "\<forall>k a. (k, w, a) \<notin> set locks"
    and work: "work_on h env impl slot db locks [c] w = (events, (db', locks'), ret)"
  shows "queue_ok (ed_jobs db') \<and> (\<forall>k a. (k, w, a) \<notin> set locks') \<and>
     (settled events (ed_jobs db') c \<or> deferred events (ed_jobs db') c (defer_now env) \<or>
      (lease_failure env \<noteq> None \<or> defer_failure env \<noteq> None) \<and> stuck_with_alarm events (ed_jobs db') c w slot)"
proof -
  have deferral: ?thesis if d: "defer_with_metrics env db c w reason = (events, db')" and l: "locks' = locks" for reason
  proof (cases "defer_failure env")
    case None
    from defer_result(1) [OF q j own None, of reason] d obtain
      "events = [Deferral (cj_job_type c) reason]" "queue_ok (ed_jobs db')"
      "job_row (ed_jobs db') (cj_id c) = Some (requeued_row (defer_now env) (defer_now env + 5 * second) (cj_payload c) False j)"
      by auto
    with att free l show ?thesis by (auto simp: deferred_def requeued_row_def)
  next
    case (Some e)
    from defer_result(2) [OF q j own Some, of reason] d
    have "events = [JobOperationError (cj_job_type c) ''deferral'']" "db' = db" by simp_all
    with Some q j own free l show ?thesis by (auto simp: stuck_with_alarm_def owns_def)
  qed
  show ?thesis
  proof (cases "stop_after_claim env")
    case True
    with work deferral [of "''shutdown''"] show ?thesis
      by (simp add: work_on_def split: prod.splits)
  next
    case run: False
    show ?thesis
    proof (cases "lease_failure env")
      case (Some e)
      show ?thesis
      proof (cases "\<exists>k. e = JobScopeBusy k")
        case True
        with Some run work deferral [of "''scope_busy''"] show ?thesis
          by (auto simp: work_on_def enter_lease_def split: prod.splits)
      next
        case False
        with Some run work have "events = [LeaseFailure slot ''acquire''] \<and> db' = db \<and> locks' = locks"
          by (cases e) (auto simp: work_on_def enter_lease_def)
        with Some q j own free show ?thesis by (auto simp: stuck_with_alarm_def owns_def)
      qed
    next
      case None
      obtain r locks1 where le: "lease_enter h (ed_jobs db) (lease_tables env) locks c w = (r, locks1)" by fastforce
      show ?thesis
      proof (cases r)
        case (Inl e)
        from lease_enter_busy [OF j own att(1) le [unfolded Inl]] obtain key where "e = JobScopeBusy key" ..
        with Inl le None run work deferral [of "''scope_busy''"] show ?thesis
          by (auto simp: work_on_def enter_lease_def split: prod.splits)
      next
        case (Inr scope)
        define t1 where "t1 = heartbeat (beat_now env) (beat_skip env) (ed_jobs db) c w"
        obtain now u d where cl: "dispatch_clock env c = (now, u, d)" by (metis surj_pair)
        obtain res db2 where dj: "dispatch_job now u impl (db\<lparr>ed_jobs := t1\<rparr>) c w = (res, db2)" by fastforce
        have row1: "\<exists>j1. job_row t1 (cj_id c) = Some j1 \<and> owned_row (cj_id c) w j1 \<and> pj_attempts j1 < 1024"
          using j own att unfolding t1_def by (simp add: heartbeat_row owned_row_def)
        then obtain j1 where j1: "job_row t1 (cj_id c) = Some j1" "owned_row (cj_id c) w j1" "pj_attempts j1 < 1024"
          by blast
        have q1: "queue_ok t1" unfolding t1_def by (rule queue_ok_heartbeat [OF q])
        have "reports (dispatch_job now u impl (db\<lparr>ed_jobs := t1\<rparr>) c w) (cj_id c)"
        proof (cases "cj_job_type c \<in> set handler_names")
          case True
          with contract have "job_handler (impl (cj_job_type c))" by blast
          from job_handler.dispatch_reports [OF this, of "db\<lparr>ed_jobs := t1\<rparr>" c j1 w] q1 j1 show ?thesis by simp
        next
          case False
          with fail_job_reports [of "db\<lparr>ed_jobs := t1\<rparr>" "cj_id c" j1 w] q1 j1 show ?thesis
            by (simp add: dispatch_job_def HANDLERS_def)
        qed
        then obtain out j2 where o: "res = Inr out" "queue_ok (ed_jobs db2)"
          "job_row (ed_jobs db2) (cj_id c) = Some j2" "pj_status j2 = outcome_status out"
          unfolding dj by (auto simp: reports_def)
        from work run None le Inr dj cl o(1) have w1: "events = [JobStarted slot, DispatchOutcome (cj_job_type c) out d, JobStopped slot]"
          "db' = db2" "locks' = release_session w locks1"
          by (simp_all add: work_on_def enter_lease_def leased_dispatch_def t1_def [symmetric])
        with o have "settled events (ed_jobs db') c" by (auto simp: settled_def)
        with o w1 show ?thesis by (simp add: release_own)
      qed
    qed
  qed
qed


end
