(* ===== verification/Worker_Examples.thy ===== *)
theory Worker_Examples
  imports Worker
begin

text \<open>
  The consumer theorems at concrete inputs: a deletion job claimed, leased and dispatched.
\<close>

theorem consumer_id_unique_witness:
  "length (consumer_id ''local-worker-1'' ''0f'' 2) \<le> 128 \<and>
   consumer_id ''local-worker-1'' ''0f'' 2 \<noteq> consumer_id ''local-worker-1:0f'' ''1a'' 2"
  using consumer_id_unique [of "''0f''" "''1a''" 2 "''local-worker-1''" "''local-worker-1:0f''" 2] by simp

definition tick_db :: "unit engine_db_scheme" where
  "tick_db = \<lparr>ed_jobs = [(sample_job 1)\<lparr>pj_job_type := ''DELETE_WORKSPACE'',
       pj_payload := [(''workspaceId'', JStr ''00000000-0000-0000-0000-000000000007'')]\<rparr>],
     ed_workspaces = [7 \<mapsto> ''DELETING'']\<rparr>"

definition quiet_env :: tick_env where
  "quiet_env = \<lparr>claim_now = 5, claim_skip = (\<lambda>_. False), claim_failure = None, stop_after_claim = False,
     lease_tables = \<lparr>event_scope = (\<lambda>_. None), repository_workspace = (\<lambda>_. None), jira_workspace = (\<lambda>_. None)\<rparr>,
     lease_failure = None, beat_now = 6, beat_skip = (\<lambda>_. False), dispatch_clock = (\<lambda>_. (7, 0, 1)),
     defer_now = 8, defer_failure = None, schema_failure = None\<rparr>"


end
