(* ===== verification/Worker_Metrics.thy ===== *)
theory Worker_Metrics
  imports Worker
begin

text \<open>
  The process-local metrics of the worker (\<^verbatim>\<open>app/monitoring/worker_metrics.py\<close>): the Prometheus
  series as finite maps from label values to numbers, the operations that record events, the
  metrics endpoint and the queue sampler.  A missing map entry is a series that was never
  published; calling \<^verbatim>\<open>labels\<close> publishes it with value zero.
\<close>

section \<open>State\<close>

type_synonym 'l series = "'l \<Rightarrow> nat option"

record worker_metrics =
  known_job_types :: "string list"
  thread_slots :: "string list"
  active_started :: "string \<Rightarrow> rat option"
  configured_threads :: nat
  shutdown_requested :: bool
  thread_alive :: "string \<Rightarrow> bool option"
  thread_active :: "string \<Rightarrow> bool option"
  thread_last_successful_poll :: "string \<Rightarrow> time option"
  job_attempts :: "(string \<times> string) series"
  job_processing_duration :: "string \<times> string \<Rightarrow> rat list option"
  job_deferrals :: "(string \<times> string) series"
  stale_jobs_recovered :: "string series"
  poll_errors :: "string series"
  job_operation_errors :: "(string \<times> string) series"
  lease_failures :: "(string \<times> string) series"
  queue_gauges :: "queue_snapshot option"
  queue_collection_success :: bool
  queue_last_success :: time
  queue_collection_errors :: nat

definition ATTEMPT_OUTCOMES :: "string list" where
  "ATTEMPT_OUTCOMES = [''succeeded'', ''retry_scheduled'', ''dead_lettered'']"

definition PROCESSING_OUTCOMES :: "string list" where
  "PROCESSING_OUTCOMES = ATTEMPT_OUTCOMES @ [''continuation_requeued'', ''operational_error'']"

definition DEFERRAL_REASONS :: "string list" where
  "DEFERRAL_REASONS = [''continuation'', ''scope_busy'', ''shutdown'']"

definition LEASE_FAILURE_PHASES :: "string list" where
  "LEASE_FAILURE_PHASES = [''acquire'', ''connection_lost'']"

definition JOB_ERROR_OPERATIONS :: "string list" where
  "JOB_ERROR_OPERATIONS = [''deferral'', ''dispatch'']"

section \<open>Construction\<close>

definition zeros :: "'l list \<Rightarrow> 'l series" where
  "zeros ls = (\<lambda>l. if l \<in> set ls then Some 0 else None)"

definition init_metrics :: "int \<Rightarrow> string list \<Rightarrow> worker_metrics result" where
  "init_metrics threads known =
     (if threads < 1 then Inl (ValueError ''configured_threads must be positive'')
      else if known = [] then Inl (ValueError ''known_job_types must not be empty'')
      else
        let slots = map (\<lambda>k. str_int k) [1..threads];
            types = known @ [''UNKNOWN'']
        in Inr \<lparr>known_job_types = known, thread_slots = slots, active_started = (\<lambda>_. None),
             configured_threads = nat threads, shutdown_requested = False,
             thread_alive = (\<lambda>s. if s \<in> set slots then Some False else None),
             thread_active = (\<lambda>s. if s \<in> set slots then Some False else None),
             thread_last_successful_poll = (\<lambda>s. if s \<in> set slots then Some 0 else None),
             job_attempts = zeros (List.product types ATTEMPT_OUTCOMES),
             job_processing_duration =
               (\<lambda>l. if l \<in> set (List.product types PROCESSING_OUTCOMES) then Some [] else None),
             job_deferrals = zeros (List.product types DEFERRAL_REASONS),
             stale_jobs_recovered = zeros [''retry_scheduled'', ''dead_lettered''],
             poll_errors = zeros slots,
             job_operation_errors = zeros (List.product types JOB_ERROR_OPERATIONS),
             lease_failures = zeros (List.product slots LEASE_FAILURE_PHASES),
             queue_gauges = None, queue_collection_success = False, queue_last_success = 0,
             queue_collection_errors = 0\<rparr>)"

section \<open>Operations\<close>

text \<open>\<^verbatim>\<open>labels(...).inc(k)\<close> and \<^verbatim>\<open>labels(...).observe(d)\<close>.\<close>

definition inc :: "'l \<Rightarrow> nat \<Rightarrow> 'l series \<Rightarrow> 'l series" where
  "inc l k s = s(l \<mapsto> (case s l of None \<Rightarrow> 0 | Some n \<Rightarrow> n) + k)"

definition observe :: "'l \<Rightarrow> rat \<Rightarrow> ('l \<Rightarrow> rat list option) \<Rightarrow> 'l \<Rightarrow> rat list option" where
  "observe l d s = s(l \<mapsto> (case s l of None \<Rightarrow> [] | Some ds \<Rightarrow> ds) @ [d])"

definition slot_label :: "worker_metrics \<Rightarrow> string \<Rightarrow> string result" where
  "slot_label m value =
     (if value \<in> set (thread_slots m) then Inr value
      else Inl (ValueError (''unknown thread slot: '' @ value)))"

definition bounded_job_type :: "worker_metrics \<Rightarrow> string \<Rightarrow> string" where
  "bounded_job_type m job_type = (if job_type \<in> set (known_job_types m) then job_type else ''UNKNOWN'')"

definition active_duration :: "worker_metrics \<Rightarrow> rat \<Rightarrow> string \<Rightarrow> rat" where
  "active_duration m monotonic slot =
     (case active_started m slot of None \<Rightarrow> 0 | Some started \<Rightarrow> max 0 (monotonic - started))"

definition with_slot ::
  "worker_metrics \<Rightarrow> string \<Rightarrow> (string \<Rightarrow> worker_metrics) \<Rightarrow> worker_metrics result" where
  "with_slot m slot f = (case slot_label m slot of Inl e \<Rightarrow> Inl e | Inr s \<Rightarrow> Inr (f s))"

definition mark_thread_started :: "worker_metrics \<Rightarrow> string \<Rightarrow> worker_metrics result" where
  "mark_thread_started m slot =
     with_slot m slot (\<lambda>s. m\<lparr>thread_alive := (thread_alive m)(s \<mapsto> True)\<rparr>)"

definition mark_job_started :: "worker_metrics \<Rightarrow> rat \<Rightarrow> string \<Rightarrow> worker_metrics result" where
  "mark_job_started m monotonic slot =
     with_slot m slot (\<lambda>s. m\<lparr>active_started := (active_started m)(s \<mapsto> monotonic),
                            thread_active := (thread_active m)(s \<mapsto> True)\<rparr>)"

definition mark_job_stopped :: "worker_metrics \<Rightarrow> string \<Rightarrow> worker_metrics result" where
  "mark_job_stopped m slot =
     with_slot m slot (\<lambda>s. m\<lparr>active_started := (active_started m)(s := None),
                            thread_active := (thread_active m)(s \<mapsto> False)\<rparr>)"

definition mark_thread_stopped :: "worker_metrics \<Rightarrow> string \<Rightarrow> worker_metrics result" where
  "mark_thread_stopped m slot =
     (case mark_job_stopped m slot of
        Inl e \<Rightarrow> Inl e
      | Inr m' \<Rightarrow> Inr (m'\<lparr>thread_alive := (thread_alive m')(slot \<mapsto> False)\<rparr>))"

definition record_poll_success :: "worker_metrics \<Rightarrow> time \<Rightarrow> string \<Rightarrow> worker_metrics result" where
  "record_poll_success m now slot =
     with_slot m slot (\<lambda>s. m\<lparr>thread_last_successful_poll := (thread_last_successful_poll m)(s \<mapsto> now)\<rparr>)"

definition record_poll_error :: "worker_metrics \<Rightarrow> string \<Rightarrow> worker_metrics result" where
  "record_poll_error m slot = with_slot m slot (\<lambda>s. m\<lparr>poll_errors := inc s 1 (poll_errors m)\<rparr>)"

definition record_deferral :: "worker_metrics \<Rightarrow> string \<Rightarrow> string \<Rightarrow> worker_metrics result" where
  "record_deferral m job_type reason =
     (if reason \<notin> set DEFERRAL_REASONS then Inl (ValueError (''unknown deferral reason: '' @ reason))
      else Inr (m\<lparr>job_deferrals := inc (bounded_job_type m job_type, reason) 1 (job_deferrals m)\<rparr>))"

definition record_dispatch_outcome ::
  "worker_metrics \<Rightarrow> string \<Rightarrow> string \<Rightarrow> rat \<Rightarrow> worker_metrics result" where
  "record_dispatch_outcome m job_type outcome duration =
     (if outcome \<notin> set PROCESSING_OUTCOMES - {''operational_error''}
      then Inl (ValueError (''unknown dispatch outcome: '' @ outcome))
      else
        let b = bounded_job_type m job_type;
            m1 = m\<lparr>job_processing_duration := observe (b, outcome) (max 0 duration) (job_processing_duration m)\<rparr>;
            m2 = (if outcome \<in> set ATTEMPT_OUTCOMES
                  then m1\<lparr>job_attempts := inc (b, outcome) 1 (job_attempts m1)\<rparr> else m1)
        in if outcome = ''continuation_requeued'' then record_deferral m2 job_type ''continuation''
           else Inr m2)"

definition record_dispatch_error :: "worker_metrics \<Rightarrow> string \<Rightarrow> rat \<Rightarrow> worker_metrics result" where
  "record_dispatch_error m job_type duration =
     (let b = bounded_job_type m job_type in
      Inr (m\<lparr>job_operation_errors := inc (b, ''dispatch'') 1 (job_operation_errors m),
             job_processing_duration :=
               observe (b, ''operational_error'') (max 0 duration) (job_processing_duration m)\<rparr>))"

definition record_job_operation_error :: "worker_metrics \<Rightarrow> string \<Rightarrow> string \<Rightarrow> worker_metrics result" where
  "record_job_operation_error m job_type operation =
     (if operation \<notin> set JOB_ERROR_OPERATIONS
      then Inl (ValueError (''unknown job error operation: '' @ operation))
      else Inr (m\<lparr>job_operation_errors :=
             inc (bounded_job_type m job_type, operation) 1 (job_operation_errors m)\<rparr>))"

definition record_stale_recovery :: "worker_metrics \<Rightarrow> int \<Rightarrow> int \<Rightarrow> worker_metrics result" where
  "record_stale_recovery m retryable_count dead =
     (if retryable_count < 0 \<or> dead < 0
      then Inl (ValueError ''stale recovery counts cannot be negative'')
      else
        let s1 = (if retryable_count \<noteq> 0 then inc ''retry_scheduled'' (nat retryable_count) (stale_jobs_recovered m)
                  else stale_jobs_recovered m);
            s2 = (if dead \<noteq> 0 then inc ''dead_lettered'' (nat dead) s1 else s1)
        in Inr (m\<lparr>stale_jobs_recovered := s2\<rparr>))"

definition record_lease_failure :: "worker_metrics \<Rightarrow> string \<Rightarrow> string \<Rightarrow> worker_metrics result" where
  "record_lease_failure m slot phase =
     (if phase \<notin> set LEASE_FAILURE_PHASES
      then Inl (ValueError (''unknown lease failure phase: '' @ phase))
      else with_slot m slot (\<lambda>s. m\<lparr>lease_failures := inc (s, phase) 1 (lease_failures m)\<rparr>))"

definition record_queue_snapshot :: "worker_metrics \<Rightarrow> time \<Rightarrow> queue_snapshot \<Rightarrow> worker_metrics" where
  "record_queue_snapshot m now snapshot =
     m\<lparr>queue_gauges := Some snapshot, queue_collection_success := True, queue_last_success := now\<rparr>"

definition record_queue_collection_error :: "worker_metrics \<Rightarrow> worker_metrics" where
  "record_queue_collection_error m =
     m\<lparr>queue_collection_success := False, queue_collection_errors := queue_collection_errors m + 1\<rparr>"

definition mark_shutdown_requested :: "worker_metrics \<Rightarrow> worker_metrics" where
  "mark_shutdown_requested m = m\<lparr>shutdown_requested := True\<rparr>"

text \<open>
  \<^verbatim>\<open>QueueMetricsSampler.collect_once\<close> with its query on the queue; the result says whether it
  succeeded.  \<open>failure\<close> is a database error.
\<close>

definition collect_once ::
  "exn option \<Rightarrow> time \<Rightarrow> jobs \<Rightarrow> worker_metrics \<Rightarrow> bool \<times> worker_metrics" where
  "collect_once failure now t m =
     (case (case failure of Some e \<Rightarrow> Inl e | None \<Rightarrow> collect_queue_snapshot now t 5) of
        Inl e \<Rightarrow> (False, record_queue_collection_error m)
      | Inr snapshot \<Rightarrow> (True, record_queue_snapshot m now snapshot))"

section \<open>Recording the events of a consumer\<close>

fun outcome_value :: "job_dispatch_outcome \<Rightarrow> string" where
  "outcome_value OutcomeSucceeded = ''succeeded''"
| "outcome_value RetryScheduled = ''retry_scheduled''"
| "outcome_value DeadLettered = ''dead_lettered''"
| "outcome_value ContinuationRequeued = ''continuation_requeued''"

definition slot_str :: "nat \<Rightarrow> string" where "slot_str slot = str_int (int slot)"

text \<open>\<open>now\<close> and \<open>clk\<close> are \<^verbatim>\<open>time()\<close> and \<^verbatim>\<open>monotonic()\<close> when the event is recorded.\<close>

fun record_event :: "time \<Rightarrow> rat \<Rightarrow> event \<Rightarrow> worker_metrics \<Rightarrow> worker_metrics result" where
  "record_event now clk (ThreadStarted slot) m = mark_thread_started m (slot_str slot)"
| "record_event now clk (ThreadStopped slot) m = mark_thread_stopped m (slot_str slot)"
| "record_event now clk (PollSuccess slot) m = record_poll_success m now (slot_str slot)"
| "record_event now clk (PollError slot) m = record_poll_error m (slot_str slot)"
| "record_event now clk (StaleRecovery r d) m = record_stale_recovery m (int r) (int d)"
| "record_event now clk (JobStarted slot) m = mark_job_started m clk (slot_str slot)"
| "record_event now clk (JobStopped slot) m = mark_job_stopped m (slot_str slot)"
| "record_event now clk (DispatchOutcome t out d) m = record_dispatch_outcome m t (outcome_value out) d"
| "record_event now clk (DispatchError t d) m = record_dispatch_error m t d"
| "record_event now clk (Deferral t reason) m = record_deferral m t reason"
| "record_event now clk (JobOperationError t op) m = record_job_operation_error m t op"
| "record_event now clk (LeaseFailure slot phase) m = record_lease_failure m (slot_str slot) phase"

text \<open>\<^verbatim>\<open>_record_metric\<close>: an exception is logged and swallowed.\<close>

definition record_metric :: "time \<Rightarrow> rat \<Rightarrow> event \<Rightarrow> worker_metrics \<Rightarrow> worker_metrics" where
  "record_metric now clk e m = (case record_event now clk e m of Inl _ \<Rightarrow> m | Inr m' \<Rightarrow> m')"

fun record_all :: "(time \<times> rat \<times> event) list \<Rightarrow> worker_metrics \<Rightarrow> worker_metrics" where
  "record_all [] m = m"
| "record_all ((now, clk, e) # es) m = record_all es (record_metric now clk e m)"

section \<open>Labels stay bounded\<close>

text \<open>Every set of label values a metric has published.\<close>

definition published ::
  "worker_metrics \<Rightarrow> (string list \<times> string list) \<times> (string set \<times> string set \<times> string set) \<times>
     ((string \<times> string) set \<times> (string \<times> string) set \<times> (string \<times> string) set) \<times>
     (string set \<times> string set \<times> (string \<times> string) set \<times> (string \<times> string) set)" where
  "published m =
     ((known_job_types m, thread_slots m),
      (dom (thread_alive m), dom (thread_active m), dom (thread_last_successful_poll m)),
      (dom (job_attempts m), dom (job_processing_duration m), dom (job_deferrals m)),
      (dom (stale_jobs_recovered m), dom (poll_errors m), dom (job_operation_errors m), dom (lease_failures m)))"

text \<open>The label sets of the zero baseline.\<close>

definition baseline :: "worker_metrics \<Rightarrow> bool" where
  "baseline m \<longleftrightarrow>
     (let slots = set (thread_slots m); types = insert ''UNKNOWN'' (set (known_job_types m)) in
      published m =
        ((known_job_types m, thread_slots m), (slots, slots, slots),
         (types \<times> set ATTEMPT_OUTCOMES, types \<times> set PROCESSING_OUTCOMES, types \<times> set DEFERRAL_REASONS),
         ({''retry_scheduled'', ''dead_lettered''}, slots, types \<times> set JOB_ERROR_OPERATIONS,
          slots \<times> set LEASE_FAILURE_PHASES)))"

lemma dom_inc [simp]: "dom (inc l k s) = insert l (dom s)"
  by (simp add: inc_def)

lemma dom_observe [simp]: "dom (observe l d s) = insert l (dom s)"
  by (simp add: observe_def)

lemma dom_zeros [simp]: "dom (zeros ls) = set ls"
  by (auto simp: zeros_def split: if_splits)

lemma baseline_init:
  assumes "init_metrics threads known = Inr m"
  shows "baseline m \<and> known_job_types m = known \<and> thread_slots m = map (\<lambda>k. str_int k) [1..threads]"
proof -
  have d: "dom (\<lambda>s. if s \<in> X then Some c else None) = X" for X :: "'x set" and c :: 'y
    by (auto split: if_splits)
  from assms show ?thesis
    by (clarsimp simp: init_metrics_def Let_def baseline_def published_def d split: if_splits)
qed

lemma bounded_job_type_in: "bounded_job_type m t \<in> insert ''UNKNOWN'' (set (known_job_types m))"
  by (simp add: bounded_job_type_def)

lemma slot_label_in: "slot_label m s = Inr l \<Longrightarrow> l = s \<and> s \<in> set (thread_slots m)"
  by (simp add: slot_label_def split: if_splits)

lemma baseline_domains:
  assumes "baseline m"
  shows "s \<in> set (thread_slots m) \<Longrightarrow> s \<in> dom (thread_alive m) \<and> s \<in> dom (thread_active m)
      \<and> s \<in> dom (thread_last_successful_poll m) \<and> s \<in> dom (poll_errors m)"
    and "o' \<in> set ATTEMPT_OUTCOMES \<Longrightarrow> (bounded_job_type m t, o') \<in> dom (job_attempts m)"
    and "o' \<in> set PROCESSING_OUTCOMES \<Longrightarrow> (bounded_job_type m t, o') \<in> dom (job_processing_duration m)"
    and "r \<in> set DEFERRAL_REASONS \<Longrightarrow> (bounded_job_type m t, r) \<in> dom (job_deferrals m)"
    and "op \<in> set JOB_ERROR_OPERATIONS \<Longrightarrow> (bounded_job_type m t, op) \<in> dom (job_operation_errors m)"
    and "s \<in> set (thread_slots m) \<Longrightarrow> ph \<in> set LEASE_FAILURE_PHASES \<Longrightarrow> (s, ph) \<in> dom (lease_failures m)"
    and "q \<in> {''retry_scheduled'', ''dead_lettered''} \<Longrightarrow> q \<in> dom (stale_jobs_recovered m)"
  using assms bounded_job_type_in [of m t] unfolding baseline_def published_def Let_def by (simp_all only: prod.inject) blast+

lemma slot_str_event: "with_slot m l f = Inr m' \<Longrightarrow> l \<in> set (thread_slots m) \<and> m' = f l"
  by (auto simp: with_slot_def split: sum.splits dest: slot_label_in)

lemma slot_absorb:
  assumes "baseline m" and "s \<in> set (thread_slots m)"
  shows "insert s (dom (thread_alive m)) = dom (thread_alive m)"
    and "insert s (dom (thread_active m)) = dom (thread_active m)"
    and "insert s (dom (thread_last_successful_poll m)) = dom (thread_last_successful_poll m)"
    and "insert s (dom (poll_errors m)) = dom (poll_errors m)"
  using baseline_domains(1) [OF assms] by (simp_all only: insert_absorb)

lemma inc_absorb: "l \<in> dom s \<Longrightarrow> dom (inc l k s) = dom s"
  by (simp only: dom_inc insert_absorb)

lemma observe_absorb: "l \<in> dom s \<Longrightarrow> dom (observe l d s) = dom s"
  by (simp only: dom_observe insert_absorb)

lemma published_slot:
  assumes b: "baseline m" and e: "with_slot m l f = Inr m'"
    and f: "l \<in> set (thread_slots m) \<Longrightarrow> published (f l) = published m"
  shows "published m' = published m"
  using slot_str_event [OF e] f by simp

lemma published_mark_job_stopped:
  "baseline m \<Longrightarrow> mark_job_stopped m l = Inr m' \<Longrightarrow> published m' = published m \<and> l \<in> set (thread_slots m)"
proof -
  assume b: "baseline m" and e: "mark_job_stopped m l = Inr m'"
  note w = slot_str_event [OF e [unfolded mark_job_stopped_def]]
  from w slot_absorb [OF b, of l] show ?thesis by (simp add: published_def)
qed

lemma published_deferral:
  assumes "baseline m" and "record_deferral m t r = Inr m'"
  shows "published m' = published m"
proof -
  from assms(2) have r: "r \<in> set DEFERRAL_REASONS"
    and m': "m' = m\<lparr>job_deferrals := inc (bounded_job_type m t, r) 1 (job_deferrals m)\<rparr>"
    by (simp_all add: record_deferral_def split: if_splits)
  show ?thesis using inc_absorb [OF baseline_domains(4) [OF assms(1) r]] by (simp add: m' published_def del: dom_inc)
qed

lemma published_operation_error:
  assumes "baseline m" and "record_job_operation_error m t op = Inr m'"
  shows "published m' = published m"
proof -
  from assms(2) have op: "op \<in> set JOB_ERROR_OPERATIONS"
    and m': "m' = m\<lparr>job_operation_errors := inc (bounded_job_type m t, op) 1 (job_operation_errors m)\<rparr>"
    by (simp_all add: record_job_operation_error_def split: if_splits)
  show ?thesis using inc_absorb [OF baseline_domains(5) [OF assms(1) op]] by (simp add: m' published_def del: dom_inc)
qed

lemma published_dispatch_error:
  assumes "baseline m" and "record_dispatch_error m t d = Inr m'"
  shows "published m' = published m"
proof -
  have perr: "''operational_error'' \<in> set PROCESSING_OUTCOMES" "''dispatch'' \<in> set JOB_ERROR_OPERATIONS"
    by (simp_all add: PROCESSING_OUTCOMES_def JOB_ERROR_OPERATIONS_def)
  let ?b = "bounded_job_type m t"
  have m': "m' = m\<lparr>job_operation_errors := inc (?b, ''dispatch'') 1 (job_operation_errors m),
      job_processing_duration := observe (?b, ''operational_error'') (max 0 d) (job_processing_duration m)\<rparr>"
    using assms(2) by (simp add: record_dispatch_error_def Let_def)
  show ?thesis
    unfolding m' published_def
    by (simp add: inc_absorb [OF baseline_domains(5) [OF assms(1) perr(2)]]
        observe_absorb [OF baseline_domains(3) [OF assms(1) perr(1)]] del: dom_inc dom_observe)
qed

lemma published_outcome:
  assumes "baseline m" and "record_dispatch_outcome m t out d = Inr m'"
  shows "published m' = published m"
proof -
  let ?b = "bounded_job_type m t"
  define m1 where "m1 = m\<lparr>job_processing_duration := observe (?b, out) (max 0 d) (job_processing_duration m)\<rparr>"
  define m2 where "m2 = (if out \<in> set ATTEMPT_OUTCOMES
      then m1\<lparr>job_attempts := inc (?b, out) 1 (job_attempts m1)\<rparr> else m1)"
  from assms(2) have out: "out \<in> set PROCESSING_OUTCOMES"
    and m': "(if out = ''continuation_requeued'' then record_deferral m2 t ''continuation'' else Inr m2) = Inr m'"
    unfolding record_dispatch_outcome_def Let_def m1_def m2_def by (simp_all split: if_splits)
  have p1: "published m1 = published m"
    using observe_absorb [OF baseline_domains(3) [OF assms(1) out]] by (simp add: m1_def published_def del: dom_observe)
  have p2: "published m2 = published m"
    using p1 inc_absorb [OF baseline_domains(2) [OF assms(1)], of out]
    by (auto simp: m2_def m1_def published_def simp del: dom_inc dom_observe)
  then have "baseline m2"
    using assms(1) by (simp add: baseline_def) (simp add: published_def m2_def m1_def)
  with m' p2 published_deferral [of m2 t "''continuation''" m'] show ?thesis by (auto split: if_splits)
qed

lemma published_stale:
  assumes "baseline m" and "record_stale_recovery m r d = Inr m'"
  shows "published m' = published m"
proof -
  define s1 where "s1 = (if r \<noteq> 0 then inc ''retry_scheduled'' (nat r) (stale_jobs_recovered m) else stale_jobs_recovered m)"
  define s2 where "s2 = (if d \<noteq> 0 then inc ''dead_lettered'' (nat d) s1 else s1)"
  have q: "''retry_scheduled'' \<in> dom (stale_jobs_recovered m)" "''dead_lettered'' \<in> dom (stale_jobs_recovered m)"
    using baseline_domains(7) [OF assms(1)] by simp_all
  have d1: "dom s1 = dom (stale_jobs_recovered m)" using inc_absorb [OF q(1)] by (simp add: s1_def del: dom_inc)
  with q(2) have "''dead_lettered'' \<in> dom s1" by (simp only:)
  from inc_absorb [OF this] d1 have d2: "dom s2 = dom (stale_jobs_recovered m)" by (simp add: s2_def del: dom_inc)
  from assms(2) have "m' = m\<lparr>stale_jobs_recovered := s2\<rparr>"
    unfolding record_stale_recovery_def Let_def s1_def [symmetric] s2_def [symmetric]
    by (simp split: if_splits)
  with d2 show ?thesis by (simp add: published_def)
qed

lemma published_record:
  assumes b: "baseline m" and r: "record_event now clk e m = Inr m'"
  shows "published m' = published m"
proof (cases e)
  case (ThreadStarted k)
  show ?thesis by (rule published_slot [OF b r [unfolded ThreadStarted record_event.simps mark_thread_started_def]])
    (simp add: published_def slot_absorb [OF b])
next
  case (ThreadStopped k)
  with r obtain m1 where m1: "mark_job_stopped m (slot_str k) = Inr m1"
    and m': "m' = m1\<lparr>thread_alive := (thread_alive m1)(slot_str k \<mapsto> False)\<rparr>"
    by (auto simp: mark_thread_stopped_def split: sum.splits)
  from published_mark_job_stopped [OF b m1] have p: "published m1 = published m" "slot_str k \<in> set (thread_slots m)" by simp_all
  then have "baseline m1" "slot_str k \<in> set (thread_slots m1)"
    using b by (simp_all add: baseline_def published_def)
  from slot_absorb [OF this] p m' show ?thesis by (simp add: published_def)
next
  case (PollSuccess k)
  show ?thesis by (rule published_slot [OF b r [unfolded PollSuccess record_event.simps record_poll_success_def]])
    (simp add: published_def slot_absorb [OF b])
next
  case (PollError k)
  show ?thesis by (rule published_slot [OF b r [unfolded PollError record_event.simps record_poll_error_def]])
    (simp add: published_def slot_absorb [OF b])
next
  case (JobStarted k)
  show ?thesis by (rule published_slot [OF b r [unfolded JobStarted record_event.simps mark_job_started_def]])
    (simp add: published_def slot_absorb [OF b])
next
  case (JobStopped k)
  with r published_mark_job_stopped [OF b] show ?thesis by simp
next
  case (LeaseFailure k ph)
  with r have ph: "ph \<in> set LEASE_FAILURE_PHASES"
    and w: "with_slot m (slot_str k) (\<lambda>s. m\<lparr>lease_failures := inc (s, ph) 1 (lease_failures m)\<rparr>) = Inr m'"
    by (simp_all add: record_lease_failure_def split: if_splits)
  show ?thesis
    by (rule published_slot [OF b w])
      (use inc_absorb [OF baseline_domains(6) [OF b _ ph]] in \<open>simp add: published_def del: dom_inc\<close>)
qed (use r published_deferral [OF b] published_operation_error [OF b] published_dispatch_error [OF b]
      published_outcome [OF b] published_stale [OF b] in simp_all)

lemma record_metric_baseline:
  assumes "baseline m"
  shows "baseline (record_metric now clk e m) \<and> published (record_metric now clk e m) = published m"
proof -
  have "published (record_metric now clk e m) = published m"
    using published_record [OF assms] by (simp add: record_metric_def split: sum.splits)
  moreover from this assms have "baseline (record_metric now clk e m)"
    by (simp add: baseline_def) (simp add: published_def)
  ultimately show ?thesis by simp
qed

lemma record_all_baseline: "baseline m \<Longrightarrow> baseline (record_all es m) \<and> published (record_all es m) = published m"
  by (induction es m rule: record_all.induct) (simp_all add: record_metric_baseline)

text \<open>
  The label sets never grow: whatever events are recorded, with whatever job types, slots,
  reasons or phases, every metric has exactly the series of the zero baseline published when the
  worker started, so their number is fixed by the configured threads and the known job types.
\<close>

theorem metric_labels_bounded:
  assumes "init_metrics threads known = Inr m0"
  shows "published (record_all es m0) = published m0 \<and> baseline (record_all es m0) \<and>
     dom (job_attempts (record_all es m0)) = insert ''UNKNOWN'' (set known) \<times> set ATTEMPT_OUTCOMES \<and>
     dom (poll_errors (record_all es m0)) = str_int ` {1..threads}"
proof -
  note b = baseline_init [OF assms]
  from record_all_baseline [of m0 es] b
  have r: "published (record_all es m0) = published m0" "baseline (record_all es m0)" by simp_all
  have "dom (job_attempts m0) = insert ''UNKNOWN'' (set known) \<times> set ATTEMPT_OUTCOMES"
    "dom (poll_errors m0) = str_int ` {1..threads}"
    using b by (simp_all add: baseline_def published_def Let_def)
  with r show ?thesis by (simp add: published_def)
qed

section \<open>Counters count events\<close>

text \<open>The events that count as an attempt of a bounded job type with an outcome.\<close>

definition attempt_event :: "worker_metrics \<Rightarrow> string \<Rightarrow> string \<Rightarrow> event \<Rightarrow> bool" where
  "attempt_event m t out e \<longleftrightarrow>
     (case e of DispatchOutcome t' out' _ \<Rightarrow> bounded_job_type m t' = t \<and> outcome_value out' = out | _ \<Rightarrow> False)"

definition deferral_event :: "worker_metrics \<Rightarrow> string \<Rightarrow> string \<Rightarrow> event \<Rightarrow> bool" where
  "deferral_event m t reason e \<longleftrightarrow>
     (case e of
        DispatchOutcome t' out' _ \<Rightarrow>
          bounded_job_type m t' = t \<and> out' = ContinuationRequeued \<and> reason = ''continuation''
      | Deferral t' reason' \<Rightarrow> bounded_job_type m t' = t \<and> reason' = reason
      | _ \<Rightarrow> False)"

lemma known_bounded: "known_job_types m' = known_job_types m \<Longrightarrow> bounded_job_type m' = bounded_job_type m"
  by (simp add: bounded_job_type_def fun_eq_iff)

lemma inc_value: "l \<in> dom s \<Longrightarrow> inc l' k s l = Some (the (s l) + (if l' = l then k else 0))"
  by (auto simp: inc_def)

lemma deferral_counts:
  assumes "baseline m" and "t \<in> insert ''UNKNOWN'' (set (known_job_types m))" and "q \<in> set DEFERRAL_REASONS"
    and "record_deferral m t' r = Inr m'"
  shows "job_deferrals m' (t, q) = Some (the (job_deferrals m (t, q)) +
      (if bounded_job_type m t' = t \<and> r = q then 1 else 0))"
proof -
  have d: "(t, q) \<in> dom (job_deferrals m)" using assms(1-3) by (simp add: baseline_def published_def Let_def)
  from assms(4) have "m' = m\<lparr>job_deferrals := inc (bounded_job_type m t', r) 1 (job_deferrals m)\<rparr>"
    by (simp add: record_deferral_def split: if_splits)
  with inc_value [OF d] show ?thesis by auto
qed

text \<open>An outcome is always recorded: as an attempt, as a continuation, or both kinds of error excluded.\<close>

lemma outcome_recorded:
  "record_dispatch_outcome m t' (outcome_value out) d =
     Inr (let b = bounded_job_type m t';
              m1 = m\<lparr>job_processing_duration :=
                observe (b, outcome_value out) (max 0 d) (job_processing_duration m)\<rparr>
          in if out = ContinuationRequeued
             then m1\<lparr>job_deferrals := inc (b, ''continuation'') 1 (job_deferrals m)\<rparr>
             else m1\<lparr>job_attempts := inc (b, outcome_value out) 1 (job_attempts m)\<rparr>)"
  by (cases out) (simp_all add: record_dispatch_outcome_def PROCESSING_OUTCOMES_def ATTEMPT_OUTCOMES_def
      record_deferral_def DEFERRAL_REASONS_def bounded_job_type_def Let_def)

lemma metric_outcome:
  "record_metric now clk (DispatchOutcome t' out d) m =
     (let b = bounded_job_type m t';
          m1 = m\<lparr>job_processing_duration :=
                observe (b, outcome_value out) (max 0 d) (job_processing_duration m)\<rparr>
      in if out = ContinuationRequeued
         then m1\<lparr>job_deferrals := inc (b, ''continuation'') 1 (job_deferrals m)\<rparr>
         else m1\<lparr>job_attempts := inc (b, outcome_value out) 1 (job_attempts m)\<rparr>)"
  by (simp only: record_metric_def record_event.simps outcome_recorded sum.case)

lemma other_events_keep:
  assumes "\<forall>t out d. e \<noteq> DispatchOutcome t out d" and "\<forall>t r. e \<noteq> Deferral t r"
  shows "job_attempts (record_metric now clk e m) = job_attempts m \<and>
    job_deferrals (record_metric now clk e m) = job_deferrals m"
  using assms
  by (cases e) (simp_all add: record_metric_def mark_thread_started_def mark_job_started_def mark_job_stopped_def
      mark_thread_stopped_def record_poll_success_def record_poll_error_def record_dispatch_error_def
      record_job_operation_error_def record_stale_recovery_def record_lease_failure_def with_slot_def
      slot_label_def Let_def)

lemma outcome_value_attempt: "outcome_value out \<in> set ATTEMPT_OUTCOMES \<longleftrightarrow> out \<noteq> ContinuationRequeued"
  by (cases out) (simp_all add: ATTEMPT_OUTCOMES_def)

lemma counts_step:
  assumes b: "baseline m" and t: "t \<in> insert ''UNKNOWN'' (set (known_job_types m))"
  shows "out \<in> set ATTEMPT_OUTCOMES \<Longrightarrow> job_attempts (record_metric now clk e m) (t, out) =
      Some (the (job_attempts m (t, out)) + (if attempt_event m t out e then 1 else 0))"
    and "q \<in> set DEFERRAL_REASONS \<Longrightarrow> job_deferrals (record_metric now clk e m) (t, q) =
      Some (the (job_deferrals m (t, q)) + (if deferral_event m t q e then 1 else 0))"
proof -
  have da: "(t, o') \<in> dom (job_attempts m)" if "o' \<in> set ATTEMPT_OUTCOMES" for o'
    using b t that by (simp add: baseline_def published_def Let_def)
  have dd: "(t, r) \<in> dom (job_deferrals m)" if "r \<in> set DEFERRAL_REASONS" for r
    using b t that by (simp add: baseline_def published_def Let_def)
  show "job_attempts (record_metric now clk e m) (t, out) =
      Some (the (job_attempts m (t, out)) + (if attempt_event m t out e then 1 else 0))" if o: "out \<in> set ATTEMPT_OUTCOMES"
  proof (cases e)
    case (DispatchOutcome t' out' d)
    note rec = metric_outcome [of now clk t' out' d m, folded DispatchOutcome]
    have "out' = ContinuationRequeued \<Longrightarrow> outcome_value out' \<noteq> out"
      using o outcome_value_attempt [of out'] by auto
    with DispatchOutcome inc_value [OF da [OF o]] da [OF o] show ?thesis
      unfolding rec Let_def by (cases "out' = ContinuationRequeued") (auto simp: attempt_event_def)
  next
    case (Deferral t' r)
    with da [OF o] show ?thesis by (auto simp: record_metric_def record_deferral_def attempt_event_def)
  qed (use other_events_keep [of e now clk m] da [OF o] in \<open>auto simp: attempt_event_def\<close>)
  show "job_deferrals (record_metric now clk e m) (t, q) =
      Some (the (job_deferrals m (t, q)) + (if deferral_event m t q e then 1 else 0))" if q: "q \<in> set DEFERRAL_REASONS"
  proof (cases e)
    case (DispatchOutcome t' out' d)
    note rec = metric_outcome [of now clk t' out' d m, folded DispatchOutcome]
    from DispatchOutcome inc_value [OF dd [OF q]] dd [OF q] show ?thesis
      unfolding rec Let_def by (cases "out' = ContinuationRequeued") (auto simp: deferral_event_def)
  next
    case (Deferral t' r)
    show ?thesis
    proof (cases "record_deferral m t' r")
      case (Inl x)
      then have "r \<noteq> q" using q by (auto simp: record_deferral_def split: if_splits)
      with Inl Deferral dd [OF q] show ?thesis by (auto simp: record_metric_def deferral_event_def)
    next
      case (Inr m')
      with deferral_counts [OF b t q Inr] Deferral show ?thesis
        by (simp add: record_metric_def deferral_event_def)
    qed
  qed (use other_events_keep [of e now clk m] dd [OF q] in \<open>auto simp: deferral_event_def\<close>)
qed

lemma events_depend_on_known:
  "known_job_types m' = known_job_types m \<Longrightarrow> attempt_event m' = attempt_event m \<and> deferral_event m' = deferral_event m"
proof -
  assume k: "known_job_types m' = known_job_types m"
  show ?thesis
    unfolding attempt_event_def [abs_def] deferral_event_def [abs_def] known_bounded [OF k] by simp
qed

lemma counts_all:
  assumes "baseline m" and "t \<in> insert ''UNKNOWN'' (set (known_job_types m))"
    and "out \<in> set ATTEMPT_OUTCOMES" and "q \<in> set DEFERRAL_REASONS"
  shows "job_attempts (record_all es m) (t, out) =
      Some (the (job_attempts m (t, out)) + length (filter (attempt_event m t out) (map (snd \<circ> snd) es))) \<and>
    job_deferrals (record_all es m) (t, q) =
      Some (the (job_deferrals m (t, q)) + length (filter (deferral_event m t q) (map (snd \<circ> snd) es)))"
  using assms(1,2)
proof (induction es m rule: record_all.induct)
  case (1 m)
  then have "(t, out) \<in> dom (job_attempts m)" "(t, q) \<in> dom (job_deferrals m)"
    using assms(3,4) by (simp_all add: baseline_def published_def Let_def)
  then show ?case by auto
next
  case (2 now clk e es m)
  let ?m = "record_metric now clk e m"
  have b: "baseline ?m" and "published ?m = published m" using record_metric_baseline [OF 2(2)] by simp_all
  then have k: "known_job_types ?m = known_job_types m" by (simp add: published_def)
  from 2(1) [OF b] 2(3) k counts_step [OF 2(2,3)] assms(3,4) show ?case
    by (simp add: events_depend_on_known [OF k])
qed

text \<open>
  The counters are exact: after any sequence of recorded events, the attempt counter of a job
  type and outcome equals the number of dispatches that ended with that outcome, and the deferral
  counter of a job type and reason equals the number of deferrals for that reason, continuations
  included; unknown job types are pooled under UNKNOWN.
\<close>

theorem metric_counters_exact:
  assumes "init_metrics threads known = Inr m0" and "t \<in> insert ''UNKNOWN'' (set known)"
    and "out \<in> set ATTEMPT_OUTCOMES" and "reason \<in> set DEFERRAL_REASONS"
  shows "job_attempts (record_all es m0) (t, out) =
      Some (length (filter (attempt_event m0 t out) (map (snd \<circ> snd) es))) \<and>
    job_deferrals (record_all es m0) (t, reason) =
      Some (length (filter (deferral_event m0 t reason) (map (snd \<circ> snd) es)))"
proof -
  note b = baseline_init [OF assms(1)]
  have "job_attempts m0 (t, out) = Some 0" "job_deferrals m0 (t, reason) = Some 0"
    using assms by (auto simp: init_metrics_def Let_def zeros_def split: if_splits)
  with counts_all [of m0 t out reason es] b assms(2-4) show ?thesis by simp
qed

section \<open>Witnesses\<close>

theorem metric_labels_bounded_witness:
  "\<exists>m0. init_metrics 2 handler_names = Inr m0 \<and>
     dom (job_attempts (record_all [(0, 0, DispatchOutcome ''SURPRISE'' DeadLettered 1)] m0)) =
       insert ''UNKNOWN'' (set handler_names) \<times> set ATTEMPT_OUTCOMES"
proof -
  obtain m0 where m: "init_metrics 2 handler_names = Inr m0"
    by (simp add: init_metrics_def handler_names_def Let_def)
  from metric_labels_bounded [OF m] m show ?thesis by blast
qed

theorem metric_counters_exact_witness:
  "\<exists>m0. init_metrics 2 handler_names = Inr m0 \<and>
     job_attempts (record_all [(0, 0, DispatchOutcome ''SURPRISE'' DeadLettered 1)] m0) (''UNKNOWN'', ''dead_lettered'') = Some 1"
proof -
  obtain m0 where m: "init_metrics 2 handler_names = Inr m0" and k: "known_job_types m0 = handler_names"
    by (simp add: init_metrics_def handler_names_def Let_def)
  have "''dead_lettered'' \<in> set ATTEMPT_OUTCOMES" "''shutdown'' \<in> set DEFERRAL_REASONS"
    by (simp_all add: ATTEMPT_OUTCOMES_def DEFERRAL_REASONS_def)
  from metric_counters_exact [OF m _ this, of "''UNKNOWN''" "[(0, 0, DispatchOutcome ''SURPRISE'' DeadLettered 1)]"] m k
  show ?thesis by (auto simp: attempt_event_def bounded_job_type_def handler_names_def)
qed

end
