(* ===== verification/Calendar.thy ===== *)
theory Calendar
  imports Py_Values
begin

text \<open>
  The part of Python's \<^verbatim>\<open>datetime\<close> and \<^verbatim>\<open>zoneinfo\<close> the period arithmetic rests on: proleptic
  Gregorian ordinals (day 1 is 0001-01-01), weekdays, first days of months, and a time zone
  as what the engine asks of it: the local date of an instant, and the instant of a local
  midnight.  The zone database is not part of the repository: a zone is a parameter, and the
  locale \<open>time_zone\<close> states the laws every zone has.
\<close>

section \<open>Ordinals\<close>

definition is_leap :: "int \<Rightarrow> bool" where
  "is_leap y \<longleftrightarrow> 4 dvd y \<and> (\<not> 100 dvd y \<or> 400 dvd y)"

definition days_before_year :: "int \<Rightarrow> int" where
  "days_before_year y = (let k = y - 1 in 365 * k + k div 4 - k div 100 + k div 400)"

definition month_days :: "int \<Rightarrow> int \<Rightarrow> int" where
  "month_days y m =
     (if m = 2 then (if is_leap y then 29 else 28)
      else if m \<in> {4, 6, 9, 11} then 30 else 31)"

definition days_before_month :: "int \<Rightarrow> int \<Rightarrow> int" where
  "days_before_month y m = sum_list (map (month_days y) [1..m - 1])"

text \<open>\<^verbatim>\<open>date(y, m, d).toordinal()\<close>.\<close>

definition ordinal :: "int \<Rightarrow> int \<Rightarrow> int \<Rightarrow> int" where
  "ordinal y m d = days_before_year y + days_before_month y m + d"

text \<open>The inverse: the year from the cycles of 400, 100, 4 and 1 years, then the month.\<close>

definition year_of :: "int \<Rightarrow> int" where
  "year_of n =
     (let n0 = n - 1;
          n400 = n0 div 146097; r400 = n0 mod 146097;
          n100 = r400 div 36524; r100 = r400 mod 36524;
          n4 = r100 div 1461; r4 = r100 mod 1461;
          n1 = r4 div 365;
          y = 400 * n400 + 100 * n100 + 4 * n4 + n1 + 1
      in if n1 = 4 \<or> n100 = 4 then y - 1 else y)"

fun month_from :: "nat \<Rightarrow> int \<Rightarrow> int \<Rightarrow> int \<Rightarrow> int" where
  "month_from 0 y m r = m"
| "month_from (Suc k) y m r = (if r \<le> month_days y m then m else month_from k y (m + 1) (r - month_days y m))"

definition month_of :: "int \<Rightarrow> int" where
  "month_of n = month_from 11 (year_of n) 1 (n - days_before_year (year_of n))"

text \<open>\<^verbatim>\<open>d.weekday()\<close>: Monday is 0.\<close>

definition weekday :: "int \<Rightarrow> int" where
  "weekday n = (n + 6) mod 7"

section \<open>Facts about ordinals\<close>

lemma month_days_bounds: "28 \<le> month_days y m \<and> month_days y m \<le> 31"
  by (simp add: month_days_def)

lemma days_before_month_step:
  "1 \<le> m \<Longrightarrow> days_before_month y (m + 1) = days_before_month y m + month_days y m"
proof -
  assume "1 \<le> m"
  then have "[1..m] = [1..m - 1] @ [m]" using upto_rec2 [of 1 m] by simp
  then show ?thesis by (simp add: days_before_month_def)
qed

lemma days_before_month_1 [simp]: "days_before_month y 1 = 0"
  by (simp add: days_before_month_def)

lemma div_step:
  fixes k q :: int
  assumes "0 < q"
  shows "(k + 1) div q = k div q + (if q dvd k + 1 then 1 else 0)"
proof -
  have k: "k = q * (k div q) + k mod q" by simp
  have m: "0 \<le> k mod q" "k mod q < q" using assms by simp_all
  show ?thesis
  proof (cases "k mod q + 1 = q")
    case True
    have "q * (k div q + 1) = q * (k div q) + q" by (simp add: algebra_simps)
    with k True have e: "k + 1 = q * (k div q + 1)" by linarith
    then have "(k + 1) div q = k div q + 1" using assms by (metis nonzero_mult_div_cancel_left less_irrefl)
    moreover have "q dvd k + 1" using e by (metis dvd_triv_left)
    ultimately show ?thesis by simp
  next
    case False
    from k have e: "k + 1 = q * (k div q) + (k mod q + 1)" by simp
    have r: "0 \<le> k mod q + 1" "k mod q + 1 < q" using m False by linarith+
    have "(k + 1) div q = k div q" by (rule int_div_pos_eq [OF e r])
    moreover have "(k + 1) mod q = k mod q + 1" by (rule int_mod_pos_eq [OF e r])
    ultimately show ?thesis using m by (simp add: dvd_eq_mod_eq_0)
  qed
qed

lemma year_length: "days_before_year (y + 1) - days_before_year y = (if is_leap y then 366 else 365)"
proof -
  have d: "y div q = (y - 1) div q + (if q dvd y then 1 else 0)" if "0 < q" for q
    using div_step [OF that, of "y - 1"] by (simp only: diff_add_cancel)
  have sub: "100 dvd y \<Longrightarrow> 4 dvd y" "400 dvd y \<Longrightarrow> 100 dvd y"
    by (rule dvd_trans [of 4 100], simp, assumption) (rule dvd_trans [of 100 400], simp, assumption)
  define p q r where "p = (4 dvd y)" and "q = (100 dvd y)" and "r = (400 dvd y)"
  define i j k :: int where "i = (if p then 1 else 0)" and "j = (if q then 1 else 0)" and "k = (if r then 1 else 0)"
  have "y div 4 = (y - 1) div 4 + i" "y div 100 = (y - 1) div 100 + j" "y div 400 = (y - 1) div 400 + k"
    unfolding i_def j_def k_def p_def q_def r_def by (rule d, rule zero_less_numeral)+
  moreover have "a = a' + i \<Longrightarrow> b = b' + j \<Longrightarrow> c = c' + k \<Longrightarrow>
      365 * y + a - b + c - (365 * (y - 1) + a' - b' + c') = 365 + i - j + k" for a b c a' b' c'
    by (simp add: algebra_simps)
  ultimately have "days_before_year (y + 1) - days_before_year y = 365 + i - j + k"
    unfolding days_before_year_def Let_def add_diff_cancel_right' by blast
  moreover have "is_leap y \<longleftrightarrow> p \<and> (\<not> q \<or> r)" by (simp only: is_leap_def p_def q_def r_def)
  moreover have "q \<longrightarrow> p" "r \<longrightarrow> q" using sub unfolding p_def q_def r_def by blast+
  ultimately show ?thesis unfolding i_def j_def k_def by (cases p; cases q; cases r) simp_all
qed

lemma days_of_months: "days_before_month y 13 = (if is_leap y then 366 else 365)"
proof -
  have "[1..12] = [1, 2, 3, 4, 5, 6, 7, 8, 9, 10, 11, 12 :: int]" by (simp add: upto_rec1)
  then show ?thesis by (simp add: days_before_month_def month_days_def)
qed

lemma days_before_cycles:
  assumes "0 \<le> b" "b \<le> 3" "0 \<le> c" "c \<le> 24" "0 \<le> e" "e \<le> 3"
  shows "days_before_year (400 * a + 100 * b + 4 * c + e + 1) = 146097 * a + 36524 * b + 1461 * c + 365 * e"
proof -
  let ?k = "400 * a + 100 * b + 4 * c + e"
  have "?k div 4 = 100 * a + 25 * b + c"
    using assms by (intro int_div_pos_eq [where r = e]) simp_all
  moreover have "?k div 100 = 4 * a + b"
    using assms by (intro int_div_pos_eq [where r = "4 * c + e"]) simp_all
  moreover have "?k div 400 = a"
    using assms by (intro int_div_pos_eq [where r = "100 * b + 4 * c + e"]) simp_all
  ultimately show ?thesis by (simp add: days_before_year_def Let_def)
qed

lemma year_of_range: "days_before_year (year_of n) < n \<and> n \<le> days_before_year (year_of n + 1)"
proof -
  define a where "a = (n - 1) div 146097"
  define r where "r = (n - 1) mod 146097"
  define b where "b = r div 36524"
  define s where "s = r mod 36524"
  define c where "c = s div 1461"
  define t where "t = s mod 1461"
  define e where "e = t div 365"
  define f where "f = t mod 365"
  have dm: "x = q * (x div q) + x mod q" for x q :: int by simp
  have n: "n = 146097 * a + r + 1" using dm [of "n - 1" 146097] unfolding a_def r_def by linarith
  have r: "r = 36524 * b + s" "0 \<le> r" "r < 146097" 
    using dm [of r 36524] unfolding b_def s_def by (simp_all add: r_def)
  have s: "s = 1461 * c + t" "0 \<le> s" "s < 36524" by (simp_all add: c_def t_def s_def)
  have t: "t = 365 * e + f" "0 \<le> t" "t < 1461" by (simp_all add: e_def f_def t_def)
  have f: "0 \<le> f" "f < 365" by (simp_all add: f_def)
  have b: "0 \<le> b" "b \<le> 4" using r s by linarith+
  have c: "0 \<le> c" "c \<le> 24" using s t by linarith+
  have e: "0 \<le> e" "e \<le> 4" using t f by linarith+
  have "year_of n = (if e = 4 \<or> b = 4 then 400 * a + 100 * b + 4 * c + e + 1 - 1 else 400 * a + 100 * b + 4 * c + e + 1)"
    by (simp only: year_of_def Let_def a_def b_def c_def e_def r_def s_def t_def)
  then have y: "year_of n = (if e = 4 \<or> b = 4 then 400 * a + 100 * b + 4 * c + e else 400 * a + 100 * b + 4 * c + e + 1)"
    by (simp only: add_diff_cancel_right')
  note cyc = days_before_cycles
  show ?thesis
  proof (cases "b = 4")
    case True
    then have z: "s = 0" "r = 146096" using r s by linarith+
    then have "c = 0" "t = 0" using s t c by linarith+
    then have "e = 0" using t f e by linarith
    with True \<open>c = 0\<close> y have yy: "year_of n = 400 * a + 400" by simp
    have "days_before_year (400 * a + 400) = 146097 * a + 145731" using cyc [of 3 24 3 a] by (simp add: add.commute)
    moreover have "days_before_year (400 * a + 400 + 1) = 146097 * a + 146097"
      using cyc [of 0 0 0 "a + 1"] by (simp add: algebra_simps)
    ultimately show ?thesis using yy n z by simp
  next
    case False
    then have b3: "b \<le> 3" using b by linarith
    show ?thesis
    proof (cases "e = 4")
      case True
      then have t4: "t = 1460" using t f by linarith
      then have c23: "c \<le> 23" using s by linarith
      have "days_before_year (400 * a + 100 * b + 4 * c + 3 + 1) = 146097 * a + 36524 * b + 1461 * c + 1095"
        using cyc [of b c 3 a] b b3 c by simp
      moreover have "days_before_year (400 * a + 100 * b + 4 * (c + 1) + 0 + 1) = 146097 * a + 36524 * b + 1461 * (c + 1)"
        using cyc [of b "c + 1" 0 a] b b3 c c23 by simp
      ultimately show ?thesis using y True n r s t4 by (simp add: algebra_simps)
    next
      case e3: False
      then have e3: "e \<le> 3" using e by linarith
      have yy: "year_of n = 400 * a + 100 * b + 4 * c + e + 1" using y False e3 by simp
      have lo: "days_before_year (year_of n) = 146097 * a + 36524 * b + 1461 * c + 365 * e"
        unfolding yy by (rule cyc) (use b b3 c e e3 in simp_all)
      have n': "n = 146097 * a + 36524 * b + 1461 * c + 365 * e + f + 1" using n r(1) s(1) t(1) by linarith
      consider (one) "e < 3" | (four) "e = 3" "c < 24" | (century) "e = 3" "c = 24" "b < 3"
        | (cycle) "e = 3" "c = 24" "b = 3"
        using e3 b3 c by linarith
      then have "n \<le> days_before_year (year_of n + 1)"
      proof cases
        case one
        have "year_of n + 1 = 400 * a + 100 * b + 4 * c + (e + 1) + 1" using yy one by (simp add: algebra_simps)
        then have "days_before_year (year_of n + 1) = 146097 * a + 36524 * b + 1461 * c + 365 * e + 365"
          using cyc [of b c "e + 1" a] b b3 c e e3 one by (simp only:) (simp add: algebra_simps)
        then show ?thesis using n' f(2) s(1,3) t(1,3) r(1,3) one by linarith
      next
        case four
        have "year_of n + 1 = 400 * a + 100 * b + 4 * (c + 1) + 0 + 1" using yy four by (simp add: algebra_simps)
        then have "days_before_year (year_of n + 1) = 146097 * a + 36524 * b + 1461 * c + 1461"
          using cyc [of b "c + 1" 0 a] b b3 c e e3 four by (simp only:) (simp add: algebra_simps)
        then show ?thesis using n' f(2) s(1,3) t(1,3) r(1,3) four by linarith
      next
        case century
        have "year_of n + 1 = 400 * a + 100 * (b + 1) + 4 * 0 + 0 + 1" using yy century by (simp add: algebra_simps)
        then have "days_before_year (year_of n + 1) = 146097 * a + 36524 * b + 36524"
          using cyc [of "b + 1" 0 0 a] b b3 c e e3 century by (simp only:) (simp add: algebra_simps)
        then show ?thesis using n' f(2) s(1,3) t(1,3) r(1,3) century by linarith
      next
        case cycle
        have "year_of n + 1 = 400 * (a + 1) + 100 * 0 + 4 * 0 + 0 + 1" using yy cycle by (simp add: algebra_simps)
        then have "days_before_year (year_of n + 1) = 146097 * a + 146097"
          using cyc [of 0 0 0 "a + 1"] b b3 c e e3 cycle by (simp only:) (simp add: algebra_simps)
        then show ?thesis using n' f(2) s(1,3) t(1,3) r(1,3) cycle by linarith
      qed
      with lo n r s t f show ?thesis by linarith
    qed
  qed
qed

lemma month_from_range:
  assumes "1 \<le> m" and "days_before_month y m < r" and "r \<le> days_before_month y (m + int k + 1)"
  defines "M \<equiv> month_from k y m (r - days_before_month y m)"
  shows "m \<le> M \<and> M \<le> m + int k \<and> days_before_month y M < r \<and> r \<le> days_before_month y (M + 1)"
  using assms(1-3) unfolding M_def
proof (induction k arbitrary: m)
  case 0
  then show ?case by simp
next
  case (Suc k)
  note step = days_before_month_step [OF Suc.prems(1), of y]
  show ?case
  proof (cases "r - days_before_month y m \<le> month_days y m")
    case True
    with Suc.prems step show ?thesis by simp
  next
    case False
    then have "month_from (Suc k) y m (r - days_before_month y m) = month_from k y (m + 1) (r - days_before_month y (m + 1))"
      using step by (simp add: algebra_simps)
    moreover have "days_before_month y (m + 1) < r" using False step by linarith
    ultimately show ?thesis using Suc.IH [of "m + 1"] Suc.prems by (simp add: algebra_simps)
  qed
qed

lemma month_of_range:
  "1 \<le> month_of n \<and> month_of n \<le> 12 \<and> ordinal (year_of n) (month_of n) 1 \<le> n \<and>
   n < ordinal (year_of n) (month_of n) 1 + month_days (year_of n) (month_of n)"
proof -
  let ?y = "year_of n" and ?r = "n - days_before_year (year_of n)"
  have "days_before_month ?y 1 < ?r" "?r \<le> days_before_month ?y (1 + int 11 + 1)"
    using year_of_range [of n] year_length [of ?y] days_of_months [of ?y] by simp_all
  from month_from_range [OF _ this] have "1 \<le> month_of n \<and> month_of n \<le> 12 \<and>
    days_before_month ?y (month_of n) < ?r \<and> ?r \<le> days_before_month ?y (month_of n + 1)"
    by (simp add: month_of_def)
  with days_before_month_step [of "month_of n" ?y] show ?thesis by (simp add: ordinal_def)
qed

text \<open>The month after: its first day is one month length later.\<close>

definition next_month :: "int \<times> int \<Rightarrow> int \<times> int" where
  "next_month ym = (case ym of (y, m) \<Rightarrow> if m = 12 then (y + 1, 1) else (y, m + 1))"

lemma next_month_ordinal:
  assumes "1 \<le> m" "m \<le> 12"
  shows "ordinal (fst (next_month (y, m))) (snd (next_month (y, m))) 1 = ordinal y m 1 + month_days y m"
  using days_before_month_step [OF assms(1), of y] year_length [of y] days_of_months [of y]
  by (auto simp: next_month_def ordinal_def)

section \<open>Time zones\<close>

text \<open>
  \<open>midnight n\<close> is the instant of \<^verbatim>\<open>datetime(y, m, d, tzinfo=zone).astimezone(UTC)\<close> for the date
  with ordinal \<open>n\<close>, \<open>local_date t\<close> the ordinal of \<^verbatim>\<open>t.astimezone(zone).date()\<close>.
\<close>

record zone =
  midnight :: "int \<Rightarrow> time"
  local_date :: "time \<Rightarrow> int"

definition epoch_ordinal :: int where "epoch_ordinal = 719163"

definition utc_midnight :: "int \<Rightarrow> time" where
  "utc_midnight n = (n - epoch_ordinal) * day"

definition utc_zone :: zone where
  "utc_zone = \<lparr>midnight = utc_midnight, local_date = (\<lambda>t. t div day + epoch_ordinal)\<rparr>"

text \<open>
  Midnights do not go backwards, are at most two days apart (a zone that crosses the date line
  repeats or skips a day), lie within a day of the UTC midnight (Python's bound on offsets),
  and the midnight of an instant's local date is not after the instant.
\<close>

locale time_zone =
  fixes z :: zone
  assumes midnight_step: "midnight z n \<le> midnight z (n + 1) \<and> midnight z (n + 1) \<le> midnight z n + 2 * day"
    and midnight_offset: "utc_midnight n - day \<le> midnight z n"
    and local_date_midnight: "midnight z (local_date z t) \<le> t"
begin

lemma midnight_add: "midnight z n \<le> midnight z (n + int k) \<and> midnight z (n + int k) \<le> midnight z n + 2 * int k * day"
proof (induction k)
  case 0
  then show ?case by simp
next
  case (Suc k)
  with midnight_step [of "n + int k"] show ?case by (simp add: algebra_simps)
qed

end

interpretation utc: time_zone utc_zone
proof
  show "midnight utc_zone n \<le> midnight utc_zone (n + 1) \<and>
      midnight utc_zone (n + 1) \<le> midnight utc_zone n + 2 * day" for n
    by (simp add: utc_zone_def utc_midnight_def algebra_simps time_units)
  show "utc_midnight n - day \<le> midnight utc_zone n" for n
    by (simp add: utc_zone_def time_units)
  show "midnight utc_zone (local_date utc_zone t) \<le> t" for t
    using div_mult_mod_eq [of t day] pos_mod_sign [of day t]
    by (simp add: utc_zone_def utc_midnight_def) (simp add: time_units)
qed

end
