(* ===== verification/Periods.thy ===== *)
theory Periods
  imports Calendar
begin

text \<open>
  Period buckets of \<^verbatim>\<open>app/metrics/calculator.py\<close>: \<^verbatim>\<open>get_period_buckets\<close> and
  \<^verbatim>\<open>get_recalculation_buckets\<close>.  The while loop is a partial function, so that not returning
  is the value \<open>None\<close>; that it returns is proved for every zone that meets the laws of
  \<open>time_zone\<close>.  The three granularities share the contract \<open>period_steps\<close>.
\<close>

section \<open>The code\<close>

type_synonym bucket = "time \<times> time"

text \<open>\<open>inst\<close> reads the instant off the loop variable \<^verbatim>\<open>current\<close>, \<open>nxt\<close> advances it.\<close>

partial_function (option) bucket_loop ::
  "('s \<Rightarrow> time) \<Rightarrow> ('s \<Rightarrow> 's) \<Rightarrow> time \<Rightarrow> 's \<Rightarrow> bucket list option" where
  "bucket_loop inst nxt stop cur =
     (if inst cur < stop
      then Option.bind (bucket_loop inst nxt stop (nxt cur))
             (\<lambda>bs. Some ((inst cur, inst (nxt cur)) # bs))
      else Some [])"

definition month_midnight :: "zone \<Rightarrow> int \<times> int \<Rightarrow> time" where
  "month_midnight z ym = midnight z (ordinal (fst ym) (snd ym) 1)"

text \<open>\<open>zones\<close> is the zone database; an unknown name raises \<^verbatim>\<open>ValueError\<close>.\<close>

definition get_period_buckets ::
  "(string \<Rightarrow> zone option) \<Rightarrow> time \<Rightarrow> time \<Rightarrow> string \<Rightarrow> string \<Rightarrow> bucket list result option" where
  "get_period_buckets zones from_date to_date granularity timezone_name =
     (let g = py_upper granularity in
      if to_date \<le> from_date then Some (Inr [])
      else (case zones timezone_name of
              None \<Rightarrow> Some (Inl (ValueError (''Unknown timezone: '' @ timezone_name)))
            | Some z \<Rightarrow>
                let from_local = local_date z from_date in
                if g = ''DAY''
                then map_option Inr (bucket_loop (midnight z) (\<lambda>d. d + 1) to_date from_local)
                else if g = ''WEEK''
                then map_option Inr (bucket_loop (midnight z) (\<lambda>d. d + 7) to_date
                       (from_local - weekday from_local))
                else if g = ''MONTH''
                then map_option Inr (bucket_loop (month_midnight z) next_month to_date
                       (year_of from_local, month_of from_local))
                else Some (Inl (ValueError (''Unsupported granularity: '' @ g)))))"

definition padding_days :: "string \<Rightarrow> int option" where
  "padding_days g = map_of [(''DAY'', 2), (''WEEK'', 14), (''MONTH'', 62)] g"

definition affected_indexes :: "time \<Rightarrow> time \<Rightarrow> bucket list \<Rightarrow> nat list" where
  "affected_indexes affected_from affected_to candidates =
     filter (\<lambda>i. affected_from < snd (candidates ! i) \<and> fst (candidates ! i) \<le> affected_to)
       [0..<length candidates]"

definition get_recalculation_buckets ::
  "(string \<Rightarrow> zone option) \<Rightarrow> time \<Rightarrow> time \<Rightarrow> string \<Rightarrow> string \<Rightarrow> bucket list result option" where
  "get_recalculation_buckets zones affected_from affected_to granularity timezone_name =
     (if affected_to < affected_from
      then Some (Inl (ValueError ''affected_from must not be after affected_to''))
      else (case padding_days (py_upper granularity) of
              None \<Rightarrow> Some (Inl (ValueError (''Unsupported granularity: '' @ granularity)))
            | Some pad \<Rightarrow>
                (case get_period_buckets zones (affected_from - pad * day) (affected_to + pad * day)
                        (py_upper granularity) timezone_name of
                   None \<Rightarrow> None
                 | Some (Inl e) \<Rightarrow> Some (Inl e)
                 | Some (Inr candidates) \<Rightarrow>
                     let affected = affected_indexes affected_from affected_to candidates in
                     if affected = [] then Some (Inr [])
                     else let first = hd affected - 1; stop = last affected + 1
                          in Some (Inr (take (stop - first) (drop first candidates))))))"

section \<open>The contract of a granularity\<close>

text \<open>
  Consecutive buckets: each ends where the next begins, and none ends before it begins.
\<close>

fun contiguous :: "bucket list \<Rightarrow> bool" where
  "contiguous [] = True"
| "contiguous [(a, b)] = (a \<le> b)"
| "contiguous ((a, b) # (c, d) # bs) = (a \<le> b \<and> b = c \<and> contiguous ((c, d) # bs))"

lemma contiguous_Cons:
  "contiguous ((a, b) # bs) \<longleftrightarrow> a \<le> b \<and> contiguous bs \<and> (case bs of [] \<Rightarrow> True | (c, d) # _ \<Rightarrow> b = c)"
  by (cases bs) auto

lemma contiguous_drop: "contiguous bs \<Longrightarrow> contiguous (drop n bs)"
  by (induction bs arbitrary: n rule: contiguous.induct) (auto simp: drop_Cons split: nat.splits)

lemma contiguous_take: "contiguous bs \<Longrightarrow> contiguous (take n bs)"
proof (induction bs arbitrary: n)
  case (Cons b bs)
  obtain x y where "b = (x, y)" by fastforce
  with Cons.IH [of "n - 1"] Cons.prems show ?case
    by (cases n; cases bs; cases "n - 1") auto
qed simp

locale period_steps =
  fixes inst :: "'s \<Rightarrow> time" and nxt :: "'s \<Rightarrow> 's" and ok :: "'s \<Rightarrow> bool" and ordinal_of :: "'s \<Rightarrow> int" and span :: int
  assumes ok_nxt: "ok s \<Longrightarrow> ok (nxt s)"
    and inst_nxt: "ok s \<Longrightarrow> inst s \<le> inst (nxt s) \<and> inst (nxt s) \<le> inst s + span * day"
    and progress: "ok s \<Longrightarrow> ordinal_of s < ordinal_of (nxt s)"
    and far: "ok s \<Longrightarrow> utc_midnight (ordinal_of s) - day \<le> inst s"
begin

lemma not_far:
  assumes "ok s" "inst s < stop"
  shows "ordinal_of s < stop div day + epoch_ordinal + 2"
proof -
  have d: "0 < day" by (simp add: time_units)
  from far [OF assms(1)] assms(2) have "(ordinal_of s - epoch_ordinal - 1) * day < stop"
    by (simp add: utc_midnight_def algebra_simps)
  also have "stop < (stop div day + 1) * day"
  proof -
    have "stop = stop div day * day + stop mod day" by simp
    moreover have "(stop div day + 1) * day = stop div day * day + day" by (simp add: algebra_simps)
    ultimately show ?thesis using pos_mod_bound [OF d, of stop] by linarith
  qed
  finally have "ordinal_of s - epoch_ordinal - 1 < stop div day + 1" using d by (simp add: mult_less_cancel_right)
  then show ?thesis by linarith
qed

text \<open>What the loop returns: it does return, and its buckets run from the start up to the stop.\<close>

lemma bucket_loop_spec:
  "ok s \<Longrightarrow> \<exists>bs. bucket_loop inst nxt stop s = Some bs \<and> contiguous bs \<and>
     (\<forall>b \<in> set bs. fst b < stop \<and> fst b \<le> snd b \<and> snd b \<le> fst b + span * day) \<and>
     (if inst s < stop then bs \<noteq> [] \<and> fst (hd bs) = inst s \<and> stop \<le> snd (last bs) else bs = [])"
proof (induction "nat (stop div day + epoch_ordinal + 2 - ordinal_of s)" arbitrary: s rule: less_induct)
  case less
  show ?case
  proof (cases "inst s < stop")
    case False
    then show ?thesis by (simp add: bucket_loop.simps)
  next
    case True
    have "nat (stop div day + epoch_ordinal + 2 - ordinal_of (nxt s)) < nat (stop div day + epoch_ordinal + 2 - ordinal_of s)"
      using not_far [OF less.prems True] progress [OF less.prems] by linarith
    from less.hyps [OF this ok_nxt [OF less.prems]] obtain bs where
      bs: "bucket_loop inst nxt stop (nxt s) = Some bs" "contiguous bs"
        "\<forall>b \<in> set bs. fst b < stop \<and> fst b \<le> snd b \<and> snd b \<le> fst b + span * day"
        "if inst (nxt s) < stop then bs \<noteq> [] \<and> fst (hd bs) = inst (nxt s) \<and> stop \<le> snd (last bs) else bs = []"
      by blast
    have "bucket_loop inst nxt stop s = Some ((inst s, inst (nxt s)) # bs)"
      using True bs(1) by (subst bucket_loop.simps) simp
    moreover have "contiguous ((inst s, inst (nxt s)) # bs)"
      using bs(2,4) inst_nxt [OF less.prems] by (cases bs) (auto simp: contiguous_Cons split: if_splits)
    moreover have "stop \<le> snd (last ((inst s, inst (nxt s)) # bs))"
      using bs(4) by (auto split: if_splits)
    ultimately show ?thesis using True bs(3) inst_nxt [OF less.prems] by auto
  qed
qed

end

context time_zone
begin

lemma week_midnight: "midnight z n \<le> midnight z (n + 7) \<and> midnight z (n + 7) \<le> midnight z n + 14 * day"
  using midnight_add [of n 7] by simp

lemma month_length:
  assumes "1 \<le> m" "m \<le> 12"
  shows "month_midnight z (y, m) \<le> month_midnight z (next_month (y, m)) \<and>
     month_midnight z (next_month (y, m)) \<le> month_midnight z (y, m) + 62 * day"
proof -
  obtain k where k: "month_days y m = int k" "int k \<le> 31"
    using month_days_bounds [of y m] nonneg_int_cases [of "month_days y m"] by (metis order_trans zero_le_numeral)
  have "month_midnight z (next_month (y, m)) = midnight z (ordinal y m 1 + int k)"
    using next_month_ordinal [OF assms, of y] k by (simp add: month_midnight_def)
  moreover have "2 * int k * day \<le> 62 * day" using k(2) by (intro mult_right_mono) (simp_all add: time_units)
  moreover have "month_midnight z (y, m) = midnight z (ordinal y m 1)" by (simp add: month_midnight_def)
  ultimately show ?thesis using midnight_add [of "ordinal y m 1" k] by linarith
qed

end

sublocale time_zone \<subseteq> days: period_steps "midnight z" "\<lambda>d. d + 1" "\<lambda>_. True" "\<lambda>d. d" 2
  by unfold_locales (use midnight_step midnight_offset in auto)

sublocale time_zone \<subseteq> weeks: period_steps "midnight z" "\<lambda>d. d + 7" "\<lambda>_. True" "\<lambda>d. d" 14
  by unfold_locales (use week_midnight midnight_offset in auto)

sublocale time_zone \<subseteq> months: period_steps "month_midnight z" next_month
    "\<lambda>ym. 1 \<le> snd ym \<and> snd ym \<le> 12" "\<lambda>ym. ordinal (fst ym) (snd ym) 1" 62
proof (unfold_locales, goal_cases)
  case (1 s)
  then show ?case by (cases s) (auto simp: next_month_def)
next
  case (2 s)
  then show ?case using month_length [of "snd s" "fst s"] by simp
next
  case (3 s)
  then show ?case using next_month_ordinal [of "snd s" "fst s"] month_days_bounds [of "fst s" "snd s"] by simp
next
  case (4 s)
  then show ?case using midnight_offset by (simp add: month_midnight_def)
qed

section \<open>Contiguous buckets cover each instant once\<close>

lemma contiguous_next: "contiguous bs \<Longrightarrow> Suc i < length bs \<Longrightarrow> snd (bs ! i) = fst (bs ! Suc i)"
proof (induction bs arbitrary: i rule: contiguous.induct)
  case (3 a b c d bs)
  then show ?case by (cases i) auto
qed auto

lemma contiguous_ordered: "contiguous bs \<Longrightarrow> i < length bs \<Longrightarrow> fst (bs ! i) \<le> snd (bs ! i)"
proof (induction bs arbitrary: i rule: contiguous.induct)
  case (3 a b c d bs)
  then show ?case by (cases i) auto
qed auto

lemma contiguous_mono:
  "contiguous bs \<Longrightarrow> i + k < length bs \<Longrightarrow> fst (bs ! i) \<le> fst (bs ! (i + k)) \<and> snd (bs ! i) \<le> snd (bs ! (i + k))"
proof (induction k)
  case 0
  then show ?case by simp
next
  case (Suc k)
  with contiguous_next [of bs "i + k"] contiguous_ordered [of bs "i + k"] contiguous_ordered [of bs "Suc (i + k)"]
  show ?case by simp
qed

lemma contiguous_le:
  "contiguous bs \<Longrightarrow> i \<le> j \<Longrightarrow> j < length bs \<Longrightarrow> fst (bs ! i) \<le> fst (bs ! j) \<and> snd (bs ! i) \<le> snd (bs ! j)"
  using contiguous_mono [of bs i "j - i"] by simp

lemma contiguous_before:
  assumes "contiguous bs" "i < j" "j < length bs"
  shows "snd (bs ! i) \<le> fst (bs ! j)"
  using contiguous_next [OF assms(1), of i] contiguous_le [OF assms(1), of "Suc i" j] assms(2,3) by simp

definition inside :: "time \<Rightarrow> bucket \<Rightarrow> bool" where
  "inside t b \<longleftrightarrow> fst b \<le> t \<and> t < snd b"

lemma contiguous_covers:
  assumes "contiguous bs" and "bs \<noteq> []" and "fst (hd bs) \<le> t" and "t < snd (last bs)"
  shows "\<exists>i < length bs. inside t (bs ! i)"
proof -
  define i where "i = (LEAST i. i < length bs \<and> t < snd (bs ! i))"
  have "\<exists>i. i < length bs \<and> t < snd (bs ! i)"
    using assms(2,4) by (intro exI [of _ "length bs - 1"]) (simp add: last_conv_nth)
  then have i: "i < length bs \<and> t < snd (bs ! i)" unfolding i_def by (rule LeastI_ex)
  have "fst (bs ! i) \<le> t"
  proof (cases i)
    case 0
    with assms(2,3) show ?thesis by (simp add: hd_conv_nth)
  next
    case (Suc k)
    then have "\<not> (k < length bs \<and> t < snd (bs ! k))" unfolding i_def by (metis (no_types, lifting) lessI not_less_Least)
    with Suc i contiguous_next [OF assms(1), of k] show ?thesis by simp
  qed
  with i show ?thesis by (auto simp: inside_def)
qed

lemma contiguous_once:
  assumes "contiguous bs" "i < length bs" "j < length bs" "inside t (bs ! i)" "inside t (bs ! j)"
  shows "i = j"
  using assms contiguous_before [of bs i j] contiguous_before [of bs j i]
  by (cases i j rule: linorder_cases) (auto simp: inside_def)

section \<open>Properties\<close>

context time_zone
begin

lemma period_buckets_spec:
  assumes zone: "zones name = Some z" and pad: "padding_days (py_upper g) = Some pad" and order: "from_date < to_date"
  shows "\<exists>bs. get_period_buckets zones from_date to_date g name = Some (Inr bs) \<and> contiguous bs \<and> bs \<noteq> [] \<and>
     fst (hd bs) \<le> from_date \<and> to_date \<le> snd (last bs) \<and>
     (\<forall>b \<in> set bs. fst b < to_date \<and> fst b \<le> snd b \<and> snd b \<le> fst b + pad * day)"
proof -
  let ?d = "local_date z from_date"
  have le: "midnight z ?d \<le> from_date" by (rule local_date_midnight)
  from pad consider (days) "py_upper g = ''DAY''" "pad = 2" | (weeks) "py_upper g = ''WEEK''" "pad = 14"
    | (months) "py_upper g = ''MONTH''" "pad = 62"
    by (auto simp: padding_days_def split: if_splits)
  then show ?thesis
  proof cases
    case days
    with le days.bucket_loop_spec [where s = ?d and stop = to_date] zone order show ?thesis
      by (auto simp: get_period_buckets_def Let_def)
  next
    case weeks
    have "midnight z (?d - weekday ?d) \<le> from_date"
      using midnight_add [of "?d - weekday ?d" "nat (weekday ?d)"] le by (simp add: weekday_def)
    with weeks weeks.bucket_loop_spec [where s = "?d - weekday ?d" and stop = to_date] zone order show ?thesis
      by (auto simp: get_period_buckets_def Let_def)
  next
    case months
    let ?ym = "(year_of ?d, month_of ?d)"
    have "ordinal (year_of ?d) (month_of ?d) 1 \<le> ?d" using month_of_range [of ?d] by simp
    then have "month_midnight z ?ym \<le> from_date"
      using midnight_add [of "ordinal (year_of ?d) (month_of ?d) 1" "nat (?d - ordinal (year_of ?d) (month_of ?d) 1)"] le
      by (simp add: month_midnight_def)
    with months months.bucket_loop_spec [where s = ?ym and stop = to_date] month_of_range [of ?d] zone order show ?thesis
      by (auto simp: get_period_buckets_def Let_def)
  qed
qed

end


lemma affected_slice:
  assumes c: "contiguous cs" "cs \<noteq> []" and first: "snd (hd cs) \<le> a" "fst (hd cs) \<le> a" and last: "b < snd (last cs)" and ab: "a \<le> b"
  defines "idx \<equiv> affected_indexes a b cs"
  shows "idx \<noteq> [] \<and> 1 \<le> hd idx \<and> hd idx \<le> last idx \<and> last idx < length cs \<and>
     inside a (cs ! hd idx) \<and> inside b (cs ! last idx)"
proof -
  have mem: "i \<in> set idx \<longleftrightarrow> i < length cs \<and> a < snd (cs ! i) \<and> fst (cs ! i) \<le> b" for i
    by (auto simp: idx_def affected_indexes_def)
  have sorted: "sorted idx" unfolding idx_def affected_indexes_def by (rule sorted_wrt_filter) simp
  from contiguous_covers [OF c, of a] first(2) last ab obtain i where i: "i < length cs" "inside a (cs ! i)" by auto
  from contiguous_covers [OF c, of b] first(2) last ab obtain j where j: "j < length cs" "inside b (cs ! j)" by auto
  have in_idx: "i \<in> set idx" "j \<in> set idx" using i j ab by (auto simp: mem inside_def)
  then have ne: "idx \<noteq> []" by auto
  have lo: "hd idx \<le> k" if "k \<in> set idx" for k using sorted that ne by (cases idx) auto
  have hi: "k \<le> last idx" if "k \<in> set idx" for k
    using sorted that ne by (metis in_set_conv_nth last_conv_nth sorted_nth_mono Suc_leI Suc_pred diff_less length_greater_0_conv less_Suc_eq_le zero_less_one diff_Suc_1 le_imp_less_Suc less_imp_le_nat Suc_diff_1)
  have hd: "hd idx \<in> set idx" and la: "last idx \<in> set idx" using ne by simp_all
  have "hd idx = i"
  proof (rule ccontr)
    assume "hd idx \<noteq> i"
    with lo [OF in_idx(1)] have "hd idx < i" by simp
    from contiguous_before [OF c(1) this i(1)] hd i(2) show False by (simp add: mem inside_def)
  qed
  moreover have "last idx = j"
  proof (rule ccontr)
    assume "last idx \<noteq> j"
    with hi [OF in_idx(2)] have "j < last idx" by simp
    from contiguous_before [OF c(1) this] la j(2) show False by (simp add: mem inside_def)
  qed
  moreover have "i \<noteq> 0" using first(1) i(2) c(2) by (cases i) (auto simp: inside_def hd_conv_nth)
  ultimately show ?thesis using i j ne lo [OF la] by simp
qed

text \<open>
  The recalculation buckets of a burst of events are consecutive calendar buckets that begin
  with the bucket just before the one holding the first event and end with the bucket holding
  the last one, whatever the zone and the granularity: the padding is always wide enough.
\<close>

theorem recalculation_buckets_exact:
  assumes "time_zone z" and "zones name = Some z" and "py_upper g \<in> {''DAY'', ''WEEK'', ''MONTH''}"
    and "affected_from \<le> affected_to"
  shows "\<exists>bs. get_recalculation_buckets zones affected_from affected_to g name = Some (Inr bs) \<and>
     contiguous bs \<and> 2 \<le> length bs \<and> snd (bs ! 0) \<le> affected_from \<and> inside affected_from (bs ! 1) \<and>
     inside affected_to (last bs)"
proof -
  have upper: "py_upper (py_upper g) = py_upper g"
    by (auto simp: py_upper_def ascii_upper_char_def Let_def)
  obtain pad where pad: "padding_days (py_upper g) = Some pad" "0 < pad"
    using assms(3) by (auto simp: padding_days_def)
  have d: "0 < pad * day" using pad(2) by (simp add: time_units)
  have order: "affected_from - pad * day < affected_to + pad * day" using assms(4) d by linarith
  from time_zone.period_buckets_spec [where zones = zones and name = name and g = "py_upper g", unfolded upper, OF assms(1,2) pad(1) order]
  obtain cs where cs: "get_period_buckets zones (affected_from - pad * day) (affected_to + pad * day) (py_upper g) name
      = Some (Inr cs)" "contiguous cs" "cs \<noteq> []" "fst (hd cs) \<le> affected_from - pad * day"
      "affected_to + pad * day \<le> snd (last cs)" "\<forall>b \<in> set cs. snd b \<le> fst b + pad * day" by blast
  have "snd (hd cs) \<le> affected_from" using cs(3,4,6) hd_in_set [of cs] by fastforce
  moreover have "fst (hd cs) \<le> affected_from" "affected_to < snd (last cs)" using cs(4,5) d by linarith+
  moreover define idx where "idx = affected_indexes affected_from affected_to cs"
  ultimately have idx: "idx \<noteq> []" "1 \<le> hd idx" "hd idx \<le> last idx" "last idx < length cs"
      "inside affected_from (cs ! hd idx)" "inside affected_to (cs ! last idx)"
    using affected_slice [OF cs(2,3) _ _ _ assms(4)] by simp_all
  define first where "first = hd idx - 1"
  define bs where "bs = take (last idx + 1 - first) (drop first cs)"
  have res: "get_recalculation_buckets zones affected_from affected_to g name = Some (Inr bs)"
    using assms(4) pad cs(1) idx(1) by (simp add: get_recalculation_buckets_def idx_def bs_def first_def Let_def)
  have len: "length bs = last idx + 1 - first" using idx by (simp add: bs_def first_def)
  have nth: "bs ! k = cs ! (first + k)" if "k < length bs" for k using that len idx by (simp add: bs_def first_def)
  have two: "2 \<le> length bs" using len idx by (simp add: first_def)
  have "contiguous bs" unfolding bs_def by (rule contiguous_take [OF contiguous_drop [OF cs(2)]])
  moreover have "bs ! 1 = cs ! hd idx" using nth [of 1] two idx by (simp add: first_def)
  moreover have "bs ! 0 = cs ! first" using nth [of 0] two by fastforce
  moreover have "snd (cs ! first) \<le> affected_from"
    using contiguous_before [OF cs(2), of first "hd idx"] idx by (simp add: first_def inside_def)
  moreover have "last bs = cs ! last idx"
  proof -
    have "first + (length bs - 1) = last idx" using len idx by (simp add: first_def)
    moreover have "bs \<noteq> []" "length bs - 1 < length bs" using two by auto
    ultimately show ?thesis using nth [of "length bs - 1"] by (metis last_conv_nth)
  qed
  ultimately show ?thesis using res two idx by (intro exI [of _ bs]) simp
qed

section \<open>Witnesses\<close>

definition utc_only :: "string \<Rightarrow> zone option" where
  "utc_only name = (if name = ''UTC'' then Some utc_zone else None)"


theorem recalculation_buckets_exact_witness:
  "\<exists>bs. get_recalculation_buckets utc_only (19781 * day + 12 * hour) (19781 * day + 13 * hour) ''month'' ''UTC'' = Some (Inr bs) \<and>
     2 \<le> length bs \<and> inside (19781 * day + 12 * hour) (bs ! 1)"
proof -
  have zone: "utc_only ''UTC'' = Some utc_zone" by (simp add: utc_only_def)
  have g: "py_upper ''month'' \<in> {''DAY'', ''WEEK'', ''MONTH''}" by code_simp
  have "(19781 * day + 12 * hour :: time) \<le> 19781 * day + 13 * hour" by (simp add: time_units)
  from recalculation_buckets_exact [where zones = utc_only and name = "''UTC''" and g = "''month''", OF utc.time_zone_axioms zone g this] show ?thesis by blast
qed

end
