(* ===== verification/Calculator.thy ===== *)
theory Calculator
  imports Periods
begin

text \<open>
  The metric formulas of \<^verbatim>\<open>app/metrics/calculator.py\<close> and \<^verbatim>\<open>app/metrics/cycle_time.py\<close>:
  percentiles, the four DORA metrics, and the cycle-time stages of a pull request.  The
  dictionaries the service passes in are records; an observation's \<^verbatim>\<open>isoformat\<close> timestamp is
  kept as the instant.
\<close>

section \<open>Snapshots\<close>

record observation =
  ob_key :: string
  ob_at :: time
  ob_value :: rat
  ob_reviewed :: "bool option"

datatype dimension = Number rat | Observations "observation list"

record metric_snapshot =
  ms_metric_type :: string
  ms_granularity :: string
  ms_period_start :: time
  ms_period_end :: time
  ms_value :: rat
  ms_unit :: string
  ms_sample_size :: nat
  ms_calculation_version :: string
  ms_dimensions :: "(string \<times> dimension) list"

definition CALCULATION_VERSION :: string where "CALCULATION_VERSION = ''dora-v3''"
definition CYCLE_TIME_CALCULATION_VERSION :: string where
  "CYCLE_TIME_CALCULATION_VERSION = ''cycle-time-v2''"

section \<open>Percentiles\<close>

record percentiles =
  pc_mean :: rat
  pc_p50 :: rat
  pc_p75 :: rat
  pc_p90 :: rat

text \<open>The inner \<^verbatim>\<open>_percentile\<close>, before rounding, on the sorted values.\<close>

definition percentile :: "rat list \<Rightarrow> rat \<Rightarrow> rat" where
  "percentile sorted_vals p =
     (let n = length sorted_vals in
      if n = 1 then sorted_vals ! 0
      else let rank = p * of_nat (n - 1);
               lower_idx = nat \<lfloor>rank\<rfloor>;
               upper_idx = min (lower_idx + 1) (n - 1);
               weight = rank - of_nat lower_idx
           in (sorted_vals ! lower_idx) * (1 - weight) + (sorted_vals ! upper_idx) * weight)"

text \<open>\<open>None\<close> is the empty dictionary.\<close>

definition compute_percentiles :: "rat list \<Rightarrow> percentiles option" where
  "compute_percentiles values =
     (if values = [] then None
      else let sorted_vals = sort values in
        Some \<lparr>pc_mean = py_round 2 (sum_list sorted_vals / of_nat (length sorted_vals)),
              pc_p50 = py_round 2 (percentile sorted_vals (50 / 100)),
              pc_p75 = py_round 2 (percentile sorted_vals (75 / 100)),
              pc_p90 = py_round 2 (percentile sorted_vals (90 / 100))\<rparr>)"

definition percentile_dims :: "percentiles option \<Rightarrow> (string \<times> dimension) list" where
  "percentile_dims p =
     (case p of
        None \<Rightarrow> []
      | Some q \<Rightarrow> [(''mean'', Number (pc_mean q)), (''p50'', Number (pc_p50 q)),
                   (''p75'', Number (pc_p75 q)), (''p90'', Number (pc_p90 q))])"

section \<open>DORA metrics\<close>

record deployment_row =
  dr_id :: uuid
  dr_finished_at :: "time option"
  dr_status :: string
  dr_is_production :: bool
  dr_has_incident :: bool

definition finished_in :: "time \<Rightarrow> time \<Rightarrow> deployment_row \<Rightarrow> bool" where
  "finished_in period_start period_end dep \<longleftrightarrow>
     (case dr_finished_at dep of None \<Rightarrow> False | Some t \<Rightarrow> period_start \<le> t \<and> t < period_end)"

definition deployment_observation :: "rat \<Rightarrow> deployment_row \<Rightarrow> observation" where
  "deployment_observation v dep =
     \<lparr>ob_key = uuid_str (dr_id dep),
      ob_at = (case dr_finished_at dep of None \<Rightarrow> 0 | Some t \<Rightarrow> t), ob_value = v, ob_reviewed = None\<rparr>"

definition frequency_unit :: "string \<Rightarrow> string" where
  "frequency_unit g =
     (case map_of [(''DAY'', ''deployments/day''), (''WEEK'', ''deployments/week''),
                   (''MONTH'', ''deployments/month'')] g of
        None \<Rightarrow> ''deployments'' | Some u \<Rightarrow> u)"

definition counts_as_success :: "time \<Rightarrow> time \<Rightarrow> deployment_row \<Rightarrow> bool" where
  "counts_as_success period_start period_end dep \<longleftrightarrow>
     dr_is_production dep \<and> dr_status dep = ''SUCCESS'' \<and> finished_in period_start period_end dep"

definition calculate_deployment_frequency ::
  "time \<Rightarrow> time \<Rightarrow> string \<Rightarrow> deployment_row list \<Rightarrow> metric_snapshot" where
  "calculate_deployment_frequency period_start period_end granularity deployments =
     (let g = py_upper granularity;
          successful = filter (counts_as_success period_start period_end) deployments
      in \<lparr>ms_metric_type = ''DEPLOYMENT_FREQUENCY'', ms_granularity = g,
          ms_period_start = period_start, ms_period_end = period_end,
          ms_value = of_nat (length successful), ms_unit = frequency_unit g,
          ms_sample_size = length successful, ms_calculation_version = CALCULATION_VERSION,
          ms_dimensions = [(''observations'', Observations (map (deployment_observation 1) successful))]\<rparr>)"

record lead_row =
  lr_deployment_id :: uuid
  lr_pr_id :: uuid
  lr_deployment_finished_at :: "time option"
  lr_deployment_status :: string
  lr_is_production :: bool
  lr_first_commit_at :: "time option"

text \<open>The observation an item contributes, if any; an item with a negative lead time does not.\<close>

definition lead_observation :: "time \<Rightarrow> time \<Rightarrow> lead_row \<Rightarrow> observation option" where
  "lead_observation period_start period_end item =
     (case (lr_deployment_finished_at item, lr_first_commit_at item) of
        (Some finished_at, Some commit_time) \<Rightarrow>
          if lr_is_production item \<and> lr_deployment_status item = ''SUCCESS''
             \<and> period_start \<le> finished_at \<and> finished_at < period_end
             \<and> 0 \<le> total_seconds (finished_at - commit_time)
          then Some \<lparr>ob_key = uuid_str (lr_deployment_id item) @ '':'' @ uuid_str (lr_pr_id item),
                     ob_at = finished_at, ob_value = total_seconds (finished_at - commit_time) / 3600,
                     ob_reviewed = None\<rparr>
          else None
      | _ \<Rightarrow> None)"

text \<open>The snapshot of a median of hours, shared by lead time and recovery time.\<close>

definition hours_snapshot :: "string \<Rightarrow> time \<Rightarrow> time \<Rightarrow> string \<Rightarrow> observation list \<Rightarrow> metric_snapshot" where
  "hours_snapshot metric_type period_start period_end g observations =
     (let p = compute_percentiles (map ob_value observations) in
      \<lparr>ms_metric_type = metric_type, ms_granularity = g,
       ms_period_start = period_start, ms_period_end = period_end,
       ms_value = (case p of None \<Rightarrow> 0 | Some q \<Rightarrow> py_round 2 (pc_p50 q)), ms_unit = ''hours'',
       ms_sample_size = length observations, ms_calculation_version = CALCULATION_VERSION,
       ms_dimensions = percentile_dims p @ [(''observations'', Observations observations)]\<rparr>)"

definition calculate_change_lead_time ::
  "time \<Rightarrow> time \<Rightarrow> string \<Rightarrow> lead_row list \<Rightarrow> metric_snapshot" where
  "calculate_change_lead_time period_start period_end granularity pr_deployments =
     hours_snapshot ''CHANGE_LEAD_TIME_HOURS'' period_start period_end (py_upper granularity)
       (List.map_filter (lead_observation period_start period_end) pr_deployments)"

record incident_row =
  ir_id :: uuid
  ir_recovery_finished_at :: "time option"
  ir_resolved_at :: "time option"
  ir_detected_at :: "time option"
  ir_created_at :: "time option"

definition either_time :: "time option \<Rightarrow> time option \<Rightarrow> time option" where
  "either_time a b = (case a of None \<Rightarrow> b | Some t \<Rightarrow> Some t)"

definition recovery_observation :: "time \<Rightarrow> time \<Rightarrow> incident_row \<Rightarrow> observation option" where
  "recovery_observation period_start period_end inc =
     (case (either_time (ir_recovery_finished_at inc) (ir_resolved_at inc),
            either_time (ir_detected_at inc) (ir_created_at inc)) of
        (Some resolved_at, Some detected_at) \<Rightarrow>
          if period_start \<le> resolved_at \<and> resolved_at < period_end
             \<and> 0 \<le> total_seconds (resolved_at - detected_at)
          then Some \<lparr>ob_key = uuid_str (ir_id inc), ob_at = resolved_at,
                     ob_value = total_seconds (resolved_at - detected_at) / 3600, ob_reviewed = None\<rparr>
          else None
      | _ \<Rightarrow> None)"

definition calculate_recovery_time ::
  "time \<Rightarrow> time \<Rightarrow> string \<Rightarrow> incident_row list \<Rightarrow> metric_snapshot" where
  "calculate_recovery_time period_start period_end granularity incidents =
     hours_snapshot ''FAILED_DEPLOYMENT_RECOVERY_TIME_HOURS'' period_start period_end (py_upper granularity)
       (List.map_filter (recovery_observation period_start period_end) incidents)"

definition is_failure :: "deployment_row \<Rightarrow> bool" where
  "is_failure dep \<longleftrightarrow> dr_status dep = ''FAILURE'' \<or> dr_has_incident dep"

definition calculate_change_failure_rate ::
  "time \<Rightarrow> time \<Rightarrow> string \<Rightarrow> deployment_row list \<Rightarrow> metric_snapshot" where
  "calculate_change_failure_rate period_start period_end granularity deployments =
     (let g = py_upper granularity;
          prod = filter (\<lambda>dep. dr_is_production dep \<and> finished_in period_start period_end dep) deployments;
          total_prod = length prod;
          failed_prod = length (filter is_failure prod)
      in \<lparr>ms_metric_type = ''CHANGE_FAILURE_RATE_PERCENT'', ms_granularity = g,
          ms_period_start = period_start, ms_period_end = period_end,
          ms_value = (if total_prod = 0 then 0
                      else py_round 2 (of_nat failed_prod / of_nat total_prod * 100)),
          ms_unit = ''percent'', ms_sample_size = total_prod,
          ms_calculation_version = CALCULATION_VERSION,
          ms_dimensions =
            [(''total_deployments'', Number (of_nat total_prod)),
             (''failed_deployments'', Number (of_nat failed_prod)),
             (''observations'', Observations
                (map (\<lambda>dep. deployment_observation (if is_failure dep then 1 else 0) dep) prod))]\<rparr>)"

section \<open>Cycle-time stages\<close>

datatype stage = Coding | Pickup | Review | Deploy

definition stages :: "stage list" where "stages = [Coding, Pickup, Review, Deploy]"

fun stage_metric_type :: "stage \<Rightarrow> string" where
  "stage_metric_type Coding = ''PR_CODING_TIME_HOURS''"
| "stage_metric_type Pickup = ''PR_PICKUP_TIME_HOURS''"
| "stage_metric_type Review = ''PR_REVIEW_TIME_HOURS''"
| "stage_metric_type Deploy = ''PR_DEPLOY_TIME_HOURS''"

record cycle_row =
  cr_id :: uuid
  cr_first_commit_at :: "time option"
  cr_opened_at :: "time option"
  cr_ready_for_review_at :: "time option"
  cr_first_review_at :: "time option"
  cr_merged_at :: "time option"
  cr_deployed_at :: "time option"

definition pickup_start :: "cycle_row \<Rightarrow> time option" where
  "pickup_start pr =
     (case (cr_opened_at pr, cr_ready_for_review_at pr) of
        (Some opened_at, Some ready_at) \<Rightarrow>
          if opened_at < ready_at \<and>
             (case cr_first_review_at pr of None \<Rightarrow> True | Some r \<Rightarrow> ready_at \<le> r)
          then Some ready_at else Some opened_at
      | (opened, _) \<Rightarrow> opened)"

fun boundary :: "cycle_row \<Rightarrow> stage \<Rightarrow> time option \<times> time option" where
  "boundary pr Coding = (cr_first_commit_at pr, pickup_start pr)"
| "boundary pr Pickup = (pickup_start pr, cr_first_review_at pr)"
| "boundary pr Review = (cr_first_review_at pr, cr_merged_at pr)"
| "boundary pr Deploy = (cr_merged_at pr, cr_deployed_at pr)"

definition stage_hours :: "cycle_row \<Rightarrow> stage \<Rightarrow> rat option" where
  "stage_hours pr s =
     (case boundary pr s of
        (Some begin, Some fin) \<Rightarrow>
          if 0 \<le> total_seconds (fin - begin)
          then Some (py_round 4 (total_seconds (fin - begin) / 3600)) else None
      | _ \<Rightarrow> None)"

definition pull_request_stage_hours :: "cycle_row \<Rightarrow> (stage \<times> rat) list" where
  "pull_request_stage_hours pr = List.map_filter (\<lambda>s. map_option (Pair s) (stage_hours pr s)) stages"

definition merged_in :: "time \<Rightarrow> time \<Rightarrow> cycle_row \<Rightarrow> bool" where
  "merged_in period_start period_end pr \<longleftrightarrow>
     (case cr_merged_at pr of None \<Rightarrow> False | Some t \<Rightarrow> period_start \<le> t \<and> t < period_end)"

definition stage_observations :: "time \<Rightarrow> time \<Rightarrow> cycle_row list \<Rightarrow> stage \<Rightarrow> observation list" where
  "stage_observations period_start period_end prs s =
     concat (map (\<lambda>pr.
       map (\<lambda>(_, hours).
              \<lparr>ob_key = uuid_str (cr_id pr), ob_at = (case cr_merged_at pr of None \<Rightarrow> 0 | Some t \<Rightarrow> t),
               ob_value = hours, ob_reviewed = Some (cr_first_review_at pr \<noteq> None)\<rparr>)
         (filter (\<lambda>(s', _). s' = s) (pull_request_stage_hours pr)))
       (filter (merged_in period_start period_end) prs))"

definition calculate_cycle_time_stages ::
  "time \<Rightarrow> time \<Rightarrow> string \<Rightarrow> cycle_row list \<Rightarrow> metric_snapshot list" where
  "calculate_cycle_time_stages period_start period_end granularity prs =
     map (\<lambda>s.
       let obs = stage_observations period_start period_end prs s;
           p = compute_percentiles (map ob_value obs)
       in \<lparr>ms_metric_type = stage_metric_type s, ms_granularity = py_upper granularity,
           ms_period_start = period_start, ms_period_end = period_end,
           ms_value = py_round 2 (case p of None \<Rightarrow> 0 | Some q \<Rightarrow> pc_p50 q), ms_unit = ''hours'',
           ms_sample_size = length obs, ms_calculation_version = CYCLE_TIME_CALCULATION_VERSION,
           ms_dimensions = percentile_dims p @ [(''observations'', Observations obs)]\<rparr>)
     stages"

end
