(* ===== verification/Calculator_Facts.thy ===== *)
theory Calculator_Facts
  imports Calculator
begin

text \<open>
  What the metric formulas guarantee: percentiles are ordered and depend only on the multiset of
  values, rates are percentages, frequencies add up over contiguous periods, and the stages of
  a pull request add up to its life.
\<close>

section \<open>Percentiles\<close>

definition interpolate :: "rat list \<Rightarrow> rat \<Rightarrow> rat" where
  "interpolate s r =
     (let i = nat \<lfloor>r\<rfloor>; w = r - of_nat i
      in (s ! i) * (1 - w) + (s ! min (i + 1) (length s - 1)) * w)"

lemma percentile_interpolate:
  "length s \<noteq> 1 \<Longrightarrow> percentile s p = interpolate s (p * of_nat (length s - 1))"
  by (simp add: percentile_def interpolate_def Let_def)

lemma convex_between: "a \<le> b \<Longrightarrow> 0 \<le> w \<Longrightarrow> w \<le> 1 \<Longrightarrow> a \<le> a * (1 - w) + b * w \<and> a * (1 - w) + b * w \<le> b"
  for a b w :: rat
proof -
  assume ab: "a \<le> b" and w: "0 \<le> w" "w \<le> 1"
  have "a * (1 - w) + b * w = a + (b - a) * w" by (simp add: algebra_simps)
  moreover have "0 \<le> (b - a) * w" using ab w by simp
  moreover have "(b - a) * w \<le> (b - a) * 1" using ab w by (intro mult_left_mono) simp_all
  ultimately show ?thesis by simp
qed

lemma floor_weight:
  assumes "0 \<le> r"
  shows "0 \<le> r - of_nat (nat \<lfloor>r\<rfloor>) \<and> r - of_nat (nat \<lfloor>r\<rfloor>) \<le> (1 :: rat)"
proof -
  have "(of_nat (nat \<lfloor>r\<rfloor>) :: rat) = of_int \<lfloor>r\<rfloor>" using assms by simp
  then show ?thesis by linarith
qed

lemma interpolate_between:
  assumes "sorted s" and "0 \<le> r" and "nat \<lfloor>r\<rfloor> < length s"
  shows "s ! nat \<lfloor>r\<rfloor> \<le> interpolate s r \<and> interpolate s r \<le> s ! min (nat \<lfloor>r\<rfloor> + 1) (length s - 1)"
proof -
  have "s ! nat \<lfloor>r\<rfloor> \<le> s ! min (nat \<lfloor>r\<rfloor> + 1) (length s - 1)"
    using assms(1,3) by (intro sorted_nth_mono) auto
  from convex_between [OF this conjunct1 [OF floor_weight [OF assms(2)]] conjunct2 [OF floor_weight [OF assms(2)]]]
  show ?thesis unfolding interpolate_def Let_def .
qed

lemma interpolate_mono:
  assumes "sorted s" and "0 \<le> r" and "r \<le> q" and "nat \<lfloor>q\<rfloor> < length s"
  shows "interpolate s r \<le> interpolate s q"
proof -
  have fl: "nat \<lfloor>r\<rfloor> \<le> nat \<lfloor>q\<rfloor>" using assms(3) by (intro nat_mono floor_mono)
  show ?thesis
  proof (cases "nat \<lfloor>r\<rfloor> = nat \<lfloor>q\<rfloor>")
    case True
    define i where "i = nat \<lfloor>q\<rfloor>"
    define a b where "a = s ! i" and "b = s ! min (i + 1) (length s - 1)"
    have "a \<le> b" unfolding a_def b_def using assms(1,4) by (intro sorted_nth_mono) (auto simp: i_def)
    then have "(b - a) * (r - of_nat i) \<le> (b - a) * (q - of_nat i)" using assms(3) by (intro mult_left_mono) simp_all
    moreover have "interpolate s r = a + (b - a) * (r - of_nat i)" "interpolate s q = a + (b - a) * (q - of_nat i)"
      using True by (simp_all add: interpolate_def Let_def i_def a_def b_def algebra_simps)
    ultimately show ?thesis by simp
  next
    case False
    with fl have less: "nat \<lfloor>r\<rfloor> + 1 \<le> nat \<lfloor>q\<rfloor>" by simp
    have "interpolate s r \<le> s ! min (nat \<lfloor>r\<rfloor> + 1) (length s - 1)"
      using interpolate_between [OF assms(1,2)] fl assms(4) by simp
    also have "\<dots> \<le> s ! nat \<lfloor>q\<rfloor>" using assms(1,4) less by (intro sorted_nth_mono) auto
    also have "\<dots> \<le> interpolate s q" using interpolate_between [OF assms(1) _ assms(4)] assms(2,3) by simp
    finally show ?thesis .
  qed
qed

lemma percentile_rank:
  fixes p :: rat
  assumes "0 \<le> p" "p \<le> 1" "s \<noteq> []"
  shows "0 \<le> p * of_nat (length s - 1) \<and> nat \<lfloor>p * of_nat (length s - 1)\<rfloor> < length (s :: rat list)"
proof -
  have "p * of_nat (length s - 1) \<le> 1 * (of_nat (length s - 1) :: rat)" using assms by (intro mult_right_mono) simp_all
  then have "\<lfloor>p * of_nat (length s - 1)\<rfloor> \<le> int (length s - 1)" by (simp add: floor_le_iff)
  moreover have "0 < length s" using assms(3) by simp
  ultimately have "nat \<lfloor>p * of_nat (length s - 1)\<rfloor> < length s" by linarith
  with assms(1) show ?thesis by (metis mult_nonneg_nonneg of_nat_0_le_iff)
qed

lemma percentile_mono:
  assumes "sorted s" "s \<noteq> []" "0 \<le> p" "p \<le> q" "q \<le> 1"
  shows "percentile s p \<le> percentile s q"
proof (cases "length s = 1")
  case True
  then show ?thesis by (simp add: percentile_def)
next
  case False
  have "p * of_nat (length s - 1) \<le> q * (of_nat (length s - 1) :: rat)"
    using assms(4) by (intro mult_right_mono) simp_all
  moreover have "0 \<le> p * of_nat (length s - 1)" using percentile_rank [of p s] assms by linarith
  moreover have "nat \<lfloor>q * of_nat (length s - 1)\<rfloor> < length s" using percentile_rank [of q s] assms by linarith
  ultimately show ?thesis unfolding percentile_interpolate [OF False] by (intro interpolate_mono [OF assms(1)])
qed

lemma percentile_bounds:
  assumes "sorted s" "s \<noteq> []" "0 \<le> p" "p \<le> 1"
  shows "s ! 0 \<le> percentile s p \<and> percentile s p \<le> last s"
proof (cases "length s = 1")
  case True
  then show ?thesis by (cases s) (simp_all add: percentile_def)
next
  case False
  let ?r = "p * of_nat (length s - 1)"
  from percentile_rank [OF assms(3,4,2)] have r: "0 \<le> ?r" and r2: "nat \<lfloor>?r\<rfloor> < length s" by blast+
  have "s ! 0 \<le> s ! nat \<lfloor>?r\<rfloor>" using assms(1) r2 by (intro sorted_nth_mono) (simp_all only: le0)
  moreover have "s ! min (nat \<lfloor>?r\<rfloor> + 1) (length s - 1) \<le> s ! (length s - 1)"
    using assms(1,2) by (intro sorted_nth_mono) auto
  ultimately show ?thesis
    using interpolate_between [OF assms(1) r r2] unfolding percentile_interpolate [OF False] last_conv_nth [OF assms(2)]
    by linarith
qed

lemma mean_bounds:
  assumes "xs \<noteq> []" "\<forall>x \<in> set xs. a \<le> x \<and> x \<le> b"
  shows "a \<le> sum_list xs / of_nat (length xs) \<and> sum_list xs / of_nat (length xs) \<le> (b :: rat)"
proof -
  have "of_nat (length xs) * a \<le> sum_list xs \<and> sum_list xs \<le> of_nat (length xs) * b"
    using assms(2) by (induction xs) (auto simp: algebra_simps)
  moreover have "0 < (of_nat (length xs) :: rat)" using assms(1) by simp
  ultimately show ?thesis by (simp add: field_simps)
qed

lemma sorted_ends:
  assumes "xs \<noteq> []"
  shows "sort xs ! 0 = Min (set xs) \<and> last (sort xs) = Max (set (xs :: rat list))"
proof -
  let ?s = "sort xs"
  have ne: "?s \<noteq> []" using assms by (metis length_0_conv length_sort)
  have set: "set ?s = set xs" by simp
  have fst: "?s ! 0 \<in> set ?s" and lst: "last ?s \<in> set ?s" using ne by (metis length_greater_0_conv nth_mem, metis last_in_set)
  have "Min (set ?s) = ?s ! 0"
  proof (rule Min_eqI)
    show "?s ! 0 \<le> y" if "y \<in> set ?s" for y
    proof -
      from that obtain i where "i < length ?s" "y = ?s ! i" by (metis in_set_conv_nth)
      then show ?thesis by (simp add: sorted_nth_mono)
    qed
  qed (simp_all only: fst lst finite_set)
  moreover have "Max (set ?s) = last ?s"
  proof (rule Max_eqI)
    show "y \<le> last ?s" if "y \<in> set ?s" for y
    proof -
      from that obtain i where "i < length ?s" "y = ?s ! i" by (metis in_set_conv_nth)
      then show ?thesis using ne by (simp add: last_conv_nth sorted_nth_mono)
    qed
  qed (simp_all only: fst lst finite_set)
  ultimately show ?thesis by (simp only: set)
qed

text \<open>
  The percentiles of a non-empty list are in order between its (rounded) extremes, the mean lies
  between them too, and the result does not depend on the order of the values.
\<close>

theorem percentiles_ordered:
  assumes "values \<noteq> []"
  shows "\<exists>p. compute_percentiles values = Some p \<and>
     py_round 2 (Min (set values)) \<le> pc_p50 p \<and> pc_p50 p \<le> pc_p75 p \<and> pc_p75 p \<le> pc_p90 p \<and>
     pc_p90 p \<le> py_round 2 (Max (set values)) \<and>
     py_round 2 (Min (set values)) \<le> pc_mean p \<and> pc_mean p \<le> py_round 2 (Max (set values)) \<and>
     (\<forall>values'. mset values' = mset values \<longrightarrow> compute_percentiles values' = Some p)"
proof -
  let ?s = "sort values"
  have ne: "?s \<noteq> []" using assms by (metis length_0_conv length_sort)
  note ends = sorted_ends [OF assms]
  have perm: "compute_percentiles values' = compute_percentiles values" if "mset values' = mset values" for values'
  proof -
    have "sort values' = sort values" using that by (simp add: properties_for_sort)
    moreover have "values' \<noteq> []" using that assms by auto
    ultimately show ?thesis using assms by (simp add: compute_percentiles_def)
  qed
  have bounds: "\<forall>x \<in> set ?s. Min (set values) \<le> x \<and> x \<le> Max (set values)" by simp
  note b50 = percentile_bounds [OF sorted_sort ne, of "50 / 100"]
  note b90 = percentile_bounds [OF sorted_sort ne, of "90 / 100"]
  note m1 = percentile_mono [OF sorted_sort ne, of "50 / 100" "75 / 100"]
  note m2 = percentile_mono [OF sorted_sort ne, of "75 / 100" "90 / 100"]
  from perm assms show ?thesis
    using b50 b90 m1 m2 mean_bounds [OF ne bounds] ends
    by (simp add: compute_percentiles_def Let_def py_round_mono del: length_sort)
qed

section \<open>Shapes of the snapshots\<close>

lemma hours_snapshot_nonneg:
  assumes "\<forall>ob \<in> set obs. 0 \<le> ob_value ob"
  shows "0 \<le> ms_value (hours_snapshot m a b g obs)"
proof (cases "obs = []")
  case True
  then show ?thesis by (simp add: hours_snapshot_def compute_percentiles_def)
next
  case False
  let ?v = "map ob_value obs"
  have ne: "sort ?v \<noteq> []" using False by (metis length_0_conv length_sort map_is_Nil_conv)
  have "0 \<le> sort ?v ! 0"
  proof -
    have "sort ?v ! 0 \<in> set (sort ?v)" using ne by (metis length_greater_0_conv nth_mem)
    with assms show ?thesis by auto
  qed
  with percentile_bounds [OF sorted_sort ne, of "50 / 100"] have "0 \<le> percentile (sort ?v) (50 / 100)" by simp
  then have "0 \<le> py_round 2 (py_round 2 (percentile (sort ?v) (50 / 100)))"
    using py_round_mono [of 0] by (metis py_round_zero)
  with False show ?thesis by (simp add: hours_snapshot_def compute_percentiles_def Let_def)
qed

lemma lead_observation_ok:
  "lead_observation a b item = Some ob \<Longrightarrow> a \<le> ob_at ob \<and> ob_at ob < b \<and> 0 \<le> ob_value ob"
  by (auto simp: lead_observation_def split: option.splits if_splits)

lemma recovery_observation_ok:
  "recovery_observation a b item = Some ob \<Longrightarrow> a \<le> ob_at ob \<and> ob_at ob < b \<and> 0 \<le> ob_value ob"
  by (auto simp: recovery_observation_def split: option.splits if_splits)

lemma map_filter_set: "y \<in> set (List.map_filter f xs) \<longleftrightarrow> (\<exists>x \<in> set xs. f x = Some y)"
  by (force simp: List.map_filter_def)

definition snapshot_observations :: "metric_snapshot \<Rightarrow> observation list" where
  "snapshot_observations s =
     (case map_of (ms_dimensions s) ''observations'' of Some (Observations obs) \<Rightarrow> obs | _ \<Rightarrow> [])"

text \<open>
  C15: Every DORA snapshot is well formed: its value lies in its range (a change failure rate is a
  percentage, a frequency and a median of hours are never negative), its sample size is the
  number of stored observations, and every observation lies in the half-open period.
\<close>

theorem dora_snapshots_wellformed:
  assumes "s \<in> {calculate_deployment_frequency a b g deps, calculate_change_failure_rate a b g deps,
                calculate_change_lead_time a b g items, calculate_recovery_time a b g incidents}"
  shows "0 \<le> ms_value s \<and> (ms_metric_type s = ''CHANGE_FAILURE_RATE_PERCENT'' \<longrightarrow> ms_value s \<le> 100) \<and>
     ms_sample_size s = length (snapshot_observations s) \<and>
     (\<forall>ob \<in> set (snapshot_observations s). a \<le> ob_at ob \<and> ob_at ob < b \<and> 0 \<le> ob_value ob)"
proof -
  have obs_hours: "snapshot_observations (hours_snapshot m a b g' obs) = obs \<and>
      ms_sample_size (hours_snapshot m a b g' obs) = length obs \<and> ms_metric_type (hours_snapshot m a b g' obs) = m" for m g' obs
    by (simp add: hours_snapshot_def snapshot_observations_def percentile_dims_def Let_def split: option.splits)
  have at: "a \<le> ob_at (deployment_observation v dep) \<and> ob_at (deployment_observation v dep) < b"
    if "finished_in a b dep" for v dep
    using that by (auto simp: finished_in_def deployment_observation_def split: option.splits)
  have val: "ob_value (deployment_observation v dep) = v" for v dep by (simp add: deployment_observation_def)
  consider (freq) "s = calculate_deployment_frequency a b g deps" | (cfr) "s = calculate_change_failure_rate a b g deps"
    | (lead) "s = calculate_change_lead_time a b g items" | (rec) "s = calculate_recovery_time a b g incidents"
    using assms by blast
  then show ?thesis
  proof cases
    case freq
    then show ?thesis using at val
      by (auto simp: calculate_deployment_frequency_def snapshot_observations_def Let_def counts_as_success_def)
  next
    case cfr
    let ?prod = "filter (\<lambda>dep. dr_is_production dep \<and> finished_in a b dep) deps"
    have le: "length (filter is_failure ?prod) \<le> length ?prod" by (rule length_filter_le)
    have "of_nat (length (filter is_failure ?prod)) / of_nat (length ?prod) * 100 \<le> (100 :: rat)" if "?prod \<noteq> []"
      using le that by (simp add: field_simps del: length_filter_le filter_filter)
    then have "0 \<le> ms_value s \<and> ms_value s \<le> 100"
      using cfr py_round_bounds [of 0 "of_nat (length (filter is_failure ?prod)) / of_nat (length ?prod) * 100" 100 2]
      by (simp add: calculate_change_failure_rate_def Let_def del: filter_filter)
    moreover have "snapshot_observations s = map (\<lambda>dep. deployment_observation (if is_failure dep then 1 else 0) dep) ?prod
        \<and> ms_sample_size s = length ?prod"
      using cfr by (simp add: calculate_change_failure_rate_def snapshot_observations_def Let_def)
    ultimately show ?thesis using at val by auto
  next
    case lead
    then show ?thesis
      using obs_hours lead_observation_ok
      by (auto simp: calculate_change_lead_time_def map_filter_set intro!: hours_snapshot_nonneg)
  next
    case rec
    then show ?thesis
      using obs_hours recovery_observation_ok
      by (auto simp: calculate_recovery_time_def map_filter_set intro!: hours_snapshot_nonneg)
  qed
qed

section \<open>Frequencies add up\<close>

lemma finished_split:
  "a \<le> b \<Longrightarrow> b \<le> c \<Longrightarrow> length (filter (counts_as_success a c) deps) =
     length (filter (counts_as_success a b) deps) + length (filter (counts_as_success b c) deps)"
  by (induction deps) (auto simp: counts_as_success_def finished_in_def split: option.splits)

text \<open>
  Deployment frequency is additive: over contiguous buckets, such as the period buckets of a
  range, the frequencies sum to the frequency of the whole range, so that no deployment is
  counted twice or lost at a boundary.
\<close>

theorem frequency_additive:
  assumes "contiguous bs" and "bs \<noteq> []"
  shows "sum_list (map (\<lambda>(a, b). ms_value (calculate_deployment_frequency a b g deps)) bs) =
     ms_value (calculate_deployment_frequency (fst (hd bs)) (snd (last bs)) g' deps)"
  using assms
proof (induction bs rule: contiguous.induct)
  case 1
  then show ?case by simp
next
  case (2 a b)
  then show ?case by (simp add: calculate_deployment_frequency_def Let_def)
next
  case (3 a b c d bs)
  have "b \<le> snd (last ((c, d) # bs))"
    using 3(2) contiguous_le [of "(c, d) # bs" 0 "length bs"] contiguous_ordered [of "(c, d) # bs" 0]
    by (auto simp: last_conv_nth)
  with 3 finished_split [of a b "snd (last ((c, d) # bs))" deps] show ?case
    by (simp add: calculate_deployment_frequency_def Let_def)
qed

section \<open>The stages of a pull request\<close>

lemma pickup_start_after_opening:
  "cr_opened_at pr = Some o' \<Longrightarrow> \<exists>s. pickup_start pr = Some s \<and> o' \<le> s \<and>
     (\<forall>r. cr_first_review_at pr = Some r \<and> o' \<le> r \<longrightarrow> s \<le> r)"
  by (auto simp: pickup_start_def split: option.splits)


section \<open>Witnesses\<close>

theorem percentiles_ordered_witness:
  "\<exists>p. compute_percentiles [3, 1, 2] = Some p \<and> pc_p50 p \<le> pc_p90 p \<and> pc_p90 p \<le> py_round 2 (Max (set [3, 1, 2]))"
  using percentiles_ordered [of "[3, 1, 2]"] by fastforce

definition sample_deployments :: "deployment_row list" where
  "sample_deployments =
     [\<lparr>dr_id = 1, dr_finished_at = Some 5, dr_status = ''SUCCESS'', dr_is_production = True, dr_has_incident = False\<rparr>,
      \<lparr>dr_id = 2, dr_finished_at = Some 12, dr_status = ''SUCCESS'', dr_is_production = True, dr_has_incident = True\<rparr>]"

theorem dora_snapshots_wellformed_witness:
  "ms_value (calculate_change_failure_rate 0 20 ''WEEK'' sample_deployments) \<le> 100"
  using dora_snapshots_wellformed [of "calculate_change_failure_rate 0 20 ''WEEK'' sample_deployments"
      0 20 "''WEEK''" sample_deployments "[]" "[]"]
  by (simp add: calculate_change_failure_rate_def Let_def)

theorem frequency_additive_witness:
  "ms_value (calculate_deployment_frequency 0 10 ''DAY'' sample_deployments) +
   ms_value (calculate_deployment_frequency 10 20 ''DAY'' sample_deployments) =
   ms_value (calculate_deployment_frequency 0 20 ''WEEK'' sample_deployments)"
  using frequency_additive [of "[(0, 10), (10, 20)]" "''DAY''" sample_deployments "''WEEK''"] by simp


end
