(* ===== verification/Alerts.thy ===== *)
theory Alerts
  imports Dispatcher
begin

text \<open>
  Alert evaluation (\<^verbatim>\<open>app/jobs/handlers/evaluate_alerts.py\<close>): the aggregation of stored
  observations in an exact rolling window, the comparators, the rendering of the notification,
  the delivery transaction with its cooldown, the handler and the enqueueing of its job.
  Parameters stand for what Python's library computes on the way: \<open>parse_iso\<close> parses a timestamp with
  a zone (\<^verbatim>\<open>fromisoformat\<close>), \<open>isoformat\<close> and \<open>dec_str\<close> print instants and decimals, \<open>repr\<close> prints
  a JSON float, list or object.  Decimals are exact rationals.
\<close>

section \<open>Decimals\<close>

text \<open>\<^verbatim>\<open>Decimal(s)\<close> for a finite literal; \<open>None\<close> for a malformed, infinite or NaN one.\<close>

fun digits_value :: "nat \<Rightarrow> string \<Rightarrow> nat option" where
  "digits_value acc [] = Some acc"
| "digits_value acc (c # cs) =
     (case digit_value c of
        None \<Rightarrow> None
      | Some d \<Rightarrow> if d < 10 then digits_value (acc * 10 + d) cs else None)"

definition signed :: "string \<Rightarrow> bool \<times> string" where
  "signed s = (if take 1 s = ''-'' then (True, drop 1 s)
               else if take 1 s = ''+'' then (False, drop 1 s) else (False, s))"

definition exponent_value :: "string \<Rightarrow> int option" where
  "exponent_value s =
     (case signed s of
        (neg, ds) \<Rightarrow>
          if ds = [] then None
          else map_option (\<lambda>n. if neg then - int n else int n) (digits_value 0 ds))"

definition py_decimal :: "string \<Rightarrow> rat option" where
  "py_decimal s0 =
     (case signed (filter (\<lambda>c. c \<noteq> CHR ''_'') (py_strip s0)) of
        (neg, s) \<Rightarrow>
          let is_e = (\<lambda>c. c = CHR ''e'' \<or> c = CHR ''E'');
              mant = takeWhile (\<lambda>c. \<not> is_e c) s;
              rest = dropWhile (\<lambda>c. \<not> is_e c) s;
              whole = takeWhile (\<lambda>c. c \<noteq> CHR ''.'') mant;
              frac = drop 1 (dropWhile (\<lambda>c. c \<noteq> CHR ''.'') mant)
          in if whole = [] \<and> frac = [] then None
             else (case (digits_value 0 (whole @ frac), if rest = [] then Some 0 else exponent_value (drop 1 rest)) of
                     (Some n, Some e) \<Rightarrow>
                       let k = e - int (length frac);
                           v = of_nat n * (if 0 \<le> k then 10 ^ nat k else 1 / 10 ^ nat (- k))
                       in Some (if neg then - v else v)
                   | _ \<Rightarrow> None))"

text \<open>\<^verbatim>\<open>str(value)\<close> of a decoded JSON value.\<close>

fun json_str :: "(json \<Rightarrow> string) \<Rightarrow> json \<Rightarrow> string" where
  "json_str repr JNull = ''None''"
| "json_str repr (JBool b) = (if b then ''True'' else ''False'')"
| "json_str repr (JInt k) = str_int k"
| "json_str repr (JStr s) = s"
| "json_str repr v = repr v"

text \<open>\<^verbatim>\<open>Decimal(str(value))\<close>, finite results only: a number or a string spelling one.\<close>

fun decimal_of_json :: "json \<Rightarrow> rat option" where
  "decimal_of_json (JInt k) = Some (of_int k)"
| "decimal_of_json (JFloat r) = Some r"
| "decimal_of_json (JStr s) = py_decimal s"
| "decimal_of_json _ = None"

section \<open>Aggregation\<close>

record evaluated_metric =
  em_actual :: rat
  em_source_entity_id :: uuid
  em_observation_count :: nat
  em_period_start :: time
  em_period_end :: time

definition parse_observation_time ::
  "(string \<Rightarrow> time option) \<Rightarrow> (json \<Rightarrow> string) \<Rightarrow> json \<Rightarrow> time option" where
  "parse_observation_time parse_iso repr v = parse_iso (py_replace ''Z'' ''+00:00'' (json_str repr v))"

definition median :: "rat list \<Rightarrow> rat" where
  "median values =
     (let ordered = sort values; midpoint = length ordered div 2 in
      if length ordered mod 2 = 1 then ordered ! midpoint
      else ((ordered ! (midpoint - 1)) + (ordered ! midpoint)) / 2)"

record dora_row =
  do_id :: uuid
  do_repository_id :: uuid
  do_metric_type :: string
  do_granularity :: string
  do_calculation_version :: string
  do_period_start :: time
  do_period_end :: time
  do_dimensions :: json
  do_calculated_at :: time

text \<open>One raw observation of a snapshot: its key and value when it counts in the window.\<close>

definition window_observation ::
  "(string \<Rightarrow> time option) \<Rightarrow> (json \<Rightarrow> string) \<Rightarrow> time \<Rightarrow> time \<Rightarrow> uuid \<Rightarrow> nat \<Rightarrow> json \<Rightarrow> (string \<times> rat) option" where
  "window_observation parse_iso repr window_start window_end snapshot_id index raw =
     (case raw of
        JObj raw_observation \<Rightarrow>
          (case (parse_observation_time parse_iso repr (dict_get raw_observation ''at''),
                 decimal_of_json (dict_get raw_observation ''value'')) of
             (Some observed_at, Some value) \<Rightarrow>
               if window_start \<le> observed_at \<and> observed_at < window_end
               then (let raw_key = dict_get raw_observation ''key'';
                         key = (if raw_key = JNull then [] else py_strip (json_str repr raw_key))
                     in Some (if key = [] then uuid_str snapshot_id @ '':'' @ str_int (int index) else key, value))
               else None
           | _ \<Rightarrow> None)
      | _ \<Rightarrow> None)"

definition raw_observations :: "json \<Rightarrow> json list" where
  "raw_observations dimensions =
     (case dimensions of
        JObj d \<Rightarrow> (case dict_get d ''observations'' of JList xs \<Rightarrow> xs | _ \<Rightarrow> [])
      | _ \<Rightarrow> [])"

definition snapshot_candidates ::
  "(string \<Rightarrow> time option) \<Rightarrow> (json \<Rightarrow> string) \<Rightarrow> time \<Rightarrow> time \<Rightarrow> dora_row \<Rightarrow> (string \<times> rat) list" where
  "snapshot_candidates parse_iso repr window_start window_end snapshot =
     List.map_filter (\<lambda>(i, raw). window_observation parse_iso repr window_start window_end (do_id snapshot) i raw)
       (enumerate 0 (raw_observations (do_dimensions snapshot)))"

text \<open>\<^verbatim>\<open>dict.setdefault\<close>: the first value of a key stays.\<close>

definition setdefault :: "('k \<times> 'v) list \<Rightarrow> 'k \<times> 'v \<Rightarrow> ('k \<times> 'v) list" where
  "setdefault d kv = (if map_of d (fst kv) = None then d @ [kv] else d)"

definition collect_observations ::
  "(string \<Rightarrow> time option) \<Rightarrow> (json \<Rightarrow> string) \<Rightarrow> time \<Rightarrow> time \<Rightarrow> dora_row list \<Rightarrow> (string \<times> rat) list" where
  "collect_observations parse_iso repr window_start window_end snapshots =
     foldl setdefault [] (concat (map (snapshot_candidates parse_iso repr window_start window_end) snapshots))"

text \<open>\<^verbatim>\<open>max(xs, key=f)\<close>: the first of the largest.\<close>

fun max_by :: "('a \<Rightarrow> 'b :: linorder) \<Rightarrow> 'a \<Rightarrow> 'a list \<Rightarrow> 'a" where
  "max_by f x [] = x"
| "max_by f x (y # ys) = max_by f (if f x < f y then y else x) ys"

definition dora_value :: "string \<Rightarrow> rat list \<Rightarrow> rat option" where
  "dora_value metric_type values =
     (if metric_type = ''DEPLOYMENT_FREQUENCY'' then Some (of_nat (length values))
      else if metric_type = ''CHANGE_FAILURE_RATE_PERCENT''
      then (if values = [] then None
            else Some (of_nat (length (filter (\<lambda>v. 1 / 2 \<le> v) values)) * 100 / of_nat (length values)))
      else if metric_type = ''CHANGE_LEAD_TIME_HOURS'' \<or> metric_type = ''FAILED_DEPLOYMENT_RECOVERY_TIME_HOURS''
      then (if values = [] then None else Some (median values))
      else None)"

definition aggregate_dora_metric ::
  "(string \<Rightarrow> time option) \<Rightarrow> (json \<Rightarrow> string) \<Rightarrow> string \<Rightarrow> dora_row list \<Rightarrow> time \<Rightarrow> time
     \<Rightarrow> evaluated_metric option" where
  "aggregate_dora_metric parse_iso repr metric_type snapshots window_start window_end =
     (case snapshots of
        [] \<Rightarrow> None
      | s # ss \<Rightarrow>
          let values = map snd (collect_observations parse_iso repr window_start window_end snapshots) in
          (case dora_value metric_type values of
             None \<Rightarrow> None
           | Some actual \<Rightarrow>
               Some \<lparr>em_actual = actual,
                     em_source_entity_id = do_id (max_by (\<lambda>s. (do_period_start s, do_calculated_at s)) s ss),
                     em_observation_count = length values,
                     em_period_start = window_start, em_period_end = window_end\<rparr>))"

section \<open>Comparators\<close>

definition matches :: "string \<Rightarrow> rat \<Rightarrow> rat \<Rightarrow> bool result" where
  "matches comparator actual threshold =
     (if comparator = ''GT'' then Inr (threshold < actual)
      else if comparator = ''GTE'' then Inr (threshold \<le> actual)
      else if comparator = ''LT'' then Inr (actual < threshold)
      else if comparator = ''LTE'' then Inr (actual \<le> threshold)
      else if comparator = ''EQ'' then Inr (actual = threshold)
      else Inl (ValueError (''Unsupported comparator: '' @ comparator)))"

section \<open>The notification\<close>

text \<open>The characters \<^verbatim>\<open>CR\<close> and \<^verbatim>\<open>LF\<close>.\<close>

definition CR :: char where "CR = CHR 0x0D"
definition LF :: char where "LF = CHR 0x0A"

definition safe_header :: "string \<Rightarrow> string" where
  "safe_header value = py_join '' '' (py_words (py_replace [LF] '' '' (py_replace [CR] '' '' value)))"

text \<open>\<^verbatim>\<open>html.escape(s, quote=True)\<close>, the default.\<close>

fun escape_char :: "char \<Rightarrow> string" where
  "escape_char c =
     (if c = CHR ''&'' then ''&amp;'' else if c = CHR ''<'' then ''&lt;''
      else if c = CHR ''>'' then ''&gt;'' else if c = CHR 0x22 then ''&quot;''
      else if c = CHR 0x27 then ''&#x27;'' else [c])"

definition html_escape :: "string \<Rightarrow> string" where
  "html_escape s = concat (map escape_char s)"

record alert_text =
  at_subject :: string
  at_text :: string
  at_html :: string

definition quoted :: "string \<Rightarrow> string" where
  "quoted s = [CHR 0x22] @ s @ [CHR 0x22]"

definition build_email_content ::
  "(rat \<Rightarrow> string) \<Rightarrow> string \<Rightarrow> string \<Rightarrow> string \<Rightarrow> string \<Rightarrow> rat \<Rightarrow> rat \<Rightarrow> int \<Rightarrow> string \<Rightarrow> string
     \<Rightarrow> string \<Rightarrow> string \<Rightarrow> alert_text" where
  "build_email_content dec_str base_url rule_name metric_type comparator actual threshold minutes
       period_start period_end workspace_name repo_full_name =
     (let dashboard_link = rstrip_by (\<lambda>c. c = CHR ''/'') base_url @ ''/dashboard'';
          period_str = str_int minutes @ '' minutes'' @
            (if period_start \<noteq> [] \<and> period_end \<noteq> []
             then '' ('' @ period_start @ '' to '' @ period_end @ '')'' else []);
          link_style = ''background-color: #2563eb; color: white; padding: 8px 16px; '' @
            ''text-decoration: none; border-radius: 4px;''
      in \<lparr>at_subject = ''[Adept Alert] '' @ safe_header rule_name @ '' triggered for '' @ safe_header repo_full_name,
          at_text =
            ''Alert Rule: '' @ rule_name @ [LF] @
            ''Workspace: '' @ workspace_name @ [LF] @
            ''Repository: '' @ repo_full_name @ [LF] @
            ''Metric: '' @ metric_type @ [LF] @
            ''Condition: '' @ comparator @ '' '' @ dec_str threshold @ [LF] @
            ''Actual Value: '' @ dec_str actual @ [LF] @
            ''Evaluation Period: '' @ period_str @ [LF, LF] @
            ''View repository metrics dashboard:'' @ [LF] @ dashboard_link @ [LF],
          at_html =
            ''<h2>Alert Triggered: '' @ html_escape rule_name @ ''</h2>'' @
            ''<p><strong>Workspace:</strong> '' @ html_escape workspace_name @ ''<br/>'' @
            ''<strong>Repository:</strong> '' @ html_escape repo_full_name @ ''<br/>'' @
            ''<strong>Metric:</strong> '' @ html_escape metric_type @ ''<br/>'' @
            ''<strong>Condition:</strong> '' @ html_escape comparator @ '' '' @ html_escape (dec_str threshold) @ ''<br/>'' @
            ''<strong>Actual Value:</strong> '' @ html_escape (dec_str actual) @ ''<br/>'' @
            ''<strong>Evaluation Period:</strong> '' @ html_escape period_str @ ''</p>'' @
            ''<p><a href='' @ quoted (html_escape dashboard_link) @ '' style='' @ quoted link_style @ ''>'' @
            ''View Dashboard</a></p>''\<rparr>)"

section \<open>The delivery transaction\<close>

record alert_rule =
  al_id :: uuid
  al_repository_id :: uuid
  al_name :: string
  al_metric_type :: string
  al_comparator :: string
  al_threshold_value :: rat
  al_evaluation_window_minutes :: int
  al_cooldown_minutes :: int
  al_channel :: string
  al_destination :: string
  al_enabled :: bool
  al_last_triggered_at :: "time option"
  al_created_at :: time
  al_updated_at :: time
  al_version :: int

record delivery =
  de_id :: uuid
  de_workspace_id :: uuid
  de_repository_id :: uuid
  de_alert_rule_id :: uuid
  de_event_key :: string
  de_channel :: string
  de_destination :: string
  de_status :: string
  de_payload :: json
  de_attempts :: int
  de_created_at :: time
  de_updated_at :: time

type_synonym alert_tables = "alert_rule list \<times> delivery list"

definition in_cooldown :: "time \<Rightarrow> int \<Rightarrow> alert_rule \<Rightarrow> bool" where
  "in_cooldown now cooldown_mins rule \<longleftrightarrow>
     (case al_last_triggered_at rule of None \<Rightarrow> False | Some t \<Rightarrow> now < t + cooldown_mins * minute)"

text \<open>
  \<open>d\<close> is the delivery to insert, its timestamps included; the result says whether it was queued.
  The row lock on the rule serializes these transactions.
\<close>

definition deliver_txn :: "time \<Rightarrow> int \<Rightarrow> delivery \<Rightarrow> alert_tables \<Rightarrow> bool \<times> alert_tables" where
  "deliver_txn now cooldown_mins d tables =
     (case tables of (rules, deliveries) \<Rightarrow>
        (case find (\<lambda>r. al_id r = de_alert_rule_id d \<and> al_enabled r) rules of
           None \<Rightarrow> (False, tables)
         | Some rule \<Rightarrow>
             if in_cooldown now cooldown_mins rule then (False, tables)
             else if \<exists>e \<in> set deliveries. de_alert_rule_id e = de_alert_rule_id d \<and> de_event_key e = de_event_key d
             then (False, tables)
             else (True,
               (sql_update (\<lambda>r. al_id r = de_alert_rule_id d)
                  (\<lambda>r. r\<lparr>al_last_triggered_at := Some now, al_updated_at := now, al_version := al_version r + 1\<rparr>) rules,
                deliveries @ [d]))))"

section \<open>The handler\<close>

record risk_prediction_row =
  rp_id :: uuid
  rp_repository_id :: uuid
  rp_risk_score :: rat
  rp_predicted_at :: time
  rp_created_at :: time

record alert_db = engine_db +
  ad_rules :: "alert_rule list"
  ad_deliveries :: "delivery list"
  ad_predictions :: "risk_prediction_row list"
  ad_snapshots :: "dora_row list"
  ad_names :: "uuid \<Rightarrow> uuid \<Rightarrow> (string \<times> string) option"

record alert_env =
  ae_iso :: "string \<Rightarrow> time option"
  ae_repr :: "json \<Rightarrow> string"
  ae_isoformat :: "time \<Rightarrow> string"
  ae_dec_str :: "rat \<Rightarrow> string"
  ae_base_url :: string
  ae_evaluation_end :: time
  ae_txn_now :: "uuid \<Rightarrow> time"
  ae_delivery_id :: "uuid \<Rightarrow> uuid"

definition fetch_workspace_and_repo_names ::
  "('d) alert_db_scheme \<Rightarrow> uuid \<Rightarrow> uuid \<Rightarrow> string \<times> string" where
  "fetch_workspace_and_repo_names db ws repo =
     (case ad_names db ws repo of
        None \<Rightarrow> (''Unknown Workspace'', ''Unknown Repository'')
      | Some names \<Rightarrow> names)"

definition dora_snapshots :: "('d) alert_db_scheme \<Rightarrow> uuid \<Rightarrow> string \<Rightarrow> time \<Rightarrow> time \<Rightarrow> dora_row list" where
  "dora_snapshots db repo metric_type ws we =
     sort_key (\<lambda>s. (do_period_start s, do_calculated_at s))
       (filter (\<lambda>s. do_repository_id s = repo \<and> do_metric_type s = metric_type \<and> do_granularity s = ''DAY''
          \<and> do_calculation_version s = ''dora-v3'' \<and> ws < do_period_end s \<and> do_period_start s < we)
        (ad_snapshots db))"

definition evaluate_rule ::
  "alert_env \<Rightarrow> ('d) alert_db_scheme \<Rightarrow> uuid \<Rightarrow> alert_rule \<Rightarrow> evaluated_metric option" where
  "evaluate_rule env db repo rule =
     (let we = ae_evaluation_end env;
          ws = we - al_evaluation_window_minutes rule * minute
      in if al_metric_type rule = ''PR_RISK_SCORE''
         then (case filter (\<lambda>p. rp_repository_id p = repo \<and> ws \<le> rp_predicted_at p \<and> rp_predicted_at p < we)
                      (ad_predictions db) of
                 [] \<Rightarrow> None
               | p # ps \<Rightarrow>
                   let pred = max_by (\<lambda>p. (rp_predicted_at p, rp_created_at p)) p ps
                   in Some \<lparr>em_actual = rp_risk_score pred, em_source_entity_id = rp_id pred,
                            em_observation_count = 1, em_period_start = ws, em_period_end = we\<rparr>)
         else aggregate_dora_metric (ae_iso env) (ae_repr env) (al_metric_type rule)
                (dora_snapshots db repo (al_metric_type rule) ws we) ws we)"

definition event_key :: "uuid \<Rightarrow> string" where
  "event_key job_id = ''evaluation:'' @ uuid_str job_id"

definition delivery_for ::
  "alert_env \<Rightarrow> uuid \<Rightarrow> uuid \<Rightarrow> uuid \<Rightarrow> string \<times> string \<Rightarrow> alert_rule \<Rightarrow> evaluated_metric \<Rightarrow> delivery" where
  "delivery_for env job_id ws repo names rule m =
     (let now = ae_txn_now env (al_id rule);
          ps = ae_isoformat env (em_period_start m); pe = ae_isoformat env (em_period_end m);
          content = build_email_content (ae_dec_str env) (ae_base_url env) (al_name rule) (al_metric_type rule)
            (al_comparator rule) (em_actual m) (al_threshold_value rule) (al_evaluation_window_minutes rule)
            ps pe (fst names) (snd names)
      in \<lparr>de_id = ae_delivery_id env (al_id rule), de_workspace_id = ws, de_repository_id = repo,
          de_alert_rule_id = al_id rule, de_event_key = event_key job_id, de_channel = al_channel rule,
          de_destination = al_destination rule, de_status = ''PENDING'',
          de_payload = JObj
            [(''subject'', JStr (at_subject content)), (''text'', JStr (at_text content)),
             (''html'', JStr (at_html content)), (''rule_id'', JStr (uuid_str (al_id rule))),
             (''rule_name'', JStr (al_name rule)), (''metric_type'', JStr (al_metric_type rule)),
             (''comparator'', JStr (al_comparator rule)),
             (''threshold_value'', JStr (ae_dec_str env (al_threshold_value rule))),
             (''actual_value'', JStr (ae_dec_str env (em_actual m))),
             (''source_entity_id'', JStr (uuid_str (em_source_entity_id m))),
             (''source_observation_count'', JInt (int (em_observation_count m))),
             (''evaluation_job_id'', JStr (uuid_str job_id)),
             (''evaluation_window_minutes'', JInt (al_evaluation_window_minutes rule)),
             (''period_start'', JStr ps), (''period_end'', JStr pe),
             (''workspace_id'', JStr (uuid_str ws)), (''repository_id'', JStr (uuid_str repo))],
          de_attempts = 0, de_created_at = now, de_updated_at = now\<rparr>)"

text \<open>One iteration of the rule loop.\<close>

definition process_rule ::
  "alert_env \<Rightarrow> uuid \<Rightarrow> uuid \<Rightarrow> uuid \<Rightarrow> string \<times> string \<Rightarrow> alert_rule \<Rightarrow> ('d) alert_db_scheme \<Rightarrow> ('d) alert_db_scheme" where
  "process_rule env job_id ws repo names rule db =
     (case evaluate_rule env db repo rule of
        None \<Rightarrow> db
      | Some m \<Rightarrow>
          (case matches (al_comparator rule) (em_actual m) (al_threshold_value rule) of
             Inl _ \<Rightarrow> db
           | Inr False \<Rightarrow> db
           | Inr True \<Rightarrow>
               (case deliver_txn (ae_txn_now env (al_id rule)) (al_cooldown_minutes rule)
                       (delivery_for env job_id ws repo names rule m) (ad_rules db, ad_deliveries db) of
                  (_, (rules, deliveries)) \<Rightarrow> db\<lparr>ad_rules := rules, ad_deliveries := deliveries\<rparr>)))"

definition enabled_rules :: "uuid \<Rightarrow> alert_rule list \<Rightarrow> alert_rule list" where
  "enabled_rules repo rules = sort_key al_created_at (filter (\<lambda>r. al_repository_id r = repo \<and> al_enabled r) rules)"

definition handle_evaluate_alerts ::
  "alert_env \<Rightarrow> ('d) alert_db_scheme \<Rightarrow> claimed_job \<Rightarrow> string \<Rightarrow> exn option \<times> ('d) alert_db_scheme" where
  "handle_evaluate_alerts env db job w =
     (let repo_raw = py_or (dict_get (cj_payload job) ''repository_id'') (dict_get (cj_payload job) ''repositoryId'');
          ws_raw = py_or (dict_get (cj_payload job) ''workspace_id'') (dict_get (cj_payload job) ''workspaceId'')
      in if \<not> truthy repo_raw \<or> \<not> truthy ws_raw
         then (Some (PermanentJobError (''EVALUATE_ALERTS job '' @ uuid_str (cj_id job) @
                 '' missing repository_id or workspace_id'')), db)
         else (case (uuid_of_json repo_raw, uuid_of_json ws_raw) of
                 (Some repo, Some ws) \<Rightarrow>
                   (None, fold (process_rule env (cj_id job) ws repo (fetch_workspace_and_repo_names db ws repo))
                      (enabled_rules repo (ad_rules db)) db)
               | _ \<Rightarrow> (Some (PermanentJobError ''Invalid UUID in EVALUATE_ALERTS payload''), db)))"

section \<open>Enqueueing\<close>

text \<open>\<open>blank\<close> is a row with the schema's defaults and a fresh id.\<close>

definition pending_evaluation :: "uuid \<Rightarrow> processing_job \<Rightarrow> bool" where
  "pending_evaluation repo j \<longleftrightarrow>
     pj_repository_id j = Some repo \<and> pj_job_type j = ''EVALUATE_ALERTS'' \<and> pj_status j = PENDING"

definition enqueue_evaluate_alerts_job ::
  "time \<Rightarrow> processing_job \<Rightarrow> uuid \<Rightarrow> uuid \<Rightarrow> string \<Rightarrow> jobs \<Rightarrow> uuid \<times> jobs" where
  "enqueue_evaluate_alerts_job now blank ws repo trigger_source t =
     (case find (pending_evaluation repo) t of
        Some j \<Rightarrow> (pj_id j, t)
      | None \<Rightarrow>
          (pj_id blank,
           t @ [blank\<lparr>pj_workspace_id := Some ws, pj_repository_id := Some repo,
                      pj_job_type := ''EVALUATE_ALERTS'',
                      pj_payload := [(''workspace_id'', JStr (uuid_str ws)),
                                     (''repository_id'', JStr (uuid_str repo)),
                                     (''trigger_source'', JStr trigger_source)],
                      pj_status := PENDING, pj_priority := 100, pj_available_at := now\<rparr>]))"

end
