(* ===== verification/Alerts_Facts.thy ===== *)
theory Alerts_Facts
  imports Alerts
begin

text \<open>
  What alert evaluation guarantees: each observation counts once, percentages and medians are
  what they say, deliveries of a rule are a cooldown apart and one per job, and the rendered
  mail cannot be forged by the names it contains.
\<close>

section \<open>Aggregation\<close>

lemma setdefault_fold:
  "distinct (map fst d) \<Longrightarrow> distinct (map fst (foldl setdefault d xs)) \<and>
   map_of (foldl setdefault d xs) = map_of xs ++ map_of d \<and>
   fst ` set (foldl setdefault d xs) = fst ` set d \<union> fst ` set xs"
proof (induction xs arbitrary: d)
  case Nil
  then show ?case by simp
next
  case (Cons kv xs)
  obtain k v where kv: "kv = (k, v)" by fastforce
  have dist: "distinct (map fst (setdefault d kv))"
    using Cons.prems by (auto simp: setdefault_def kv map_of_eq_None_iff)
  have m: "map_of (setdefault d kv) = map_of [kv] ++ map_of d"
    by (auto simp: setdefault_def kv fun_eq_iff map_add_def map_of_append split: option.splits)
  have s: "fst ` set (setdefault d kv) = insert k (fst ` set d)"
    by (auto simp: setdefault_def kv map_of_eq_None_iff split: if_splits)
  have "map_of xs ++ (map_of [kv] ++ map_of d) = map_of (kv # xs) ++ map_of d"
    by (auto simp: kv fun_eq_iff map_add_def split: option.splits)
  with Cons.IH [OF dist] m s show ?case by (simp add: kv fun_upd_def)
qed

lemma length_distinct_keys: "distinct (map fst xs) \<Longrightarrow> length xs = card (fst ` set xs)"
  by (metis distinct_card length_map set_map)

lemma sorted_nth_le: "sorted xs \<Longrightarrow> i < length xs \<Longrightarrow>
    length (filter (\<lambda>v. v \<le> xs ! i) xs) \<ge> i + 1 \<and> length (filter (\<lambda>v. xs ! i \<le> v) xs) \<ge> length xs - i"
proof -
  assume s: "sorted xs" and i: "i < length xs"
  have "length (filter (\<lambda>v. v \<le> xs ! i) (take (i + 1) xs)) = i + 1"
  proof -
    have "filter (\<lambda>v. v \<le> xs ! i) (take (i + 1) xs) = take (i + 1) xs"
      using s i by (intro filter_True) (auto simp: in_set_conv_nth sorted_nth_mono)
    then show ?thesis using i by simp
  qed
  moreover have "length (filter (\<lambda>v. v \<le> xs ! i) (take (i + 1) xs)) \<le> length (filter (\<lambda>v. v \<le> xs ! i) xs)"
    by (metis append_take_drop_id filter_append length_append le_add1)
  moreover have "length (filter (\<lambda>v. xs ! i \<le> v) (drop i xs)) = length xs - i"
  proof -
    have "filter (\<lambda>v. xs ! i \<le> v) (drop i xs) = drop i xs"
      using s i by (intro filter_True) (auto simp: in_set_conv_nth sorted_nth_mono)
    then show ?thesis by simp
  qed
  moreover have "length (filter (\<lambda>v. xs ! i \<le> v) (drop i xs)) \<le> length (filter (\<lambda>v. xs ! i \<le> v) xs)"
    by (metis append_take_drop_id filter_append length_append le_add2)
  ultimately show ?thesis by linarith
qed

text \<open>Half of the values are at most the median, half are at least the median.\<close>

definition is_median :: "rat \<Rightarrow> rat list \<Rightarrow> bool" where
  "is_median m xs \<longleftrightarrow>
     length xs \<le> 2 * length (filter (\<lambda>v. v \<le> m) xs) \<and> length xs \<le> 2 * length (filter (\<lambda>v. m \<le> v) xs)"

lemma is_median_sort: "is_median m (sort xs) \<longleftrightarrow> is_median m xs"
  by (simp add: is_median_def filter_sort)

lemma filter_len_mono: "(\<And>x. P x \<Longrightarrow> Q x) \<Longrightarrow> length (filter P xs) \<le> length (filter Q xs)"
  by (induction xs) auto

lemma median_is_median:
  assumes "xs \<noteq> []"
  shows "is_median (median xs) xs"
proof -
  let ?s = "sort xs" and ?k = "length xs div 2"
  have k: "?k < length ?s" using assms by simp
  note nk = sorted_nth_le [OF sorted_sort k]
  have "is_median (median xs) ?s"
  proof (cases "length xs mod 2 = 1")
    case True
    then have m: "median xs = ?s ! ?k" by (simp add: median_def Let_def)
    have "length ?s = 2 * ?k + 1" using True by (simp only: length_sort) presburger
    with nk show ?thesis unfolding is_median_def m by linarith
  next
    case False
    then have even: "length xs = 2 * ?k" by presburger
    then have pos: "1 \<le> ?k" using assms by (cases xs) auto
    have j: "?k - 1 < length ?s" using k by simp
    note nj = sorted_nth_le [OF sorted_sort j]
    have le: "?s ! (?k - 1) \<le> ?s ! ?k" using k by (intro sorted_nth_mono) simp_all
    have m: "median xs = ((?s ! (?k - 1)) + (?s ! ?k)) / 2" using False by (simp add: median_def Let_def)
    with le have b: "?s ! (?k - 1) \<le> median xs" "median xs \<le> ?s ! ?k" by simp_all
    have "length (filter (\<lambda>v. v \<le> ?s ! (?k - 1)) ?s) \<le> length (filter (\<lambda>v. v \<le> median xs) ?s)"
      using b by (intro filter_len_mono) auto
    moreover have "length (filter (\<lambda>v. ?s ! ?k \<le> v) ?s) \<le> length (filter (\<lambda>v. median xs \<le> v) ?s)"
      using b by (intro filter_len_mono) auto
    moreover have "length ?s = 2 * ?k" using even by simp
    ultimately show ?thesis using nk nj pos unfolding is_median_def by linarith
  qed
  then show ?thesis by (simp only: is_median_sort)
qed

definition candidates ::
  "(string \<Rightarrow> time option) \<Rightarrow> (json \<Rightarrow> string) \<Rightarrow> time \<Rightarrow> time \<Rightarrow> dora_row list \<Rightarrow> (string \<times> rat) list" where
  "candidates parse_iso repr ws we snapshots = concat (map (snapshot_candidates parse_iso repr ws we) snapshots)"

text \<open>
  Aggregation counts every observation of the exact window once: the observations are the
  first value of each key among the candidates inside the half-open window, their number is the
  number of distinct keys, a frequency is that number, a failure rate is the percentage of values
  of at least one half, and an hours metric is a median of the values.
\<close>

theorem aggregation_exact:
  assumes "aggregate_dora_metric parse_iso repr metric_type snapshots ws we = Some m"
  shows "\<exists>obs. distinct (map fst obs) \<and>
     map_of obs = map_of (candidates parse_iso repr ws we snapshots) \<and>
     em_observation_count m = card (fst ` set (candidates parse_iso repr ws we snapshots)) \<and>
     (metric_type = ''DEPLOYMENT_FREQUENCY'' \<longrightarrow> em_actual m = of_nat (length obs)) \<and>
     (metric_type = ''CHANGE_FAILURE_RATE_PERCENT'' \<longrightarrow>
        em_actual m * of_nat (length obs) = 100 * of_nat (length (filter (\<lambda>kv. 1 / 2 \<le> snd kv) obs)) \<and>
        0 \<le> em_actual m \<and> em_actual m \<le> 100) \<and>
     (metric_type = ''CHANGE_LEAD_TIME_HOURS'' \<or> metric_type = ''FAILED_DEPLOYMENT_RECOVERY_TIME_HOURS'' \<longrightarrow>
        is_median (em_actual m) (map snd obs)) \<and>
     em_source_entity_id m \<in> do_id ` set snapshots"
proof -
  let ?c = "candidates parse_iso repr ws we snapshots"
  define obs where "obs = collect_observations parse_iso repr ws we snapshots"
  have f: "distinct (map fst obs)" "map_of obs = map_of ?c" "fst ` set obs = fst ` set ?c"
    using setdefault_fold [of "[]" ?c] by (simp_all add: obs_def collect_observations_def candidates_def)
  from assms obtain s ss where sn: "snapshots = s # ss" by (cases snapshots) (simp_all add: aggregate_dora_metric_def)
  with assms have dv: "dora_value metric_type (map snd obs) = Some (em_actual m)"
    and cnt: "em_observation_count m = length obs"
    and src: "em_source_entity_id m = do_id (max_by (\<lambda>s. (do_period_start s, do_calculated_at s)) s ss)"
    unfolding obs_def sn
    by (auto simp: aggregate_dora_metric_def Let_def split: option.splits)
  have max_in: "max_by g x xs \<in> insert x (set xs)" for g :: "dora_row \<Rightarrow> time \<times> time" and x xs
    by (induction xs arbitrary: x) auto
  have "em_source_entity_id m \<in> do_id ` set snapshots"
    using max_in [of _ s ss] unfolding src sn by (metis imageI list.simps(15))
  moreover have "em_actual m * of_nat (length obs) = 100 * of_nat (length (filter (\<lambda>kv. 1 / 2 \<le> snd kv) obs)) \<and>
        0 \<le> em_actual m \<and> em_actual m \<le> 100" if "metric_type = ''CHANGE_FAILURE_RATE_PERCENT''"
  proof -
    let ?n = "of_nat (length obs) :: rat" and ?k = "of_nat (length (filter (\<lambda>kv. 1 / 2 \<le> snd kv) obs)) :: rat"
    from dv that have ne: "obs \<noteq> []" and a: "em_actual m = ?k * 100 / ?n"
      by (auto simp: dora_value_def filter_map comp_def split: if_splits)
    have n: "0 < ?n" using ne by simp
    have "?k \<le> ?n" by simp
    then have "em_actual m \<le> 100" using n unfolding a by (simp add: divide_le_eq del: of_nat_le_iff)
    moreover have "0 \<le> em_actual m" unfolding a by simp
    moreover have "em_actual m * ?n = 100 * ?k" using n unfolding a by simp
    ultimately show ?thesis by simp
  qed
  moreover have "is_median (em_actual m) (map snd obs)"
    if "metric_type = ''CHANGE_LEAD_TIME_HOURS'' \<or> metric_type = ''FAILED_DEPLOYMENT_RECOVERY_TIME_HOURS''"
  proof -
    from dv that have "map snd obs \<noteq> []" "em_actual m = median (map snd obs)"
      by (auto simp: dora_value_def split: if_splits)
    with median_is_median show ?thesis by simp
  qed
  moreover have "em_actual m = of_nat (length obs)" if "metric_type = ''DEPLOYMENT_FREQUENCY''"
    using dv that by (simp add: dora_value_def)
  ultimately show ?thesis using f cnt length_distinct_keys [OF f(1)] by (intro exI [of _ obs]) simp
qed

section \<open>Deliveries\<close>

definition alerts_ok :: "alert_tables \<Rightarrow> bool" where
  "alerts_ok tables \<longleftrightarrow>
     distinct (map (\<lambda>d. (de_alert_rule_id d, de_event_key d)) (snd tables)) \<and>
     (\<forall>r \<in> set (fst tables). \<forall>d \<in> set (snd tables). de_alert_rule_id d = al_id r \<longrightarrow>
        (\<exists>t. al_last_triggered_at r = Some t \<and> de_created_at d \<le> t))"

lemma deliver_cases:
  assumes "deliver_txn now c d tables = (ok, tables')"
  obtains (refused) "\<not> ok" "tables' = tables"
    | (queued) rule where "ok" "rule \<in> set (fst tables)" "al_id rule = de_alert_rule_id d" "al_enabled rule"
        "\<not> in_cooldown now c rule"
        "\<forall>e \<in> set (snd tables). \<not> (de_alert_rule_id e = de_alert_rule_id d \<and> de_event_key e = de_event_key d)"
        "snd tables' = snd tables @ [d]"
        "fst tables' = sql_update (\<lambda>r. al_id r = de_alert_rule_id d)
           (\<lambda>r. r\<lparr>al_last_triggered_at := Some now, al_updated_at := now, al_version := al_version r + 1\<rparr>) (fst tables)"
  using assms
proof (cases ok)
  case False
  with assms have "tables' = tables" by (auto simp: deliver_txn_def split: prod.splits option.splits if_splits)
  with False refused show ?thesis by blast
next
  case True
  obtain rules ds where t: "tables = (rules, ds)" by fastforce
  from assms True obtain rule where f: "find (\<lambda>r. al_id r = de_alert_rule_id d \<and> al_enabled r) rules = Some rule"
    by (auto simp: deliver_txn_def t split: option.splits)
  then have "rule \<in> set (fst tables)" "al_id rule = de_alert_rule_id d" "al_enabled rule"
    by (auto simp: find_Some_iff t)
  with assms True f queued [of rule] show ?thesis by (auto simp: deliver_txn_def t split: if_splits)
qed

lemma deliver_spaced:
  assumes ok: "alerts_ok tables" and d: "de_created_at d = now"
    and past: "\<forall>e \<in> set (snd tables). de_created_at e \<le> now"
    and txn: "deliver_txn now c d tables = (True, tables')"
  shows "alerts_ok tables' \<and> snd tables' = snd tables @ [d] \<and>
     (\<forall>e \<in> set (snd tables). de_alert_rule_id e = de_alert_rule_id d \<longrightarrow>
        de_created_at e + c * minute \<le> now \<and> de_event_key e \<noteq> de_event_key d)"
  using txn
proof (cases rule: deliver_cases)
  case (queued rule)
  have spaced: "de_created_at e + c * minute \<le> now \<and> de_event_key e \<noteq> de_event_key d"
    if e: "e \<in> set (snd tables)" "de_alert_rule_id e = de_alert_rule_id d" for e
  proof -
    have "de_alert_rule_id e = al_id rule" using e queued(3) by simp
    with ok queued(2) e(1) obtain t where t: "al_last_triggered_at rule = Some t" "de_created_at e \<le> t"
      unfolding alerts_ok_def by blast
    with queued(5) have "t + c * minute \<le> now" by (simp add: in_cooldown_def)
    with t queued(6) e show ?thesis by auto
  qed
  have "alerts_ok tables'"
    unfolding alerts_ok_def
  proof (intro conjI ballI impI)
    show "distinct (map (\<lambda>d. (de_alert_rule_id d, de_event_key d)) (snd tables'))"
      using ok queued(6,7) by (auto simp: alerts_ok_def)
    fix r e assume r: "r \<in> set (fst tables')" and e: "e \<in> set (snd tables')" "de_alert_rule_id e = al_id r"
    from r queued(8) obtain r0 where r0: "r0 \<in> set (fst tables)"
      "r = (if al_id r0 = de_alert_rule_id d then r0\<lparr>al_last_triggered_at := Some now, al_updated_at := now,
          al_version := al_version r0 + 1\<rparr> else r0)"
      by (auto simp: set_sql_update)
    show "\<exists>t. al_last_triggered_at r = Some t \<and> de_created_at e \<le> t"
    proof (cases "al_id r0 = de_alert_rule_id d")
      case True
      with r0 e queued(7) past d show ?thesis by auto
    next
      case False
      with r0 e queued(7) ok show ?thesis by (auto simp: alerts_ok_def)
    qed
  qed
  with spaced queued(7) show ?thesis by blast
qed simp

text \<open>Any sequence of delivery transactions, of whatever jobs and consumers.\<close>

fun run_deliveries :: "(uuid \<Rightarrow> int) \<Rightarrow> delivery list \<Rightarrow> alert_tables \<Rightarrow> alert_tables" where
  "run_deliveries cooldown [] tables = tables"
| "run_deliveries cooldown (d # ds) tables =
     run_deliveries cooldown ds (snd (deliver_txn (de_created_at d) (cooldown (de_alert_rule_id d)) d tables))"

lemma run_deliveries_spaced:
  assumes "alerts_ok tables" and "sorted (map de_created_at ds)"
    and "\<forall>e \<in> set (snd tables). \<forall>d \<in> set ds. de_created_at e \<le> de_created_at d"
    and "sorted_wrt (\<lambda>e d. de_alert_rule_id e = de_alert_rule_id d \<longrightarrow>
        de_created_at e + cd (de_alert_rule_id d) * minute \<le> de_created_at d \<and> de_event_key e \<noteq> de_event_key d) (snd tables)"
  shows "alerts_ok (run_deliveries cd ds tables) \<and>
    sorted_wrt (\<lambda>e d. de_alert_rule_id e = de_alert_rule_id d \<longrightarrow>
        de_created_at e + cd (de_alert_rule_id d) * minute \<le> de_created_at d \<and> de_event_key e \<noteq> de_event_key d)
      (snd (run_deliveries cd ds tables))"
  using assms
proof (induction ds arbitrary: tables)
  case Nil
  then show ?case by simp
next
  case (Cons d ds)
  obtain ok tables' where t: "deliver_txn (de_created_at d) (cd (de_alert_rule_id d)) d tables = (ok, tables')"
    using prod.exhaust by blast
  have past: "\<forall>e \<in> set (snd tables). de_created_at e \<le> de_created_at d" using Cons.prems(3) by simp
  show ?case
  proof (cases ok)
    case False
    with t have "tables' = tables" by (auto elim: deliver_cases)
    with Cons t show ?thesis by simp
  next
    case True
    with t have tt: "deliver_txn (de_created_at d) (cd (de_alert_rule_id d)) d tables = (True, tables')" by simp
    from deliver_spaced [OF Cons.prems(1) refl past tt]
    have s: "alerts_ok tables'" "snd tables' = snd tables @ [d]"
      "\<forall>e \<in> set (snd tables). de_alert_rule_id e = de_alert_rule_id d \<longrightarrow>
        de_created_at e + cd (de_alert_rule_id d) * minute \<le> de_created_at d \<and> de_event_key e \<noteq> de_event_key d"
      by (simp_all add: True)
    have "sorted_wrt (\<lambda>e d. de_alert_rule_id e = de_alert_rule_id d \<longrightarrow>
        de_created_at e + cd (de_alert_rule_id d) * minute \<le> de_created_at d \<and> de_event_key e \<noteq> de_event_key d) (snd tables')"
      unfolding s(2) sorted_wrt_append using Cons.prems(4) s(3) by simp
    moreover have "\<forall>e \<in> set (snd tables'). \<forall>d' \<in> set ds. de_created_at e \<le> de_created_at d'"
      unfolding s(2) using Cons.prems(2,3) by auto
    ultimately show ?thesis using Cons.IH [OF s(1)] Cons.prems(2) t by simp
  qed
qed

text \<open>
  C22: However many jobs and consumers evaluate the same rules, the deliveries of a rule are at
  least its cooldown apart and carry different event keys: starting from no deliveries, any
  sequence of delivery transactions in the order of their commit times leaves such a table.
\<close>

theorem deliveries_respect_cooldown:
  assumes "sorted (map de_created_at ds)"
  shows "alerts_ok (run_deliveries cooldown ds (rules, [])) \<and>
    sorted_wrt (\<lambda>e d. de_alert_rule_id e = de_alert_rule_id d \<longrightarrow>
        de_created_at e + cooldown (de_alert_rule_id d) * minute \<le> de_created_at d \<and> de_event_key e \<noteq> de_event_key d)
      (snd (run_deliveries cooldown ds (rules, [])))"
  using run_deliveries_spaced [of "(rules, [])" ds cooldown] assms by (simp add: alerts_ok_def)

section \<open>Witnesses\<close>

definition sample_rule :: alert_rule where
  "sample_rule = \<lparr>al_id = 1, al_repository_id = 4, al_name = ''CFR'', al_metric_type = ''CHANGE_FAILURE_RATE_PERCENT'',
     al_comparator = ''GT'', al_threshold_value = 10, al_evaluation_window_minutes = 60,
     al_cooldown_minutes = 30, al_channel = ''EMAIL'', al_destination = ''ops@example.org'', al_enabled = True,
     al_last_triggered_at = None, al_created_at = 0, al_updated_at = 0, al_version = 0\<rparr>"

definition sample_delivery :: "uuid \<Rightarrow> time \<Rightarrow> delivery" where
  "sample_delivery i t = \<lparr>de_id = i, de_workspace_id = 3, de_repository_id = 4, de_alert_rule_id = 1,
     de_event_key = ''evaluation:'' @ str_int (int i), de_channel = ''EMAIL'', de_destination = ''ops@example.org'',
     de_status = ''PENDING'', de_payload = JObj [], de_attempts = 0, de_created_at = t, de_updated_at = t\<rparr>"

text \<open>Of three deliveries, the second falls in the cooldown of the first.\<close>

theorem deliveries_respect_cooldown_witness:
  "alerts_ok (run_deliveries (\<lambda>_. 30) [sample_delivery 1 0, sample_delivery 2 minute, sample_delivery 3 (30 * minute)]
      ([sample_rule], [])) \<and>
   map de_id (snd (run_deliveries (\<lambda>_. 30) [sample_delivery 1 0, sample_delivery 2 minute, sample_delivery 3 (30 * minute)]
      ([sample_rule], []))) = [1, 3]"
proof -
  have s: "sorted (map de_created_at [sample_delivery 1 0, sample_delivery 2 minute, sample_delivery 3 (30 * minute)])"
    by (simp add: sample_delivery_def time_units)
  have k: "str_int 3 \<noteq> str_int 1" "str_int 1 \<noteq> str_int 3" using str_int_inj [of 3 1] by auto
  from deliveries_respect_cooldown [OF s, of "\<lambda>_. 30" "[sample_rule]"] show ?thesis
    by (simp add: deliver_txn_def sample_rule_def sample_delivery_def in_cooldown_def time_units k)
qed

definition sample_row :: dora_row where
  "sample_row = \<lparr>do_id = 9, do_repository_id = 4, do_metric_type = ''CHANGE_FAILURE_RATE_PERCENT'',
     do_granularity = ''DAY'', do_calculation_version = ''dora-v3'', do_period_start = 0, do_period_end = day,
     do_dimensions = JObj [(''observations'', JList
       [JObj [(''key'', JStr ''a''), (''at'', JStr ''t''), (''value'', JInt 1)],
        JObj [(''key'', JStr ''a''), (''at'', JStr ''t''), (''value'', JInt 0)],
        JObj [(''key'', JStr ''b''), (''at'', JStr ''t''), (''value'', JStr ''0.25'')]])],
     do_calculated_at = day\<rparr>"

theorem aggregation_exact_witness:
  "\<exists>m. aggregate_dora_metric (\<lambda>_. Some 5) (\<lambda>_. []) ''CHANGE_FAILURE_RATE_PERCENT'' [sample_row] 0 day = Some m \<and>
     em_actual m * 2 = 100 \<and> em_source_entity_id m = 9"
proof -
  have q: "py_decimal ''0.25'' = Some (1 / 4)" "py_strip ''a'' = ''a''" "py_strip ''b'' = ''b''" by code_simp+
  have c: "collect_observations (\<lambda>_. Some 5) (\<lambda>_. []) 0 day [sample_row] = [(''a'', 1), (''b'', 1 / 4)]"
    by (simp add: collect_observations_def snapshot_candidates_def raw_observations_def sample_row_def dict_get_def
        List.map_filter_def window_observation_def parse_observation_time_def setdefault_def q time_units)
      (rule exI [of _ "1 / 4"], simp)
  obtain m where m: "aggregate_dora_metric (\<lambda>_. Some 5) (\<lambda>_. []) ''CHANGE_FAILURE_RATE_PERCENT'' [sample_row] 0 day = Some m"
    by (simp add: aggregate_dora_metric_def c dora_value_def)
  then have "em_actual m * 2 = 100" by (auto simp: aggregate_dora_metric_def c dora_value_def)
  with aggregation_exact [OF m] m show ?thesis by (auto simp: sample_row_def)
qed

end
