(* ===== verification/Alerts_Job.thy ===== *)
theory Alerts_Job
  imports Alerts_Facts
begin

text \<open>
  The alert job as a handler of the dispatcher: what one run may notify, that a repeated run adds
  nothing, the shape of the mail, and the enqueueing of at most one pending evaluation.
\<close>

section \<open>One run of the handler\<close>

definition delivery_key :: "delivery \<Rightarrow> uuid \<times> string" where
  "delivery_key d = (de_alert_rule_id d, de_event_key d)"

text \<open>What the loop may add to the deliveries: justified by an enabled rule of the repository.\<close>

definition justified ::
  "alert_env \<Rightarrow> uuid \<Rightarrow> uuid \<Rightarrow> ('d) alert_db_scheme \<Rightarrow> alert_rule list \<Rightarrow> delivery \<Rightarrow> bool" where
  "justified env job_id repo db rules d \<longleftrightarrow> de_event_key d = event_key job_id \<and> de_repository_id d = repo \<and>
     (\<exists>r \<in> set rules. \<exists>m. al_id r = de_alert_rule_id d \<and> al_destination r = de_destination d \<and>
        evaluate_rule env db repo r = Some m \<and>
        matches (al_comparator r) (em_actual m) (al_threshold_value r) = Inr True)"

lemma evaluate_rule_frame [simp]:
  "evaluate_rule env (db\<lparr>ad_rules := rs, ad_deliveries := ds\<rparr>) repo r = evaluate_rule env db repo r"
  by (simp add: evaluate_rule_def dora_snapshots_def Let_def)

lemma delivery_for_fields [simp]:
  "de_event_key (delivery_for env job ws repo names r m) = event_key job"
  "de_repository_id (delivery_for env job ws repo names r m) = repo"
  "de_alert_rule_id (delivery_for env job ws repo names r m) = al_id r"
  "de_destination (delivery_for env job ws repo names r m) = al_destination r"
  by (simp_all add: delivery_for_def Let_def)

lemma process_rule_cases:
  obtains (quiet) "process_rule env job ws repo names r db = db"
    | (notified) m rs where "evaluate_rule env db repo r = Some m"
        "matches (al_comparator r) (em_actual m) (al_threshold_value r) = Inr True"
        "delivery_key (delivery_for env job ws repo names r m) \<notin> delivery_key ` set (ad_deliveries db)"
        "process_rule env job ws repo names r db =
           db\<lparr>ad_rules := rs, ad_deliveries := ad_deliveries db @ [delivery_for env job ws repo names r m]\<rparr>"
proof (cases "\<exists>m. evaluate_rule env db repo r = Some m \<and>
    matches (al_comparator r) (em_actual m) (al_threshold_value r) = Inr True")
  case False
  then have "process_rule env job ws repo names r db = db"
    by (auto simp: process_rule_def split: option.splits sum.splits bool.splits)
  with quiet show ?thesis .
next
  case True
  then obtain m where m: "evaluate_rule env db repo r = Some m"
    "matches (al_comparator r) (em_actual m) (al_threshold_value r) = Inr True" by blast
  obtain ok tables' where t: "deliver_txn (ae_txn_now env (al_id r)) (al_cooldown_minutes r)
      (delivery_for env job ws repo names r m) (ad_rules db, ad_deliveries db) = (ok, tables')"
    using prod.exhaust by blast
  then have p: "process_rule env job ws repo names r db = db\<lparr>ad_rules := fst tables', ad_deliveries := snd tables'\<rparr>"
    by (cases tables') (simp add: process_rule_def m)
  from t show ?thesis
  proof (cases rule: deliver_cases)
    case refused
    with p quiet show ?thesis by simp
  next
    case (queued rule)
    have "delivery_key (delivery_for env job ws repo names r m) \<notin> delivery_key ` set (ad_deliveries db)"
      using queued(6) by (auto simp: delivery_key_def)
    with m p queued(7) notified show ?thesis by simp
  qed
qed

lemma process_rules_fold:
  assumes "distinct (map delivery_key (ad_deliveries db))"
  shows "\<exists>new rs. fold (process_rule env job ws repo names) rules db =
      db\<lparr>ad_rules := rs, ad_deliveries := ad_deliveries db @ new\<rparr> \<and>
    distinct (map delivery_key (ad_deliveries db @ new)) \<and> (\<forall>d \<in> set new. justified env job repo db rules d)"
  using assms
proof (induction rules arbitrary: db)
  case Nil
  then show ?case by (intro exI [of _ "[]"] exI [of _ "ad_rules db"]) simp
next
  case (Cons r rules)
  have mono: "justified env job repo db rules d \<Longrightarrow> justified env job repo db (r # rules) d" for d db
    by (auto simp: justified_def)
  show ?case
  proof (cases rule: process_rule_cases [of env job ws repo names r db])
    case quiet
    from Cons.IH [OF Cons.prems] obtain new rs where
      f: "fold (process_rule env job ws repo names) rules db = db\<lparr>ad_rules := rs, ad_deliveries := ad_deliveries db @ new\<rparr>"
      "distinct (map delivery_key (ad_deliveries db @ new))" "\<forall>d \<in> set new. justified env job repo db rules d" by blast
    have "fold (process_rule env job ws repo names) (r # rules) db = db\<lparr>ad_rules := rs, ad_deliveries := ad_deliveries db @ new\<rparr>"
      using f(1) quiet by simp
    with f(2,3) mono show ?thesis by blast
  next
    case (notified m rs)
    let ?d = "delivery_for env job ws repo names r m"
    let ?db = "db\<lparr>ad_rules := rs, ad_deliveries := ad_deliveries db @ [?d]\<rparr>"
    have "distinct (map delivery_key (ad_deliveries ?db))" using Cons.prems notified(3) by simp
    from Cons.IH [OF this] obtain new rs' where
      f: "fold (process_rule env job ws repo names) rules ?db =
        ?db\<lparr>ad_rules := rs', ad_deliveries := ad_deliveries ?db @ new\<rparr>"
      "distinct (map delivery_key (ad_deliveries ?db @ new))"
      "\<forall>d \<in> set new. justified env job repo ?db rules d" by blast
    have "justified env job repo db (r # rules) d" if "justified env job repo ?db rules d" for d
      using that by (auto simp: justified_def)
    moreover have "justified env job repo db (r # rules) ?d"
      using notified(1,2) by (auto simp: justified_def)
    ultimately show ?thesis
      using f notified(4) by (intro exI [of _ "?d # new"] exI [of _ rs']) simp
  qed
qed

lemma handle_alerts_shape:
  obtains (rejected) e where "handle_evaluate_alerts env db job w = (Some (PermanentJobError e), db)"
    | (evaluated) ws repo where "handle_evaluate_alerts env db job w =
        (None, fold (process_rule env (cj_id job) ws repo (fetch_workspace_and_repo_names db ws repo))
          (enabled_rules repo (ad_rules db)) db)"
  by (force simp: handle_evaluate_alerts_def Let_def split: if_splits option.splits)

text \<open>
  C23: A run of the alert job notifies at most once per rule, under a key that carries the job's
  id, and only for an enabled rule of the repository whose comparison holds on the evaluated
  value; with deliveries that have distinct keys it keeps the keys distinct, so a repeated run of
  the same job adds no second delivery for a rule; it never writes the job table, and a job it
  rejects changes nothing.
\<close>

theorem alert_job_notifies_once:
  assumes "distinct (map delivery_key (ad_deliveries db))"
    and "handle_evaluate_alerts env db job w = (r, db')"
  shows "\<exists>new. ad_deliveries db' = ad_deliveries db @ new \<and> distinct (map delivery_key (ad_deliveries db')) \<and>
     (\<forall>d \<in> set new. \<exists>rule \<in> set (ad_rules db). \<exists>m.
        de_event_key d = event_key (cj_id job) \<and> de_alert_rule_id d = al_id rule \<and>
        de_destination d = al_destination rule \<and> al_enabled rule \<and> al_repository_id rule = de_repository_id d \<and>
        evaluate_rule env db (al_repository_id rule) rule = Some m \<and>
        matches (al_comparator rule) (em_actual m) (al_threshold_value rule) = Inr True) \<and>
     ed_jobs db' = ed_jobs db \<and> ed_workspaces db' = ed_workspaces db \<and> (r = None \<or> db' = db)"
proof (cases rule: handle_alerts_shape [of env db job w])
  case (rejected e)
  with assms show ?thesis by (intro exI [of _ "[]"]) simp
next
  case (evaluated ws repo)
  from process_rules_fold [OF assms(1)] obtain new rs where
    f: "fold (process_rule env (cj_id job) ws repo (fetch_workspace_and_repo_names db ws repo))
          (enabled_rules repo (ad_rules db)) db = db\<lparr>ad_rules := rs, ad_deliveries := ad_deliveries db @ new\<rparr>"
    "distinct (map delivery_key (ad_deliveries db @ new))"
    "\<forall>d \<in> set new. justified env (cj_id job) repo db (enabled_rules repo (ad_rules db)) d" by blast
  have "\<exists>rule \<in> set (ad_rules db). \<exists>m.
        de_event_key d = event_key (cj_id job) \<and> de_alert_rule_id d = al_id rule \<and>
        de_destination d = al_destination rule \<and> al_enabled rule \<and> al_repository_id rule = de_repository_id d \<and>
        evaluate_rule env db (al_repository_id rule) rule = Some m \<and>
        matches (al_comparator rule) (em_actual m) (al_threshold_value rule) = Inr True" if "d \<in> set new" for d
  proof -
    from f(3) that have "justified env (cj_id job) repo db (enabled_rules repo (ad_rules db)) d" by blast
    then obtain rule m where k: "de_event_key d = event_key (cj_id job)" "de_repository_id d = repo"
      "rule \<in> set (enabled_rules repo (ad_rules db))" "al_id rule = de_alert_rule_id d"
      "al_destination rule = de_destination d" "evaluate_rule env db repo rule = Some m"
      "matches (al_comparator rule) (em_actual m) (al_threshold_value rule) = Inr True"
      unfolding justified_def by blast
    from k(3) have "rule \<in> set (ad_rules db)" "al_repository_id rule = repo" "al_enabled rule"
      by (simp_all add: enabled_rules_def)
    with k show ?thesis by (intro bexI [of _ rule] exI [of _ m]) simp_all
  qed
  with f evaluated assms(2) show ?thesis by (intro exI [of _ new]) auto
qed

text \<open>The handler meets the dispatcher's contract.\<close>

lemma process_rule_frame [simp]: "ed_jobs (process_rule env j ws repo names rule db) = ed_jobs db"
  by (cases rule: process_rule_cases [of env j ws repo names rule db]) simp_all

lemma process_rules_frame [simp]: "ed_jobs (fold (process_rule env j ws repo names) rules db) = ed_jobs db"
  by (induction rules arbitrary: db) simp_all

lemma handle_alerts_frame: "handle_evaluate_alerts env db job w = (r, db') \<Longrightarrow>
    ed_jobs db' = ed_jobs db \<and> r \<noteq> Some RequeueWithPayloadError"
  by (cases rule: handle_alerts_shape [of env db job w]) auto

interpretation alerting: job_handler "handle_evaluate_alerts env" for env
  by unfold_locales (auto dest!: handle_alerts_frame)

section \<open>The mail\<close>

lemma safe_header_spaces: "c \<in> set (safe_header s) \<Longrightarrow> py_space c \<Longrightarrow> c = CHR '' ''"
  using set_py_join [of "'' ''"] py_words_no_space by (fastforce simp: safe_header_def)

definition markup :: "char \<Rightarrow> bool" where
  "markup c \<longleftrightarrow> c = CHR ''<'' \<or> c = CHR ''>'' \<or> c = CHR 0x22 \<or> c = CHR 0x27"

lemma html_escape_no_markup [simp]: "filter markup (html_escape s) = []"
  by (induction s) (auto simp: html_escape_def markup_def)

text \<open>
  A rule or repository name cannot break out of its place in the mail: the subject has no
  white space but blanks, so no line break that would start another header, and the markup
  characters of the HTML body are those of the template, the same whatever the names are.
\<close>

theorem alert_mail_not_injectable:
  "let m = build_email_content ds url name metric cmp actual threshold minutes ps pe ws repo;
       n = build_email_content ds [] [] [] [] actual threshold minutes [] [] [] []
   in (\<forall>c \<in> set (at_subject m). py_space c \<longrightarrow> c = CHR '' '') \<and>
      filter markup (at_html m) = filter markup (at_html n)"
proof -
  let ?m = "build_email_content ds url name metric cmp actual threshold minutes ps pe ws repo"
  have p: "\<forall>c \<in> set ''[Adept Alert] ''. py_space c \<longrightarrow> c = CHR '' ''"
    "\<forall>c \<in> set '' triggered for ''. py_space c \<longrightarrow> c = CHR '' ''"
    by (simp_all add: py_space_def)
  have "at_subject ?m = ''[Adept Alert] '' @ safe_header name @ '' triggered for '' @ safe_header repo"
    by (simp only: build_email_content_def Let_def alert_text.select_convs)
  then have "\<forall>c \<in> set (at_subject ?m). py_space c \<longrightarrow> c = CHR '' ''"
    using p safe_header_spaces by (simp only: set_append ball_Un) blast
  moreover have "filter markup (at_html ?m) =
      filter markup (at_html (build_email_content ds [] [] [] [] actual threshold minutes [] [] [] []))"
    by (simp only: build_email_content_def Let_def alert_text.select_convs filter_append html_escape_no_markup
        append_Nil quoted_def)
  ultimately show ?thesis unfolding Let_def by (rule conjI)
qed

text \<open>A rule name that tries to add a header.\<close>

theorem alert_mail_not_injectable_witness:
  "LF \<notin> set (at_subject (build_email_content (\<lambda>_. []) [] (''x'' @ [CR, LF] @ ''Bcc: a'') ''M'' ''GT'' 1 0 60 [] [] ''w'' ''r''))"
  using alert_mail_not_injectable [of "\<lambda>_. []" "[]" "''x'' @ [CR, LF] @ ''Bcc: a''" "''M''" "''GT''" 1 0 60 "[]" "[]" "''w''" "''r''"]
  by (auto simp: Let_def LF_def py_space_def)

section \<open>Enqueueing\<close>

text \<open>
  Enqueueing an evaluation leaves exactly one pending evaluation job for the repository when
  there was at most one, returns the id of a pending one, and adds no row when one was pending.
\<close>

theorem enqueue_evaluation_once:
  assumes "sql_count (pending_evaluation repo) t \<le> 1"
    and "enqueue_evaluate_alerts_job now blank ws repo src t = (i, t')"
  shows "sql_count (pending_evaluation repo) t' = 1 \<and>
     (\<exists>j \<in> set t'. pj_id j = i \<and> pending_evaluation repo j) \<and>
     (sql_count (pending_evaluation repo) t = 1 \<longrightarrow> t' = t) \<and>
     (\<forall>repo'. repo' \<noteq> repo \<longrightarrow> sql_count (pending_evaluation repo') t' = sql_count (pending_evaluation repo') t)"
proof (cases "find (pending_evaluation repo) t")
  case None
  then have z: "sql_count (pending_evaluation repo) t = 0" by (simp add: find_None_iff)
  from None assms(2) have "t' = t @ [blank\<lparr>pj_workspace_id := Some ws, pj_repository_id := Some repo,
      pj_job_type := ''EVALUATE_ALERTS'', pj_payload := [(''workspace_id'', JStr (uuid_str ws)),
        (''repository_id'', JStr (uuid_str repo)), (''trigger_source'', JStr src)],
      pj_status := PENDING, pj_priority := 100, pj_available_at := now\<rparr>]" and i: "i = pj_id blank"
    by (simp_all add: enqueue_evaluate_alerts_job_def)
  then show ?thesis by (simp add: sql_count_append z pending_evaluation_def)
next
  case (Some j)
  then have j: "j \<in> set t" "pending_evaluation repo j" by (auto simp: find_Some_iff)
  have "sql_count (pending_evaluation repo) t \<noteq> 0" using j unfolding sql_count_zero by blast
  with assms(1) have one: "sql_count (pending_evaluation repo) t = 1" by linarith
  have "i = pj_id j" "t' = t" using assms(2) Some by (simp_all add: enqueue_evaluate_alerts_job_def)
  with j one show ?thesis by blast
qed

section \<open>Witnesses\<close>

theorem enqueue_evaluation_once_witness:
  "\<exists>t'. enqueue_evaluate_alerts_job 5 (sample_job 3) 1 2 ''METRIC'' [sample_job 1] = (3, t') \<and>
     sql_count (pending_evaluation 2) t' = 1"
proof -
  have "sql_count (pending_evaluation 2) [sample_job 1] \<le> 1"
    by (simp add: pending_evaluation_def sample_job_def)
  moreover obtain i t' where e: "enqueue_evaluate_alerts_job 5 (sample_job 3) 1 2 ''METRIC'' [sample_job 1] = (i, t')"
    by fastforce
  moreover have "i = 3" using e by (simp add: enqueue_evaluate_alerts_job_def pending_evaluation_def sample_job_def)
  ultimately show ?thesis using enqueue_evaluation_once by blast
qed

definition alerting_db :: "unit alert_db_scheme" where
  "alerting_db = \<lparr>ed_jobs = [], ed_workspaces = Map.empty, ad_rules = [sample_rule], ad_deliveries = [],
     ad_predictions = [], ad_snapshots = [sample_row], ad_names = (\<lambda>_ _. None)\<rparr>"

definition alerting_env :: alert_env where
  "alerting_env = \<lparr>ae_iso = (\<lambda>_. Some 5), ae_repr = (\<lambda>_. []), ae_isoformat = (\<lambda>_. ''t''), ae_dec_str = (\<lambda>_. ''d''),
     ae_base_url = [], ae_evaluation_end = hour, ae_txn_now = (\<lambda>_. hour), ae_delivery_id = id\<rparr>"

definition alerting_job :: claimed_job where
  "alerting_job = (from_row (sample_job 6))\<lparr>cj_payload :=
     [(''repository_id'', JStr ''00000000-0000-0000-0000-000000000004''),
      (''workspace_id'', JStr ''00000000-0000-0000-0000-000000000007'')]\<rparr>"

text \<open>The failure rate of 50 percent exceeds the threshold; one delivery is queued, on the first run only.\<close>

theorem alert_job_notifies_once_witness:
  "\<exists>db1 db2 d. handle_evaluate_alerts alerting_env alerting_db alerting_job ''w'' = (None, db1) \<and>
     handle_evaluate_alerts alerting_env db1 alerting_job ''w'' = (None, db2) \<and>
     ad_deliveries db2 = [d] \<and> de_event_key d = event_key 6"
proof -
  have "collect_observations (\<lambda>_. Some 5) (\<lambda>_. []) 0 hour [sample_row] = [(''a'', 1), (''b'', 1 / 4)]"
  proof -
    have q: "py_decimal ''0.25'' = Some (1 / 4)" "py_strip ''a'' = ''a''" "py_strip ''b'' = ''b''" by code_simp+
    show ?thesis
      by (simp add: collect_observations_def snapshot_candidates_def raw_observations_def sample_row_def dict_get_def
        List.map_filter_def window_observation_def parse_observation_time_def setdefault_def q time_units)
        (rule exI [of _ "1 / 4"], simp)
  qed
  then have c: "aggregate_dora_metric (\<lambda>_. Some 5) (\<lambda>_. []) ''CHANGE_FAILURE_RATE_PERCENT'' [sample_row] 0 hour =
      Some \<lparr>em_actual = 50, em_source_entity_id = 9, em_observation_count = 2, em_period_start = 0, em_period_end = hour\<rparr>"
    by (simp add: aggregate_dora_metric_def dora_value_def) (simp add: sample_row_def)
  have ds: "dora_snapshots alerting_db 4 ''CHANGE_FAILURE_RATE_PERCENT'' 0 hour = [sample_row]"
    by (simp add: dora_snapshots_def alerting_db_def sample_row_def time_units)
  have w: "hour - 60 * minute = 0" by (simp add: hour_def)
  let ?m = "\<lparr>em_actual = 50, em_source_entity_id = 9, em_observation_count = 2, em_period_start = 0, em_period_end = hour\<rparr>"
  have m: "evaluate_rule alerting_env alerting_db 4 sample_rule = Some ?m"
    by (simp add: evaluate_rule_def alerting_env_def sample_rule_def Let_def w ds c)
  have p: "uuid_of_string ''00000000-0000-0000-0000-000000000004'' = Some 4"
    "uuid_of_string ''00000000-0000-0000-0000-000000000007'' = Some 7" by code_simp+
  have h: "handle_evaluate_alerts alerting_env db alerting_job ''w'' =
      (None, fold (process_rule alerting_env 6 7 4 (fetch_workspace_and_repo_names db 7 4)) (enabled_rules 4 (ad_rules db)) db)"
    for db :: "unit alert_db_scheme"
    by (simp add: handle_evaluate_alerts_def alerting_job_def from_row_def sample_job_def dict_get_def p py_or_def Let_def)
  have e: "enabled_rules 4 (ad_rules alerting_db) = [sample_rule]"
    by (simp add: enabled_rules_def alerting_db_def sample_rule_def)
  let ?d = "delivery_for alerting_env 6 7 4 (fetch_workspace_and_repo_names alerting_db 7 4) sample_rule ?m"
  have sr: "al_id sample_rule = 1" "al_enabled sample_rule" "al_comparator sample_rule = ''GT''"
    "al_threshold_value sample_rule = 10" "al_last_triggered_at sample_rule = None" by (simp_all add: sample_rule_def)
  have adb: "ad_rules alerting_db = [sample_rule]" "ad_deliveries alerting_db = []" by (simp_all add: alerting_db_def)
  obtain db1 where db1: "handle_evaluate_alerts alerting_env alerting_db alerting_job ''w'' = (None, db1)"
    using h by blast
  have "ad_deliveries db1 = [?d] \<and> (\<forall>r \<in> set (ad_rules db1). al_id r = 1)"
    using db1 unfolding h e by (auto simp: process_rule_def m sr adb matches_def deliver_txn_def in_cooldown_def)
  then have one: "ad_deliveries db1 = [?d]" "\<forall>r \<in> set (ad_rules db1). al_id r = 1" by blast+
  obtain db2 where db2: "handle_evaluate_alerts alerting_env db1 alerting_job ''w'' = (None, db2)" using h by blast
  have "distinct (map delivery_key (ad_deliveries db1))" by (simp add: one)
  from alert_job_notifies_once [OF this db2] obtain new where new: "ad_deliveries db2 = [?d] @ new"
    "distinct (map delivery_key (ad_deliveries db2))"
    "\<forall>d \<in> set new. de_event_key d = event_key (cj_id alerting_job) \<and> de_alert_rule_id d = 1"
    unfolding one(1) using one(2) by metis
  have id: "cj_id alerting_job = 6" by (simp add: alerting_job_def from_row_def sample_job_def)
  have "delivery_key d = delivery_key ?d" if "d \<in> set new" for d
    using new(3) that by (simp add: delivery_key_def id sr)
  then have "new = []" using new(1,2) by (cases new) auto
  with db1 db2 new(1) show ?thesis by auto
qed

end
