(* ===== verification/Repo_Tables.thy ===== *)
theory Repo_Tables
  imports Alerts
begin

text \<open>
  The tables of a repository that normalization writes and the metrics service reads, and the
  SQL the two share: \<^verbatim>\<open>INSERT ... ON CONFLICT (key) DO UPDATE SET ... WHERE ...\<close>, equality with
  NULL, and the extraction of text from a JSON document.  The record \<open>py_lib\<close> holds what Python's
  and PostgreSQL's libraries compute for the code.
\<close>

section \<open>Library functions\<close>

record py_lib =
  fromisoformat :: "string \<Rightarrow> time option"
  tz_aware :: "string \<Rightarrow> bool"
  isoformat :: "time \<Rightarrow> string"
  py_str :: "json \<Rightarrow> string"
  pg_text :: "json \<Rightarrow> string"
  gen_random_uuid :: "uuid list \<Rightarrow> uuid"
  text_le :: "string \<Rightarrow> string \<Rightarrow> bool"
  json_loads :: "string \<Rightarrow> json option"
  strptime :: "string \<Rightarrow> time option"

text \<open>
  \<open>fromisoformat\<close> is \<^verbatim>\<open>datetime.fromisoformat(s).astimezone(UTC)\<close>, \<open>None\<close> for a ValueError; \<open>tz_aware\<close>
  says whether the parsed datetime carries a zone.  \<open>gen_random_uuid\<close> is given the ids in use;
  \<open>text_le\<close> is the order of text in the database's collation; \<open>json_loads\<close> is \<open>None\<close> for a decoding error.
  \<open>strptime\<close> reads Jira's format \<^verbatim>\<open>%Y-%m-%dT%H:%M:%S.%f%z\<close>.
\<close>

text \<open>\<^verbatim>\<open>str(value)\<close> of a JSON value.\<close>

abbreviation py_text :: "py_lib \<Rightarrow> json \<Rightarrow> string" where
  "py_text lib v \<equiv> json_str (py_str lib) v"

text \<open>\<^verbatim>\<open>_parse_ts\<close> of the normalization modules: a value that is no text has no \<^verbatim>\<open>replace\<close>.\<close>

definition parse_ts :: "py_lib \<Rightarrow> json \<Rightarrow> time option" where
  "parse_ts lib value =
     (if \<not> truthy value then None
      else case value of JStr s \<Rightarrow> fromisoformat lib (py_replace ''Z'' ''+00:00'' s) | _ \<Rightarrow> None)"

text \<open>\<^verbatim>\<open>_github_timestamp\<close> and \<^verbatim>\<open>_timestamp\<close>: text with a zone only.\<close>

definition aware_timestamp :: "py_lib \<Rightarrow> json \<Rightarrow> time option" where
  "aware_timestamp lib value =
     (case value of
        JStr s \<Rightarrow>
          if s = [] then None
          else let z = py_replace ''Z'' ''+00:00'' s in
               if tz_aware lib z then fromisoformat lib z else None
      | _ \<Rightarrow> None)"

text \<open>\<^verbatim>\<open>_nested\<close>.\<close>

fun nested :: "json \<Rightarrow> string list \<Rightarrow> json" where
  "nested v [] = v"
| "nested (JObj d) (k # ks) = nested (dict_get d k) ks"
| "nested _ (k # ks) = JNull"

section \<open>SQL\<close>

text \<open>A JSON value sent to a text column: numbers, booleans and documents are refused.\<close>

fun text_param :: "json \<Rightarrow> string option result" where
  "text_param JNull = Inr None"
| "text_param (JStr s) = Inr (Some s)"
| "text_param _ = Inl (OtherError ''datatype mismatch'')"

text \<open>\<^verbatim>\<open>a = b\<close> as a condition: NULL equals nothing.\<close>

fun sql_eq :: "'a option \<Rightarrow> 'a option \<Rightarrow> bool" where
  "sql_eq (Some a) (Some b) = (a = b)"
| "sql_eq _ _ = False"

lemma sql_eq_iff: "sql_eq a b \<longleftrightarrow> (\<exists>x. a = Some x \<and> b = Some x)"
  by (cases a; cases b) auto

text \<open>\<^verbatim>\<open>COALESCE(a, b)\<close> and \<^verbatim>\<open>NULLIF(t, '')\<close>.\<close>

definition coalesce :: "'a option \<Rightarrow> 'a option \<Rightarrow> 'a option" where
  "coalesce a b = (case a of None \<Rightarrow> b | Some x \<Rightarrow> Some x)"

definition nullif_empty :: "string option \<Rightarrow> string option" where
  "nullif_empty t = (if t = Some [] then None else t)"

text \<open>\<^verbatim>\<open>LEAST(a, b)\<close> and \<^verbatim>\<open>GREATEST(a, b)\<close> of texts: NULL is ignored.\<close>

fun sql_pick :: "('a \<Rightarrow> 'a \<Rightarrow> bool) \<Rightarrow> 'a option \<Rightarrow> 'a option \<Rightarrow> 'a option" where
  "sql_pick le (Some a) (Some b) = Some (if le a b then a else b)"
| "sql_pick le (Some a) None = Some a"
| "sql_pick le None b = b"

definition sql_least :: "py_lib \<Rightarrow> string option \<Rightarrow> string option \<Rightarrow> string option" where
  "sql_least lib = sql_pick (text_le lib)"

definition sql_greatest :: "py_lib \<Rightarrow> string option \<Rightarrow> string option \<Rightarrow> string option" where
  "sql_greatest lib = sql_pick (\<lambda>a b. text_le lib b a)"

text \<open>\<^verbatim>\<open>doc->'a'->>'b'\<close>.\<close>

definition json_path_text :: "py_lib \<Rightarrow> json \<Rightarrow> string list \<Rightarrow> string option" where
  "json_path_text lib doc path =
     (case nested doc path of JNull \<Rightarrow> None | JStr s \<Rightarrow> Some s | v \<Rightarrow> Some (pg_text lib v))"

text \<open>
  \<^verbatim>\<open>INSERT ... ON CONFLICT (k) DO UPDATE SET m WHERE g\<close>: \<open>old\<close> is the stored row, \<open>new\<close> is
  \<^verbatim>\<open>EXCLUDED\<close>.
\<close>

definition sql_upsert :: "('r \<Rightarrow> 'k) \<Rightarrow> ('r \<Rightarrow> 'r \<Rightarrow> bool) \<Rightarrow> ('r \<Rightarrow> 'r \<Rightarrow> 'r) \<Rightarrow> 'r \<Rightarrow> 'r list \<Rightarrow> 'r list" where
  "sql_upsert k guard merge new t =
     (if k new \<in> k ` set t
      then sql_update (\<lambda>old. k old = k new \<and> guard old new) (\<lambda>old. merge old new) t
      else t @ [new])"

lemma row_with_append: "row_with k x (t @ u) = (case row_with k x t of None \<Rightarrow> row_with k x u | Some r \<Rightarrow> Some r)"
  by (induction t) auto

locale keyed_upsert =
  fixes k :: "'r \<Rightarrow> 'k" and guard :: "'r \<Rightarrow> 'r \<Rightarrow> bool" and merge :: "'r \<Rightarrow> 'r \<Rightarrow> 'r"
  assumes merge_key: "k old = k new \<Longrightarrow> k (merge old new) = k new"
begin

abbreviation put :: "'r \<Rightarrow> 'r list \<Rightarrow> 'r list" where
  "put \<equiv> sql_upsert k guard merge"

lemma update_keys: "map k (sql_update (\<lambda>old. k old = k new \<and> guard old new) (\<lambda>old. merge old new) t) = map k t"
  by (auto simp: sql_update_def merge_key)

lemma put_keys: "set (map k (put new t)) = insert (k new) (set (map k t))"
proof (cases "k new \<in> k ` set t")
  case True
  then have "map k (put new t) = map k t" by (simp only: sql_upsert_def if_True update_keys)
  with True show ?thesis by (simp only: set_map) blast
qed (simp add: sql_upsert_def)

lemma put_distinct: "distinct (map k t) \<Longrightarrow> distinct (map k (put new t))"
  using update_keys [of new t] by (auto simp: sql_upsert_def)

lemma put_lookup:
  "row_with k x (put new t) =
     (if x = k new
      then Some (case row_with k x t of None \<Rightarrow> new | Some old \<Rightarrow> if guard old new then merge old new else old)
      else row_with k x t)"
proof (cases "k new \<in> k ` set t")
  case False
  then have "row_with k (k new) t = None" by (simp add: row_with_None)
  with False show ?thesis by (auto simp: sql_upsert_def row_with_append split: option.splits)
next
  case True
  let ?p = "\<lambda>old. k old = k new \<and> guard old new"
  have u: "row_with k x (sql_update ?p (\<lambda>old. merge old new) t) =
      map_option (\<lambda>r. if ?p r then merge r new else r) (row_with k x t)"
    by (induction t) (auto simp: merge_key)
  have p: "put new t = sql_update ?p (\<lambda>old. merge old new) t" using True by (simp add: sql_upsert_def)
  show ?thesis
  proof (cases "row_with k x t")
    case None
    with True have "x \<noteq> k new" by (auto simp: row_with_None)
    with None u p show ?thesis by simp
  next
    case (Some old)
    with row_with_Some_set have "k old = x" by metis
    with Some u p show ?thesis by auto
  qed
qed

lemma puts_distinct: "distinct (map k t) \<Longrightarrow> distinct (map k (fold put news t))"
  by (induction news arbitrary: t) (simp_all add: put_distinct)

lemma puts_keys: "set (map k (fold put news t)) = set (map k news) \<union> set (map k t)"
  using put_keys by (induction news arbitrary: t) auto

lemma puts_frame: "x \<notin> k ` set news \<Longrightarrow> row_with k x (fold put news t) = row_with k x t"
  by (induction news arbitrary: t) (auto simp: put_lookup)

end

section \<open>The tables\<close>

record deployment =
  dp_id :: uuid
  dp_workspace_id :: uuid
  dp_repository_id :: uuid
  dp_source :: string
  dp_external_deployment_id :: string
  dp_environment :: "string option"
  dp_is_production :: bool
  dp_status :: string
  dp_commit_sha :: "string option"
  dp_started_at :: "time option"
  dp_finished_at :: "time option"
  dp_raw_data :: json
  dp_updated_at :: time
  dp_version :: int

record pull_request =
  pr_id :: uuid
  pr_workspace_id :: uuid
  pr_repository_id :: uuid
  pr_github_pr_id :: int
  pr_github_node_id :: "string option"
  pr_number :: int
  pr_title :: "string option"
  pr_state :: string
  pr_draft :: bool
  pr_author_login :: "string option"
  pr_base_ref :: string
  pr_head_ref :: string
  pr_head_sha :: "string option"
  pr_merge_commit_sha :: "string option"
  pr_additions :: int
  pr_deletions :: int
  pr_changed_files :: int
  pr_commit_count :: int
  pr_opened_at :: "time option"
  pr_first_commit_at :: "time option"
  pr_closed_at :: "time option"
  pr_merged_at :: "time option"
  pr_ready_for_review_at :: "time option"
  pr_last_synced_at :: "time option"
  pr_raw_data :: json
  pr_updated_at :: time
  pr_version :: int

record pr_commit =
  pc_pull_request_id :: uuid
  pc_commit_sha :: string
  pc_committed_at :: time

record pr_review =
  rv_pull_request_id :: uuid
  rv_github_review_id :: int
  rv_reviewer_login :: "string option"
  rv_reviewer_is_bot :: bool
  rv_state :: string
  rv_submitted_at :: time
  rv_commit_sha :: "string option"

record deployment_link =
  ln_deployment_id :: uuid
  ln_pull_request_id :: uuid
  ln_method :: string
  ln_created_at :: time

record incident =
  in_id :: uuid
  in_workspace_id :: uuid
  in_repository_id :: uuid
  in_source :: string
  in_title :: "string option"
  in_status :: string
  in_failed_deployment_id :: "uuid option"
  in_recovery_deployment_id :: "uuid option"
  in_detected_at :: "time option"
  in_resolved_at :: "time option"
  in_updated_at :: time
  in_version :: int

record repository =
  re_id :: uuid
  re_workspace_id :: uuid
  re_github_integration_id :: uuid
  re_github_repo_id :: int
  re_github_node_id :: "string option"
  re_owner_login :: string
  re_name :: string
  re_full_name :: string
  re_default_branch :: string
  re_visibility :: string
  re_archived :: bool
  re_tracking_enabled :: bool
  re_settings :: json
  re_last_synced_at :: "time option"
  re_updated_at :: time
  re_version :: int

record github_integration =
  gi_id :: uuid
  gi_workspace_id :: uuid
  gi_installation_id :: int
  gi_status :: string
  gi_created_at :: time
  gi_suspended_at :: "time option"
  gi_last_synced_at :: "time option"
  gi_updated_at :: time
  gi_version :: int

end
