(* ===== verification/Linking.thy ===== *)
theory Linking
  imports Repo_Tables
begin

text \<open>
  The links between deployments and pull requests and the incidents derived from failed
  deployments (\<^verbatim>\<open>link_deployments_to_pull_requests\<close>, \<^verbatim>\<open>earliest_linked_production_deployment\<close>,
  \<^verbatim>\<open>reconcile_github_incidents\<close> and \<^verbatim>\<open>update_github_incident_lifecycle\<close> of
  \<^verbatim>\<open>app/metrics/service.py\<close>): both are rebuilt from the normalized tables, whatever the order in
  which the events arrived.
\<close>

section \<open>The database of the metrics service\<close>

record metrics_db = engine_db +
  md_repositories :: "repository list"
  md_integrations :: "github_integration list"
  md_deployments :: "deployment list"
  md_pull_requests :: "pull_request list"
  md_commits :: "pr_commit list"
  md_reviews :: "pr_review list"
  md_links :: "deployment_link list"
  md_incidents :: "incident list"

section \<open>Linking deployments and pull requests\<close>

definition repo_deployments :: "uuid \<Rightarrow> ('d) metrics_db_scheme \<Rightarrow> deployment list" where
  "repo_deployments repo db = filter (\<lambda>d. dp_repository_id d = repo) (md_deployments db)"

text \<open>The first statement keeps the manual links and those of other repositories.\<close>

definition kept_link :: "uuid \<Rightarrow> ('d) metrics_db_scheme \<Rightarrow> deployment_link \<Rightarrow> bool" where
  "kept_link repo db l \<longleftrightarrow>
     \<not> ((\<exists>d \<in> set (repo_deployments repo db). dp_id d = ln_deployment_id l) \<and> ln_method l \<noteq> ''MANUAL'')"

definition exact_match :: "('d) metrics_db_scheme \<Rightarrow> deployment \<Rightarrow> pull_request \<Rightarrow> bool" where
  "exact_match db d pr \<longleftrightarrow>
     pr_repository_id pr = dp_repository_id d \<and>
     (sql_eq (dp_commit_sha d) (pr_merge_commit_sha pr) \<or> sql_eq (dp_commit_sha d) (pr_head_sha pr) \<or>
      (\<exists>c \<in> set (md_commits db). pc_pull_request_id c = pr_id pr \<and> sql_eq (Some (pc_commit_sha c)) (dp_commit_sha d))) \<and>
     dp_commit_sha d \<noteq> None \<and> dp_commit_sha d \<noteq> Some []"

definition exact_method :: "deployment \<Rightarrow> pull_request \<Rightarrow> string" where
  "exact_method d pr =
     (if sql_eq (dp_commit_sha d) (pr_merge_commit_sha pr) \<or> sql_eq (dp_commit_sha d) (pr_head_sha pr)
      then ''MERGE_SHA'' else ''COMMIT_GRAPH'')"

definition exact_links :: "time \<Rightarrow> uuid \<Rightarrow> ('d) metrics_db_scheme \<Rightarrow> deployment_link list" where
  "exact_links now repo db =
     concat (map (\<lambda>d. map (\<lambda>pr. \<lparr>ln_deployment_id = dp_id d, ln_pull_request_id = pr_id pr,
                                ln_method = exact_method d pr, ln_created_at = now\<rparr>)
                        (filter (exact_match db d) (md_pull_requests db)))
       (repo_deployments repo db))"

definition good_deployment :: "deployment \<Rightarrow> bool" where
  "good_deployment d \<longleftrightarrow> dp_is_production d \<and> dp_status d = ''SUCCESS'' \<and> dp_finished_at d \<noteq> None"

text \<open>
  \<open>previous_boundary\<close>: the finish of the last successful production deployment before \<open>t\<close>; among
  rows of equal finish the id decides, but only the finish is read.
\<close>

definition previous_boundary :: "uuid \<Rightarrow> ('d) metrics_db_scheme \<Rightarrow> time \<Rightarrow> time option" where
  "previous_boundary repo db t =
     list_max (filter (\<lambda>f. f < t)
       (List.map_filter (\<lambda>p. if dp_is_production p \<and> dp_status p = ''SUCCESS'' then dp_finished_at p else None)
         (repo_deployments repo db)))"

definition deployed_branch :: "py_lib \<Rightarrow> string \<Rightarrow> deployment \<Rightarrow> string" where
  "deployed_branch lib default_branch d =
     (case coalesce (nullif_empty (json_path_text lib (dp_raw_data d) [''workflow_run'', ''head_branch'']))
             (nullif_empty (json_path_text lib (dp_raw_data d) [''deployment'', ''ref''])) of
        None \<Rightarrow> default_branch
      | Some b \<Rightarrow> b)"

definition in_merge_window :: "time \<Rightarrow> time \<Rightarrow> pull_request \<Rightarrow> bool" where
  "in_merge_window after until pr \<longleftrightarrow>
     (case pr_merged_at pr of None \<Rightarrow> False | Some t \<Rightarrow> t \<le> until \<and> after < t)"

definition window_pull_requests ::
  "py_lib \<Rightarrow> ('d) metrics_db_scheme \<Rightarrow> repository \<Rightarrow> deployment \<Rightarrow> pull_request list" where
  "window_pull_requests lib db r d =
     (case dp_finished_at d of
        None \<Rightarrow> []
      | Some t \<Rightarrow>
          (case previous_boundary (re_id r) db t of
             None \<Rightarrow> []
           | Some p \<Rightarrow>
               filter (\<lambda>pr. pr_repository_id pr = re_id r \<and> pr_state pr = ''MERGED'' \<and>
                    pr_base_ref pr = deployed_branch lib (re_default_branch r) d \<and> in_merge_window p t pr)
                 (md_pull_requests db)))"

definition fallback_links :: "py_lib \<Rightarrow> time \<Rightarrow> uuid \<Rightarrow> ('d) metrics_db_scheme \<Rightarrow> deployment_link list" where
  "fallback_links lib now repo db =
     (case row_with re_id repo (md_repositories db) of
        None \<Rightarrow> []
      | Some r \<Rightarrow>
          concat (map (\<lambda>d. map (\<lambda>pr. \<lparr>ln_deployment_id = dp_id d, ln_pull_request_id = pr_id pr,
                                     ln_method = ''MERGE_WINDOW'', ln_created_at = now\<rparr>)
                             (window_pull_requests lib db r d))
            (filter good_deployment (repo_deployments repo db))))"

definition link_key :: "deployment_link \<Rightarrow> uuid \<times> uuid" where
  "link_key l = (ln_deployment_id l, ln_pull_request_id l)"

text \<open>\<^verbatim>\<open>ON CONFLICT (deployment_id, pull_request_id) DO NOTHING\<close>, row by row.\<close>

definition insert_link :: "deployment_link \<Rightarrow> deployment_link list \<Rightarrow> deployment_link list" where
  "insert_link l t = (if link_key l \<in> link_key ` set t then t else t @ [l])"

definition link_deployments_to_pull_requests ::
  "py_lib \<Rightarrow> time \<Rightarrow> uuid \<Rightarrow> ('d) metrics_db_scheme \<Rightarrow> nat \<times> ('d) metrics_db_scheme" where
  "link_deployments_to_pull_requests lib now repo db =
     (let kept = filter (kept_link repo db) (md_links db);
          linked = fold insert_link (fallback_links lib now repo db) (fold insert_link (exact_links now repo db) kept)
      in (length linked - length kept, db\<lparr>md_links := linked\<rparr>))"

definition earliest_linked_production_deployment :: "('d) metrics_db_scheme \<Rightarrow> uuid \<Rightarrow> time option" where
  "earliest_linked_production_deployment db pr =
     list_min (List.map_filter dp_finished_at
       (concat (map (\<lambda>l. filter (\<lambda>d. dp_id d = ln_deployment_id l \<and> good_deployment d) (md_deployments db))
         (filter (\<lambda>l. ln_pull_request_id l = pr) (md_links db)))))"

section \<open>Incidents\<close>

definition failed_deployment :: "deployment \<Rightarrow> bool" where
  "failed_deployment d \<longleftrightarrow> dp_is_production d \<and> dp_status d = ''FAILURE'' \<and> dp_finished_at d \<noteq> None"

text \<open>The successes strictly after \<open>t\<close>; the earliest recovers, ties broken by the id.\<close>

definition recoveries :: "uuid \<Rightarrow> ('d) metrics_db_scheme \<Rightarrow> time \<Rightarrow> (time \<times> uuid) list" where
  "recoveries repo db t =
     filter (\<lambda>(f, _). t < f)
       (List.map_filter (\<lambda>s. if dp_is_production s \<and> dp_status s = ''SUCCESS''
                           then map_option (\<lambda>f. (f, dp_id s)) (dp_finished_at s) else None)
         (repo_deployments repo db))"

definition recovery_of :: "uuid \<Rightarrow> ('d) metrics_db_scheme \<Rightarrow> time \<Rightarrow> (time \<times> uuid) option" where
  "recovery_of repo db t = list_min (recoveries repo db t)"

definition stale_incident :: "uuid \<Rightarrow> ('d) metrics_db_scheme \<Rightarrow> incident \<Rightarrow> bool" where
  "stale_incident repo db i \<longleftrightarrow> in_repository_id i = repo \<and> in_source i = ''GITHUB'' \<and>
     (case in_failed_deployment_id i of
        None \<Rightarrow> True
      | Some f \<Rightarrow> \<not> (\<exists>d \<in> set (repo_deployments repo db). dp_id d = f \<and> failed_deployment d))"

definition incident_of :: "time \<Rightarrow> ('d) metrics_db_scheme \<Rightarrow> deployment \<Rightarrow> uuid \<Rightarrow> incident" where
  "incident_of now db d fresh =
     (let recovery = (case dp_finished_at d of None \<Rightarrow> None | Some t \<Rightarrow> recovery_of (dp_repository_id d) db t) in
      \<lparr>in_id = fresh, in_workspace_id = dp_workspace_id d, in_repository_id = dp_repository_id d,
       in_source = ''GITHUB'',
       in_title = map_option (\<lambda>e. ''Failed production deployment to '' @ e) (dp_environment d),
       in_status = (if recovery = None then ''OPEN'' else ''RESOLVED''),
       in_failed_deployment_id = Some (dp_id d),
       in_recovery_deployment_id = map_option snd recovery,
       in_detected_at = dp_finished_at d, in_resolved_at = map_option fst recovery,
       in_updated_at = now, in_version = 0\<rparr>)"

text \<open>The update branch keeps the row's id and counts its version.\<close>

definition merge_incident :: "incident \<Rightarrow> incident \<Rightarrow> incident" where
  "merge_incident old new = new\<lparr>in_id := in_id old, in_version := in_version old + 1\<rparr>"

definition upsert_incident :: "incident \<Rightarrow> incident list \<Rightarrow> incident list" where
  "upsert_incident = sql_upsert in_failed_deployment_id (\<lambda>_ _. True) merge_incident"

definition reconcile_github_incidents :: "py_lib \<Rightarrow> time \<Rightarrow> uuid \<Rightarrow> ('d) metrics_db_scheme \<Rightarrow> ('d) metrics_db_scheme" where
  "reconcile_github_incidents lib now repo db =
     (let kept = filter (\<lambda>i. \<not> stale_incident repo db i) (md_incidents db)
      in db\<lparr>md_incidents :=
           fold (\<lambda>d t. upsert_incident (incident_of now db d (gen_random_uuid lib (map in_id t))) t)
             (filter failed_deployment (repo_deployments repo db)) kept\<rparr>)"

definition update_github_incident_lifecycle ::
  "py_lib \<Rightarrow> time \<Rightarrow> uuid \<Rightarrow> ('d) metrics_db_scheme \<Rightarrow> ('d) metrics_db_scheme result" where
  "update_github_incident_lifecycle lib now deployment db =
     (case row_with dp_id deployment (md_deployments db) of
        None \<Rightarrow> Inl (OtherError ''No row was found when one was required'')
      | Some d \<Rightarrow> Inr (reconcile_github_incidents lib now (dp_repository_id d) db))"

end
