(* ===== verification/Metrics_Service.thy ===== *)
theory Metrics_Service
  imports Linking Calculator
begin

text \<open>
  The metrics service (\<^verbatim>\<open>app/metrics/service.py\<close>) and its job (\<^verbatim>\<open>recalculate_metrics.py\<close>): the
  queries that feed the calculator, the snapshot upsert, the recalculation of a repository, and
  the two enqueueing statements.
\<close>

section \<open>State\<close>

record snapshot_row =
  sr_workspace_id :: uuid
  sr_repository_id :: uuid
  sr_snapshot :: metric_snapshot
  sr_calculated_at :: time
  sr_updated_at :: time
  sr_version :: int

record service_db = metrics_db +
  sv_snapshots :: "snapshot_row list"
  sv_timezones :: "uuid \<Rightarrow> string option"

text \<open>
  \<open>se_utcnow\<close> is \<^verbatim>\<open>datetime.now(UTC)\<close>, \<open>se_now\<close> is the database's \<^verbatim>\<open>now()\<close>; \<open>se_job\<close> is a new job row
  with the schema's defaults and an id unused in the table.
\<close>

record service_env =
  se_lib :: py_lib
  se_zones :: "string \<Rightarrow> zone option"
  se_utcnow :: time
  se_now :: time
  se_job :: "jobs \<Rightarrow> processing_job"

section \<open>The input of the calculator\<close>

text \<open>\<^verbatim>\<open>finished_at\<close> of a row known to have one.\<close>

definition finish :: "deployment \<Rightarrow> time" where
  "finish d = (case dp_finished_at d of None \<Rightarrow> 0 | Some t \<Rightarrow> t)"

definition deployment_rows :: "uuid \<Rightarrow> ('d) service_db_scheme \<Rightarrow> deployment_row list" where
  "deployment_rows repo db =
     map (\<lambda>d. \<lparr>dr_id = dp_id d, dr_finished_at = dp_finished_at d, dr_status = dp_status d,
               dr_is_production = dp_is_production d,
               dr_has_incident = (\<exists>i \<in> set (md_incidents db). in_failed_deployment_id i = Some (dp_id d))\<rparr>)
       (sort_key finish (filter (\<lambda>d. dp_finished_at d \<noteq> None) (repo_deployments repo db)))"

text \<open>The good deployments of a repository linked to a pull request.\<close>

definition linked_good :: "uuid \<Rightarrow> ('d) service_db_scheme \<Rightarrow> uuid \<Rightarrow> deployment list" where
  "linked_good repo db pr =
     filter (\<lambda>d. good_deployment d \<and> (dp_id d, pr) \<in> link_key ` set (md_links db)) (repo_deployments repo db)"

text \<open>
  \<^verbatim>\<open>DISTINCT ON (pr.id) ... ORDER BY pr.id, d.finished_at\<close>: the earliest of them, the first of
  equally early rows.
\<close>

definition lead_rows :: "uuid \<Rightarrow> ('d) service_db_scheme \<Rightarrow> lead_row list" where
  "lead_rows repo db =
     List.map_filter (\<lambda>pr.
       case sort_key finish (linked_good repo db (pr_id pr)) of
         [] \<Rightarrow> None
       | d # _ \<Rightarrow>
           if pr_first_commit_at pr = None then None
           else Some \<lparr>lr_deployment_id = dp_id d, lr_pr_id = pr_id pr, lr_deployment_finished_at = dp_finished_at d,
                      lr_deployment_status = dp_status d, lr_is_production = dp_is_production d,
                      lr_first_commit_at = pr_first_commit_at pr\<rparr>)
       (sort_key pr_id (md_pull_requests db))"

definition incident_rows :: "uuid \<Rightarrow> ('d) service_db_scheme \<Rightarrow> incident_row list" where
  "incident_rows repo db =
     map (\<lambda>i. \<lparr>ir_id = in_id i,
               ir_recovery_finished_at =
                 (case in_recovery_deployment_id i of
                    None \<Rightarrow> None
                  | Some r \<Rightarrow> (case row_with dp_id r (md_deployments db) of None \<Rightarrow> None | Some d \<Rightarrow> dp_finished_at d)),
               ir_resolved_at = in_resolved_at i, ir_detected_at = in_detected_at i, ir_created_at = None\<rparr>)
       (filter (\<lambda>i. in_repository_id i = repo \<and> in_status i = ''RESOLVED'' \<and> in_resolved_at i \<noteq> None) (md_incidents db))"

text \<open>The lateral joins of the cycle-time query: first human review, first deployment after the merge.\<close>

definition first_review_at :: "('d) service_db_scheme \<Rightarrow> pull_request \<Rightarrow> time \<Rightarrow> time option" where
  "first_review_at db pr merged_at =
     list_min (map rv_submitted_at (filter (\<lambda>r. rv_pull_request_id r = pr_id pr \<and> \<not> rv_reviewer_is_bot r \<and>
       rv_reviewer_login r \<noteq> pr_author_login pr \<and> rv_submitted_at r \<le> merged_at) (md_reviews db)))"

definition deployed_at :: "('d) service_db_scheme \<Rightarrow> pull_request \<Rightarrow> time \<Rightarrow> time option" where
  "deployed_at db pr merged_at =
     list_min (filter (\<lambda>t. merged_at \<le> t) (List.map_filter (\<lambda>d.
       if good_deployment d \<and> (dp_id d, pr_id pr) \<in> link_key ` set (md_links db) then dp_finished_at d else None)
       (md_deployments db)))"

definition cycle_rows :: "uuid \<Rightarrow> ('d) service_db_scheme \<Rightarrow> time \<Rightarrow> time \<Rightarrow> cycle_row list" where
  "cycle_rows repo db window_start window_end =
     List.map_filter (\<lambda>pr. case pr_merged_at pr of
         None \<Rightarrow> None
       | Some m \<Rightarrow>
           if pr_repository_id pr = repo \<and> pr_state pr = ''MERGED'' \<and> window_start \<le> m \<and> m < window_end
           then Some \<lparr>cr_id = pr_id pr, cr_first_commit_at = pr_first_commit_at pr, cr_opened_at = pr_opened_at pr,
                      cr_ready_for_review_at = pr_ready_for_review_at pr, cr_first_review_at = first_review_at db pr m,
                      cr_merged_at = Some m, cr_deployed_at = deployed_at db pr m\<rparr>
           else None)
       (md_pull_requests db)"

section \<open>Snapshots of a repository\<close>

definition granularities :: "string list" where
  "granularities = [''DAY'', ''WEEK'', ''MONTH'']"

text \<open>The range of a recalculation: \<open>None\<close> as \<open>af_from\<close> recalculates \<open>af_start\<close> to \<open>af_end\<close> in full.\<close>

record recalc_range =
  af_start :: time
  af_end :: time
  af_from :: "time option"
  af_to :: "time option"

definition range_buckets ::
  "service_env \<Rightarrow> recalc_range \<Rightarrow> string \<Rightarrow> string \<Rightarrow> bucket list result option" where
  "range_buckets env r timezone_name granularity =
     (case af_from r of
        Some a \<Rightarrow> get_recalculation_buckets (se_zones env) a (case af_to r of None \<Rightarrow> a | Some b \<Rightarrow> b) granularity timezone_name
      | None \<Rightarrow> get_period_buckets (se_zones env) (af_start r) (af_end r) granularity timezone_name)"

definition dora_snapshots_of ::
  "uuid \<Rightarrow> ('d) service_db_scheme \<Rightarrow> string \<Rightarrow> bucket list \<Rightarrow> metric_snapshot list" where
  "dora_snapshots_of repo db granularity buckets =
     concat (map (\<lambda>(s, e).
        [calculate_deployment_frequency s e granularity (deployment_rows repo db),
         calculate_change_lead_time s e granularity (lead_rows repo db),
         calculate_recovery_time s e granularity (incident_rows repo db),
         calculate_change_failure_rate s e granularity (deployment_rows repo db)])
       buckets)"

text \<open>The first error, or the concatenation; \<open>None\<close> where a bucket loop does not end.\<close>

fun gather :: "('a \<Rightarrow> 'b list result option) \<Rightarrow> 'a list \<Rightarrow> 'b list result option" where
  "gather f [] = Some (Inr [])"
| "gather f (x # xs) =
     (case f x of
        None \<Rightarrow> None
      | Some (Inl e) \<Rightarrow> Some (Inl e)
      | Some (Inr ys) \<Rightarrow> (case gather f xs of
          None \<Rightarrow> None | Some (Inl e) \<Rightarrow> Some (Inl e) | Some (Inr zs) \<Rightarrow> Some (Inr (ys @ zs))))"

definition dora_results ::
  "service_env \<Rightarrow> uuid \<Rightarrow> ('d) service_db_scheme \<Rightarrow> recalc_range \<Rightarrow> string \<Rightarrow> metric_snapshot list result option" where
  "dora_results env repo db r timezone_name =
     gather (\<lambda>g. map_option (map_sum id (dora_snapshots_of repo db g)) (range_buckets env r timezone_name g)) granularities"

text \<open>The earliest merge whose deploy stage a deployment of the affected range completes.\<close>

definition earliest_merge :: "uuid \<Rightarrow> ('d) service_db_scheme \<Rightarrow> time \<Rightarrow> time \<Rightarrow> time option" where
  "earliest_merge repo db affected_from affected_to =
     list_min (List.map_filter pr_merged_at
       (filter (\<lambda>pr. \<exists>d \<in> set (linked_good repo db (pr_id pr)).
            case dp_finished_at d of None \<Rightarrow> False | Some t \<Rightarrow> affected_from \<le> t \<and> t \<le> affected_to)
          (md_pull_requests db)))"

definition cycle_range :: "uuid \<Rightarrow> ('d) service_db_scheme \<Rightarrow> recalc_range \<Rightarrow> recalc_range" where
  "cycle_range repo db r =
     (case af_from r of
        None \<Rightarrow> r
      | Some a \<Rightarrow>
          let b = (case af_to r of None \<Rightarrow> a | Some b \<Rightarrow> b) in
          r\<lparr>af_from := Some (case earliest_merge repo db a b of None \<Rightarrow> a | Some m \<Rightarrow> if m < a then m else a),
            af_to := Some b\<rparr>)"

definition cycle_time_snapshots ::
  "service_env \<Rightarrow> uuid \<Rightarrow> ('d) service_db_scheme \<Rightarrow> string \<Rightarrow> recalc_range \<Rightarrow> metric_snapshot list result option" where
  "cycle_time_snapshots env repo db timezone_name r =
     (case range_buckets env (cycle_range repo db r) timezone_name ''DAY'' of
        None \<Rightarrow> None
      | Some (Inl e) \<Rightarrow> Some (Inl e)
      | Some (Inr buckets) \<Rightarrow>
          (case (list_min (map fst buckets), list_max (map snd buckets)) of
             (Some ws, Some we) \<Rightarrow>
               Some (Inr (concat (map (\<lambda>(s, e). calculate_cycle_time_stages s e ''DAY'' (cycle_rows repo db ws we)) buckets)))
           | _ \<Rightarrow> Some (Inr [])))"

section \<open>The snapshot table\<close>

type_synonym snapshot_key = "uuid \<times> string \<times> string \<times> time \<times> time \<times> string"

definition key_of :: "uuid \<Rightarrow> metric_snapshot \<Rightarrow> snapshot_key" where
  "key_of repo s = (repo, ms_metric_type s, ms_granularity s, ms_period_start s, ms_period_end s, ms_calculation_version s)"

definition snapshot_key :: "snapshot_row \<Rightarrow> snapshot_key" where
  "snapshot_key row = key_of (sr_repository_id row) (sr_snapshot row)"

text \<open>The update branch leaves the workspace and counts the version.\<close>

definition merge_snapshot :: "snapshot_row \<Rightarrow> snapshot_row \<Rightarrow> snapshot_row" where
  "merge_snapshot old new =
     old\<lparr>sr_snapshot := (sr_snapshot old)\<lparr>ms_value := ms_value (sr_snapshot new), ms_unit := ms_unit (sr_snapshot new),
           ms_sample_size := ms_sample_size (sr_snapshot new), ms_dimensions := ms_dimensions (sr_snapshot new)\<rparr>,
         sr_calculated_at := sr_calculated_at new, sr_updated_at := sr_updated_at new,
         sr_version := sr_version old + 1\<rparr>"

definition upsert_snapshots ::
  "time \<Rightarrow> uuid \<Rightarrow> uuid \<Rightarrow> metric_snapshot list \<Rightarrow> snapshot_row list \<Rightarrow> nat \<times> snapshot_row list" where
  "upsert_snapshots now ws repo snapshots t =
     (length snapshots,
      fold (sql_upsert snapshot_key (\<lambda>_ _. True) merge_snapshot)
        (map (\<lambda>s. \<lparr>sr_workspace_id = ws, sr_repository_id = repo, sr_snapshot = s, sr_calculated_at = now,
                   sr_updated_at = now, sr_version = 0\<rparr>) snapshots) t)"

section \<open>Recalculation\<close>

definition recalc_range_of :: "service_env \<Rightarrow> time option \<Rightarrow> time option \<Rightarrow> time option \<Rightarrow> time option \<Rightarrow> recalc_range" where
  "recalc_range_of env from_date to_date affected_from affected_to =
     \<lparr>af_start = (case from_date of None \<Rightarrow> se_utcnow env - 90 * day | Some t \<Rightarrow> t),
      af_end = (case to_date of None \<Rightarrow> se_utcnow env + day | Some t \<Rightarrow> t),
      af_from = affected_from, af_to = affected_to\<rparr>"

text \<open>
  The outer option is divergence; each transaction commits before the next, so an error returns the
  database reached.
\<close>

definition recalculate_repository_metrics ::
  "service_env \<Rightarrow> uuid \<Rightarrow> uuid \<Rightarrow> recalc_range \<Rightarrow> ('d) service_db_scheme \<Rightarrow> (nat result \<times> ('d) service_db_scheme) option" where
  "recalculate_repository_metrics env ws repo r db0 =
     (let db1 = snd (link_deployments_to_pull_requests (se_lib env) (se_now env) repo db0);
          db = reconcile_github_incidents (se_lib env) (se_now env) repo db1
      in case sv_timezones db ws of
           None \<Rightarrow> Some (Inl (OtherError ''No row was found when one was required''), db)
         | Some timezone_name \<Rightarrow>
             (case dora_results env repo db r timezone_name of
                None \<Rightarrow> None
              | Some (Inl e) \<Rightarrow> Some (Inl e, db)
              | Some (Inr dora) \<Rightarrow>
                  (case cycle_time_snapshots env repo db timezone_name r of
                     None \<Rightarrow> None
                   | Some (Inl e) \<Rightarrow> Some (Inl e, db)
                   | Some (Inr cycle) \<Rightarrow>
                       (case upsert_snapshots (se_now env) ws repo (dora @ cycle) (sv_snapshots db) of
                          (n, t) \<Rightarrow>
                            Some (Inr n,
                              if 0 < n
                              then db\<lparr>ed_jobs := snd (enqueue_evaluate_alerts_job (se_now env) (se_job env (ed_jobs db))
                                                       ws repo ''METRIC_SNAPSHOT'' (ed_jobs db)),
                                      sv_snapshots := t\<rparr>
                              else db\<lparr>sv_snapshots := t\<rparr>)))))"

section \<open>Enqueueing a recalculation\<close>

text \<open>The rows of the partial unique index \<^verbatim>\<open>(repository_id, job_type)\<close> the conflict clause names.\<close>

definition queued_recalculation :: "uuid \<Rightarrow> processing_job \<Rightarrow> bool" where
  "queued_recalculation repo j \<longleftrightarrow>
     pj_repository_id j = Some repo \<and> pj_job_type j = ''RECALCULATE_METRICS'' \<and> pj_status j \<in> {PENDING, FAILED}"

definition json_opt :: "string option \<Rightarrow> json" where
  "json_opt t = (case t of None \<Rightarrow> JNull | Some s \<Rightarrow> JStr s)"

definition recalculation_payload :: "py_lib \<Rightarrow> uuid \<Rightarrow> uuid \<Rightarrow> time option \<Rightarrow> time option \<Rightarrow> dict" where
  "recalculation_payload lib ws repo affected_at affected_to =
     [(''workspace_id'', JStr (uuid_str ws)), (''repository_id'', JStr (uuid_str repo))] @
     (case affected_at of
        None \<Rightarrow> []
      | Some a \<Rightarrow> [(''affected_from'', JStr (isoformat lib a)),
                  (''affected_to'', JStr (isoformat lib (case affected_to of None \<Rightarrow> a | Some b \<Rightarrow> b)))])"

definition widen_payload :: "py_lib \<Rightarrow> dict \<Rightarrow> dict \<Rightarrow> dict" where
  "widen_payload lib old new =
     (let get = (\<lambda>d k. json_path_text lib (JObj d) [k]) in
      dict_put (dict_put new ''affected_from'' (json_opt (sql_least lib (get old ''affected_from'') (get new ''affected_from''))))
        ''affected_to'' (json_opt (sql_greatest lib (get old ''affected_to'') (get new ''affected_to''))))"

text \<open>The update branch.\<close>

definition widened_job :: "service_env \<Rightarrow> dict \<Rightarrow> processing_job \<Rightarrow> processing_job" where
  "widened_job env payload j =
     j\<lparr>pj_payload := widen_payload (se_lib env) (pj_payload j) payload, pj_status := PENDING,
       pj_attempts := 0, pj_available_at := se_now env, pj_last_error := None,
       pj_updated_at := se_now env, pj_version := pj_version j + 1\<rparr>"

definition enqueue_recalculate_metrics_job ::
  "service_env \<Rightarrow> uuid \<Rightarrow> uuid \<Rightarrow> time option \<Rightarrow> time option \<Rightarrow> jobs \<Rightarrow> uuid \<times> jobs" where
  "enqueue_recalculate_metrics_job env ws repo affected_at affected_to t =
     (let payload = recalculation_payload (se_lib env) ws repo affected_at affected_to in
      case find (queued_recalculation repo) t of
        Some j \<Rightarrow>
          (pj_id j, sql_update (queued_recalculation repo) (widened_job env payload) t)
      | None \<Rightarrow>
          (pj_id (se_job env t),
           t @ [(se_job env t)\<lparr>pj_workspace_id := Some ws, pj_repository_id := Some repo,
                  pj_job_type := ''RECALCULATE_METRICS'', pj_payload := payload, pj_status := PENDING,
                  pj_priority := 100, pj_available_at := se_now env\<rparr>]))"

section \<open>Cycle-time history\<close>

definition needs_history :: "service_env \<Rightarrow> ('d) service_db_scheme \<Rightarrow> repository \<Rightarrow> bool" where
  "needs_history env db r \<longleftrightarrow>
     (\<exists>gi \<in> set (md_integrations db). gi_id gi = re_github_integration_id r \<and> gi_status gi = ''ACTIVE'') \<and>
     re_tracking_enabled r \<and> \<not> re_archived r \<and>
     \<not> (\<exists>m \<in> set (sv_snapshots db). sr_repository_id m = re_id r \<and>
          ms_metric_type (sr_snapshot m) = ''PR_CODING_TIME_HOURS'' \<and> ms_granularity (sr_snapshot m) = ''DAY'' \<and>
          ms_calculation_version (sr_snapshot m) = CYCLE_TIME_CALCULATION_VERSION \<and>
          ms_period_start (sr_snapshot m) \<le> se_now env - 30 * day) \<and>
     \<not> (\<exists>j \<in> set (ed_jobs db). pj_repository_id j = Some (re_id r) \<and> pj_job_type j = ''BACKFILL_REPOSITORY'' \<and>
          pj_status j \<in> {PENDING, FAILED, RUNNING})"

definition history_job :: "repository \<Rightarrow> processing_job \<Rightarrow> processing_job" where
  "history_job r blank =
     blank\<lparr>pj_workspace_id := Some (re_workspace_id r), pj_repository_id := Some (re_id r),
           pj_job_type := ''BACKFILL_REPOSITORY'',
           pj_payload := [(''repositoryId'', JStr (uuid_str (re_id r))), (''backfillDays'', JInt 90),
                          (''reviewsOnly'', JBool True)],
           pj_priority := 200\<rparr>"

text \<open>One INSERT ... SELECT: every row is chosen on the table before the statement.\<close>

definition enqueue_missing_cycle_time_history ::
  "service_env \<Rightarrow> ('d) service_db_scheme \<Rightarrow> nat \<times> ('d) service_db_scheme" where
  "enqueue_missing_cycle_time_history env db =
     (let rs = filter (needs_history env db) (md_repositories db)
      in (length rs, db\<lparr>ed_jobs := fold (\<lambda>r t. t @ [history_job r (se_job env t)]) rs (ed_jobs db)\<rparr>))"

section \<open>The job\<close>

definition payload_time :: "py_lib \<Rightarrow> json \<Rightarrow> time option result" where
  "payload_time lib v =
     (if \<not> truthy v then Inr None
      else case v of
             JStr s \<Rightarrow> (case fromisoformat lib s of
                         None \<Rightarrow> Inl (ValueError (''Invalid isoformat string: '' @ s)) | Some t \<Rightarrow> Inr (Some t))
           | _ \<Rightarrow> Inl (OtherError ''fromisoformat: argument must be str''))"

definition recalculation_args :: "service_env \<Rightarrow> claimed_job \<Rightarrow> (uuid \<times> uuid \<times> recalc_range) result" where
  "recalculation_args env job =
     (let repo_raw = py_or (dict_get (cj_payload job) ''repository_id'') (dict_get (cj_payload job) ''repositoryId'');
          ws_raw = py_or (dict_get (cj_payload job) ''workspace_id'') (dict_get (cj_payload job) ''workspaceId'');
          arg = (\<lambda>k. payload_time (se_lib env) (dict_get (cj_payload job) k))
      in if \<not> truthy repo_raw \<or> \<not> truthy ws_raw
         then Inl (PermanentJobError (''RECALCULATE_METRICS job '' @ uuid_str (cj_id job) @
                '' missing repository_id or workspace_id''))
         else (case (uuid_of_json repo_raw, uuid_of_json ws_raw) of
                 (Some repo, Some ws) \<Rightarrow>
                   (case (arg ''from_date'', arg ''to_date'', arg ''affected_from'', arg ''affected_to'') of
                      (Inr fd, Inr td, Inr a, Inr b) \<Rightarrow> Inr (repo, ws, recalc_range_of env fd td a b)
                    | (Inl e, _, _, _) \<Rightarrow> Inl e
                    | (_, Inl e, _, _) \<Rightarrow> Inl e
                    | (_, _, Inl e, _) \<Rightarrow> Inl e
                    | (_, _, _, Inl e) \<Rightarrow> Inl e)
               | _ \<Rightarrow> Inl (PermanentJobError ''Invalid UUID in RECALCULATE_METRICS payload'')))"

definition handle_recalculate_metrics ::
  "service_env \<Rightarrow> ('d) service_db_scheme \<Rightarrow> claimed_job \<Rightarrow> string \<Rightarrow> (exn option \<times> ('d) service_db_scheme) option" where
  "handle_recalculate_metrics env db job w =
     (case recalculation_args env job of
        Inl e \<Rightarrow> Some (Some e, db)
      | Inr (repo, ws, r) \<Rightarrow>
          map_option (\<lambda>(res, db'). (case res of Inl e \<Rightarrow> Some e | Inr _ \<Rightarrow> None, db'))
            (recalculate_repository_metrics env ws repo r db))"

end
