(* ===== verification/Timed_Upsert.thy ===== *)
theory Timed_Upsert
  imports Repo_Tables
begin

text \<open>
  Upserts guarded by a provider timestamp: deliveries of one object may come late, repeated or in
  any order, and the stored content is that of the newest one.  The normalization modules for
  deployments, pull requests and issues interpret the locale.
\<close>

text \<open>
  \<open>content\<close> is what a delivery says, \<open>stamp\<close> the provider's time in it.  The guard only has to
  follow the stamps where the delivery has one.
\<close>

definition newest :: "('c \<Rightarrow> time option) \<Rightarrow> 'c \<Rightarrow> 'c option \<Rightarrow> 'c option" where
  "newest stamp new c = Some (case c of
       None \<Rightarrow> new
     | Some old \<Rightarrow>
         (case (stamp old, stamp new) of
            (None, _) \<Rightarrow> new
          | (Some t, Some u) \<Rightarrow> if t \<le> u then new else old
          | _ \<Rightarrow> old))"

lemma newest_commutes:
  assumes "stamp a = Some t" and "stamp b = Some u" and "t = u \<longrightarrow> a = b"
  shows "newest stamp b (newest stamp a c) = newest stamp a (newest stamp b c)"
proof (cases "t = u")
  case True
  with assms show ?thesis by (auto simp: newest_def split: option.splits)
next
  case False
  with assms(1,2) show ?thesis by (cases c) (auto simp: newest_def split: option.splits)
qed

lemma newest_cases: "newest stamp new c = Some d \<Longrightarrow> d = new \<or> c = Some d"
  by (auto simp: newest_def split: option.splits if_splits)

locale timed_upsert = keyed_upsert k guard merge
  for k :: "'r \<Rightarrow> 'k" and guard :: "'r \<Rightarrow> 'r \<Rightarrow> bool" and merge :: "'r \<Rightarrow> 'r \<Rightarrow> 'r" +
  fixes content :: "'r \<Rightarrow> 'c" and stamp :: "'c \<Rightarrow> time option"
  assumes guard_stamp: "stamp (content new) = Some u \<Longrightarrow>
      guard old new \<longleftrightarrow> (case stamp (content old) of None \<Rightarrow> True | Some t \<Rightarrow> t \<le> u)"
    and content_merge: "content (merge old new) = content new"
begin

abbreviation stamped :: "'r list \<Rightarrow> bool" where
  "stamped rows \<equiv> \<forall>r \<in> set rows. stamp (content r) \<noteq> None"

text \<open>Deliveries of an object with the same stamp say the same.\<close>

abbreviation consistent :: "'r list \<Rightarrow> bool" where
  "consistent rows \<equiv> \<forall>a \<in> set rows. \<forall>b \<in> set rows.
     k a = k b \<longrightarrow> stamp (content a) = stamp (content b) \<longrightarrow> content a = content b"

lemma put_content:
  assumes "stamp (content r) = Some u"
  shows "map_option content (row_with k x (put r t)) =
     (if x = k r then newest stamp (content r) (map_option content (row_with k x t)) else map_option content (row_with k x t))"
  using assms by (auto simp: put_lookup guard_stamp [OF assms] content_merge newest_def split: option.splits)

lemma puts_content:
  assumes "stamped rows"
  shows "map_option content (row_with k x (fold put rows t)) =
     fold (\<lambda>r c. if x = k r then newest stamp (content r) c else c) rows (map_option content (row_with k x t))"
  using assms
proof (induction rows arbitrary: t)
  case (Cons r rows)
  then obtain u where "stamp (content r) = Some u" by auto
  from put_content [OF this] Cons show ?case by simp
qed simp

lemma order_irrelevant:
  assumes "mset rows = mset rows'" and "stamped rows" and "consistent rows"
  shows "map_option content (row_with k x (fold put rows t)) = map_option content (row_with k x (fold put rows' t))"
proof -
  let ?f = "\<lambda>r c. if x = k r then newest stamp (content r) c else c"
  have comm: "?f a \<circ> ?f b = ?f b \<circ> ?f a" if ab: "a \<in> set rows" "b \<in> set rows" for a b
  proof (rule ext)
    fix c
    from assms(2) ab obtain t u where tu: "stamp (content a) = Some t" "stamp (content b) = Some u" by blast
    show "(?f a \<circ> ?f b) c = (?f b \<circ> ?f a) c"
    proof (cases "k a = k b")
      case True
      with assms(3) ab tu have "t = u \<longrightarrow> content a = content b" by fastforce
      from newest_commutes [OF tu this, of c] show ?thesis by simp
    next
      case False
      then show ?thesis by (simp add: comp_def)
    qed
  qed
  have "fold ?f rows = fold ?f rows'" using comm assms(1) by (intro fold_multiset_equiv) auto
  moreover from assms(1) have "set rows = set rows'" by (metis set_mset_mset)
  with assms(2) have "stamped rows'" by blast
  ultimately show ?thesis by (simp only: puts_content [OF assms(2)] puts_content [of rows'])
qed

lemma stored_from:
  assumes "stamped rows" and "row_with k x t = None" and "map_option content (row_with k x (fold put rows t)) = Some c"
  shows "\<exists>r \<in> set rows. k r = x \<and> content r = c"
  using assms
proof (induction rows arbitrary: c rule: rev_induct)
  case (snoc y ys)
  then obtain v where v: "stamp (content y) = Some v" by auto
  from snoc.prems have *: "(if x = k y then newest stamp (content y) (map_option content (row_with k x (fold put ys t)))
      else map_option content (row_with k x (fold put ys t))) = Some c"
    using put_content [OF v, of x "fold put ys t"] by simp
  then consider "x = k y" "c = content y" | "map_option content (row_with k x (fold put ys t)) = Some c"
    by (cases "x = k y") (auto dest: newest_cases)
  then show ?case
  proof cases
    case 2
    with snoc show ?thesis by fastforce
  qed auto
qed simp

text \<open>The newest delivery wins.\<close>

lemma newest_stored:
  assumes "stamped rows" and "r \<in> set rows" and "consistent rows"
    and "\<forall>r' \<in> set rows. k r' = k r \<longrightarrow> the (stamp (content r')) \<le> the (stamp (content r))"
    and "row_with k (k r) t = None"
  shows "map_option content (row_with k (k r) (fold put rows t)) = Some (content r)"
proof -
  obtain a b where ab: "rows = a @ r # b" using assms(2) by (meson split_list)
  let ?rows = "a @ b @ [r]"
  have m: "mset rows = mset ?rows" by (simp add: ab)
  obtain u where u: "stamp (content r) = Some u" using assms(1,2) by blast
  let ?t = "fold put (a @ b) t"
  have le: "w \<le> u" if "map_option content (row_with k (k r) ?t) = Some c" "stamp c = Some w" for c w
  proof -
    from assms(1) have "stamped (a @ b)" by (auto simp: ab)
    from stored_from [OF this assms(5) that(1)]
    obtain r' where "r' \<in> set (a @ b)" "k r' = k r" "c = content r'" by blast
    with assms(4) that(2) u show ?thesis by (force simp: ab)
  qed
  have "map_option content (row_with k (k r) (fold put ?rows t)) = Some (content r)"
    using put_content [OF u, of "k r" ?t] le by (simp add: u newest_def split: option.splits)
  moreover from order_irrelevant [OF m assms(1,3)]
  have "map_option content (row_with k (k r) (fold put rows t)) = map_option content (row_with k (k r) (fold put ?rows t))" .
  ultimately show ?thesis by simp
qed

end

end
