(* ===== verification/Event_Tables.thy ===== *)
theory Event_Tables
  imports Metrics_Service Timed_Upsert
begin

text \<open>
  The tables the event handlers and the synchronisation jobs add to those of the metrics service:
  raw webhook deliveries, issues, the Jira catalogue, risk features and predictions; and the
  readers several handlers share (\<^verbatim>\<open>parse_uuid\<close>, \<^verbatim>\<open>_json_object\<close>, \<^verbatim>\<open>_object_list\<close>,
  \<^verbatim>\<open>_sync_started_at\<close>, bounded integers).
\<close>

section \<open>Tables\<close>

record raw_event =
  rw_id :: uuid
  rw_source :: string
  rw_workspace_id :: "uuid option"
  rw_repository_id :: "uuid option"
  rw_event_type :: "string option"
  rw_action :: "string option"
  rw_payload :: json
  rw_status :: string
  rw_attempt_count :: int
  rw_processing_started_at :: "time option"
  rw_processed_at :: "time option"
  rw_last_error :: "string option"
  rw_updated_at :: time
  rw_version :: int

record github_issue =
  gs_id :: uuid
  gs_workspace_id :: uuid
  gs_repository_id :: uuid
  gs_github_issue_id :: int
  gs_github_node_id :: "string option"
  gs_number :: int
  gs_title :: string
  gs_state :: string
  gs_author_login :: "string option"
  gs_assignee_logins :: "string list"
  gs_labels :: "string list"
  gs_comments_count :: int
  gs_github_created_at :: time
  gs_github_updated_at :: "time option"
  gs_closed_at :: "time option"
  gs_last_synced_at :: time
  gs_raw_data :: json
  gs_updated_at :: time
  gs_version :: int

record jira_integration =
  ji_id :: uuid
  ji_workspace_id :: uuid
  ji_cloud_id :: string
  ji_access_token_enc :: string
  ji_refresh_token_enc :: string
  ji_encryption_key_version :: int
  ji_access_token_expires_at :: time
  ji_scopes :: "string list"
  ji_status :: string
  ji_webhook_id :: "int option"
  ji_webhook_token_hash :: "string option"
  ji_webhook_expires_at :: "time option"
  ji_last_synced_at :: "time option"
  ji_updated_at :: time
  ji_version :: int

record jira_project =
  jp_id :: uuid
  jp_workspace_id :: uuid
  jp_jira_integration_id :: uuid
  jp_jira_project_id :: string
  jp_project_key :: string
  jp_project_name :: string
  jp_project_type :: string
  jp_tracking_enabled :: bool
  jp_last_synced_at :: "time option"
  jp_updated_at :: time
  jp_version :: int

record jira_issue =
  js_id :: uuid
  js_workspace_id :: uuid
  js_jira_project_id :: uuid
  js_jira_issue_id :: string
  js_issue_key :: string
  js_issue_type :: "string option"
  js_status_name :: "string option"
  js_priority_name :: "string option"
  js_summary :: "string option"
  js_is_incident :: bool
  js_jira_created_at :: "time option"
  js_jira_updated_at :: "time option"
  js_resolved_at :: "time option"
  js_raw_data :: json
  js_created_at :: time
  js_updated_at :: time
  js_version :: int

record feature_row =
  fr_id :: uuid
  fr_workspace_id :: uuid
  fr_repository_id :: uuid
  fr_pull_request_id :: uuid
  fr_schema_version :: string
  fr_lines_added :: int
  fr_lines_deleted :: int
  fr_files_changed :: int
  fr_commit_count :: int
  fr_author_prior_pr_count :: int
  fr_entropy :: rat
  fr_payload :: json
  fr_extracted_at :: time
  fr_updated_at :: time
  fr_version :: int

record prediction_row =
  pd_id :: uuid
  pd_workspace_id :: uuid
  pd_repository_id :: uuid
  pd_pull_request_id :: uuid
  pd_feature_id :: uuid
  pd_model_name :: string
  pd_model_version :: string
  pd_risk_score :: rat
  pd_risk_level :: string
  pd_threshold_used :: rat
  pd_top_factors :: json
  pd_predicted_at :: time
  pd_updated_at :: time
  pd_version :: int

record events_db = service_db +
  ev_raw_events :: "raw_event list"
  ev_github_issues :: "github_issue list"
  ev_jira_integrations :: "jira_integration list"
  ev_jira_projects :: "jira_project list"
  ev_jira_issues :: "jira_issue list"
  ev_features :: "feature_row list"
  ev_predictions :: "prediction_row list"

section \<open>Shared readers\<close>

text \<open>\<^verbatim>\<open>parse_uuid\<close>.\<close>

definition parse_uuid :: "json \<Rightarrow> string \<Rightarrow> uuid result" where
  "parse_uuid value field =
     (if value = JNull \<or> value = JStr [] then Inl (PermanentJobError (''Missing '' @ field))
      else case uuid_of_json value of
             None \<Rightarrow> Inl (PermanentJobError (''Invalid '' @ field))
           | Some u \<Rightarrow> Inr u)"

text \<open>\<^verbatim>\<open>_json_object\<close> and \<^verbatim>\<open>_object_list\<close>.\<close>

definition json_object :: "py_lib \<Rightarrow> json \<Rightarrow> dict" where
  "json_object lib value =
     (case value of
        JObj d \<Rightarrow> d
      | JStr s \<Rightarrow> (case json_loads lib s of Some (JObj d) \<Rightarrow> d | _ \<Rightarrow> [])
      | _ \<Rightarrow> [])"

definition object_list :: "json \<Rightarrow> dict list" where
  "object_list value = (case value of JList vs \<Rightarrow> dicts_of vs | _ \<Rightarrow> [])"

text \<open>\<^verbatim>\<open>_positive_int\<close> and \<^verbatim>\<open>_non_negative_int\<close> of the synchronisation jobs: \<open>least\<close> is 1 or 0.\<close>

definition bounded_int :: "int \<Rightarrow> json \<Rightarrow> string \<Rightarrow> int result" where
  "bounded_int least value field =
     (let bad = Inl (PermanentJobError (''Invalid '' @ field)); check = (\<lambda>k. if k < least then bad else Inr k) in
      case value of
        JInt k \<Rightarrow> check k
      | JStr s \<Rightarrow> (case py_int 10 s of None \<Rightarrow> bad | Some k \<Rightarrow> check k)
      | _ \<Rightarrow> bad)"

lemma bounded_int_least: "bounded_int least value field = Inr k \<Longrightarrow> least \<le> k"
  by (auto simp: bounded_int_def Let_def split: json.splits option.splits if_splits)

text \<open>\<^verbatim>\<open>_sync_started_at\<close>.\<close>

definition sync_started_at :: "py_lib \<Rightarrow> time \<Rightarrow> json \<Rightarrow> time result" where
  "sync_started_at lib utcnow value =
     (if value = JNull then Inr utcnow
      else case value of
             JStr s \<Rightarrow>
               (let z = py_replace ''Z'' ''+00:00'' s in
                case fromisoformat lib z of
                  None \<Rightarrow> Inl (PermanentJobError ''Invalid syncStartedAt'')
                | Some t \<Rightarrow> if tz_aware lib z then Inr t else Inl (PermanentJobError ''Invalid syncStartedAt''))
           | _ \<Rightarrow> Inl (PermanentJobError ''Invalid syncStartedAt''))"

text \<open>
  What the library promises of a zoned time it prints: the text has no \<^verbatim>\<open>Z\<close>, carries its zone and
  reads back.
\<close>

definition iso_round_trip :: "py_lib \<Rightarrow> bool" where
  "iso_round_trip lib \<longleftrightarrow> (\<forall>t. isoformat lib t \<noteq> [] \<and> CHR ''Z'' \<notin> set (isoformat lib t) \<and> tz_aware lib (isoformat lib t) \<and>
     fromisoformat lib (isoformat lib t) = Some t)"

lemma py_replace_absent: "c \<notin> set s \<Longrightarrow> py_replace [c] new s = s"
proof (induction s)
  case (Cons a s)
  then show ?case by (subst py_replace.simps) auto
qed (simp add: py_replace.simps)

lemma sync_started_at_again:
  "iso_round_trip lib \<Longrightarrow> sync_started_at lib now (JStr (isoformat lib t)) = Inr t"
  by (simp add: sync_started_at_def iso_round_trip_def py_replace_absent Let_def)

lemma aware_timestamp_again: "iso_round_trip lib \<Longrightarrow> aware_timestamp lib (JStr (isoformat lib t)) = Some t"
  by (simp add: aware_timestamp_def iso_round_trip_def py_replace_absent Let_def)

lemma parse_uuid_again: "u < 2 ^ 128 \<Longrightarrow> parse_uuid (JStr (uuid_str u)) field = Inr u"
proof -
  have "uuid_str u \<noteq> []" by (simp add: uuid_str_def Let_def)
  then show "u < 2 ^ 128 \<Longrightarrow> parse_uuid (JStr (uuid_str u)) field = Inr u"
    by (simp add: parse_uuid_def uuid_of_string_uuid_str)
qed

end
