(* ===== verification/Provider_Clients.thy ===== *)
theory Provider_Clients
  imports Event_Tables "HOL-Library.Word"
begin

text \<open>
  The provider clients (\<^verbatim>\<open>app/providers/__init__.py\<close>, \<^verbatim>\<open>github.py\<close>, \<^verbatim>\<open>jira.py\<close>, \<^verbatim>\<open>crypto.py\<close>):
  requests, the classification of responses, pagination, tokens and secrets.  The transport is a
  parameter: what a request is answered with, or the text of the \<^verbatim>\<open>httpx.HTTPError\<close>.  Each page is
  requested once, so a function of the request leaves the provider free to answer as it likes.
  Cryptography and base64 are parameters too.
\<close>

section \<open>Retry delays\<close>

text \<open>What \<^verbatim>\<open>float(text)\<close> gives.\<close>

datatype py_float = Finite rat | PlusInfinity | MinusInfinity | NotANumber

text \<open>\<^verbatim>\<open>min(900.0, max(0.0, x))\<close>: a NaN compares with nothing, so \<^verbatim>\<open>max\<close> keeps its first argument.\<close>

fun clamp_delay :: "py_float \<Rightarrow> rat" where
  "clamp_delay (Finite r) = min 900 (max 0 r)"
| "clamp_delay PlusInfinity = 900"
| "clamp_delay MinusInfinity = 0"
| "clamp_delay NotANumber = 0"

text \<open>\<^verbatim>\<open>float(a) - b\<close>.\<close>

fun float_minus :: "py_float \<Rightarrow> rat \<Rightarrow> py_float" where
  "float_minus (Finite r) b = Finite (r - b)"
| "float_minus x _ = x"

text \<open>\<^verbatim>\<open>ProviderError.__init__\<close>.\<close>

definition provider_error :: "string \<Rightarrow> rat option \<Rightarrow> exn" where
  "provider_error message retry_after = ProviderError message (map_option (\<lambda>r. clamp_delay (Finite r)) retry_after)"

section \<open>Responses\<close>

type_synonym byte = "8 word"

record http_response =
  hr_status :: int
  hr_headers :: "string \<Rightarrow> string option"
  hr_body :: "json option"

record request =
  rq_method :: string
  rq_path :: string
  rq_params :: "(string \<times> json) list"
  rq_body :: json
  rq_token :: string

text \<open>
  \<open>pv_now\<close> is \<^verbatim>\<open>time.time()\<close>; \<open>pv_float\<close> parses a float, \<open>pv_http_date\<close> an HTTP date (a naive one is
  UTC), \<open>None\<close> where Python raises; \<open>pv_private_key\<close> decodes and loads a PEM key: \<open>None\<close> for a ValueError,
  else whether it is an RSA key; \<open>pv_base64url_json\<close> and \<open>pv_sign\<close> are the parts of a JWT.
\<close>

record providers =
  pv_send :: "request \<Rightarrow> string + http_response"
  pv_now :: time
  pv_float :: "string \<Rightarrow> py_float option"
  pv_http_date :: "string \<Rightarrow> time option"
  pv_app_id :: string
  pv_private_key_base64 :: string
  pv_private_key :: "string \<Rightarrow> bool option"
  pv_base64url_json :: "json \<Rightarrow> string"
  pv_sign :: "string \<Rightarrow> string \<Rightarrow> string"
  pv_jira_client_id :: string
  pv_jira_client_secret :: string
  pv_encryption_key_base64 :: string
  pv_active_key_version :: int
  pv_b64decode :: "string \<Rightarrow> byte list option"
  pv_b64encode :: "byte list \<Rightarrow> string"
  pv_aes_encrypt :: "byte list \<Rightarrow> byte list \<Rightarrow> string \<Rightarrow> byte list"
  pv_aes_decrypt :: "byte list \<Rightarrow> byte list \<Rightarrow> byte list \<Rightarrow> string option"
  pv_nonce :: "string \<Rightarrow> byte list"

text \<open>\<^verbatim>\<open>response_retry_after_seconds\<close>.\<close>

definition response_retry_after_seconds :: "providers \<Rightarrow> http_response \<Rightarrow> rat option" where
  "response_retry_after_seconds pv r =
     (case hr_headers r ''Retry-After'' of
        None \<Rightarrow> None
      | Some value \<Rightarrow>
          if value = [] then None
          else (case pv_float pv value of
                  Some x \<Rightarrow> Some (clamp_delay x)
                | None \<Rightarrow>
                    (case pv_http_date pv value of
                       None \<Rightarrow> None
                     | Some t \<Rightarrow> Some (clamp_delay (Finite (total_seconds (t - pv_now pv)))))))"

definition is_success :: "http_response \<Rightarrow> bool" where
  "is_success r \<longleftrightarrow> 200 \<le> hr_status r \<and> hr_status r \<le> 299"

definition rejected_statuses :: "int list" where
  "rejected_statuses = [400, 401, 403, 404, 410, 422]"

text \<open>\<^verbatim>\<open>_raise_for_provider_status\<close> of the GitHub client; \<open>None\<close>: nothing is raised.\<close>

definition github_status_error :: "providers \<Rightarrow> http_response \<Rightarrow> exn option" where
  "github_status_error pv r =
     (if is_success r then None
      else let message = ''GitHub returned HTTP '' @ str_int (hr_status r);
               given = response_retry_after_seconds pv r;
               exhausted = (hr_status r = 403 \<and> hr_headers r ''X-RateLimit-Remaining'' = Some ''0'');
               retry_after =
                 (if exhausted \<and> given = None
                  then (case hr_headers r ''X-RateLimit-Reset'' of
                          None \<Rightarrow> None
                        | Some reset \<Rightarrow>
                            map_option (\<lambda>x. clamp_delay (float_minus x (total_seconds (pv_now pv)))) (pv_float pv reset))
                  else given)
           in if hr_status r = 429 \<or> exhausted \<or> (hr_status r = 403 \<and> retry_after \<noteq> None)
              then Some (provider_error message retry_after)
              else if hr_status r \<in> set rejected_statuses then Some (ProviderPermanentError message None)
              else Some (provider_error message retry_after))"

definition jira_status_error :: "providers \<Rightarrow> http_response \<Rightarrow> exn option" where
  "jira_status_error pv r =
     (if is_success r then None
      else let message = ''Jira returned HTTP '' @ str_int (hr_status r); retry_after = response_retry_after_seconds pv r
           in if hr_status r = 429 then Some (provider_error message retry_after)
              else if hr_status r \<in> set rejected_statuses then Some (ProviderPermanentError message None)
              else Some (provider_error message retry_after))"

text \<open>A response read by \<^verbatim>\<open>response.json()\<close> after the status check.\<close>

definition answered ::
  "(http_response \<Rightarrow> exn option) \<Rightarrow> string \<Rightarrow> string + http_response \<Rightarrow> json result" where
  "answered status_error failure answer =
     (case answer of
        Inl e \<Rightarrow> Inl (provider_error (failure @ e) None)
      | Inr r \<Rightarrow>
          (case status_error r of
             Some e \<Rightarrow> Inl e
           | None \<Rightarrow> (case hr_body r of None \<Rightarrow> Inl (ValueError ''Expecting value'') | Some body \<Rightarrow> Inr body)))"

section \<open>The GitHub client\<close>

definition generate_app_jwt :: "providers \<Rightarrow> string result" where
  "generate_app_jwt pv =
     (let app_id = py_strip (pv_app_id pv); key = py_strip (pv_private_key_base64 pv) in
      if app_id = [] \<or> key = []
      then Inl (ProviderConfigurationError
             ''GITHUB_APP_ID and GITHUB_APP_PRIVATE_KEY_BASE64 are required for GitHub jobs'' None)
      else (case pv_private_key pv key of
              None \<Rightarrow> Inl (ProviderConfigurationError ''GITHUB_APP_PRIVATE_KEY_BASE64 is invalid'' None)
            | Some rsa \<Rightarrow>
                if \<not> rsa then Inl (ProviderConfigurationError ''GitHub App private key must be an RSA key'' None)
                else let now = pv_now pv div second;
                         header = pv_base64url_json pv (JObj [(''alg'', JStr ''RS256''), (''typ'', JStr ''JWT'')]);
                         payload = pv_base64url_json pv
                           (JObj [(''iat'', JInt (now - 60)), (''exp'', JInt (now + 540)), (''iss'', JStr app_id)]);
                         signing_input = header @ ''.'' @ payload
                     in Inr (signing_input @ ''.'' @ pv_sign pv key signing_input)))"

text \<open>The token is asked for once per client; asking is a function of the installation.\<close>

definition installation_access_token :: "providers \<Rightarrow> int \<Rightarrow> string result" where
  "installation_access_token pv inst =
     bindr (generate_app_jwt pv) (\<lambda>jwt.
     bindr (answered (github_status_error pv) ''GitHub installation authentication failed: ''
              (pv_send pv \<lparr>rq_method = ''POST'', rq_path = ''/app/installations/'' @ str_int inst @ ''/access_tokens'',
                 rq_params = [], rq_body = JNull, rq_token = jwt\<rparr>)) (\<lambda>body.
     (case nonempty_text (dict_get (as_dict body) ''token'') of
        None \<Rightarrow> Inl (provider_error ''GitHub did not return an installation token'' None)
      | Some token \<Rightarrow> Inr token)))"

definition github_request :: "providers \<Rightarrow> int \<Rightarrow> string \<Rightarrow> (string \<times> json) list \<Rightarrow> dict result" where
  "github_request pv inst path params =
     bindr (installation_access_token pv inst) (\<lambda>token.
     bindr (answered (github_status_error pv) ''GitHub request failed: ''
              (pv_send pv \<lparr>rq_method = ''GET'', rq_path = path, rq_params = params, rq_body = JNull, rq_token = token\<rparr>))
       (\<lambda>body.
     (case body of
        JList items \<Rightarrow> Inr [(''_items'', body)]
      | JObj d \<Rightarrow> Inr d
      | _ \<Rightarrow> Inl (provider_error ''GitHub returned an unexpected response'' None))))"

definition mapping_list :: "dict \<Rightarrow> string \<Rightarrow> dict list result" where
  "mapping_list body key =
     (case dict_get_or body key (JList []) of
        JList vs \<Rightarrow> Inr (dicts_of vs)
      | _ \<Rightarrow> Inl (provider_error (''GitHub response field '' @ key @ '' is not a list'') None))"

type_synonym page = "dict list \<times> int option"

text \<open>A page of a listing that says nothing of its total: a full page has a successor.\<close>

definition list_page ::
  "providers \<Rightarrow> int \<Rightarrow> string \<Rightarrow> (string \<times> json) list \<Rightarrow> int \<Rightarrow> int \<Rightarrow> page result" where
  "list_page pv inst path params page per_page =
     bindr (github_request pv inst path (params @ [(''page'', JInt page), (''per_page'', JInt per_page)])) (\<lambda>body.
     bindr (mapping_list body ''_items'') (\<lambda>items.
     Inr (items, if int (length items) = per_page then Some (page + 1) else None)))"

text \<open>A page of a listing with a total.\<close>

definition counted_page ::
  "providers \<Rightarrow> int \<Rightarrow> string \<Rightarrow> string \<Rightarrow> (string \<times> json) list \<Rightarrow> int \<Rightarrow> int \<Rightarrow> (page \<times> int) result" where
  "counted_page pv inst path key params page per_page =
     bindr (github_request pv inst path params) (\<lambda>body.
     bindr (mapping_list body key) (\<lambda>items.
     bindr (int_of_json (dict_get_or body ''total_count'' (JInt (int (length items))))) (\<lambda>total.
     Inr ((items, if page * per_page < total \<and> int (length items) = per_page then Some (page + 1) else None), total))))"

definition list_installation_repositories :: "providers \<Rightarrow> int \<Rightarrow> int \<Rightarrow> page result" where
  "list_installation_repositories pv inst page =
     bindr (counted_page pv inst ''/installation/repositories'' ''repositories''
              [(''page'', JInt page), (''per_page'', JInt 100)] page 100) (\<lambda>r. Inr (fst r))"

definition repo_path :: "string \<Rightarrow> string \<Rightarrow> string \<Rightarrow> string" where
  "repo_path owner name rest = ''/repos/'' @ owner @ ''/'' @ name @ ''/'' @ rest"

definition updated_desc :: "string \<Rightarrow> (string \<times> json) list" where
  "updated_desc state = [(''state'', JStr state), (''sort'', JStr ''updated''), (''direction'', JStr ''desc'')]"

definition list_closed_pull_requests :: "providers \<Rightarrow> int \<Rightarrow> string \<Rightarrow> string \<Rightarrow> int \<Rightarrow> page result" where
  "list_closed_pull_requests pv inst owner name page =
     list_page pv inst (repo_path owner name ''pulls'') (updated_desc ''closed'') page 50"

definition list_open_pull_requests :: "providers \<Rightarrow> int \<Rightarrow> string \<Rightarrow> string \<Rightarrow> int \<Rightarrow> page result" where
  "list_open_pull_requests pv inst owner name page =
     list_page pv inst (repo_path owner name ''pulls'') (updated_desc ''open'') page 50"

definition list_open_issues :: "providers \<Rightarrow> int \<Rightarrow> string \<Rightarrow> string \<Rightarrow> int \<Rightarrow> page result" where
  "list_open_issues pv inst owner name page =
     list_page pv inst (repo_path owner name ''issues'') (updated_desc ''open'') page 100"

definition list_deployments :: "providers \<Rightarrow> int \<Rightarrow> string \<Rightarrow> string \<Rightarrow> int \<Rightarrow> page result" where
  "list_deployments pv inst owner name page = list_page pv inst (repo_path owner name ''deployments'') [] page 50"

definition list_workflow_runs ::
  "providers \<Rightarrow> int \<Rightarrow> string \<Rightarrow> string \<Rightarrow> int \<Rightarrow> string option \<Rightarrow> string \<Rightarrow> string \<Rightarrow> (page \<times> int) result" where
  "list_workflow_runs pv inst owner name page branch created_from created_to =
     counted_page pv inst (repo_path owner name ''actions/runs'') ''workflow_runs''
       ([(''status'', JStr ''completed''), (''created'', JStr (created_from @ ''..'' @ created_to)),
         (''page'', JInt page), (''per_page'', JInt 50)] @
        (case branch of None \<Rightarrow> [] | Some b \<Rightarrow> if b = [] then [] else [(''branch'', JStr b)])) page 50"

text \<open>\<open>number\<close> is the number's text in the path.\<close>

definition get_pull_request :: "providers \<Rightarrow> int \<Rightarrow> string \<Rightarrow> string \<Rightarrow> string \<Rightarrow> dict result" where
  "get_pull_request pv inst owner name number = github_request pv inst (repo_path owner name (''pulls/'' @ number)) []"

section \<open>Complete listings\<close>

definition batch :: "providers \<Rightarrow> int \<Rightarrow> string \<Rightarrow> nat \<Rightarrow> dict list result" where
  "batch pv inst path page = bindr (list_page pv inst path [] (int page) 100) (\<lambda>r. Inr (fst r))"

text \<open>The \<^verbatim>\<open>while True\<close> loops: outer \<open>None\<close> is not returning.\<close>

partial_function (option) all_batches ::
  "(nat \<Rightarrow> dict list result) \<Rightarrow> nat \<Rightarrow> dict list \<Rightarrow> (dict list result) option" where
  "all_batches fetch page acc =
     (case fetch page of
        Inl e \<Rightarrow> Some (Inl e)
      | Inr items \<Rightarrow>
          if length items < 100 then Some (Inr (acc @ items)) else all_batches fetch (page + 1) (acc @ items))"

definition pull_path :: "string \<Rightarrow> string \<Rightarrow> string \<Rightarrow> string \<Rightarrow> string" where
  "pull_path owner name number rest = repo_path owner name (''pulls/'' @ number @ ''/'' @ rest)"

definition list_pull_request_commits :: "providers \<Rightarrow> int \<Rightarrow> string \<Rightarrow> string \<Rightarrow> string \<Rightarrow> (dict list result) option" where
  "list_pull_request_commits pv inst owner name number =
     all_batches (batch pv inst (pull_path owner name number ''commits'')) 1 []"

definition list_pull_request_reviews :: "providers \<Rightarrow> int \<Rightarrow> string \<Rightarrow> string \<Rightarrow> string \<Rightarrow> (dict list result) option" where
  "list_pull_request_reviews pv inst owner name number =
     all_batches (batch pv inst (pull_path owner name number ''reviews'')) 1 []"

text \<open>At most 30 pages of files.\<close>

fun file_batches :: "(nat \<Rightarrow> dict list result) \<Rightarrow> nat list \<Rightarrow> dict list \<Rightarrow> dict list result" where
  "file_batches fetch [] acc = Inr acc"
| "file_batches fetch (p # ps) acc =
     bindr (fetch p) (\<lambda>items.
       if length items < 100 then Inr (acc @ items) else file_batches fetch ps (acc @ items))"

definition list_pull_request_files :: "providers \<Rightarrow> int \<Rightarrow> string \<Rightarrow> string \<Rightarrow> string \<Rightarrow> dict list result" where
  "list_pull_request_files pv inst owner name number =
     file_batches (batch pv inst (pull_path owner name number ''files'')) [1..<31] []"

text \<open>The newest terminal status.\<close>

definition terminal_status :: "py_lib \<Rightarrow> dict \<Rightarrow> bool" where
  "terminal_status lib status \<longleftrightarrow>
     py_lower (py_text lib (py_or (dict_get status ''state'') (JStr []))) \<in> {''success'', ''failure''}"

partial_function (option) find_status ::
  "py_lib \<Rightarrow> (nat \<Rightarrow> dict list result) \<Rightarrow> nat \<Rightarrow> (dict option result) option" where
  "find_status lib fetch page =
     (case fetch page of
        Inl e \<Rightarrow> Some (Inl e)
      | Inr statuses \<Rightarrow>
          (case find (terminal_status lib) statuses of
             Some s \<Rightarrow> Some (Inr (Some s))
           | None \<Rightarrow> if length statuses < 100 then Some (Inr None) else find_status lib fetch (page + 1)))"

definition terminal_deployment_status ::
  "py_lib \<Rightarrow> providers \<Rightarrow> int \<Rightarrow> string \<Rightarrow> string \<Rightarrow> string \<Rightarrow> (dict option result) option" where
  "terminal_deployment_status lib pv inst owner name deployment_id =
     find_status lib (batch pv inst (repo_path owner name (''deployments/'' @ deployment_id @ ''/statuses''))) 1"

section \<open>The Jira client\<close>

definition jira_request ::
  "providers \<Rightarrow> string \<Rightarrow> string \<Rightarrow> string \<Rightarrow> string \<Rightarrow> (string \<times> json) list \<Rightarrow> json \<Rightarrow> dict result" where
  "jira_request pv cloud token verb path params body =
     bindr (answered (jira_status_error pv) ''Jira request failed: ''
              (pv_send pv \<lparr>rq_method = verb, rq_path = ''/ex/jira/'' @ cloud @ ''/rest/api/3'' @ path,
                 rq_params = params, rq_body = body, rq_token = token\<rparr>)) (\<lambda>answer.
     (case answer of
        JObj d \<Rightarrow> Inr d
      | _ \<Rightarrow> Inl (provider_error ''Jira returned an unexpected response'' None)))"

definition list_projects :: "providers \<Rightarrow> string \<Rightarrow> string \<Rightarrow> int \<Rightarrow> page result" where
  "list_projects pv cloud token start_at =
     bindr (jira_request pv cloud token ''GET'' ''/project/search''
              [(''startAt'', JInt start_at), (''maxResults'', JInt 50)] JNull) (\<lambda>body.
     (case dict_get_or body ''values'' (JList []) of
        JList vs \<Rightarrow>
          (let projects = dicts_of vs; next_start = start_at + int (length projects) in
           bindr (int_of_json (dict_get_or body ''total'' (JInt next_start))) (\<lambda>total.
           Inr (projects,
                if truthy (dict_get_or body ''isLast'' (JBool False)) \<or> projects = [] \<or> total \<le> next_start
                then None else Some next_start)))
      | _ \<Rightarrow> Inl (provider_error ''Jira projects response field values is not a list'' None)))"

definition list_unresolved_issues ::
  "providers \<Rightarrow> string \<Rightarrow> string \<Rightarrow> string \<Rightarrow> string option \<Rightarrow> (dict list \<times> string option) result" where
  "list_unresolved_issues pv cloud token project_key next_page_token =
     (let bs = char_of (92 :: nat); quote = CHR 0x22;
          escaped = py_replace [quote] [bs, quote] (py_replace [bs] [bs, bs] project_key) in
      bindr (jira_request pv cloud token ''GET'' ''/search/jql''
               ([(''jql'', JStr (''project = '' @ [quote] @ escaped @ [quote] @ '' AND resolution IS EMPTY ORDER BY updated DESC'')),
                 (''maxResults'', JInt 100),
                 (''fields'', JStr ''summary,issuetype,status,priority,created,updated,resolutiondate,project'')] @
                (case next_page_token of None \<Rightarrow> [] | Some tok \<Rightarrow> [(''nextPageToken'', JStr tok)])) JNull) (\<lambda>body.
      (case dict_get_or body ''issues'' (JList []) of
         JList vs \<Rightarrow>
           (let next = dict_get body ''nextPageToken'' in
            if next \<noteq> JNull \<and> nonempty_text next = None
            then Inl (provider_error ''Jira issue search returned an invalid nextPageToken'' None)
            else Inr (dicts_of vs, nonempty_text next))
       | _ \<Rightarrow> Inl (provider_error ''Jira issue search response field issues is not a list'' None))))"

definition refresh_webhook :: "providers \<Rightarrow> string \<Rightarrow> string \<Rightarrow> int \<Rightarrow> string result" where
  "refresh_webhook pv cloud token webhook_id =
     bindr (jira_request pv cloud token ''PUT'' ''/webhook/refresh'' []
              (JObj [(''webhookIds'', JList [JInt webhook_id])])) (\<lambda>body.
     (case nonempty_text (dict_get body ''expirationDate'') of
        None \<Rightarrow> Inl (provider_error ''Jira did not return the refreshed webhook expiration'' None)
      | Some s \<Rightarrow> Inr s))"

text \<open>\<^verbatim>\<open>webhook_exists\<close>: \<open>n\<close> pages are left of the thousand.\<close>

definition lists_webhook :: "int \<Rightarrow> json list \<Rightarrow> bool" where
  "lists_webhook webhook_id values =
     (\<exists>item \<in> set values. (case item of JObj d \<Rightarrow> as_int (dict_get d ''id'') = Some webhook_id | _ \<Rightarrow> False))"

fun webhook_pages :: "(int \<Rightarrow> dict result) \<Rightarrow> int \<Rightarrow> nat \<Rightarrow> int \<Rightarrow> bool result" where
  "webhook_pages fetch webhook_id 0 start_at = Inl (provider_error ''Jira returned too many webhook pages'' None)"
| "webhook_pages fetch webhook_id (Suc n) start_at =
     bindr (fetch start_at) (\<lambda>body.
     (case dict_get body ''values'' of
        JList values \<Rightarrow>
          if lists_webhook webhook_id values then Inr True
          else if dict_get body ''isLast'' = JBool True then Inr False
          else (case strict_int (dict_get_or body ''maxResults'' (JInt (int (length values)))) of
                  None \<Rightarrow> Inl (provider_error ''Jira returned an invalid webhooks page'' None)
                | Some page_size \<Rightarrow>
                    if page_size \<le> 0 then Inl (provider_error ''Jira returned an invalid webhooks page'' None)
                    else webhook_pages fetch webhook_id n (start_at + page_size))
      | _ \<Rightarrow> Inl (provider_error ''Jira webhooks response field values is not a list'' None)))"

definition webhook_exists :: "providers \<Rightarrow> string \<Rightarrow> string \<Rightarrow> int \<Rightarrow> bool result" where
  "webhook_exists pv cloud token webhook_id =
     webhook_pages (\<lambda>start. jira_request pv cloud token ''GET'' ''/webhook''
                      [(''startAt'', JInt start), (''maxResults'', JInt 100)] JNull) webhook_id 1000 0"

record oauth_tokens =
  ot_access_token :: string
  ot_refresh_token :: string
  ot_expires_in_seconds :: int
  ot_scopes :: "string list"

definition refresh_oauth_token :: "providers \<Rightarrow> string \<Rightarrow> oauth_tokens result" where
  "refresh_oauth_token pv current_refresh_token =
     (let client_id = py_strip (pv_jira_client_id pv); client_secret = py_strip (pv_jira_client_secret pv) in
      if client_id = [] \<or> client_secret = []
      then Inl (ProviderConfigurationError
             ''JIRA_CLIENT_ID and JIRA_CLIENT_SECRET are required to refresh Jira tokens'' None)
      else bindr (answered (jira_status_error pv) ''Jira token refresh failed: ''
             (pv_send pv \<lparr>rq_method = ''POST'', rq_path = ''/oauth/token'', rq_params = [],
                rq_body = JObj [(''grant_type'', JStr ''refresh_token''), (''client_id'', JStr client_id),
                  (''client_secret'', JStr client_secret), (''refresh_token'', JStr current_refresh_token)],
                rq_token = []\<rparr>)) (\<lambda>answer.
      (let body = as_dict answer in
       case as_text (dict_get body ''access_token'') of
         None \<Rightarrow> Inl (provider_error ''Jira did not return a refreshed access token'' None)
       | Some access \<Rightarrow>
           (case nonempty_text (dict_get_or body ''refresh_token'' (JStr current_refresh_token)) of
              None \<Rightarrow> Inl (provider_error ''Jira did not return a usable refresh token'' None)
            | Some refresh \<Rightarrow>
                bindr (int_of_json (dict_get_or body ''expires_in'' (JInt 3600))) (\<lambda>expires.
                Inr \<lparr>ot_access_token = access, ot_refresh_token = refresh, ot_expires_in_seconds = expires,
                     ot_scopes = (case dict_get_or body ''scope'' (JStr []) of JStr s \<Rightarrow> py_words s | _ \<Rightarrow> [])\<rparr>)))))"

section \<open>Secrets\<close>

definition GCM_IV_LENGTH_BYTES :: nat where "GCM_IV_LENGTH_BYTES = 12"

definition key_for_version :: "providers \<Rightarrow> int \<Rightarrow> byte list result" where
  "key_for_version pv version =
     (let config = (\<lambda>m. Inl (ProviderConfigurationError m None)) in
      if version \<noteq> 1
      then config (''integration encryption key version '' @ str_int version @ '' is not configured in the engine'')
      else if pv_encryption_key_base64 pv = []
      then config ''APP_INTEGRATION_ENCRYPTION_KEY_V1_BASE64 is required for Jira jobs''
      else (case pv_b64decode pv (pv_encryption_key_base64 pv) of
              None \<Rightarrow> config ''APP_INTEGRATION_ENCRYPTION_KEY_V1_BASE64 is invalid Base64''
            | Some key \<Rightarrow>
                if length key \<noteq> 32
                then config ''APP_INTEGRATION_ENCRYPTION_KEY_V1_BASE64 must decode to exactly 32 bytes''
                else Inr key))"

text \<open>\<open>pv_aes_decrypt key nonce data\<close> is \<open>None\<close> for an invalid tag or text that is no UTF-8.\<close>

definition decrypt_integration_secret :: "providers \<Rightarrow> string \<Rightarrow> int \<Rightarrow> string result" where
  "decrypt_integration_secret pv ciphertext version =
     (let bad = Inl (ProviderConfigurationError ''Jira credential ciphertext is invalid'' None) in
      bindr (key_for_version pv version) (\<lambda>key.
      (case pv_b64decode pv ciphertext of
         None \<Rightarrow> bad
       | Some combined \<Rightarrow>
           if length combined \<le> GCM_IV_LENGTH_BYTES then bad
           else (case pv_aes_decrypt pv key (take GCM_IV_LENGTH_BYTES combined) (drop GCM_IV_LENGTH_BYTES combined) of
                   None \<Rightarrow> bad
                 | Some plain \<Rightarrow> Inr plain))))"

text \<open>\<open>pv_nonce\<close> stands for \<^verbatim>\<open>os.urandom(12)\<close>, \<open>pv_aes_encrypt\<close> for AES-GCM under key and nonce.\<close>

definition encrypt_integration_secret :: "providers \<Rightarrow> string \<Rightarrow> (string \<times> int) result" where
  "encrypt_integration_secret pv plaintext =
     bindr (key_for_version pv (pv_active_key_version pv)) (\<lambda>key.
       (let nonce = pv_nonce pv plaintext in
        Inr (pv_b64encode pv (nonce @ pv_aes_encrypt pv key nonce plaintext), pv_active_key_version pv)))"

text \<open>What base64 and AES-GCM promise: decoding and decryption undo encoding and encryption.\<close>

definition cipher_laws :: "providers \<Rightarrow> bool" where
  "cipher_laws pv \<longleftrightarrow> (\<forall>bytes. pv_b64decode pv (pv_b64encode pv bytes) = Some bytes) \<and>
     (\<forall>s. length (pv_nonce pv s) = GCM_IV_LENGTH_BYTES) \<and>
     (\<forall>key nonce s. length key = 32 \<longrightarrow> length nonce = GCM_IV_LENGTH_BYTES \<longrightarrow> pv_aes_encrypt pv key nonce s \<noteq> [] \<and>
        pv_aes_decrypt pv key nonce (pv_aes_encrypt pv key nonce s) = Some s)"

end
