(* ===== verification/Provider_Facts.thy ===== *)
theory Provider_Facts
  imports Provider_Clients
begin

text \<open>
  The provider clients: which failures are retried and when, complete listings, and secrets that
  read back.
\<close>

section \<open>Failures\<close>

lemma clamp_delay_bounds: "0 \<le> clamp_delay x \<and> clamp_delay x \<le> 900"
  by (cases x) simp_all

text \<open>The response asks to slow down rather than rejecting the request.\<close>

definition rate_limited :: "providers \<Rightarrow> http_response \<Rightarrow> bool" where
  "rate_limited pv r \<longleftrightarrow> hr_status r = 429 \<or>
     hr_status r = 403 \<and> (hr_headers r ''X-RateLimit-Remaining'' = Some ''0'' \<or> response_retry_after_seconds pv r \<noteq> None)"

definition delay_ok :: "rat option \<Rightarrow> bool" where
  "delay_ok ra \<longleftrightarrow> (case ra of None \<Rightarrow> True | Some d \<Rightarrow> 0 \<le> d \<and> d \<le> 900)"

lemma provider_error_delay: "\<exists>ra'. provider_error m ra = ProviderError m ra' \<and> delay_ok ra'"
  using clamp_delay_bounds by (auto simp: provider_error_def delay_ok_def split: option.split)

text \<open>
  Of an unsuccessful GitHub response, a rate limit and every status the engine does not know to
  be final is retried, after between 0 and 900 seconds if GitHub names a delay, whatever text its
  headers hold; the final statuses, and only they, are permanent.
\<close>

theorem github_failures_classified:
  assumes "github_status_error pv r = Some e"
  shows "\<not> is_success r \<and>
    (if hr_status r \<in> set rejected_statuses \<and> \<not> rate_limited pv r
     then e = ProviderPermanentError (''GitHub returned HTTP '' @ str_int (hr_status r)) None
     else \<exists>ra. e = ProviderError (''GitHub returned HTTP '' @ str_int (hr_status r)) ra \<and> delay_ok ra)"
proof (cases "hr_status r \<in> set rejected_statuses \<and> \<not> rate_limited pv r")
  case True
  then show ?thesis using assms
    by (auto simp: github_status_error_def rate_limited_def Let_def split: if_splits)
next
  case False
  then have "\<exists>ra. e = provider_error (''GitHub returned HTTP '' @ str_int (hr_status r)) ra"
    using assms by (auto simp: github_status_error_def rate_limited_def Let_def split: if_splits)
  with provider_error_delay False assms show ?thesis
    by (metis github_status_error_def option.distinct(1))
qed

section \<open>Complete listings\<close>

lemma all_batches_step:
  "fetch p = Inr items \<Longrightarrow> 100 \<le> length items \<Longrightarrow> all_batches fetch p acc = all_batches fetch (p + 1) (acc @ items)"
  by (subst all_batches.simps) simp

lemma all_batches_full:
  assumes "\<forall>p \<in> set [a..<b]. \<exists>items. fetch p = Inr items \<and> 100 \<le> length items" and "a \<le> b"
  shows "all_batches fetch a acc = all_batches fetch b (acc @ concat (map (\<lambda>p. case fetch p of Inr items \<Rightarrow> items | _ \<Rightarrow> []) [a..<b]))"
  using assms(2,1)
proof (induction b rule: dec_induct)
  case (step n)
  from step.prems obtain items where "fetch n = Inr items" "100 \<le> length items"
    using step.hyps by fastforce
  with step show ?case by (simp add: all_batches_step)
qed simp

text \<open>The first page that is not full, if there is one.\<close>

definition full_page :: "dict list result \<Rightarrow> bool" where
  "full_page r \<longleftrightarrow> (case r of Inr items \<Rightarrow> 100 \<le> length items | Inl _ \<Rightarrow> False)"

definition page_items :: "dict list result \<Rightarrow> dict list" where
  "page_items r = (case r of Inr items \<Rightarrow> items | Inl _ \<Rightarrow> [])"

lemma all_batches_end:
  assumes "\<forall>p \<in> set [1..<n]. full_page (fetch p)" and "1 \<le> n" and "\<not> full_page (fetch n)"
  shows "all_batches fetch 1 [] = Some (bindr (fetch n) (\<lambda>items. Inr (concat (map (page_items \<circ> fetch) [1..<n]) @ items)))"
proof -
  have "\<forall>p \<in> set [1..<n]. \<exists>items. fetch p = Inr items \<and> 100 \<le> length items"
  proof
    fix p
    assume "p \<in> set [1..<n]"
    with assms(1) have "full_page (fetch p)" by blast
    then show "\<exists>items. fetch p = Inr items \<and> 100 \<le> length items" by (cases "fetch p") (auto simp: full_page_def)
  qed
  from all_batches_full [OF this assms(2)]
  have "all_batches fetch 1 [] = all_batches fetch n (concat (map (page_items \<circ> fetch) [1..<n]))"
    by (simp add: page_items_def comp_def)
  also have "\<dots> = Some (bindr (fetch n) (\<lambda>items. Inr (concat (map (page_items \<circ> fetch) [1..<n]) @ items)))"
    using assms(3) by (subst all_batches.simps) (auto simp: full_page_def split: sum.splits)
  finally show ?thesis .
qed

text \<open>
  The listing of a pull request's commits returns as soon as GitHub answers some page with
  fewer than 100 entries or an error: with the entries of all pages up to there, in order, or with
  that error.
\<close>

theorem commit_listing_complete:
  assumes "\<not> full_page (batch pv inst (pull_path owner name number ''commits'') m)" and "1 \<le> m"
  shows "\<exists>n \<ge> 1. n \<le> m \<and>
    list_pull_request_commits pv inst owner name number =
      Some (bindr (batch pv inst (pull_path owner name number ''commits'') n) (\<lambda>items.
        Inr (concat (map (page_items \<circ> batch pv inst (pull_path owner name number ''commits'')) [1..<n]) @ items)))"
proof -
  let ?f = "batch pv inst (pull_path owner name number ''commits'')"
  let ?P = "\<lambda>n. 1 \<le> n \<and> \<not> full_page (?f n)"
  define n where "n = (LEAST n. ?P n)"
  have m: "?P m" using assms by blast
  have n: "1 \<le> n \<and> \<not> full_page (?f n)" unfolding n_def by (rule LeastI [of ?P, OF m])
  have le: "n \<le> m" unfolding n_def by (rule Least_le [of ?P, OF m])
  have "full_page (?f p)" if "p \<in> set [1..<n]" for p
    using that not_less_Least [of p ?P] by (auto simp: n_def)
  with all_batches_end [of n ?f] n le show ?thesis unfolding list_pull_request_commits_def by blast
qed

section \<open>Secrets\<close>

lemma decrypt_encrypted:
  assumes "cipher_laws pv" and "encrypt_integration_secret pv s = Inr (enc, v)"
  shows "decrypt_integration_secret pv enc v = Inr s"
proof -
  from assms(2) obtain key where k: "key_for_version pv v = Inr key"
    "enc = pv_b64encode pv (pv_nonce pv s @ pv_aes_encrypt pv key (pv_nonce pv s) s)"
    by (auto simp: encrypt_integration_secret_def Let_def bindr_Inr)
  then have "length key = 32" by (auto simp: key_for_version_def Let_def split: if_splits option.splits)
  with assms(1) have "length (pv_nonce pv s) = GCM_IV_LENGTH_BYTES" "pv_aes_encrypt pv key (pv_nonce pv s) s \<noteq> []"
    "pv_aes_decrypt pv key (pv_nonce pv s) (pv_aes_encrypt pv key (pv_nonce pv s) s) = Some s"
    "\<And>bytes. pv_b64decode pv (pv_b64encode pv bytes) = Some bytes"
    unfolding cipher_laws_def by blast+
  with k show ?thesis by (simp add: decrypt_integration_secret_def)
qed

text \<open>
  C30: A credential the engine encrypts reads back under the key version it was stored with, and
  a stored text of at most the nonce's length, or under another key version, is refused.
\<close>

theorem secret_round_trip:
  assumes "cipher_laws pv" and "encrypt_integration_secret pv plaintext = Inr (ciphertext, version)"
  shows "decrypt_integration_secret pv ciphertext version = Inr plaintext \<and>
    (\<forall>other. other \<noteq> version \<longrightarrow> \<not> is_ok (decrypt_integration_secret pv ciphertext other)) \<and>
    (\<forall>short. length short \<le> GCM_IV_LENGTH_BYTES \<longrightarrow>
       \<not> is_ok (decrypt_integration_secret pv (pv_b64encode pv short) version))"
proof -
  have "version = 1"
    using assms(2) by (auto simp: encrypt_integration_secret_def Let_def bindr_Inr key_for_version_def split: if_splits)
  moreover have "pv_b64decode pv (pv_b64encode pv short) = Some short" for short
    using assms(1) unfolding cipher_laws_def by blast
  ultimately show ?thesis using decrypt_encrypted [OF assms]
    by (auto simp: decrypt_integration_secret_def Let_def key_for_version_def bindr_def split: sum.split)
qed

end
