(* ===== verification/Provider_Support.thy ===== *)
theory Provider_Support
  imports Provider_Facts
begin

text \<open>
  What the provider handlers share (\<^verbatim>\<open>app/jobs/handlers/provider_support.py\<close>): the contexts read from
  the integration tables, the refresh of a rotating Jira token under a row lock, and the
  translation of provider failures into job failures.
\<close>

section \<open>Contexts\<close>

record github_context =
  gc_id :: uuid
  gc_workspace_id :: uuid
  gc_installation_id :: int
  gc_status :: string

record repository_context =
  rc_id :: uuid
  rc_workspace_id :: uuid
  rc_integration_id :: uuid
  rc_installation_id :: int
  rc_owner_login :: string
  rc_name :: string
  rc_full_name :: string
  rc_default_branch :: string
  rc_archived :: bool
  rc_tracking_enabled :: bool
  rc_settings :: dict
  rc_integration_status :: string

text \<open>\<^verbatim>\<open>ORDER BY ACTIVE first, created_at DESC LIMIT 1\<close>.\<close>

definition load_github_integration ::
  "uuid \<Rightarrow> uuid option \<Rightarrow> ('d) metrics_db_scheme \<Rightarrow> github_context result" where
  "load_github_integration ws wanted db =
     (case sort_key (\<lambda>g. (if gi_status g = ''ACTIVE'' then 0 else 1 :: int, - gi_created_at g))
             (filter (\<lambda>g. gi_workspace_id g = ws \<and> (wanted = None \<or> wanted = Some (gi_id g))) (md_integrations db)) of
        [] \<Rightarrow> Inl (PermanentJobError ''GitHub integration not found in the job workspace'')
      | g # _ \<Rightarrow>
          if gi_status g \<noteq> ''ACTIVE'' then Inl (PermanentJobError (''GitHub integration is '' @ gi_status g))
          else Inr \<lparr>gc_id = gi_id g, gc_workspace_id = gi_workspace_id g, gc_installation_id = gi_installation_id g,
                    gc_status = gi_status g\<rparr>)"

definition load_github_repository :: "uuid \<Rightarrow> ('d) metrics_db_scheme \<Rightarrow> repository_context result" where
  "load_github_repository repo db =
     (case row_with re_id repo (md_repositories db) of
        None \<Rightarrow> Inl (PermanentJobError ''Repository not found'')
      | Some r \<Rightarrow>
          (case row_with gi_id (re_github_integration_id r) (md_integrations db) of
             None \<Rightarrow> Inl (PermanentJobError ''Repository not found'')
           | Some g \<Rightarrow>
               Inr \<lparr>rc_id = re_id r, rc_workspace_id = re_workspace_id r, rc_integration_id = gi_id g,
                    rc_installation_id = gi_installation_id g, rc_owner_login = re_owner_login r, rc_name = re_name r,
                    rc_full_name = re_full_name r, rc_default_branch = re_default_branch r, rc_archived = re_archived r,
                    rc_tracking_enabled = re_tracking_enabled r, rc_settings = as_dict (re_settings r),
                    rc_integration_status = gi_status g\<rparr>))"

text \<open>The Jira context is the row itself.\<close>

definition load_jira_integration :: "uuid \<Rightarrow> uuid option \<Rightarrow> ('d) events_db_scheme \<Rightarrow> jira_integration result" where
  "load_jira_integration i ws db =
     (case find (\<lambda>j. ji_id j = i \<and> (ws = None \<or> ws = Some (ji_workspace_id j))) (ev_jira_integrations db) of
        None \<Rightarrow> Inl (PermanentJobError ''Jira integration not found in the job workspace'')
      | Some j \<Rightarrow>
          if ji_status j \<noteq> ''ACTIVE'' then Inl (PermanentJobError (''Jira integration is '' @ ji_status j))
          else Inr j)"

section \<open>The access token\<close>

definition fresh_token :: "time \<Rightarrow> jira_integration \<Rightarrow> bool" where
  "fresh_token utcnow j \<longleftrightarrow> utcnow + 5 * minute < ji_access_token_expires_at j"

definition open_token :: "providers \<Rightarrow> jira_integration \<Rightarrow> string result" where
  "open_token pv j = decrypt_integration_secret pv (ji_access_token_enc j) (ji_encryption_key_version j)"

text \<open>The new credentials of a locked row.\<close>

definition refreshed_row :: "providers \<Rightarrow> time \<Rightarrow> time \<Rightarrow> jira_integration \<Rightarrow> (string \<times> jira_integration) result" where
  "refreshed_row pv utcnow now locked =
     bindr (decrypt_integration_secret pv (ji_refresh_token_enc locked) (ji_encryption_key_version locked)) (\<lambda>current.
     bindr (refresh_oauth_token pv current) (\<lambda>tokens.
     bindr (encrypt_integration_secret pv (ot_access_token tokens)) (\<lambda>(access_enc, key_version).
     bindr (encrypt_integration_secret pv (ot_refresh_token tokens)) (\<lambda>(refresh_enc, refresh_key_version).
     if refresh_key_version \<noteq> key_version
     then Inl (ProviderConfigurationError ''Jira tokens were encrypted with different key versions'' None)
     else Inr (ot_access_token tokens,
       locked\<lparr>ji_access_token_enc := access_enc, ji_refresh_token_enc := refresh_enc,
              ji_encryption_key_version := key_version,
              ji_access_token_expires_at := utcnow + second * ot_expires_in_seconds tokens,
              ji_scopes := (if ot_scopes tokens = [] then ji_scopes locked else ot_scopes tokens),
              ji_updated_at := now, ji_version := ji_version locked + 1\<rparr>)))))"

text \<open>
  The row is read again under \<^verbatim>\<open>FOR UPDATE\<close>; whatever raises rolls the transaction back.  The
  context returned is the row as written.
\<close>

definition get_valid_jira_access_token ::
  "providers \<Rightarrow> time \<Rightarrow> time \<Rightarrow> jira_integration \<Rightarrow> ('d) events_db_scheme \<Rightarrow>
     (string \<times> jira_integration \<times> ('d) events_db_scheme) result" where
  "get_valid_jira_access_token pv utcnow now integration db =
     (if fresh_token utcnow integration
      then bindr (open_token pv integration) (\<lambda>token. Inr (token, integration, db))
      else case find (\<lambda>j. ji_id j = ji_id integration \<and> ji_workspace_id j = ji_workspace_id integration)
                  (ev_jira_integrations db) of
             None \<Rightarrow> Inl (PermanentJobError ''Jira integration changed while refreshing its token'')
           | Some locked \<Rightarrow>
               if ji_status locked \<noteq> ''ACTIVE''
               then Inl (PermanentJobError ''Jira integration changed while refreshing its token'')
               else if fresh_token utcnow locked
               then bindr (open_token pv locked) (\<lambda>token. Inr (token, locked, db))
               else bindr (refreshed_row pv utcnow now locked) (\<lambda>(token, updated).
                 Inr (token, updated, db\<lparr>ev_jira_integrations :=
                   sql_update (\<lambda>j. ji_id j = ji_id integration \<and> ji_status j = ''ACTIVE'') (\<lambda>_. updated)
                     (ev_jira_integrations db)\<rparr>)))"

definition mark_jira_integration_error :: "time \<Rightarrow> uuid \<Rightarrow> ('d) events_db_scheme \<Rightarrow> ('d) events_db_scheme" where
  "mark_jira_integration_error now i db =
     db\<lparr>ev_jira_integrations :=
        sql_update (\<lambda>j. ji_id j = i \<and> ji_status j = ''ACTIVE'')
          (\<lambda>j. j\<lparr>ji_status := ''ERROR'', ji_updated_at := now, ji_version := ji_version j + 1\<rparr>)
          (ev_jira_integrations db)\<rparr>"

section \<open>Failures\<close>

fun provider_exception_as_job_error :: "exn \<Rightarrow> exn" where
  "provider_exception_as_job_error (ProviderPermanentError m r) = PermanentJobError m"
| "provider_exception_as_job_error (ProviderConfigurationError m r) = PermanentJobError m"
| "provider_exception_as_job_error e = e"

fun is_permanent :: "exn \<Rightarrow> bool" where
  "is_permanent (PermanentJobError m) = True"
| "is_permanent _ = False"

section \<open>Rotating tokens\<close>

lemma valid_token_cases:
  assumes "distinct (map ji_id (ev_jira_integrations db))"
    and "integration \<in> set (ev_jira_integrations db)" and "ji_status integration = ''ACTIVE''"
    and "get_valid_jira_access_token pv utcnow now integration db = Inr (token, updated, db')"
  obtains (kept) "fresh_token utcnow integration" "open_token pv integration = Inr token" "updated = integration" "db' = db"
    | (refreshed) "\<not> fresh_token utcnow integration" "refreshed_row pv utcnow now integration = Inr (token, updated)"
        "db' = db\<lparr>ev_jira_integrations := sql_update (\<lambda>j. ji_id j = ji_id integration \<and> ji_status j = ''ACTIVE'') (\<lambda>_. updated)
           (ev_jira_integrations db)\<rparr>"
        "ji_id updated = ji_id integration" "ji_workspace_id updated = ji_workspace_id integration"
        "ji_status updated = ''ACTIVE''" "updated \<in> set (ev_jira_integrations db')"
proof (cases "fresh_token utcnow integration")
  case True
  with assms(4) have "open_token pv integration = Inr token" "updated = integration" "db' = db"
    by (auto simp: get_valid_jira_access_token_def bindr_Inr)
  with True show ?thesis by (rule kept)
next
  case False
  let ?p = "\<lambda>j. ji_id j = ji_id integration \<and> ji_workspace_id j = ji_workspace_id integration"
  have inj: "inj_on ji_id (set (ev_jira_integrations db))" using assms(1) by (simp add: distinct_map)
  have "find ?p (ev_jira_integrations db) = Some integration"
  proof -
    obtain l where l: "find ?p (ev_jira_integrations db) = Some l"
      using assms(2) by (cases "find ?p (ev_jira_integrations db)") (auto simp: find_None_iff)
    then have "l \<in> set (ev_jira_integrations db)" "ji_id l = ji_id integration" by (auto simp: find_Some_iff)
    with inj assms(2) l show ?thesis by (metis inj_onD)
  qed
  with False assms(3,4) have r: "refreshed_row pv utcnow now integration = Inr (token, updated)"
    "db' = db\<lparr>ev_jira_integrations := sql_update (\<lambda>j. ji_id j = ji_id integration \<and> ji_status j = ''ACTIVE'') (\<lambda>_. updated)
       (ev_jira_integrations db)\<rparr>"
    by (auto simp: get_valid_jira_access_token_def bindr_Inr)
  then have "ji_id updated = ji_id integration" "ji_workspace_id updated = ji_workspace_id integration"
    "ji_status updated = ''ACTIVE''"
    using assms(3) by (auto simp: refreshed_row_def bindr_Inr split: prod.splits if_splits)
  moreover have "updated \<in> set (ev_jira_integrations db')"
    using assms(2,3) by (force simp: r(2) sql_update_def)
  ultimately show ?thesis using refreshed [OF False r] by blast
qed


end
