(* ===== verification/Paged_Handlers.thy ===== *)
theory Paged_Handlers
  imports Dispatcher
begin

text \<open>
  Handlers that leave the queue alone or end with \<^verbatim>\<open>requeue_with_payload\<close>, the continuation of a
  paged job: they meet the dispatcher's contract.
\<close>

lemma requeue_signal:
  assumes "requeue_with_payload now t i w p d b = (RequeueWithPayloadError, t')"
  shows "requeue_txn now t i w p d b = Inr ((), t')"
  using assms by (auto simp: requeue_with_payload_def requeue_txn_def not_owned_def Let_def split: sum.splits if_splits)

lemma requeued_job:
  assumes "queue_ok t" and "requeue_txn now t i w p d b = Inr ((), t')"
  obtains j where "job_row t' i = Some j" "pj_status j = PENDING" "pj_payload j = p"
    "pj_available_at j = now + interval_secs d"
proof -
  let ?f = "requeued_row now (now + interval_secs d) p b"
  from assms have o: "owns t i w" "t' = sql_update (owned_row i w) ?f t"
    by (simp_all add: requeue_txn_eq split: if_splits)
  from owned_update_row [of ?f, OF _ o(1)] obtain j where "job_row t' i = Some (?f j)"
    unfolding o(2) by (auto simp: requeued_row_def)
  with that show thesis by (simp add: requeued_row_def)
qed

text \<open>What a handler may do to the queue before it ends: add jobs and change waiting ones.\<close>

definition queue_extends :: "jobs \<Rightarrow> jobs \<Rightarrow> bool" where
  "queue_extends t t' \<longleftrightarrow> (queue_ok t \<longrightarrow> queue_ok t' \<and>
     (\<forall>i j. job_row t i = Some j \<longrightarrow> pj_status j = RUNNING \<longrightarrow> job_row t' i = Some j))"

lemma queue_extends_refl [simp]: "queue_extends t t"
  by (simp add: queue_extends_def)

lemma queue_extends_trans: "queue_extends t u \<Longrightarrow> queue_extends u v \<Longrightarrow> queue_extends t v"
  by (simp add: queue_extends_def)

locale paged_handler =
  fixes handle :: "'d handler"
  assumes queue_step: "handle db c w = (r, db') \<Longrightarrow> \<exists>t. queue_extends (ed_jobs db) t \<and>
    (ed_jobs db' = t \<and> r \<noteq> Some RequeueWithPayloadError \<or>
     (\<exists>now p d b. requeue_with_payload now t (cj_id c) w p d b = (the r, ed_jobs db') \<and> r \<noteq> None))"
begin

lemma queue_step_cases:
  assumes "handle db c w = (r, db')"
  obtains (quiet) "queue_extends (ed_jobs db) (ed_jobs db')" "r \<noteq> Some RequeueWithPayloadError"
    | (requeued) t now p d b where "queue_extends (ed_jobs db) t"
        "requeue_txn now t (cj_id c) w p d b = Inr ((), ed_jobs db')" "r = Some RequeueWithPayloadError"
proof -
  from queue_step [OF assms] obtain t where t: "queue_extends (ed_jobs db) t"
    "ed_jobs db' = t \<and> r \<noteq> Some RequeueWithPayloadError \<or>
     (\<exists>now p d b. requeue_with_payload now t (cj_id c) w p d b = (the r, ed_jobs db') \<and> r \<noteq> None)"
    by blast
  from t(2) show thesis
  proof (elim disjE exE conjE)
    assume "ed_jobs db' = t" "r \<noteq> Some RequeueWithPayloadError"
    with quiet t(1) show ?thesis by blast
  next
    fix now p d b
    assume r: "requeue_with_payload now t (cj_id c) w p d b = (the r, ed_jobs db')" "r \<noteq> None"
    show ?thesis
    proof (cases "requeue_txn now t (cj_id c) w p d b")
      case (Inl e)
      then have "e = not_owned" by (simp add: requeue_txn_def split: if_splits)
      with r Inl quiet t(1) show ?thesis by (auto simp: requeue_with_payload_def not_owned_def)
    next
      case (Inr x)
      with r requeued [of t now p d b] t(1) show ?thesis by (auto simp: requeue_with_payload_def split: prod.splits)
    qed
  qed
qed

end

sublocale paged_handler \<subseteq> paging: job_handler handle
proof (unfold_locales, goal_cases)
  case (1 db c w r db')
  from 1(2) show ?case
  proof (cases rule: queue_step_cases)
    case quiet
    with 1(1) show ?thesis by (simp add: queue_extends_def)
  next
    case (requeued t now p d b)
    with 1(1) have "queue_ok t" by (simp add: queue_extends_def)
    from requeue.fin_ok [OF this requeued(2)] show ?thesis .
  qed
next
  case (2 db c w db')
  from 2(2) show ?case
  proof (cases rule: queue_step_cases)
    case (requeued t now p d b)
    from requeued_job [OF _ requeued(2)] requeued(1) 2(1) show ?thesis by (auto simp: queue_extends_def)
  qed simp
next
  case (3 db c w r db')
  from 3(2) show ?case
    by (cases rule: queue_step_cases) (use 3(1,3,4) in \<open>auto simp: queue_extends_def owns_def owned_row_def\<close>)
qed

text \<open>A handler that may not return does nothing when it does not.\<close>

abbreviation returned :: "('d \<Rightarrow> claimed_job \<Rightarrow> string \<Rightarrow> (exn option \<times> 'd) option) \<Rightarrow> 'd \<Rightarrow> claimed_job \<Rightarrow> string \<Rightarrow> exn option \<times> 'd" where
  "returned h db c w \<equiv> (case h db c w of None \<Rightarrow> (None, db) | Some r \<Rightarrow> r)"

end
