(* ===== verification/Handler_Contracts.thy ===== *)
theory Handler_Contracts
  imports Provider_Support Paged_Handlers
begin

text \<open>
  What the provider handlers share besides their tables: the environment of a job, and the proof
  that what they compute never raises the requeue signal by itself, which the dispatcher would take
  for a continuation.
\<close>

section \<open>State of a job\<close>

record job_env =
  je_service :: service_env
  je_providers :: providers

abbreviation je_lib :: "job_env \<Rightarrow> py_lib" where "je_lib env \<equiv> se_lib (je_service env)"
abbreviation je_now :: "job_env \<Rightarrow> time" where "je_now env \<equiv> se_now (je_service env)"
abbreviation je_utcnow :: "job_env \<Rightarrow> time" where "je_utcnow env \<equiv> se_utcnow (je_service env)"

section \<open>Quiet results\<close>

text \<open>Nothing a provider handler computes raises the requeue signal by itself.\<close>

definition quiet :: "'a result \<Rightarrow> bool" where
  "quiet r \<longleftrightarrow> r \<noteq> Inl RequeueWithPayloadError"

lemma quiet_simps [simp]: "quiet (Inr x)" "quiet (Inl e) \<longleftrightarrow> e \<noteq> RequeueWithPayloadError"
  by (simp_all add: quiet_def)

lemma quiet_bindr [intro]: "quiet r \<Longrightarrow> (\<And>x. r = Inr x \<Longrightarrow> quiet (f x)) \<Longrightarrow> quiet (bindr r f)"
  by (cases r) simp_all

lemma quiet_map_sum [simp]: "quiet (map_sum id f r) = quiet r"
  by (cases r) simp_all

lemma map_sum_Inr [simp]: "map_sum f id r = Inr y \<longleftrightarrow> r = Inr y"
  by (cases r) simp_all

lemma quiet_converted: "quiet r \<Longrightarrow> quiet (map_sum provider_exception_as_job_error id r)"
proof (cases r)
  case (Inl e)
  then show "quiet r \<Longrightarrow> quiet (map_sum provider_exception_as_job_error id r)" by (cases e) simp_all
qed simp

lemma provider_error_quiet [simp]: "provider_error m r \<noteq> RequeueWithPayloadError"
  by (simp add: provider_error_def)

lemma status_errors_quiet:
  "github_status_error pv r = Some e \<Longrightarrow> e \<noteq> RequeueWithPayloadError"
  "jira_status_error pv r = Some e \<Longrightarrow> e \<noteq> RequeueWithPayloadError"
  by (auto simp: github_status_error_def jira_status_error_def Let_def split: if_splits)

lemma answered_quiet: "(\<And>r e. st r = Some e \<Longrightarrow> e \<noteq> RequeueWithPayloadError) \<Longrightarrow> quiet (answered st m a)"
  by (auto simp: answered_def split: sum.split option.split)

lemma text_param_quiet: "quiet (text_param v)"
  by (cases v) simp_all

lemma int_of_json_quiet: "quiet (int_of_json v)"
  by (cases v) (simp_all split: option.split)

lemma readers_quiet: "quiet (parse_uuid v f)" "quiet (bounded_int k v f)" "quiet (sync_started_at lib now v)"
  by (auto simp: parse_uuid_def bounded_int_def sync_started_at_def Let_def split: option.split json.split)

lemma generate_app_jwt_quiet: "quiet (generate_app_jwt pv)"
  by (auto simp: generate_app_jwt_def Let_def split: option.split)

lemma github_request_quiet: "quiet (github_request pv inst path params)"
proof -
  have "quiet (installation_access_token pv inst)"
    unfolding installation_access_token_def
    by (intro quiet_bindr generate_app_jwt_quiet answered_quiet)
       (auto dest: status_errors_quiet split: option.split)
  then show ?thesis unfolding github_request_def
    by (intro quiet_bindr answered_quiet) (auto dest: status_errors_quiet split: json.split)
qed

lemma mapping_list_quiet: "quiet (mapping_list body key)"
  by (auto simp: mapping_list_def split: json.split)

lemmas page_quiet = github_request_quiet mapping_list_quiet int_of_json_quiet

lemma counted_page_quiet: "quiet (counted_page pv inst path key params page n)"
  unfolding counted_page_def by (intro quiet_bindr page_quiet) simp

lemma load_quiet: "quiet (load_github_integration ws i db)" "quiet (load_github_repository repo db)"
  "quiet (load_jira_integration j wso edb)"
  by (auto simp: load_github_integration_def load_github_repository_def load_jira_integration_def
      split: list.split option.split)

end
