(* ===== verification/Github_Sync.thy ===== *)
theory Github_Sync
  imports Handler_Contracts
begin

text \<open>
  The synchronisation of an installation's repository catalogue
  (\<^verbatim>\<open>app/jobs/handlers/sync_github_repositories.py\<close>): one page per run, the cursor kept in the job's
  payload, and after the last page the repositories GitHub no longer lists are untracked.
\<close>

section \<open>The catalogue upsert\<close>

definition DEFAULT_REPOSITORY_SETTINGS :: json where
  "DEFAULT_REPOSITORY_SETTINGS = JObj
     [(''deploymentSignal'', JStr ''WORKFLOW_RUN''), (''productionBranchPatterns'', JList []),
      (''productionEnvironmentPatterns'', JList []), (''deploymentWorkflowNamePatterns'', JList []),
      (''incidentSource'', JStr ''GITHUB''), (''doraExclusions'', JList []), (''backfillDays'', JInt 90)]"

text \<open>The owner: the login of the owner object, else what precedes the slash of the full name.\<close>

definition owner_login_of :: "dict \<Rightarrow> string option" where
  "owner_login_of repository =
     (case as_text (dict_get (as_dict (dict_get repository ''owner'')) ''login'') of
        Some s \<Rightarrow> Some s
      | None \<Rightarrow>
          (case as_text (dict_get repository ''full_name'') of
             Some f \<Rightarrow> if CHR ''/'' \<in> set f then Some (takeWhile (\<lambda>c. c \<noteq> CHR ''/'') f) else None
           | None \<Rightarrow> None))"

definition visibility_of :: "py_lib \<Rightarrow> dict \<Rightarrow> string" where
  "visibility_of lib repository =
     (let v = py_upper (py_text lib (py_or (dict_get repository ''visibility'') (JStr []))) in
      if v \<in> {''PUBLIC'', ''PRIVATE'', ''INTERNAL''} then v
      else if truthy (dict_get repository ''private'') then ''PRIVATE'' else ''PUBLIC'')"

definition nonempty :: "string option \<Rightarrow> string option" where
  "nonempty t = (if t = Some [] then None else t)"

definition repository_row ::
  "py_lib \<Rightarrow> time \<Rightarrow> uuid \<Rightarrow> uuid \<Rightarrow> uuid \<Rightarrow> time \<Rightarrow> dict \<Rightarrow> repository result" where
  "repository_row lib now new_id ws integration sync_started d =
     (case (as_int (dict_get d ''id''), nonempty (owner_login_of d), nonempty_text (dict_get d ''name''),
            nonempty_text (dict_get d ''full_name'')) of
        (Some i, Some owner, Some name, Some full) \<Rightarrow>
          bindr (text_param (dict_get d ''node_id'')) (\<lambda>node.
          bindr (text_param (py_or (dict_get d ''default_branch'') (JStr ''main''))) (\<lambda>branch.
          Inr \<lparr>re_id = new_id, re_workspace_id = ws, re_github_integration_id = integration, re_github_repo_id = i,
               re_github_node_id = node, re_owner_login = owner, re_name = name, re_full_name = full,
               re_default_branch = (case branch of None \<Rightarrow> [] | Some b \<Rightarrow> b), re_visibility = visibility_of lib d,
               re_archived = truthy (dict_get_or d ''archived'' (JBool False)), re_tracking_enabled = False,
               re_settings = DEFAULT_REPOSITORY_SETTINGS, re_last_synced_at = Some sync_started,
               re_updated_at = now, re_version = 0\<rparr>))
      | _ \<Rightarrow> Inl (PermanentJobError ''GitHub returned an invalid repository record''))"

definition repository_key :: "repository \<Rightarrow> uuid \<times> int" where
  "repository_key r = (re_workspace_id r, re_github_repo_id r)"

definition merge_repository :: "repository \<Rightarrow> repository \<Rightarrow> repository" where
  "merge_repository old new =
     new\<lparr>re_id := re_id old, re_workspace_id := re_workspace_id old, re_github_repo_id := re_github_repo_id old,
         re_tracking_enabled := (if re_archived new then False else re_tracking_enabled old),
         re_settings := re_settings old, re_version := re_version old + 1\<rparr>"

definition put_repository :: "repository \<Rightarrow> repository list \<Rightarrow> repository list" where
  "put_repository = sql_upsert repository_key (\<lambda>_ _. True) merge_repository"

definition upsert_repository ::
  "py_lib \<Rightarrow> time \<Rightarrow> uuid \<Rightarrow> uuid \<Rightarrow> time \<Rightarrow> dict \<Rightarrow> repository list \<Rightarrow> repository list result" where
  "upsert_repository lib now ws integration sync_started d t =
     bindr (repository_row lib now (gen_random_uuid lib (map re_id t)) ws integration sync_started d)
       (\<lambda>row. Inr (put_repository row t))"

fun upsert_repositories ::
  "py_lib \<Rightarrow> time \<Rightarrow> uuid \<Rightarrow> uuid \<Rightarrow> time \<Rightarrow> dict list \<Rightarrow> repository list \<Rightarrow> repository list result" where
  "upsert_repositories lib now ws integration sync_started [] t = Inr t"
| "upsert_repositories lib now ws integration sync_started (d # ds) t =
     bindr (upsert_repository lib now ws integration sync_started d t)
       (upsert_repositories lib now ws integration sync_started ds)"

section \<open>One page\<close>

definition unlisted :: "uuid \<Rightarrow> time \<Rightarrow> repository \<Rightarrow> bool" where
  "unlisted integration sync_started r \<longleftrightarrow> re_github_integration_id r = integration \<and>
     (case re_last_synced_at r of None \<Rightarrow> True | Some t \<Rightarrow> t < sync_started)"

definition untrack :: "time \<Rightarrow> repository \<Rightarrow> repository" where
  "untrack now r = r\<lparr>re_tracking_enabled := False, re_updated_at := now, re_version := re_version r + 1\<rparr>"

definition sync_page ::
  "py_lib \<Rightarrow> time \<Rightarrow> uuid \<Rightarrow> uuid \<Rightarrow> time \<Rightarrow> page \<Rightarrow> ('d) metrics_db_scheme \<Rightarrow> ('d) metrics_db_scheme result" where
  "sync_page lib now ws integration sync_started p db =
     bindr (upsert_repositories lib now ws integration sync_started (fst p) (md_repositories db)) (\<lambda>t.
       Inr (if snd p = None
            then db\<lparr>md_repositories := sql_update (unlisted integration sync_started) (untrack now) t,
                    md_integrations := sql_update (\<lambda>g. gi_id g = integration \<and> gi_status g = ''ACTIVE'')
                      (\<lambda>g. g\<lparr>gi_last_synced_at := Some sync_started, gi_updated_at := now, gi_version := gi_version g + 1\<rparr>)
                      (md_integrations db)\<rparr>
            else db\<lparr>md_repositories := t\<rparr>))"

text \<open>The arguments of a run: workspace, integration, page and the start of the whole synchronisation.\<close>

definition sync_arguments :: "py_lib \<Rightarrow> time \<Rightarrow> dict \<Rightarrow> (uuid \<times> uuid option \<times> int \<times> time) result" where
  "sync_arguments lib utcnow payload =
     bindr (parse_uuid (dict_get payload ''workspaceId'') ''workspaceId'') (\<lambda>ws.
     bindr (if truthy (dict_get payload ''githubIntegrationId'')
            then map_sum id Some (parse_uuid (dict_get payload ''githubIntegrationId'') ''githubIntegrationId'')
            else Inr None) (\<lambda>integration.
     bindr (bounded_int 1 (dict_get_or payload ''cursor'' (JInt 1)) ''cursor'') (\<lambda>page.
     bindr (sync_started_at lib utcnow (dict_get payload ''syncStartedAt'')) (\<lambda>started.
     Inr (ws, integration, page, started)))))"

definition continuation :: "py_lib \<Rightarrow> dict \<Rightarrow> uuid \<Rightarrow> int \<Rightarrow> time \<Rightarrow> dict" where
  "continuation lib payload integration next started =
     dict_put (dict_put (dict_put payload ''githubIntegrationId'' (JStr (uuid_str integration)))
       ''cursor'' (JInt next)) ''syncStartedAt'' (JStr (isoformat lib started))"

text \<open>What runs before the requeue: the arguments, the page and the database it leaves.\<close>

definition sync_run ::
  "job_env \<Rightarrow> dict \<Rightarrow> ('d) metrics_db_scheme \<Rightarrow> (uuid \<times> time \<times> page \<times> ('d) metrics_db_scheme) result" where
  "sync_run env payload db =
     bindr (sync_arguments (je_lib env) (je_utcnow env) payload) (\<lambda>(ws, wanted, page, started).
     bindr (load_github_integration ws wanted db) (\<lambda>gc.
     bindr (map_sum provider_exception_as_job_error id
              (list_installation_repositories (je_providers env) (gc_installation_id gc) page)) (\<lambda>p.
     bindr (sync_page (je_lib env) (je_now env) ws (gc_id gc) started p db) (\<lambda>db'.
     Inr (gc_id gc, started, p, db')))))"

definition handle_sync_github_repositories ::
  "job_env \<Rightarrow> ('d) metrics_db_scheme \<Rightarrow> claimed_job \<Rightarrow> string \<Rightarrow> exn option \<times> ('d) metrics_db_scheme" where
  "handle_sync_github_repositories env db job w =
     (case sync_run env (cj_payload job) db of
        Inl e \<Rightarrow> (Some e, db)
      | Inr (integration, started, p, db') \<Rightarrow>
          (case snd p of
             None \<Rightarrow> (None, db')
           | Some next \<Rightarrow>
               (case requeue_with_payload (je_now env) (ed_jobs db') (cj_id job) w
                       (continuation (je_lib env) (cj_payload job) integration next started) 0 False of
                  (e, t) \<Rightarrow> (Some e, db'\<lparr>ed_jobs := t\<rparr>))))"

section \<open>The contract\<close>

lemma upsert_repositories_quiet: "quiet (upsert_repositories lib now ws i s ds t)"
proof (induction ds arbitrary: t)
  case (Cons d ds)
  have "quiet (upsert_repository lib now ws i s d t)"
    by (auto simp: upsert_repository_def repository_row_def intro!: quiet_bindr text_param_quiet split: option.split)
  with Cons show ?case by (simp add: quiet_bindr)
qed simp

lemma sync_run_quiet: "quiet (sync_run env payload db)"
proof -
  have a: "quiet (sync_arguments lib now payload)" for lib now
    unfolding sync_arguments_def by (intro quiet_bindr) (auto simp: readers_quiet)
  have l: "quiet (list_installation_repositories pv i p)" for pv i p
    unfolding list_installation_repositories_def by (intro quiet_bindr counted_page_quiet) simp
  have p: "quiet (sync_page lib now ws i s pg db)" for lib now ws i s pg
    unfolding sync_page_def by (intro quiet_bindr upsert_repositories_quiet) simp
  show ?thesis unfolding sync_run_def
    by (intro quiet_bindr a) (auto intro!: quiet_bindr load_quiet quiet_converted l p split: prod.split)
qed

lemma sync_page_jobs: "sync_page lib now ws i s p db = Inr db' \<Longrightarrow> ed_jobs db' = ed_jobs db"
  by (auto simp: sync_page_def bindr_Inr split: if_splits)

lemma sync_run_jobs: "sync_run env payload db = Inr (i, s, p, db') \<Longrightarrow> ed_jobs db' = ed_jobs db"
  by (auto simp: sync_run_def bindr_Inr dest: sync_page_jobs)

interpretation github_sync: paged_handler "handle_sync_github_repositories env" for env
proof (unfold_locales, goal_cases)
  case (1 db c w r db')
  show ?case
  proof (cases "sync_run env (cj_payload c) db")
    case (Inl e)
    with 1 sync_run_quiet [of env "cj_payload c" db] show ?thesis
      by (intro exI [of _ "ed_jobs db"]) (auto simp: handle_sync_github_repositories_def quiet_def)
  next
    case (Inr x)
    obtain i s p db1 where x: "x = (i, s, p, db1)" by (cases x)
    note j = sync_run_jobs [OF Inr [unfolded x]]
    show ?thesis
    proof (cases "snd p")
      case None
      with 1 Inr x j show ?thesis
        by (intro exI [of _ "ed_jobs db"]) (simp add: handle_sync_github_repositories_def)
    next
      case (Some n)
      obtain e t where "requeue_with_payload (je_now env) (ed_jobs db1) (cj_id c) w
          (continuation (je_lib env) (cj_payload c) i n s) 0 False = (e, t)" by fastforce
      with 1 Inr x j Some have "requeue_with_payload (je_now env) (ed_jobs db) (cj_id c) w
          (continuation (je_lib env) (cj_payload c) i n s) 0 False = (the r, ed_jobs db') \<and> r \<noteq> None"
        by (auto simp: handle_sync_github_repositories_def)
      with queue_extends_refl [of "ed_jobs db"] show ?thesis by blast
    qed
  qed
qed

end
