(* ===== verification/Issues.thy ===== *)
theory Issues
  imports Event_Tables
begin

text \<open>
  Issue normalization (\<^verbatim>\<open>app/normalization/github_issues.py\<close> and \<^verbatim>\<open>jira_issues.py\<close>): the reading of
  a provider's issue, with every refusal, and the guarded upsert.
\<close>

section \<open>GitHub issues\<close>

definition invalid_field :: "string \<Rightarrow> 'a result" where
  "invalid_field field = Inl (PermanentJobError (''GitHub returned an invalid '' @ field))"

definition non_negative_int :: "json \<Rightarrow> string \<Rightarrow> int result" where
  "non_negative_int value field =
     (case int_of_str_of value of
        None \<Rightarrow> invalid_field field
      | Some k \<Rightarrow> if k < 0 then invalid_field field else Inr k)"

definition positive_int :: "json \<Rightarrow> string \<Rightarrow> int result" where
  "positive_int value field = bindr (non_negative_int value field) (\<lambda>k. if k = 0 then invalid_field field else Inr k)"

definition login_of :: "json \<Rightarrow> string option" where
  "login_of value = (case value of JObj d \<Rightarrow> nonempty_text (dict_get d ''login'') | _ \<Rightarrow> None)"

definition label_name :: "json \<Rightarrow> string option" where
  "label_name value =
     (case value of JStr s \<Rightarrow> nonempty_text value | JObj d \<Rightarrow> nonempty_text (dict_get d ''name'') | _ \<Rightarrow> None)"

definition collected :: "(json \<Rightarrow> string option) \<Rightarrow> json \<Rightarrow> string list" where
  "collected f value = (case value of JList vs \<Rightarrow> List.map_filter f vs | _ \<Rightarrow> [])"

text \<open>The row of an issue payload that is no pull request.\<close>

definition github_issue_row ::
  "py_lib \<Rightarrow> time \<Rightarrow> time \<Rightarrow> uuid \<Rightarrow> uuid \<Rightarrow> uuid \<Rightarrow> dict \<Rightarrow> time option \<Rightarrow> github_issue result" where
  "github_issue_row lib utcnow now new_id ws repo issue observed =
     (let get = dict_get issue; state = py_upper (py_text lib (dict_get_or issue ''state'' (JStr []))) in
      bindr (positive_int (get ''id'') ''issue id'') (\<lambda>provider_id.
      bindr (positive_int (get ''number'') ''issue number'') (\<lambda>number.
      case nonempty_text (get ''title'') of
        None \<Rightarrow> Inl (PermanentJobError ''GitHub returned an invalid issue record'')
      | Some title \<Rightarrow>
          if state \<notin> {''OPEN'', ''CLOSED''} then Inl (PermanentJobError ''GitHub returned an invalid issue record'')
          else (case aware_timestamp lib (get ''created_at'') of
                  None \<Rightarrow> Inl (PermanentJobError ''GitHub returned an issue without created_at'')
                | Some created \<Rightarrow>
                    bindr (non_negative_int (dict_get_or issue ''comments'' (JInt 0)) ''comments'') (\<lambda>comments.
                    Inr \<lparr>gs_id = new_id, gs_workspace_id = ws, gs_repository_id = repo, gs_github_issue_id = provider_id,
                         gs_github_node_id = nonempty_text (get ''node_id''), gs_number = number, gs_title = title,
                         gs_state = state, gs_author_login = login_of (get ''user''),
                         gs_assignee_logins = collected login_of (get ''assignees''),
                         gs_labels = collected label_name (get ''labels''), gs_comments_count = comments,
                         gs_github_created_at = created,
                         gs_github_updated_at = aware_timestamp lib (get ''updated_at''),
                         gs_closed_at = aware_timestamp lib (get ''closed_at''),
                         gs_last_synced_at = (case observed of None \<Rightarrow> utcnow | Some t \<Rightarrow> t),
                         gs_raw_data = JObj issue, gs_updated_at = now, gs_version = 0\<rparr>)))))"

definition github_issue_key :: "github_issue \<Rightarrow> uuid \<times> int" where
  "github_issue_key s = (gs_repository_id s, gs_github_issue_id s)"

definition issue_not_older :: "github_issue \<Rightarrow> github_issue \<Rightarrow> bool" where
  "issue_not_older old new \<longleftrightarrow>
     (case (gs_github_updated_at old, gs_github_updated_at new) of (Some t, Some u) \<Rightarrow> t \<le> u | _ \<Rightarrow> True)"

definition merge_github_issue :: "github_issue \<Rightarrow> github_issue \<Rightarrow> github_issue" where
  "merge_github_issue old new =
     new\<lparr>gs_id := gs_id old, gs_workspace_id := gs_workspace_id old, gs_repository_id := gs_repository_id old,
         gs_github_issue_id := gs_github_issue_id old, gs_version := gs_version old + 1\<rparr>"

definition put_github_issue :: "github_issue \<Rightarrow> github_issue list \<Rightarrow> github_issue list" where
  "put_github_issue = sql_upsert github_issue_key issue_not_older merge_github_issue"

text \<open>The id \<^verbatim>\<open>RETURNING\<close> gives: none when the guard refuses the delivery.\<close>

definition returned_issue :: "github_issue \<Rightarrow> github_issue list \<Rightarrow> uuid option" where
  "returned_issue row t =
     (case row_with github_issue_key (github_issue_key row) t of
        None \<Rightarrow> Some (gs_id row)
      | Some old \<Rightarrow> if issue_not_older old row then Some (gs_id old) else None)"

definition upsert_github_issue ::
  "py_lib \<Rightarrow> time \<Rightarrow> time \<Rightarrow> uuid \<Rightarrow> uuid \<Rightarrow> dict \<Rightarrow> time option \<Rightarrow> ('d) events_db_scheme \<Rightarrow>
     (uuid option \<times> ('d) events_db_scheme) result" where
  "upsert_github_issue lib utcnow now ws repo issue observed db =
     (case dict_get issue ''pull_request'' of
        JObj _ \<Rightarrow> Inr (None, db)
      | _ \<Rightarrow>
          bindr (github_issue_row lib utcnow now (gen_random_uuid lib (map gs_id (ev_github_issues db))) ws repo issue observed)
            (\<lambda>row. Inr (returned_issue row (ev_github_issues db),
                        db\<lparr>ev_github_issues := put_github_issue row (ev_github_issues db)\<rparr>)))"

section \<open>Jira issues\<close>

text \<open>\<^verbatim>\<open>strptime\<close> and \<^verbatim>\<open>replace\<close> raise on what is no text.\<close>

definition parse_jira_timestamp :: "py_lib \<Rightarrow> json \<Rightarrow> time option result" where
  "parse_jira_timestamp lib ts =
     (if \<not> truthy ts then Inr None
      else case ts of
             JStr s \<Rightarrow>
               Inr (case strptime lib s of
                      Some t \<Rightarrow> Some t
                    | None \<Rightarrow> fromisoformat lib (py_replace ''Z'' ''+00:00'' s))
           | _ \<Rightarrow> Inl (OtherError ''strptime() argument 1 must be str''))"

definition nested_name :: "json \<Rightarrow> string option" where
  "nested_name value = (case value of JObj d \<Rightarrow> nonempty_text (dict_get d ''name'') | _ \<Rightarrow> None)"

text \<open>\<open>None\<close>: the payload names no issue and is skipped.\<close>

definition jira_issue_row ::
  "py_lib \<Rightarrow> time \<Rightarrow> uuid \<Rightarrow> uuid \<Rightarrow> uuid \<Rightarrow> dict \<Rightarrow> jira_issue option result" where
  "jira_issue_row lib now new_id ws project issue =
     (let raw_id = dict_get issue ''id''; issue_id = py_text lib raw_id; key = dict_get issue ''key'';
          fields = as_dict (dict_get issue ''fields''); ts = (\<lambda>k. parse_jira_timestamp lib (dict_get fields k))
      in if raw_id = JNull \<or> py_strip issue_id = [] \<or> \<not> truthy key then Inr None
         else bindr (ts ''created'') (\<lambda>created.
              bindr (ts ''updated'') (\<lambda>updated.
              bindr (ts ''resolutiondate'') (\<lambda>resolved.
              bindr (text_param key) (\<lambda>issue_key.
              bindr (text_param (dict_get_or fields ''summary'' (JStr []))) (\<lambda>summary.
              Inr (Some \<lparr>js_id = new_id, js_workspace_id = ws, js_jira_project_id = project, js_jira_issue_id = issue_id,
                    js_issue_key = (case issue_key of None \<Rightarrow> [] | Some s \<Rightarrow> s),
                    js_issue_type = nested_name (dict_get fields ''issuetype''),
                    js_status_name = nested_name (dict_get fields ''status''),
                    js_priority_name = nested_name (dict_get fields ''priority''), js_summary = summary,
                    js_is_incident = False, js_jira_created_at = created, js_jira_updated_at = updated,
                    js_resolved_at = resolved, js_raw_data = JObj issue, js_created_at = now, js_updated_at = now,
                    js_version = 1\<rparr>)))))))"

definition jira_issue_key :: "jira_issue \<Rightarrow> uuid \<times> string" where
  "jira_issue_key s = (js_jira_project_id s, js_jira_issue_id s)"

definition jira_not_older :: "jira_issue \<Rightarrow> jira_issue \<Rightarrow> bool" where
  "jira_not_older old new \<longleftrightarrow>
     (case js_jira_updated_at old of
        None \<Rightarrow> True
      | Some t \<Rightarrow> (case js_jira_updated_at new of None \<Rightarrow> False | Some u \<Rightarrow> t \<le> u))"

definition merge_jira_issue :: "jira_issue \<Rightarrow> jira_issue \<Rightarrow> jira_issue" where
  "merge_jira_issue old new =
     new\<lparr>js_id := js_id old, js_workspace_id := js_workspace_id old, js_jira_project_id := js_jira_project_id old,
         js_jira_issue_id := js_jira_issue_id old, js_is_incident := js_is_incident old,
         js_jira_created_at := coalesce (js_jira_created_at new) (js_jira_created_at old),
         js_created_at := js_created_at old, js_version := js_version old + 1\<rparr>"

definition put_jira_issue :: "jira_issue \<Rightarrow> jira_issue list \<Rightarrow> jira_issue list" where
  "put_jira_issue = sql_upsert jira_issue_key jira_not_older merge_jira_issue"

definition upsert_jira_issue ::
  "py_lib \<Rightarrow> time \<Rightarrow> uuid \<Rightarrow> uuid \<Rightarrow> dict \<Rightarrow> ('d) events_db_scheme \<Rightarrow> ('d) events_db_scheme result" where
  "upsert_jira_issue lib now ws project issue db =
     bindr (jira_issue_row lib now (gen_random_uuid lib (map js_id (ev_jira_issues db))) ws project issue) (\<lambda>row.
       Inr (case row of
              None \<Rightarrow> db
            | Some r \<Rightarrow> db\<lparr>ev_jira_issues := put_jira_issue r (ev_jira_issues db)\<rparr>))"

section \<open>Convergence\<close>

text \<open>What a delivery says of an issue.\<close>

definition github_issue_content ::
  "github_issue \<Rightarrow> int \<times> string \<times> string \<times> string option \<times> string list \<times> string list \<times> int \<times> time option \<times> json \<times> time option" where
  "github_issue_content s = (gs_number s, gs_title s, gs_state s, gs_author_login s, gs_assignee_logins s, gs_labels s,
     gs_comments_count s, gs_closed_at s, gs_raw_data s, gs_github_updated_at s)"

definition jira_issue_content ::
  "jira_issue \<Rightarrow> string \<times> string option \<times> string option \<times> string option \<times> string option \<times> time option \<times> json \<times> time option" where
  "jira_issue_content s = (js_issue_key s, js_issue_type s, js_status_name s, js_priority_name s, js_summary s,
     js_resolved_at s, js_raw_data s, js_jira_updated_at s)"

interpretation github_issue_upsert: timed_upsert github_issue_key issue_not_older merge_github_issue github_issue_content
    "\<lambda>(_, _, _, _, _, _, _, _, _, u). u"
  by unfold_locales
    (auto simp: github_issue_key_def merge_github_issue_def issue_not_older_def github_issue_content_def split: option.splits)

interpretation jira_issue_upsert: timed_upsert jira_issue_key jira_not_older merge_jira_issue jira_issue_content
    "\<lambda>(_, _, _, _, _, _, _, u). u"
  by unfold_locales
    (auto simp: jira_issue_key_def merge_jira_issue_def jira_not_older_def jira_issue_content_def split: option.splits)

section \<open>Deliveries in any order\<close>

text \<open>A delivery: the payload, the engine's clock and the database's.  A refused one changes nothing.\<close>

type_synonym issue_delivery = "dict \<times> time \<times> time"

definition deliver_issue ::
  "py_lib \<Rightarrow> uuid \<Rightarrow> uuid \<Rightarrow> issue_delivery \<Rightarrow> ('d) events_db_scheme \<Rightarrow> ('d) events_db_scheme" where
  "deliver_issue lib ws repo d db =
     (case upsert_github_issue lib (fst (snd d)) (snd (snd d)) ws repo (fst d) None db of
        Inl _ \<Rightarrow> db
      | Inr (_, db') \<Rightarrow> db')"

definition issue_of_delivery :: "py_lib \<Rightarrow> uuid \<Rightarrow> uuid \<Rightarrow> issue_delivery \<Rightarrow> github_issue option" where
  "issue_of_delivery lib ws repo d =
     (case dict_get (fst d) ''pull_request'' of
        JObj _ \<Rightarrow> None
      | _ \<Rightarrow> (case github_issue_row lib (fst (snd d)) (snd (snd d)) 0 ws repo (fst d) None of
                Inl _ \<Rightarrow> None
              | Inr r \<Rightarrow> Some r))"

definition consistent_issues :: "github_issue list \<Rightarrow> bool" where
  "consistent_issues rows \<longleftrightarrow> (\<forall>r \<in> set rows. gs_github_updated_at r \<noteq> None) \<and>
     (\<forall>a \<in> set rows. \<forall>b \<in> set rows. github_issue_key a = github_issue_key b \<longrightarrow>
        gs_github_updated_at a = gs_github_updated_at b \<longrightarrow> github_issue_content a = github_issue_content b)"

lemma github_issue_row_id:
  "github_issue_row lib u n i ws repo issue obs = map_sum id (\<lambda>r. r\<lparr>gs_id := i\<rparr>) (github_issue_row lib u n 0 ws repo issue obs)"
  by (simp add: github_issue_row_def Let_def bindr_def split: sum.split option.split)

lemma github_issue_id [simp]:
  "github_issue_content (r\<lparr>gs_id := i\<rparr>) = github_issue_content r" "github_issue_key (r\<lparr>gs_id := i\<rparr>) = github_issue_key r"
  by (simp_all add: github_issue_content_def github_issue_key_def)

lemma deliver_issue_eq:
  "ev_github_issues (deliver_issue lib ws repo d db) =
     (case issue_of_delivery lib ws repo d of
        None \<Rightarrow> ev_github_issues db
      | Some r \<Rightarrow> put_github_issue (r\<lparr>gs_id := gen_random_uuid lib (map gs_id (ev_github_issues db))\<rparr>) (ev_github_issues db))"
proof -
  note row = github_issue_row_id [of lib "fst (snd d)" "snd (snd d)"
      "gen_random_uuid lib (map gs_id (ev_github_issues db))" ws repo "fst d" None]
  show ?thesis
    by (cases "github_issue_row lib (fst (snd d)) (snd (snd d)) 0 ws repo (fst d) None")
      (simp_all add: deliver_issue_def issue_of_delivery_def upsert_github_issue_def row split: json.split)
qed

lemma issue_stamp: "(\<lambda>(_, _, _, _, _, _, _, _, _, u). u) (github_issue_content r) = gs_github_updated_at r"
  by (simp add: github_issue_content_def)

definition stored_issue :: "uuid \<times> int \<Rightarrow> ('d) events_db_scheme \<Rightarrow>
    (int \<times> string \<times> string \<times> string option \<times> string list \<times> string list \<times> int \<times> time option \<times> json \<times> time option) option" where
  "stored_issue x db = map_option github_issue_content (row_with github_issue_key x (ev_github_issues db))"

lemma deliveries_content:
  assumes "\<forall>r \<in> set (List.map_filter (issue_of_delivery lib ws repo) ds). gs_github_updated_at r \<noteq> None"
  shows "stored_issue x (fold (deliver_issue lib ws repo) ds db) =
    map_option github_issue_content (row_with github_issue_key x
      (fold put_github_issue (List.map_filter (issue_of_delivery lib ws repo) ds) (ev_github_issues db)))"
proof -
  let ?st = "\<lambda>(_, _, _, _, _, _, _, _, _, u). u"
  let ?rows = "List.map_filter (issue_of_delivery lib ws repo)"
  have "stored_issue x (fold (deliver_issue lib ws repo) ds db) =
      fold (\<lambda>r c. if x = github_issue_key r then newest ?st (github_issue_content r) c else c) (?rows ds) (stored_issue x db)"
    using assms
  proof (induction ds arbitrary: db)
    case (Cons d ds)
    show ?case
    proof (cases "issue_of_delivery lib ws repo d")
      case None
      with Cons have "stored_issue x (deliver_issue lib ws repo d db) = stored_issue x db"
        by (simp add: stored_issue_def deliver_issue_eq)
      with None Cons show ?thesis by (simp add: map_filter_simps)
    next
      case (Some r)
      let ?r = "r\<lparr>gs_id := gen_random_uuid lib (map gs_id (ev_github_issues db))\<rparr>"
      from Some Cons.prems obtain u where "gs_github_updated_at r = Some u" by (auto simp: map_filter_simps)
      then have u: "?st (github_issue_content ?r) = Some u" by (simp add: issue_stamp)
      have "stored_issue x (deliver_issue lib ws repo d db) =
          (if x = github_issue_key r then newest ?st (github_issue_content r) (stored_issue x db) else stored_issue x db)"
        using github_issue_upsert.put_content [OF u, of x "ev_github_issues db"]
        by (simp add: stored_issue_def deliver_issue_eq Some put_github_issue_def)
      with Some Cons show ?thesis by (simp add: map_filter_simps)
    qed
  qed (simp add: map_filter_simps)
  also have "\<dots> = map_option github_issue_content (row_with github_issue_key x (fold put_github_issue (?rows ds) (ev_github_issues db)))"
    unfolding put_github_issue_def stored_issue_def using assms
    by (intro github_issue_upsert.puts_content [symmetric]) (simp add: issue_stamp)
  finally show ?thesis .
qed

text \<open>
  Whatever the order in which the deliveries of a repository's issues arrive, with repetitions,
  refused payloads and pull requests among them, the stored state of every issue is the same.
\<close>

theorem issue_deliveries_converge:
  assumes "mset ds = mset ds'" and "consistent_issues (List.map_filter (issue_of_delivery lib ws repo) ds)"
  shows "stored_issue x (fold (deliver_issue lib ws repo) ds db) = stored_issue x (fold (deliver_issue lib ws repo) ds' db)"
proof -
  let ?rows = "List.map_filter (issue_of_delivery lib ws repo)"
  have m: "mset (?rows ds) = mset (?rows ds')"
    using assms(1) by (simp add: map_filter_def mset_filter)
  then have s: "set (?rows ds) = set (?rows ds')" by (metis set_mset_mset)
  have stamped: "\<forall>r \<in> set (?rows ds). gs_github_updated_at r \<noteq> None"
    using assms(2) unfolding consistent_issues_def by blast
  have "github_issue_upsert.stamped (?rows ds)" "github_issue_upsert.consistent (?rows ds)"
    using assms(2) unfolding consistent_issues_def issue_stamp by blast+
  from github_issue_upsert.order_irrelevant [OF m this, of x "ev_github_issues db"] show ?thesis
    unfolding deliveries_content [OF stamped] deliveries_content [OF stamped [unfolded s]] put_github_issue_def .
qed

end
