(* ===== verification/Pull_Requests.thy ===== *)
theory Pull_Requests
  imports Linking Timed_Upsert
begin

text \<open>
  Pull-request normalization (\<^verbatim>\<open>app/normalization/pull_requests.py\<close>): the row of a GitHub pull
  request, its guarded upsert, and the replacement of its commits and reviews by GitHub's current
  lists.  The three transactions commit one after the other.
\<close>

section \<open>Reading GitHub's objects\<close>

definition commit_timestamp :: "py_lib \<Rightarrow> dict \<Rightarrow> time option" where
  "commit_timestamp lib commit =
     (case dict_get commit ''commit'' of
        JObj details \<Rightarrow>
          (let date = (\<lambda>k. dict_get (as_dict (dict_get details k)) ''date'')
           in parse_ts lib (py_or (date ''author'') (date ''committer'')))
      | _ \<Rightarrow> None)"

definition ends_with :: "string \<Rightarrow> string \<Rightarrow> bool" where
  "ends_with suffix s \<longleftrightarrow> length suffix \<le> length s \<and> drop (length s - length suffix) s = suffix"

definition is_bot :: "dict \<Rightarrow> bool" where
  "is_bot review \<longleftrightarrow>
     nested (JObj review) [''user'', ''type''] = JStr ''Bot'' \<or>
     (case nested (JObj review) [''user'', ''login''] of JStr s \<Rightarrow> ends_with ''[bot]'' s | _ \<Rightarrow> False)"

definition required_key :: "dict \<Rightarrow> string \<Rightarrow> json result" where
  "required_key d k = (case map_of d k of None \<Rightarrow> Inl (OtherError k) | Some v \<Rightarrow> Inr v)"

section \<open>The row\<close>

definition pull_request_state :: "dict \<Rightarrow> string" where
  "pull_request_state pr =
     (if dict_get pr ''state'' = JStr ''closed'' \<and> truthy (dict_get_or pr ''merged'' (JBool False)) then ''MERGED''
      else if dict_get pr ''state'' = JStr ''closed'' then ''CLOSED''
      else ''OPEN'')"

definition count_of :: "dict \<Rightarrow> string \<Rightarrow> int result" where
  "count_of pr k = int_of_json (dict_get_or pr k (JInt 0))"

definition texts_of :: "dict \<Rightarrow> (string option list) result" where
  "texts_of pr = map_result text_param
     [dict_get pr ''node_id'', dict_get_or pr ''title'' (JStr []), nested (JObj pr) [''user'', ''login''],
      py_or (nested (JObj pr) [''base'', ''ref'']) (JStr []), py_or (nested (JObj pr) [''head'', ''ref'']) (JStr []),
      nested (JObj pr) [''head'', ''sha''], dict_get pr ''merge_commit_sha'']"

definition build_row ::
  "py_lib \<Rightarrow> time \<Rightarrow> uuid \<Rightarrow> uuid \<Rightarrow> uuid \<Rightarrow> dict \<Rightarrow> string option \<Rightarrow> dict list option \<Rightarrow> time option \<Rightarrow> pull_request result" where
  "build_row lib now new_id ws repo pr action commits ready =
     (let ts = (\<lambda>k. parse_ts lib (dict_get pr k));
          commit_times = List.map_filter (commit_timestamp lib) (case commits of None \<Rightarrow> [] | Some cs \<Rightarrow> cs)
      in bindr (bindr (required_key pr ''id'') int_of_json) (\<lambda>github_id.
         bindr (bindr (required_key pr ''number'') int_of_json) (\<lambda>number.
         bindr (count_of pr ''additions'') (\<lambda>additions.
         bindr (count_of pr ''deletions'') (\<lambda>deletions.
         bindr (count_of pr ''changed_files'') (\<lambda>changed_files.
         bindr (count_of pr ''commits'') (\<lambda>commit_count.
         bindr (texts_of pr) (\<lambda>texts.
         Inr \<lparr>pr_id = new_id, pr_workspace_id = ws, pr_repository_id = repo, pr_github_pr_id = github_id,
              pr_github_node_id = texts ! 0, pr_number = number, pr_title = texts ! 1,
              pr_state = pull_request_state pr, pr_draft = truthy (dict_get_or pr ''draft'' (JBool False)),
              pr_author_login = texts ! 2,
              pr_base_ref = (case texts ! 3 of None \<Rightarrow> [] | Some s \<Rightarrow> s),
              pr_head_ref = (case texts ! 4 of None \<Rightarrow> [] | Some s \<Rightarrow> s),
              pr_head_sha = texts ! 5, pr_merge_commit_sha = texts ! 6,
              pr_additions = additions, pr_deletions = deletions, pr_changed_files = changed_files,
              pr_commit_count = commit_count, pr_opened_at = ts ''created_at'',
              pr_first_commit_at = list_min commit_times, pr_closed_at = ts ''closed_at'', pr_merged_at = ts ''merged_at'',
              pr_ready_for_review_at = coalesce ready (if action = Some ''ready_for_review'' then ts ''updated_at'' else None),
              pr_last_synced_at = coalesce (ts ''updated_at'') (Some now), pr_raw_data = JObj pr,
              pr_updated_at = now, pr_version = 0\<rparr>))))))))"

section \<open>The upsert\<close>

definition pull_request_key :: "pull_request \<Rightarrow> uuid \<times> int" where
  "pull_request_key p = (pr_repository_id p, pr_github_pr_id p)"

definition not_staler :: "pull_request \<Rightarrow> pull_request \<Rightarrow> bool" where
  "not_staler old new \<longleftrightarrow>
     (case pr_last_synced_at old of
        None \<Rightarrow> True
      | Some t \<Rightarrow> (case pr_last_synced_at new of None \<Rightarrow> False | Some u \<Rightarrow> t \<le> u))"

definition merge_pull_request :: "pull_request \<Rightarrow> pull_request \<Rightarrow> pull_request" where
  "merge_pull_request old new =
     new\<lparr>pr_id := pr_id old, pr_workspace_id := pr_workspace_id old, pr_repository_id := pr_repository_id old,
         pr_github_pr_id := pr_github_pr_id old, pr_opened_at := pr_opened_at old,
         pr_ready_for_review_at := coalesce (pr_ready_for_review_at new) (pr_ready_for_review_at old),
         pr_version := pr_version old + 1\<rparr>"

definition upsert_row :: "pull_request \<Rightarrow> pull_request list \<Rightarrow> pull_request list" where
  "upsert_row = sql_upsert pull_request_key not_staler merge_pull_request"

definition canonical_id :: "pull_request \<Rightarrow> pull_request list \<Rightarrow> uuid" where
  "canonical_id row t =
     (case row_with pull_request_key (pull_request_key row) t of None \<Rightarrow> pr_id row | Some old \<Rightarrow> pr_id old)"

section \<open>Commits\<close>

definition commit_rows :: "py_lib \<Rightarrow> uuid \<Rightarrow> dict list \<Rightarrow> pr_commit list" where
  "commit_rows lib i commits = List.map_filter (\<lambda>c.
     let sha = py_text lib (dict_get_or c ''sha'' (JStr []))
     in if py_strip sha = [] then None
        else map_option (\<lambda>when. \<lparr>pc_pull_request_id = i, pc_commit_sha = sha, pc_committed_at = when\<rparr>)
               (commit_timestamp lib c)) commits"

definition commit_key :: "pr_commit \<Rightarrow> uuid \<times> string" where
  "commit_key c = (pc_pull_request_id c, pc_commit_sha c)"

definition upsert_commit :: "pr_commit \<Rightarrow> pr_commit list \<Rightarrow> pr_commit list" where
  "upsert_commit = sql_upsert commit_key (\<lambda>_ _. True) (\<lambda>old new. old\<lparr>pc_committed_at := pc_committed_at new\<rparr>)"

definition replace_commits ::
  "py_lib \<Rightarrow> time \<Rightarrow> uuid \<Rightarrow> dict list \<Rightarrow> ('d) metrics_db_scheme \<Rightarrow> ('d) metrics_db_scheme" where
  "replace_commits lib now i commits db =
     (let t = fold upsert_commit (commit_rows lib i commits)
                (filter (\<lambda>c. pc_pull_request_id c \<noteq> i) (md_commits db));
          first = list_min (map pc_committed_at (filter (\<lambda>c. pc_pull_request_id c = i) t))
      in db\<lparr>md_commits := t,
            md_pull_requests := sql_update (\<lambda>p. pr_id p = i)
              (\<lambda>p. p\<lparr>pr_first_commit_at := first, pr_updated_at := now, pr_version := pr_version p + 1\<rparr>)
              (md_pull_requests db)\<rparr>)"

section \<open>Reviews\<close>

definition review_states :: "string list" where
  "review_states = [''APPROVED'', ''CHANGES_REQUESTED'', ''COMMENTED'', ''DISMISSED'']"

text \<open>Pending reviews, and those without an id or a time, are left out.\<close>

definition submitted_review :: "py_lib \<Rightarrow> dict \<Rightarrow> (int \<times> string \<times> time) option" where
  "submitted_review lib review =
     (let state = py_upper (py_text lib (dict_get_or review ''state'' (JStr []))) in
      case (strict_int (dict_get review ''id''), parse_ts lib (dict_get review ''submitted_at'')) of
        (Some i, Some when) \<Rightarrow> if state \<in> set review_states then Some (i, state, when) else None
      | _ \<Rightarrow> None)"

definition review_row :: "py_lib \<Rightarrow> uuid \<Rightarrow> dict \<Rightarrow> pr_review result" where
  "review_row lib i review =
     (case submitted_review lib review of
        None \<Rightarrow> Inl (OtherError ''not submitted'')
      | Some (rid, state, when) \<Rightarrow>
          bindr (text_param (nested (JObj review) [''user'', ''login''])) (\<lambda>login.
          bindr (text_param (dict_get review ''commit_id'')) (\<lambda>sha.
          Inr \<lparr>rv_pull_request_id = i, rv_github_review_id = rid, rv_reviewer_login = login,
               rv_reviewer_is_bot = is_bot review, rv_state = state, rv_submitted_at = when, rv_commit_sha = sha\<rparr>)))"

definition review_key :: "pr_review \<Rightarrow> uuid \<times> int" where
  "review_key r = (rv_pull_request_id r, rv_github_review_id r)"

text \<open>\<^verbatim>\<open>ON CONFLICT ... DO NOTHING\<close>.\<close>

definition insert_review :: "pr_review \<Rightarrow> pr_review list \<Rightarrow> pr_review list" where
  "insert_review r t = (if review_key r \<in> review_key ` set t then t else t @ [r])"

definition replace_pull_request_reviews ::
  "py_lib \<Rightarrow> uuid \<Rightarrow> dict list \<Rightarrow> ('d) metrics_db_scheme \<Rightarrow> ('d) metrics_db_scheme result" where
  "replace_pull_request_reviews lib i reviews db =
     bindr (map_result (review_row lib i) (filter (\<lambda>r. submitted_review lib r \<noteq> None) reviews)) (\<lambda>rows.
       Inr (db\<lparr>md_reviews := fold insert_review rows
                 (filter (\<lambda>r. rv_pull_request_id r \<noteq> i) (md_reviews db))\<rparr>))"

section \<open>The entry point\<close>

definition upsert_pull_request ::
  "py_lib \<Rightarrow> time \<Rightarrow> uuid \<Rightarrow> uuid \<Rightarrow> dict \<Rightarrow> string option \<Rightarrow> dict list option \<Rightarrow> dict list option \<Rightarrow> time option \<Rightarrow>
     ('d) metrics_db_scheme \<Rightarrow> uuid result \<times> ('d) metrics_db_scheme" where
  "upsert_pull_request lib now ws repo pr action commits reviews ready db =
     (case build_row lib now (gen_random_uuid lib (map pr_id (md_pull_requests db))) ws repo pr action commits ready of
        Inl e \<Rightarrow> (Inl e, db)
      | Inr row \<Rightarrow>
          (let i = canonical_id row (md_pull_requests db);
               db1 = db\<lparr>md_pull_requests := upsert_row row (md_pull_requests db)\<rparr>;
               db2 = (case commits of None \<Rightarrow> db1 | Some cs \<Rightarrow> replace_commits lib now i cs db1)
           in case reviews of
                None \<Rightarrow> (Inr i, db2)
              | Some rs \<Rightarrow>
                  (case replace_pull_request_reviews lib i rs db2 of
                     Inl e \<Rightarrow> (Inl e, db2)
                   | Inr db3 \<Rightarrow> (Inr i, db3))))"

end
