(* ===== verification/Deployments.thy ===== *)
theory Deployments
  imports Metrics_Service
begin

text \<open>
  Deployment normalization (\<^verbatim>\<open>app/normalization/deployments.py\<close>): which signals count as production,
  the guarded upsert of a provider's delivery, the reclassification of stored rows.  Shell-style
  patterns are Python's \<^verbatim>\<open>fnmatch\<close>, written out.  An \<^verbatim>\<open>AttributeError\<close> on a value of another type
  is an error of the result.
\<close>

section \<open>Shell patterns\<close>

text \<open>
  The text after an opening bracket: the negation, the members and the rest after the closing
  bracket; \<open>None\<close> when there is none, and the bracket stands for itself.
\<close>

definition bracket :: "string \<Rightarrow> (bool \<times> string \<times> string) option" where
  "bracket ps =
     (let neg = (take 1 ps = ''!''); b = (if neg then drop 1 ps else ps);
          first = (if take 1 b = '']'' then '']'' else []); r = drop (length first) b
      in case dropWhile (\<lambda>c. c \<noteq> CHR '']'') r of
           [] \<Rightarrow> None
         | _ # rest \<Rightarrow> Some (neg, first @ takeWhile (\<lambda>c. c \<noteq> CHR '']'') r, rest))"

lemma bracket_shorter: "bracket ps = Some (neg, m, rest) \<Longrightarrow> length rest < length ps"
proof -
  assume a: "bracket ps = Some (neg, m, rest)"
  then obtain r c where r: "dropWhile (\<lambda>c. c \<noteq> CHR '']'') r = c # rest" "length r \<le> length ps"
    by (auto simp: bracket_def Let_def split: list.splits if_splits)
  have "length (dropWhile (\<lambda>c. c \<noteq> CHR '']'') r) \<le> length r" by (rule length_dropWhile_le)
  with r show ?thesis by simp
qed

text \<open>Membership: single characters and ranges; an empty range has no members.\<close>

fun class_has :: "char \<Rightarrow> string \<Rightarrow> bool" where
  "class_has x (a # d # b # cs) =
     (if d = CHR ''-'' then ((of_char a :: nat) \<le> of_char x \<and> (of_char x :: nat) \<le> of_char b) \<or> class_has x cs
      else x = a \<or> class_has x (d # b # cs))"
| "class_has x cs = (x \<in> set cs)"

function glob :: "string \<Rightarrow> string \<Rightarrow> bool" where
  "glob [] s = (s = [])"
| "glob (p # ps) s =
     (if p = CHR ''*'' then glob ps s \<or> (case s of [] \<Rightarrow> False | c # cs \<Rightarrow> glob (p # ps) cs)
      else (case s of
              [] \<Rightarrow> False
            | c # cs \<Rightarrow>
                if p = CHR ''?'' then glob ps cs
                else if p = CHR ''['' then
                  (case bracket ps of
                     None \<Rightarrow> c = p \<and> glob ps cs
                   | Some (neg, members, rest) \<Rightarrow> (class_has c members \<noteq> neg) \<and> glob rest cs)
                else c = p \<and> glob ps cs))"
  by pat_completeness auto
termination
  by (relation "measure (\<lambda>(p, s). length p + length s)") (auto dest: bracket_shorter)

declare glob.simps(2) [simp del]

definition fnmatch :: "string \<Rightarrow> string \<Rightarrow> bool" where
  "fnmatch name pattern = glob pattern name"

section \<open>Classification\<close>

definition attribute_error :: exn where
  "attribute_error = OtherError ''object has no attribute''"

definition patterns_of :: "py_lib \<Rightarrow> json \<Rightarrow> string list" where
  "patterns_of lib value =
     (case value of
        JStr s \<Rightarrow> filter (\<lambda>p. p \<noteq> []) (map py_strip (py_split (CHR '','') s))
      | JList ps \<Rightarrow> filter (\<lambda>p. p \<noteq> []) (map (\<lambda>p. py_strip (py_text lib p)) ps)
      | _ \<Rightarrow> [])"

text \<open>\<^verbatim>\<open>any(fnmatch(lowered, pattern.lower()) for pattern in patterns)\<close>.\<close>

fun any_match :: "string \<Rightarrow> json list \<Rightarrow> bool result" where
  "any_match lowered [] = Inr False"
| "any_match lowered (p # ps) =
     (case p of
        JStr s \<Rightarrow> if fnmatch lowered (py_lower s) then Inr True else any_match lowered ps
      | _ \<Rightarrow> Inl attribute_error)"

definition signal_matches :: "py_lib \<Rightarrow> json \<Rightarrow> json \<Rightarrow> json list \<Rightarrow> bool result" where
  "signal_matches lib value configured defaults =
     (if \<not> truthy value then Inr False
      else let ps = patterns_of lib configured; patterns = (if ps = [] then defaults else map JStr ps) in
           case value of JStr s \<Rightarrow> any_match (py_lower s) patterns | _ \<Rightarrow> Inl attribute_error)"

definition is_excluded :: "py_lib \<Rightarrow> json \<Rightarrow> dict \<Rightarrow> bool result" where
  "is_excluded lib signal_name settings =
     (if patterns_of lib (dict_get settings ''doraExclusions'') = [] then Inr False
      else signal_matches lib signal_name (dict_get settings ''doraExclusions'') [])"

text \<open>\<^verbatim>\<open>a and b\<close>, and \<^verbatim>\<open>not a\<close>, of conditions that may raise.\<close>

fun and_then :: "bool result \<Rightarrow> bool result \<Rightarrow> bool result" where
  "and_then (Inr True) b = b"
| "and_then a b = a"

definition negated :: "bool result \<Rightarrow> bool result" where
  "negated r = map_sum id Not r"

definition is_production_workflow :: "py_lib \<Rightarrow> json \<Rightarrow> json \<Rightarrow> json \<Rightarrow> dict \<Rightarrow> bool result" where
  "is_production_workflow lib workflow_name head_branch default_branch settings =
     and_then (signal_matches lib head_branch (dict_get settings ''productionBranchPatterns'') [default_branch])
       (and_then (signal_matches lib workflow_name (dict_get settings ''deploymentWorkflowNamePatterns'')
                    [JStr ''*deploy*'', JStr ''*production*'', JStr ''*release*''])
          (negated (is_excluded lib workflow_name settings)))"

text \<open>The condition on an environment, used for deliveries and for reclassification.\<close>

definition is_production_environment :: "py_lib \<Rightarrow> json \<Rightarrow> dict \<Rightarrow> bool result" where
  "is_production_environment lib environment settings =
     and_then (signal_matches lib environment (dict_get settings ''productionEnvironmentPatterns'')
                 [JStr ''production'', JStr ''prod'', JStr ''live''])
       (negated (is_excluded lib environment settings))"

definition get_repository_settings :: "py_lib \<Rightarrow> ('d) metrics_db_scheme \<Rightarrow> uuid \<Rightarrow> dict" where
  "get_repository_settings lib db repo =
     (case row_with re_id repo (md_repositories db) of
        None \<Rightarrow> []
      | Some r \<Rightarrow> (case re_settings r of
          JObj d \<Rightarrow> d
        | JStr s \<Rightarrow> (case json_loads lib s of Some (JObj d) \<Rightarrow> d | _ \<Rightarrow> [])
        | _ \<Rightarrow> []))"

section \<open>Reclassification\<close>

definition classified :: "py_lib \<Rightarrow> repository \<Rightarrow> deployment \<Rightarrow> bool result" where
  "classified lib r d =
     (let settings = as_dict (re_settings r);
          signal = py_upper (py_text lib (dict_get_or settings ''deploymentSignal'' (JStr ''WORKFLOW_RUN'')));
          env = (case dp_environment d of None \<Rightarrow> JNull | Some e \<Rightarrow> JStr e)
      in if signal = ''WORKFLOW_RUN'' \<and> dp_source d = ''GITHUB_WORKFLOW''
         then (let w = as_dict (dict_get (as_dict (dp_raw_data d)) ''workflow_run'') in
               is_production_workflow lib
                 (JStr (py_text lib (py_or (py_or (dict_get w ''name'') env) (JStr []))))
                 (JStr (py_text lib (py_or (dict_get w ''head_branch'') (JStr []))))
                 (JStr (re_default_branch r)) settings)
         else if signal = ''DEPLOYMENT'' \<and> dp_source d = ''GITHUB_DEPLOYMENT''
         then is_production_environment lib (JStr (py_text lib (py_or env (JStr [])))) settings
         else if dp_source d = ''MANUAL'' then Inr (dp_is_production d)
         else Inr False)"

fun reclassifications :: "(deployment \<Rightarrow> bool result) \<Rightarrow> deployment list \<Rightarrow> (uuid \<times> bool) list result" where
  "reclassifications f [] = Inr []"
| "reclassifications f (d # ds) =
     (case f d of
        Inl e \<Rightarrow> Inl e
      | Inr b \<Rightarrow> (case reclassifications f ds of
          Inl e \<Rightarrow> Inl e
        | Inr us \<Rightarrow> Inr (if b \<noteq> dp_is_production d then (dp_id d, b) # us else us)))"

definition reclassify_repository_deployments ::
  "py_lib \<Rightarrow> time \<Rightarrow> uuid \<Rightarrow> ('d) metrics_db_scheme \<Rightarrow> (nat \<times> ('d) metrics_db_scheme) result" where
  "reclassify_repository_deployments lib now repo db =
     (case row_with re_id repo (md_repositories db) of
        None \<Rightarrow> Inl (OtherError ''No row was found when one was required'')
      | Some r \<Rightarrow>
          (case reclassifications (classified lib r) (repo_deployments repo db) of
             Inl e \<Rightarrow> Inl e
           | Inr us \<Rightarrow>
               Inr (length us, db\<lparr>md_deployments :=
                 fold (\<lambda>(i, b). sql_update (\<lambda>d. dp_id d = i)
                          (\<lambda>d. d\<lparr>dp_is_production := b, dp_updated_at := now, dp_version := dp_version d + 1\<rparr>))
                   us (md_deployments db)\<rparr>)))"

section \<open>The shared upsert\<close>

definition deployment_key :: "deployment \<Rightarrow> uuid \<times> string \<times> string" where
  "deployment_key d = (dp_repository_id d, dp_source d, dp_external_deployment_id d)"

text \<open>The WHERE clause: an older delivery does not overwrite a newer one.\<close>

definition not_older :: "deployment \<Rightarrow> deployment \<Rightarrow> bool" where
  "not_older old new \<longleftrightarrow>
     (case dp_finished_at old of
        None \<Rightarrow> True
      | Some t \<Rightarrow> (case dp_finished_at new of None \<Rightarrow> False | Some u \<Rightarrow> t \<le> u))"

definition merge_deployment :: "deployment \<Rightarrow> deployment \<Rightarrow> deployment" where
  "merge_deployment old new =
     old\<lparr>dp_environment := dp_environment new, dp_is_production := dp_is_production new, dp_status := dp_status new,
         dp_commit_sha := dp_commit_sha new, dp_started_at := coalesce (dp_started_at old) (dp_started_at new),
         dp_finished_at := dp_finished_at new, dp_raw_data := dp_raw_data new, dp_updated_at := dp_updated_at new,
         dp_version := dp_version old + 1\<rparr>"

definition run_upsert :: "deployment \<Rightarrow> deployment list \<Rightarrow> deployment list" where
  "run_upsert row t = sql_upsert deployment_key not_older merge_deployment row t"

text \<open>The id of the canonical row, updated or not.\<close>

definition upserted_id :: "deployment \<Rightarrow> deployment list \<Rightarrow> uuid" where
  "upserted_id row t = (case row_with deployment_key (deployment_key row) t of None \<Rightarrow> dp_id row | Some old \<Rightarrow> dp_id old)"

section \<open>Deliveries\<close>

text \<open>\<^verbatim>\<open>d.get(key, {})\<close> that is then used as a dictionary.\<close>

definition get_object :: "dict \<Rightarrow> string \<Rightarrow> dict result" where
  "get_object d k = (case dict_get_or d k (JObj []) of JObj o' \<Rightarrow> Inr o' | _ \<Rightarrow> Inl attribute_error)"

text \<open>\<^verbatim>\<open>(value or "").lower()\<close>.\<close>

definition lowered :: "json \<Rightarrow> string result" where
  "lowered v = (case py_or v (JStr []) of JStr s \<Rightarrow> Inr (py_lower s) | _ \<Rightarrow> Inl attribute_error)"

text \<open>
  What both deliveries do with their row: upsert, and for a production deployment the links, the
  incidents and a recalculation from its finish.
\<close>

definition store_delivery ::
  "service_env \<Rightarrow> uuid \<Rightarrow> uuid \<Rightarrow> deployment \<Rightarrow> ('d) metrics_db_scheme \<Rightarrow> uuid option result \<times> ('d) metrics_db_scheme" where
  "store_delivery env ws repo row db =
     (let i = upserted_id row (md_deployments db);
          db1 = db\<lparr>md_deployments := run_upsert row (md_deployments db)\<rparr>
      in if \<not> dp_is_production row then (Inr (Some i), db1)
         else let db2 = snd (link_deployments_to_pull_requests (se_lib env) (se_now env) repo db1) in
              (case update_github_incident_lifecycle (se_lib env) (se_now env) i db2 of
                 Inl e \<Rightarrow> (Inl e, db2)
               | Inr db3 \<Rightarrow>
                   (Inr (Some i),
                    db3\<lparr>ed_jobs := snd (enqueue_recalculate_metrics_job env ws repo (dp_finished_at row) None (ed_jobs db3))\<rparr>)))"

definition delivery_row ::
  "service_env \<Rightarrow> ('d) metrics_db_scheme \<Rightarrow> uuid \<Rightarrow> uuid \<Rightarrow> string \<Rightarrow> json \<Rightarrow> json \<Rightarrow> bool \<Rightarrow> string \<Rightarrow> json \<Rightarrow>
     time option \<Rightarrow> time option \<Rightarrow> dict \<Rightarrow> deployment result" where
  "delivery_row env db ws repo source ext environment production status sha started finished event =
     (case (text_param environment, text_param sha) of
        (Inr e, Inr c) \<Rightarrow>
          Inr \<lparr>dp_id = gen_random_uuid (se_lib env) (map dp_id (md_deployments db)), dp_workspace_id = ws,
               dp_repository_id = repo, dp_source = source, dp_external_deployment_id = py_text (se_lib env) ext,
               dp_environment = e, dp_is_production = production, dp_status = status, dp_commit_sha = c,
               dp_started_at = started, dp_finished_at = finished, dp_raw_data = JObj event,
               dp_updated_at = se_now env, dp_version = 0\<rparr>
      | (Inl e, _) \<Rightarrow> Inl e
      | (_, Inl e) \<Rightarrow> Inl e)"

text \<open>The row of a \<^verbatim>\<open>workflow_run\<close> event; \<open>None\<close> for a conclusion that is not terminal.\<close>

definition workflow_run_row ::
  "service_env \<Rightarrow> ('d) metrics_db_scheme \<Rightarrow> uuid \<Rightarrow> uuid \<Rightarrow> dict \<Rightarrow> deployment option result" where
  "workflow_run_row env db ws repo event =
     (case get_object event ''workflow_run'' of
        Inl e \<Rightarrow> Inl e
      | Inr run \<Rightarrow>
          (case lowered (dict_get run ''conclusion'') of
             Inl e \<Rightarrow> Inl e
           | Inr conclusion \<Rightarrow>
               if conclusion \<notin> {''success'', ''failure''} then Inr None
               else let environment = dict_get_or run ''name'' (JStr ''unknown'');
                        lib = se_lib env in
                    (case get_object event ''repository'' of
                       Inl e \<Rightarrow> Inl e
                     | Inr r \<Rightarrow>
                         (case is_production_workflow lib environment (dict_get_or run ''head_branch'' (JStr []))
                                 (dict_get_or r ''default_branch'' (JStr ''main'')) (get_repository_settings lib db repo) of
                            Inl e \<Rightarrow> Inl e
                          | Inr production \<Rightarrow>
                              map_sum id Some (delivery_row env db ws repo ''GITHUB_WORKFLOW'' (dict_get_or run ''id'' (JStr []))
                                environment production (if conclusion = ''success'' then ''SUCCESS'' else ''FAILURE'')
                                (dict_get_or run ''head_sha'' (JStr []))
                                (parse_ts lib (py_or (dict_get run ''run_started_at'') (dict_get run ''created_at'')))
                                (parse_ts lib (dict_get run ''updated_at'')) event)))))"

definition upsert_deployment_from_workflow_run ::
  "service_env \<Rightarrow> uuid \<Rightarrow> uuid \<Rightarrow> dict \<Rightarrow> ('d) metrics_db_scheme \<Rightarrow> uuid option result \<times> ('d) metrics_db_scheme" where
  "upsert_deployment_from_workflow_run env ws repo event db =
     (case workflow_run_row env db ws repo event of
        Inl e \<Rightarrow> (Inl e, db)
      | Inr None \<Rightarrow> (Inr None, db)
      | Inr (Some row) \<Rightarrow> store_delivery env ws repo row db)"

text \<open>The row of a \<^verbatim>\<open>deployment_status\<close> event.\<close>

definition deployment_status_row ::
  "service_env \<Rightarrow> ('d) metrics_db_scheme \<Rightarrow> uuid \<Rightarrow> uuid \<Rightarrow> dict \<Rightarrow> deployment option result" where
  "deployment_status_row env db ws repo event =
     (case get_object event ''deployment_status'' of
        Inl e \<Rightarrow> Inl e
      | Inr st \<Rightarrow>
          (case lowered (dict_get st ''state'') of
             Inl e \<Rightarrow> Inl e
           | Inr gh_state \<Rightarrow>
               if gh_state \<notin> {''success'', ''failure''} then Inr None
               else (case get_object event ''deployment'' of
                       Inl e \<Rightarrow> Inl e
                     | Inr d \<Rightarrow>
                         let lib = se_lib env; environment = dict_get_or d ''environment'' (JStr ''unknown'') in
                         (case is_production_environment lib environment (get_repository_settings lib db repo) of
                            Inl e \<Rightarrow> Inl e
                          | Inr production \<Rightarrow>
                              map_sum id Some (delivery_row env db ws repo ''GITHUB_DEPLOYMENT'' (dict_get_or d ''id'' (JStr []))
                                environment production (if gh_state = ''success'' then ''SUCCESS'' else ''FAILURE'')
                                (dict_get_or d ''sha'' (JStr [])) (parse_ts lib (dict_get d ''created_at''))
                                (parse_ts lib (dict_get st ''updated_at'')) event)))))"

definition upsert_deployment_from_deployment_status ::
  "service_env \<Rightarrow> uuid \<Rightarrow> uuid \<Rightarrow> dict \<Rightarrow> ('d) metrics_db_scheme \<Rightarrow> uuid option result \<times> ('d) metrics_db_scheme" where
  "upsert_deployment_from_deployment_status env ws repo event db =
     (case deployment_status_row env db ws repo event of
        Inl e \<Rightarrow> (Inl e, db)
      | Inr None \<Rightarrow> (Inr None, db)
      | Inr (Some row) \<Rightarrow> store_delivery env ws repo row db)"

end
