(* ===== verification/Risk.thy ===== *)
theory Risk
  imports Handler_Contracts
begin

text \<open>
  Pull-request risk: the seven features (\<^verbatim>\<open>app/risk/features.py\<close>), the verified artifact and its
  classification (\<^verbatim>\<open>model.py\<close>), and the transaction that stores them (\<^verbatim>\<open>service.py\<close>).  The
  estimator, SHA-256 and the binary logarithm are parameters.
\<close>

section \<open>Words\<close>

text \<open>\<^verbatim>\<open>\w\<close> on Latin-1.\<close>

definition py_word :: "char \<Rightarrow> bool" where
  "py_word c =
     (let n = of_char c :: nat in
      (48 \<le> n \<and> n \<le> 57) \<or> (65 \<le> n \<and> n \<le> 90) \<or> n = 95 \<or> (97 \<le> n \<and> n \<le> 122) \<or> n = 170 \<or> n = 178 \<or> n = 179 \<or>
      n = 181 \<or> n = 185 \<or> n = 186 \<or> (188 \<le> n \<and> n \<le> 190) \<or> (192 \<le> n \<and> n \<le> 255 \<and> n \<noteq> 215 \<and> n \<noteq> 247))"

text \<open>\<^verbatim>\<open>s.startswith(prefix)\<close>.\<close>

definition starts_with :: "string \<Rightarrow> string \<Rightarrow> bool" where
  "starts_with s prefix \<longleftrightarrow> take (length prefix) s = prefix"

text \<open>The maximal runs of word characters: \<^verbatim>\<open>\b(?:a|b)\b\<close> matches where such a run is one of the words.\<close>

fun word_runs :: "string \<Rightarrow> string list" where
  "word_runs [] = []"
| "word_runs (c # cs) =
     (if \<not> py_word c then word_runs cs
      else case cs of
             [] \<Rightarrow> [[c]]
           | d # ds \<Rightarrow> if py_word d then (case word_runs cs of [] \<Rightarrow> [[c]] | w # ws \<Rightarrow> (c # w) # ws)
                       else [c] # word_runs cs)"

section \<open>Features\<close>

definition FEATURE_SCHEMA_VERSION :: string where "FEATURE_SCHEMA_VERSION = ''jitfine-pr-features-v1''"
definition FEATURE_ORDER :: "string list" where
  "FEATURE_ORDER = [''ns'', ''nd'', ''nf'', ''entropy'', ''la'', ''ld'', ''fix'']"
definition FILE_SCOPE :: string where "FILE_SCOPE = ''all_changed_files_reported_by_github''"

definition fix_words :: "string list" where
  "fix_words = [''fix'', ''fixed'', ''fixes'', ''bug'', ''defect'', ''patch'', ''revert'', ''hotfix'', ''issue'', ''resolve'', ''resolved'']"

record risk_features =
  ft_ns :: int
  ft_nd :: int
  ft_nf :: int
  ft_entropy :: rat
  ft_la :: int
  ft_ld :: int
  ft_fix :: int

definition as_ordered_values :: "risk_features \<Rightarrow> rat list" where
  "as_ordered_values f = [of_int (ft_ns f), of_int (ft_nd f), of_int (ft_nf f), ft_entropy f, of_int (ft_la f),
     of_int (ft_ld f), of_int (ft_fix f)]"

definition feature_value :: "risk_features \<Rightarrow> string \<Rightarrow> json" where
  "feature_value f name = dict_get
     [(''ns'', JInt (ft_ns f)), (''nd'', JInt (ft_nd f)), (''nf'', JInt (ft_nf f)), (''entropy'', JFloat (ft_entropy f)),
      (''la'', JInt (ft_la f)), (''ld'', JInt (ft_ld f)), (''fix'', JInt (ft_fix f))] name"

text \<open>\<^verbatim>\<open>RiskFeatureUnavailable\<close> is a \<^verbatim>\<open>ValueError\<close>.\<close>

definition feature_int :: "json \<Rightarrow> string \<Rightarrow> int result" where
  "feature_int value field =
     (case int_of_str_of value of
        None \<Rightarrow> Inl (ValueError (''GitHub returned an invalid '' @ field))
      | Some k \<Rightarrow> if k < 0 then Inl (ValueError (''GitHub returned a negative '' @ field)) else Inr k)"

text \<open>\<^verbatim>\<open>PurePosixPath\<close> of a name without slashes at its ends: its parts.\<close>

definition path_parts :: "string \<Rightarrow> string list" where
  "path_parts name = filter (\<lambda>p. p \<noteq> [] \<and> p \<noteq> ''.'') (py_split (CHR ''/'') name)"

definition directory_of :: "string \<Rightarrow> string" where
  "directory_of name = (let parent = butlast (path_parts name) in if parent = [] then ''<root>'' else py_join ''/'' parent)"

definition subsystem_of :: "string \<Rightarrow> string" where
  "subsystem_of name = (let parts = path_parts name in if 1 < length parts then hd parts else ''<root>'')"

record file_change =
  fc_directory :: string
  fc_subsystem :: string
  fc_additions :: int
  fc_deletions :: int

definition read_file :: "py_lib \<Rightarrow> dict \<Rightarrow> file_change result" where
  "read_file lib d =
     (let filename = strip_by (\<lambda>c. c = CHR ''/'') (py_strip (py_text lib (py_or (dict_get d ''filename'') (JStr [])))) in
      if filename = [] then Inl (ValueError ''GitHub returned a changed file without a filename'')
      else bindr (feature_int (dict_get_or d ''additions'' (JInt 0)) ''file additions'') (\<lambda>a.
           bindr (feature_int (dict_get_or d ''deletions'' (JInt 0)) ''file deletions'') (\<lambda>b.
           Inr \<lparr>fc_directory = directory_of filename, fc_subsystem = subsystem_of filename,
                fc_additions = a, fc_deletions = b\<rparr>)))"

definition churn_entropy :: "(rat \<Rightarrow> rat) \<Rightarrow> int list \<Rightarrow> rat" where
  "churn_entropy log2 churn =
     (let total = sum_list churn in
      if total = 0 then 0
      else - (\<Sum>c \<leftarrow> filter (\<lambda>c. 0 < c) churn. let p = of_int c / of_int total in p * log2 p))"

definition looks_like_fix :: "dict \<Rightarrow> dict list \<Rightarrow> bool" where
  "looks_like_fix pr commits =
     (let messages = List.map_filter (\<lambda>c. case dict_get c ''commit'' of JObj d \<Rightarrow> Some (dict_get d ''message'') | _ \<Rightarrow> None) commits
      in \<exists>v \<in> set (dict_get pr ''title'' # dict_get pr ''body'' # messages).
           (case v of JStr s \<Rightarrow> (\<exists>w \<in> set (word_runs s). py_lower w \<in> set fix_words) | _ \<Rightarrow> False))"

definition extract_pull_request_features ::
  "py_lib \<Rightarrow> (rat \<Rightarrow> rat) \<Rightarrow> dict \<Rightarrow> dict list \<Rightarrow> dict list \<Rightarrow> risk_features result" where
  "extract_pull_request_features lib log2 pr files commits =
     bindr (feature_int (dict_get pr ''changed_files'') ''changed_files'') (\<lambda>expected.
     if 3000 < expected
     then Inl (ValueError ''GitHub caps pull-request file results at 3,000; complete extraction is impossible'')
     else if int (length files) \<noteq> expected
     then Inl (ValueError (''GitHub returned '' @ str_int (int (length files)) @ '' files but the pull request reports '' @ str_int expected))
     else bindr (map_result (read_file lib) files) (\<lambda>changes.
          let additions = sum_list (map fc_additions changes); deletions = sum_list (map fc_deletions changes) in
          bindr (feature_int (dict_get_or pr ''additions'' (JInt 0)) ''additions'') (\<lambda>a.
          bindr (feature_int (dict_get_or pr ''deletions'' (JInt 0)) ''deletions'') (\<lambda>d.
          if additions \<noteq> a \<or> deletions \<noteq> d
          then Inl (ValueError ''GitHub pull-request totals changed while files were being collected'')
          else Inr \<lparr>ft_ns = int (card (set (map fc_subsystem changes))), ft_nd = int (card (set (map fc_directory changes))),
                    ft_nf = int (length files),
                    ft_entropy = churn_entropy log2 (map (\<lambda>c. fc_additions c + fc_deletions c) changes),
                    ft_la = additions, ft_ld = deletions, ft_fix = (if looks_like_fix pr commits then 1 else 0)\<rparr>))))"

section \<open>The artifact\<close>

definition MODEL_NAME :: string where "MODEL_NAME = ''jitfine-expert-pr-risk-mvp''"
definition MODEL_VERSION :: string where "MODEL_VERSION = ''jitfine-expert-pr-risk-mvp-v1''"

text \<open>
  What is loaded and the library around it: \<open>ra_sha256\<close> is the digest of the named file,
  \<open>ra_classes\<close> whether each class is the positive one, \<open>ra_proba\<close> the row of \<^verbatim>\<open>predict_proba\<close>.
\<close>

record risk_artifact =
  ra_metadata :: dict
  ra_library_versions :: "(string \<times> json) list"
  ra_python_version :: string
  ra_sha256 :: "string \<Rightarrow> string"
  ra_features_in :: int
  ra_classes :: "bool list"
  ra_proba :: "rat list \<Rightarrow> py_float list"
  ra_importances :: "rat list"
  ra_float :: "string \<Rightarrow> py_float option"
  ra_log2 :: "rat \<Rightarrow> rat"

definition runtime_error :: "string \<Rightarrow> 'a result" where
  "runtime_error m = Inl (OtherError m)"

text \<open>\<^verbatim>\<open>float(value)\<close> of a JSON value.\<close>

fun float_of_json :: "risk_artifact \<Rightarrow> json \<Rightarrow> py_float option" where
  "float_of_json ra (JInt k) = Some (Finite (of_int k))"
| "float_of_json ra (JFloat r) = Some (Finite r)"
| "float_of_json ra (JBool b) = Some (Finite (if b then 1 else 0))"
| "float_of_json ra (JStr s) = ra_float ra s"
| "float_of_json ra _ = None"

definition validated_thresholds :: "risk_artifact \<Rightarrow> (rat \<times> rat \<times> rat) result" where
  "validated_thresholds ra =
     (case dict_get (ra_metadata ra) ''thresholds'' of
        JObj raw \<Rightarrow>
          (let get = (\<lambda>k. Option.bind (map_of raw k) (float_of_json ra)) in
           case (get ''medium'', get ''high'', get ''critical'') of
             (Some m, Some h, Some c) \<Rightarrow>
               (case (m, h, c) of
                  (Finite m, Finite h, Finite c) \<Rightarrow>
                    if 0 \<le> m \<and> m < h \<and> h < c \<and> c \<le> 1 then Inr (m, h, c)
                    else runtime_error ''PR-risk artifact thresholds are not strictly ordered''
                | _ \<Rightarrow> runtime_error ''PR-risk artifact thresholds are not strictly ordered'')
           | _ \<Rightarrow> runtime_error ''PR-risk artifact thresholds are invalid'')
      | _ \<Rightarrow> runtime_error ''PR-risk artifact thresholds are missing'')"

definition version_parts :: "string \<Rightarrow> int option list" where
  "version_parts v = map (py_int 10) (take 2 (py_split (CHR ''.'') v))"

definition same_python_minor :: "json \<Rightarrow> string \<Rightarrow> bool" where
  "same_python_minor artifact runtime =
     (case artifact of
        JStr a \<Rightarrow> None \<notin> set (version_parts a) \<and> None \<notin> set (version_parts runtime) \<and>
          length (version_parts a) = 2 \<and> version_parts a = version_parts runtime
      | _ \<Rightarrow> False)"

definition expected_metadata :: "risk_artifact \<Rightarrow> (string \<times> json) list" where
  "expected_metadata ra =
     [(''modelName'', JStr MODEL_NAME), (''modelVersion'', JStr MODEL_VERSION),
      (''featureSchemaVersion'', JStr FEATURE_SCHEMA_VERSION), (''featureOrder'', JList (map JStr FEATURE_ORDER))]
     @ ra_library_versions ra"

definition verify_metadata :: "risk_artifact \<Rightarrow> unit result" where
  "verify_metadata ra =
     (case find (\<lambda>(k, v). dict_get (ra_metadata ra) k \<noteq> v) (expected_metadata ra) of
        Some (k, v) \<Rightarrow> runtime_error (''PR-risk artifact metadata mismatch for '' @ k)
      | None \<Rightarrow>
          if \<not> same_python_minor (dict_get (ra_metadata ra) ''pythonVersion'') (ra_python_version ra)
          then runtime_error ''PR-risk artifact metadata mismatch for pythonVersion''
          else (case dict_get (ra_metadata ra) ''sha256'' of
                  JObj digests \<Rightarrow>
                    (case find (\<lambda>f. dict_get digests f \<noteq> JStr (ra_sha256 ra f)) [''model.joblib'', ''training-report.json''] of
                       Some f \<Rightarrow> runtime_error (''PR-risk artifact checksum mismatch for '' @ f)
                     | None \<Rightarrow> bindr (validated_thresholds ra) (\<lambda>_. Inr ()))
                | _ \<Rightarrow> runtime_error ''PR-risk artifact checksums are missing''))"

text \<open>\<^verbatim>\<open>_load\<close>: the position of the positive class.\<close>

definition load_model :: "risk_artifact \<Rightarrow> nat result" where
  "load_model ra =
     bindr (verify_metadata ra) (\<lambda>_.
     if ra_features_in ra \<noteq> int (length FEATURE_ORDER)
     then runtime_error ''PR-risk artifact input width does not match its contract''
     else (case filter (\<lambda>i. ra_classes ra ! i) [0..<length (ra_classes ra)] of
             [i] \<Rightarrow> Inr i
           | _ \<Rightarrow> runtime_error ''PR-risk artifact positive class cannot be identified''))"

definition classify_probability :: "rat \<Rightarrow> rat \<times> rat \<times> rat \<Rightarrow> string \<times> rat" where
  "classify_probability probability th =
     (case th of (medium, high, critical) \<Rightarrow>
        if critical \<le> probability then (''CRITICAL'', critical)
        else if high \<le> probability then (''HIGH'', high)
        else if medium \<le> probability then (''MEDIUM'', medium)
        else (''LOW'', medium))"

text \<open>The three most important features; \<^verbatim>\<open>sorted(..., reverse=True)\<close> keeps the order of equal ones.\<close>

definition global_importance_factors :: "risk_features \<Rightarrow> rat list \<Rightarrow> json" where
  "global_importance_factors f importances =
     JList (if length importances \<noteq> length FEATURE_ORDER then []
            else map (\<lambda>(name, importance). JObj
                   [(''feature'', JStr name), (''value'', feature_value f name),
                    (''globalImportance'', JFloat (py_round 6 importance)),
                    (''explanationType'', JStr ''global_model_importance'')])
                 (take 3 (sort_key (\<lambda>(_, importance). - importance) (zip FEATURE_ORDER importances))))"

record risk_prediction =
  rp_probability :: rat
  rp_level :: string
  rp_threshold_used :: rat
  rp_top_factors :: json

definition predict :: "risk_artifact \<Rightarrow> risk_features \<Rightarrow> risk_prediction result" where
  "predict ra f =
     bindr (load_model ra) (\<lambda>position.
     let row = ra_proba ra (as_ordered_values f) in
     if length row \<le> position then Inl (OtherError ''index is out of bounds'')
     else (case row ! position of
             Finite p \<Rightarrow>
               if \<not> (0 \<le> p \<and> p \<le> 1) then runtime_error ''PR-risk model returned an invalid probability''
               else bindr (validated_thresholds ra) (\<lambda>th.
                 Inr \<lparr>rp_probability = p, rp_level = fst (classify_probability p th),
                      rp_threshold_used = snd (classify_probability p th),
                      rp_top_factors = global_importance_factors f (ra_importances ra)\<rparr>)
           | _ \<Rightarrow> runtime_error ''PR-risk model returned an invalid probability''))"

section \<open>The transaction\<close>

definition feature_payload :: "risk_features \<Rightarrow> json" where
  "feature_payload f = JObj
     [(''featureOrder'', JList (map JStr FEATURE_ORDER)), (''featureSchemaVersion'', JStr FEATURE_SCHEMA_VERSION),
      (''predictionUnit'', JStr ''pull_request_aggregate''), (''fileScope'', JStr FILE_SCOPE),
      (''fixRule'', JStr ''pull_request_title_body_or_commit_message_keyword''),
      (''values'', JObj (map (\<lambda>k. (k, feature_value f k)) FEATURE_ORDER))]"

definition feature_key :: "feature_row \<Rightarrow> uuid \<times> string" where
  "feature_key r = (fr_pull_request_id r, fr_schema_version r)"

definition merge_features :: "feature_row \<Rightarrow> feature_row \<Rightarrow> feature_row" where
  "merge_features old new =
     new\<lparr>fr_id := fr_id old, fr_pull_request_id := fr_pull_request_id old, fr_schema_version := fr_schema_version old,
         fr_author_prior_pr_count := fr_author_prior_pr_count old, fr_version := fr_version old + 1\<rparr>"

definition prediction_key :: "prediction_row \<Rightarrow> uuid \<times> string \<times> string" where
  "prediction_key r = (pd_pull_request_id r, pd_model_name r, pd_model_version r)"

definition merge_prediction :: "prediction_row \<Rightarrow> prediction_row \<Rightarrow> prediction_row" where
  "merge_prediction old new =
     new\<lparr>pd_id := pd_id old, pd_pull_request_id := pd_pull_request_id old, pd_model_name := pd_model_name old,
         pd_model_version := pd_model_version old, pd_version := pd_version old + 1\<rparr>"

definition features_of :: "job_env \<Rightarrow> uuid \<Rightarrow> uuid \<Rightarrow> uuid \<Rightarrow> risk_features \<Rightarrow> nat \<Rightarrow> feature_row list \<Rightarrow> feature_row" where
  "features_of env ws repo pr f commits t =
     \<lparr>fr_id = gen_random_uuid (je_lib env) (map fr_id t), fr_workspace_id = ws, fr_repository_id = repo,
      fr_pull_request_id = pr, fr_schema_version = FEATURE_SCHEMA_VERSION, fr_lines_added = ft_la f,
      fr_lines_deleted = ft_ld f, fr_files_changed = ft_nf f, fr_commit_count = int commits,
      fr_author_prior_pr_count = 0, fr_entropy = ft_entropy f, fr_payload = feature_payload f,
      fr_extracted_at = je_utcnow env, fr_updated_at = je_now env, fr_version = 0\<rparr>"

definition prediction_of :: "job_env \<Rightarrow> uuid \<Rightarrow> uuid \<Rightarrow> uuid \<Rightarrow> uuid \<Rightarrow> risk_prediction \<Rightarrow> prediction_row list \<Rightarrow> prediction_row" where
  "prediction_of env ws repo pr feature p t =
     \<lparr>pd_id = gen_random_uuid (je_lib env) (map pd_id t), pd_workspace_id = ws, pd_repository_id = repo,
      pd_pull_request_id = pr, pd_feature_id = feature, pd_model_name = MODEL_NAME, pd_model_version = MODEL_VERSION,
      pd_risk_score = rp_probability p, pd_risk_level = rp_level p, pd_threshold_used = rp_threshold_used p,
      pd_top_factors = rp_top_factors p, pd_predicted_at = je_utcnow env, pd_updated_at = je_now env, pd_version = 0\<rparr>"

text \<open>The feature row's id as \<^verbatim>\<open>RETURNING\<close> gives it.\<close>

definition stored_feature_id :: "feature_row \<Rightarrow> feature_row list \<Rightarrow> uuid" where
  "stored_feature_id row t = (case row_with feature_key (feature_key row) t of None \<Rightarrow> fr_id row | Some old \<Rightarrow> fr_id old)"

definition calculate_and_persist_pull_request_risk ::
  "job_env \<Rightarrow> risk_artifact \<Rightarrow> uuid \<Rightarrow> uuid \<Rightarrow> uuid \<Rightarrow> dict \<Rightarrow> dict list \<Rightarrow> dict list \<Rightarrow> ('d) events_db_scheme \<Rightarrow>
     ('d) events_db_scheme result" where
  "calculate_and_persist_pull_request_risk env ra ws repo pr_db_id pr files commits db =
     bindr (extract_pull_request_features (je_lib env) (ra_log2 ra) pr files commits) (\<lambda>f.
     bindr (predict ra f) (\<lambda>p.
     let row = features_of env ws repo pr_db_id f (length commits) (ev_features db);
         feature = stored_feature_id row (ev_features db) in
     Inr (db\<lparr>ev_features := sql_upsert feature_key (\<lambda>_ _. True) merge_features row (ev_features db),
             ev_predictions := sql_upsert prediction_key (\<lambda>_ _. True) merge_prediction
               (prediction_of env ws repo pr_db_id feature p (ev_predictions db)) (ev_predictions db),
             ed_jobs := snd (enqueue_evaluate_alerts_job (je_now env) (se_job (je_service env) (ed_jobs db)) ws repo
               ''RISK_PREDICTION'' (ed_jobs db))\<rparr>)))"

section \<open>What is stored\<close>

interpretation features: keyed_upsert feature_key "\<lambda>_ _. True" merge_features
  by unfold_locales (simp add: feature_key_def merge_features_def)

interpretation predictions: keyed_upsert prediction_key "\<lambda>_ _. True" merge_prediction
  by unfold_locales (simp add: prediction_key_def merge_prediction_def)

lemma feature_int_bounds: "feature_int v f = Inr k \<Longrightarrow> 0 \<le> k"
  by (auto simp: feature_int_def split: option.splits if_splits)

lemma read_file_bounds: "read_file lib d = Inr c \<Longrightarrow> 0 \<le> fc_additions c \<and> 0 \<le> fc_deletions c"
  by (auto simp: read_file_def Let_def bindr_Inr split: if_splits dest: feature_int_bounds)

text \<open>A well-formed feature vector of \<open>n\<close> files.\<close>

definition features_wf :: "nat \<Rightarrow> risk_features \<Rightarrow> bool" where
  "features_wf n f \<longleftrightarrow> ft_nf f = int n \<and> n \<le> 3000 \<and> 0 \<le> ft_la f \<and> 0 \<le> ft_ld f \<and>
     0 \<le> ft_ns f \<and> ft_ns f \<le> int n \<and> 0 \<le> ft_nd f \<and> ft_nd f \<le> int n \<and> ft_fix f \<in> {0, 1}"

lemma extracted_wf:
  assumes "extract_pull_request_features lib log2 pr files commits = Inr f"
  shows "features_wf (length files) f"
proof -
  from assms obtain changes where c: "map_result (read_file lib) files = Inr changes" "int (length files) \<le> 3000"
    "f = \<lparr>ft_ns = int (card (set (map fc_subsystem changes))), ft_nd = int (card (set (map fc_directory changes))),
          ft_nf = int (length files),
          ft_entropy = churn_entropy log2 (map (\<lambda>c. fc_additions c + fc_deletions c) changes),
          ft_la = sum_list (map fc_additions changes), ft_ld = sum_list (map fc_deletions changes),
          ft_fix = (if looks_like_fix pr commits then 1 else 0)\<rparr>"
    by (auto simp: extract_pull_request_features_def bindr_Inr Let_def split: if_splits)
  then have l: "length changes = length files" and b: "\<forall>c \<in> set changes. 0 \<le> fc_additions c \<and> 0 \<le> fc_deletions c"
    by (auto simp: map_result_Inr list_all2_conv_all_nth in_set_conv_nth dest!: read_file_bounds)
  have "card (set (map g changes)) \<le> length files" for g :: "file_change \<Rightarrow> string"
    using card_length [of "map g changes"] l by simp
  moreover have "0 \<le> sum_list (map fc_additions changes)" using b by (intro sum_list_nonneg) auto
  moreover have "0 \<le> sum_list (map fc_deletions changes)" using b by (intro sum_list_nonneg) auto
  ultimately show ?thesis using c by (auto simp: features_wf_def)
qed

text \<open>The level and threshold agree with the score.\<close>

definition prediction_wf :: "risk_prediction \<Rightarrow> bool" where
  "prediction_wf p \<longleftrightarrow> 0 \<le> rp_probability p \<and> rp_probability p \<le> 1 \<and> 0 \<le> rp_threshold_used p \<and> rp_threshold_used p \<le> 1 \<and>
     rp_level p \<in> {''LOW'', ''MEDIUM'', ''HIGH'', ''CRITICAL''} \<and>
     (rp_level p = ''LOW'') = (rp_probability p < rp_threshold_used p)"

lemma predicted_wf:
  assumes "predict ra f = Inr p"
  shows "prediction_wf p"
proof -
  from assms obtain m h c where th: "validated_thresholds ra = Inr (m, h, c)" "0 \<le> rp_probability p" "rp_probability p \<le> 1"
    "rp_level p = fst (classify_probability (rp_probability p) (m, h, c))"
    "rp_threshold_used p = snd (classify_probability (rp_probability p) (m, h, c))"
    by (auto simp: predict_def bindr_Inr Let_def runtime_error_def split: if_splits py_float.splits)
  then have "0 \<le> m \<and> m < h \<and> h < c \<and> c \<le> 1"
    by (auto simp: validated_thresholds_def Let_def runtime_error_def split: json.splits option.splits py_float.splits if_splits)
  with th show ?thesis by (auto simp: prediction_wf_def classify_probability_def)
qed

text \<open>A higher score never gets a lower level.\<close>

definition level_rank :: "string \<Rightarrow> nat" where
  "level_rank l = (if l = ''CRITICAL'' then 3 else if l = ''HIGH'' then 2 else if l = ''MEDIUM'' then 1 else 0)"

lemma classify_mono:
  assumes "p \<le> q" and "m < h" and "h < c"
  shows "level_rank (fst (classify_probability p (m, h, c))) \<le> level_rank (fst (classify_probability q (m, h, c)))"
  using assms by (auto simp: classify_probability_def level_rank_def)

lemma put_features_row:
  "\<exists>fr. row_with feature_key (feature_key row) (features.put row t) = Some fr \<and> fr_id fr = stored_feature_id row t \<and>
     fr_files_changed fr = fr_files_changed row \<and> fr_lines_added fr = fr_lines_added row"
  by (cases "row_with feature_key (feature_key row) t")
    (simp_all add: features.put_lookup stored_feature_id_def merge_features_def)

lemma put_prediction_row:
  "\<exists>pd. row_with prediction_key (prediction_key row) (predictions.put row t) = Some pd \<and>
     pd_feature_id pd = pd_feature_id row \<and> pd_risk_score pd = pd_risk_score row \<and>
     pd_risk_level pd = pd_risk_level row \<and> pd_threshold_used pd = pd_threshold_used row"
  by (cases "row_with prediction_key (prediction_key row) t")
    (simp_all add: predictions.put_lookup merge_prediction_def)


end
