(* ===== verification/Github_Events.thy ===== *)
theory Github_Events
  imports Github_Sync Issues Pull_Requests Deployments Risk
begin

text \<open>
  GitHub webhook deliveries (\<^verbatim>\<open>app/jobs/handlers/github_event.py\<close>): the life of a raw event, the
  routing by event type, and the handler of each type.  Each handler commits as it goes and returns
  the database it reached with its result; the outer \<open>None\<close> is a listing that never ends.
\<close>

section \<open>Raw events\<close>

type_synonym ('a, 's) outcome = "('a result \<times> 's) option"

definition update_raw_event :: "uuid \<Rightarrow> (raw_event \<Rightarrow> raw_event) \<Rightarrow> ('d) events_db_scheme \<Rightarrow> ('d) events_db_scheme" where
  "update_raw_event i f db = db\<lparr>ev_raw_events := sql_update (\<lambda>r. rw_id r = i) f (ev_raw_events db)\<rparr>"

definition mark_raw_event_processing :: "time \<Rightarrow> uuid \<Rightarrow> ('d) events_db_scheme \<Rightarrow> ('d) events_db_scheme" where
  "mark_raw_event_processing now i = update_raw_event i (\<lambda>r.
     r\<lparr>rw_status := ''PROCESSING'', rw_attempt_count := rw_attempt_count r + 1, rw_processing_started_at := Some now,
       rw_processed_at := None, rw_last_error := None, rw_updated_at := now, rw_version := rw_version r + 1\<rparr>)"

definition mark_raw_event_processed :: "time \<Rightarrow> uuid \<Rightarrow> ('d) events_db_scheme \<Rightarrow> ('d) events_db_scheme" where
  "mark_raw_event_processed now i = update_raw_event i (\<lambda>r.
     r\<lparr>rw_status := ''PROCESSED'', rw_processed_at := Some now, rw_last_error := None, rw_updated_at := now,
       rw_version := rw_version r + 1\<rparr>)"

definition mark_raw_event_ignored :: "time \<Rightarrow> uuid \<Rightarrow> string \<Rightarrow> ('d) events_db_scheme \<Rightarrow> ('d) events_db_scheme" where
  "mark_raw_event_ignored now i reason = update_raw_event i (\<lambda>r.
     r\<lparr>rw_status := ''IGNORED'', rw_processed_at := Some now, rw_last_error := Some (sanitize_error reason),
       rw_updated_at := now, rw_version := rw_version r + 1\<rparr>)"

definition mark_raw_event_failed :: "time \<Rightarrow> uuid \<Rightarrow> string \<Rightarrow> ('d) events_db_scheme \<Rightarrow> ('d) events_db_scheme" where
  "mark_raw_event_failed now i err = update_raw_event i (\<lambda>r.
     r\<lparr>rw_status := ''FAILED'', rw_last_error := Some (sanitize_error err), rw_processed_at := None,
       rw_updated_at := now, rw_version := rw_version r + 1\<rparr>)"

definition repository_optional :: "string set" where
  "repository_optional = {''installation'', ''installation_repositories'', ''repository''}"

text \<open>\<^verbatim>\<open>_tracked_repository_deployment_signal\<close>.\<close>

definition tracked_repository_deployment_signal ::
  "py_lib \<Rightarrow> uuid \<Rightarrow> uuid \<Rightarrow> ('d) metrics_db_scheme \<Rightarrow> string option" where
  "tracked_repository_deployment_signal lib ws repo db =
     (case find (\<lambda>r. re_id r = repo \<and> re_workspace_id r = ws \<and> re_tracking_enabled r \<and> \<not> re_archived r) (md_repositories db) of
        None \<Rightarrow> None
      | Some r \<Rightarrow> coalesce (nullif_empty (json_path_text lib (re_settings r) [''deploymentSignal''])) (Some ''WORKFLOW_RUN''))"

section \<open>Pull requests\<close>

record event_env =
  ee_job :: job_env
  ee_artifact :: risk_artifact

abbreviation ee_lib :: "event_env \<Rightarrow> py_lib" where "ee_lib env \<equiv> je_lib (ee_job env)"
abbreviation ee_now :: "event_env \<Rightarrow> time" where "ee_now env \<equiv> je_now (ee_job env)"
abbreviation ee_providers :: "event_env \<Rightarrow> providers" where "ee_providers env \<equiv> je_providers (ee_job env)"
abbreviation ee_service :: "event_env \<Rightarrow> service_env" where "ee_service env \<equiv> je_service (ee_job env)"

definition non_negative_changed_files :: "dict \<Rightarrow> int result" where
  "non_negative_changed_files pr =
     (case int_of_str_of (dict_get pr ''changed_files'') of
        None \<Rightarrow> Inl (PermanentJobError ''GitHub returned an invalid changed_files count'')
      | Some k \<Rightarrow> if k < 0 then Inl (PermanentJobError ''GitHub returned a negative changed_files count'') else Inr k)"

definition github_timestamp :: "py_lib \<Rightarrow> json \<Rightarrow> time option" where
  "github_timestamp lib value =
     (case nonempty_text value of None \<Rightarrow> None | Some s \<Rightarrow> fromisoformat lib (py_replace ''Z'' ''+00:00'' s))"

definition pull_request_merged_at :: "uuid \<Rightarrow> ('d) metrics_db_scheme \<Rightarrow> time option" where
  "pull_request_merged_at i db =
     (case find (\<lambda>p. pr_id p = i \<and> pr_state p = ''MERGED'') (md_pull_requests db) of
        None \<Rightarrow> None
      | Some p \<Rightarrow> pr_merged_at p)"

text \<open>The score of an open pull request, unless it is beyond GitHub's file cap.\<close>

definition score_open_pull_request ::
  "event_env \<Rightarrow> repository_context \<Rightarrow> uuid \<Rightarrow> uuid \<Rightarrow> uuid \<Rightarrow> string \<Rightarrow> dict \<Rightarrow> dict list \<Rightarrow>
     ('d) events_db_scheme \<Rightarrow> ('d) events_db_scheme result" where
  "score_open_pull_request env r ws repo pr_db_id number pr commits db =
     (if py_lower (py_text (ee_lib env) (dict_get_or pr ''state'' (JStr []))) \<noteq> ''open'' then Inr db
      else bindr (non_negative_changed_files pr) (\<lambda>changed.
           if 3000 < changed then Inr db
           else bindr (list_pull_request_files (ee_providers env) (rc_installation_id r) (rc_owner_login r) (rc_name r) number)
                  (\<lambda>files. calculate_and_persist_pull_request_risk (ee_job env) (ee_artifact env) ws repo pr_db_id pr files commits db)))"

text \<open>The \<^verbatim>\<open>try\<close> block: the provider's current state, stored and scored; failures are converted.\<close>

definition import_pull_request ::
  "event_env \<Rightarrow> repository_context \<Rightarrow> uuid \<Rightarrow> uuid \<Rightarrow> string \<Rightarrow> string option \<Rightarrow> time option \<Rightarrow>
     ('d) events_db_scheme \<Rightarrow> (uuid, ('d) events_db_scheme) outcome" where
  "import_pull_request env r ws repo number action ready db =
     (let pv = ee_providers env; inst = rc_installation_id r; owner = rc_owner_login r; name = rc_name r;
          conv = provider_exception_as_job_error
      in case get_pull_request pv inst owner name number of
           Inl e \<Rightarrow> Some (Inl (conv e), db)
         | Inr pr \<Rightarrow>
             Option.bind (list_pull_request_commits pv inst owner name number) (\<lambda>commits_r.
             (case commits_r of
                Inl e \<Rightarrow> Some (Inl (conv e), db)
              | Inr commits \<Rightarrow>
                  Option.bind (list_pull_request_reviews pv inst owner name number) (\<lambda>reviews_r.
                  (case reviews_r of
                     Inl e \<Rightarrow> Some (Inl (conv e), db)
                   | Inr reviews \<Rightarrow>
                       (case upsert_pull_request (ee_lib env) (ee_now env) ws repo pr action (Some commits) (Some reviews)
                               ready db of
                          (Inl e, db1) \<Rightarrow> Some (Inl (conv e), db1)
                        | (Inr i, db1) \<Rightarrow>
                            (case score_open_pull_request env r ws repo i number pr commits db1 of
                               Inl e \<Rightarrow> Some (Inl (conv e), db1)
                             | Inr db2 \<Rightarrow> Some (Inr i, db2))))))))"

text \<open>A merged pull request asks for the metrics of everything its links touch.\<close>

definition recalculate_merged ::
  "event_env \<Rightarrow> uuid \<Rightarrow> uuid \<Rightarrow> uuid \<Rightarrow> ('d) events_db_scheme \<Rightarrow> ('d) events_db_scheme" where
  "recalculate_merged env ws repo i db =
     (case pull_request_merged_at i db of
        None \<Rightarrow> db
      | Some merged \<Rightarrow>
          (let before = earliest_linked_production_deployment db i;
               db1 = snd (link_deployments_to_pull_requests (ee_lib env) (ee_now env) repo db);
               affected = [merged] @ (case before of None \<Rightarrow> [] | Some t \<Rightarrow> [t]) @
                 (case earliest_linked_production_deployment db1 i of None \<Rightarrow> [] | Some t \<Rightarrow> [t])
           in db1\<lparr>ed_jobs := snd (enqueue_recalculate_metrics_job (ee_service env) ws repo
                    (list_min affected) (list_max affected) (ed_jobs db1))\<rparr>))"

definition pull_request_actions :: "string list" where
  "pull_request_actions = [''opened'', ''reopened'', ''synchronize'', ''closed'', ''edited'', ''converted_to_draft'', ''ready_for_review'']"

text \<open>A number's text in a URL; a bool is an int to \<^verbatim>\<open>isinstance\<close>.\<close>

definition number_text :: "json \<Rightarrow> string option" where
  "number_text v = (case v of JInt k \<Rightarrow> Some (str_int k) | JBool b \<Rightarrow> Some (if b then ''True'' else ''False'') | _ \<Rightarrow> None)"

definition handle_pull_request ::
  "event_env \<Rightarrow> dict \<Rightarrow> string option \<Rightarrow> uuid \<Rightarrow> uuid \<Rightarrow> ('d) events_db_scheme \<Rightarrow> (unit, ('d) events_db_scheme) outcome" where
  "handle_pull_request env payload action ws repo db =
     (if action \<notin> Some ` set pull_request_actions then Some (Inr (), db)
      else case dict_get payload ''pull_request'' of
             JObj webhook_pr \<Rightarrow>
               (case number_text (dict_get webhook_pr ''number'') of
                  None \<Rightarrow> Some (Inl (PermanentJobError ''GitHub returned a pull request without a number''), db)
                | Some number \<Rightarrow>
                    (case load_github_repository repo db of
                       Inl e \<Rightarrow> Some (Inl e, db)
                     | Inr r \<Rightarrow>
                         map_option (\<lambda>(res, db1).
                           (case res of
                              Inl e \<Rightarrow> (Inl e, db1)
                            | Inr i \<Rightarrow> (Inr (), recalculate_merged env ws repo i db1)))
                           (import_pull_request env r ws repo number action
                             (if action = Some ''ready_for_review''
                              then github_timestamp (ee_lib env) (dict_get webhook_pr ''updated_at'') else None) db)))
           | _ \<Rightarrow> Some (Inr (), db))"

text \<open>\<^verbatim>\<open>_pull_request_id\<close>: \<^verbatim>\<open>scalar_one_or_none\<close> raises on several rows.\<close>

definition pull_request_id_of :: "uuid \<Rightarrow> int \<Rightarrow> ('d) metrics_db_scheme \<Rightarrow> uuid option result" where
  "pull_request_id_of repo number db =
     (case filter (\<lambda>p. pr_repository_id p = repo \<and> pr_number p = number) (md_pull_requests db) of
        [] \<Rightarrow> Inr None
      | [p] \<Rightarrow> Inr (Some (pr_id p))
      | _ \<Rightarrow> Inl (OtherError ''Multiple rows were found when one or none was required''))"

definition replace_listed_reviews ::
  "event_env \<Rightarrow> repository_context \<Rightarrow> uuid \<Rightarrow> uuid \<Rightarrow> uuid \<Rightarrow> int \<Rightarrow> ('d) events_db_scheme \<Rightarrow>
     (unit, ('d) events_db_scheme) outcome" where
  "replace_listed_reviews env r ws repo i number db =
     map_option (\<lambda>reviews_r.
       (case reviews_r of
          Inl e \<Rightarrow> (Inl (provider_exception_as_job_error e), db)
        | Inr reviews \<Rightarrow>
            (case replace_pull_request_reviews (ee_lib env) i reviews db of
               Inl e \<Rightarrow> (Inl e, db)
             | Inr db1 \<Rightarrow>
                 (Inr (), case pull_request_merged_at i db1 of
                            None \<Rightarrow> db1
                          | Some merged \<Rightarrow>
                              db1\<lparr>ed_jobs := snd (enqueue_recalculate_metrics_job (ee_service env) ws repo
                                     (Some merged) None (ed_jobs db1))\<rparr>))))
       (list_pull_request_reviews (ee_providers env) (rc_installation_id r) (rc_owner_login r) (rc_name r) (str_int number))"

definition handle_pull_request_review ::
  "event_env \<Rightarrow> dict \<Rightarrow> string option \<Rightarrow> uuid \<Rightarrow> uuid \<Rightarrow> ('d) events_db_scheme \<Rightarrow> (unit, ('d) events_db_scheme) outcome" where
  "handle_pull_request_review env payload action ws repo db =
     (if action \<notin> Some ` set [''submitted'', ''edited'', ''dismissed''] then Some (Inr (), db)
      else case strict_int (dict_get (as_dict (dict_get payload ''pull_request'')) ''number'') of
             None \<Rightarrow> Some (Inl (PermanentJobError ''GitHub review event is missing pull_request.number''), db)
           | Some number \<Rightarrow>
               (case pull_request_id_of repo number db of
                  Inl e \<Rightarrow> Some (Inl e, db)
                | Inr None \<Rightarrow>
                    handle_pull_request env [(''pull_request'', dict_get payload ''pull_request'')] (Some ''synchronize'') ws repo db
                | Inr (Some i) \<Rightarrow>
                    (case load_github_repository repo db of
                       Inl e \<Rightarrow> Some (Inl e, db)
                     | Inr r \<Rightarrow> replace_listed_reviews env r ws repo i number db)))"

section \<open>Issues and deployments\<close>

definition handle_issue ::
  "event_env \<Rightarrow> dict \<Rightarrow> string option \<Rightarrow> uuid \<Rightarrow> uuid \<Rightarrow> ('d) events_db_scheme \<Rightarrow> unit result \<times> ('d) events_db_scheme" where
  "handle_issue env payload action ws repo db =
     (case dict_get payload ''issue'' of
        JObj issue \<Rightarrow>
          (case dict_get issue ''pull_request'' of
             JObj _ \<Rightarrow> (Inr (), db)
           | _ \<Rightarrow>
               if action = Some ''deleted''
               then (case strict_int (dict_get issue ''id'') of
                       None \<Rightarrow> (Inl (PermanentJobError ''GitHub returned an issue without an id''), db)
                     | Some i \<Rightarrow>
                         (Inr (), db\<lparr>ev_github_issues := filter (\<lambda>s. \<not> (gs_workspace_id s = ws \<and> gs_repository_id s = repo \<and>
                            gs_github_issue_id s = i)) (ev_github_issues db)\<rparr>))
               else (case upsert_github_issue (ee_lib env) (je_utcnow (ee_job env)) (ee_now env) ws repo issue None db of
                       Inl e \<Rightarrow> (Inl e, db)
                     | Inr (_, db1) \<Rightarrow> (Inr (), db1)))
      | _ \<Rightarrow> (Inr (), db))"

definition discard :: "'a result \<times> 's \<Rightarrow> unit result \<times> 's" where
  "discard r = (map_sum id (\<lambda>_. ()) (fst r), snd r)"

definition handle_workflow_run ::
  "event_env \<Rightarrow> dict \<Rightarrow> uuid \<Rightarrow> uuid \<Rightarrow> ('d) events_db_scheme \<Rightarrow> unit result \<times> ('d) events_db_scheme" where
  "handle_workflow_run env payload ws repo db =
     (if dict_get payload ''action'' \<noteq> JStr ''completed'' then (Inr (), db)
      else discard (upsert_deployment_from_workflow_run (ee_service env) ws repo payload db))"

definition handle_deployment_status ::
  "event_env \<Rightarrow> dict \<Rightarrow> uuid \<Rightarrow> uuid \<Rightarrow> ('d) events_db_scheme \<Rightarrow> unit result \<times> ('d) events_db_scheme" where
  "handle_deployment_status env payload ws repo db =
     discard (upsert_deployment_from_deployment_status (ee_service env) ws repo payload db)"

section \<open>Installations and repositories\<close>

definition status_by_action :: "(string \<times> string) list" where
  "status_by_action = [(''created'', ''ACTIVE''), (''new_permissions_accepted'', ''ACTIVE''), (''unsuspend'', ''ACTIVE''),
     (''suspend'', ''SUSPENDED''), (''deleted'', ''REVOKED'')]"

definition installation_of :: "dict \<Rightarrow> int option" where
  "installation_of payload = as_int (dict_get (as_dict (dict_get payload ''installation'')) ''id'')"

definition set_installation_status ::
  "time \<Rightarrow> uuid \<Rightarrow> int \<Rightarrow> string \<Rightarrow> github_integration list \<Rightarrow> github_integration list" where
  "set_installation_status now ws inst status =
     sql_update (\<lambda>g. gi_workspace_id g = ws \<and> gi_installation_id g = inst \<and>
         (gi_status g \<noteq> status \<or> gi_status g = ''SUSPENDED'' \<and> gi_suspended_at g = None))
       (\<lambda>g. g\<lparr>gi_status := status, gi_suspended_at := (if status = ''SUSPENDED'' then Some now else None),
              gi_updated_at := now, gi_version := gi_version g + 1\<rparr>)"

definition installed_by :: "uuid \<Rightarrow> int \<Rightarrow> github_integration list \<Rightarrow> repository \<Rightarrow> bool" where
  "installed_by ws inst gis r \<longleftrightarrow>
     (\<exists>g \<in> set gis. re_github_integration_id r = gi_id g \<and> gi_workspace_id g = ws \<and> gi_installation_id g = inst)"

definition handle_installation ::
  "event_env \<Rightarrow> dict \<Rightarrow> string option \<Rightarrow> uuid \<Rightarrow> ('d) events_db_scheme \<Rightarrow> unit result \<times> ('d) events_db_scheme" where
  "handle_installation env payload action ws db =
     (case installation_of payload of
        None \<Rightarrow> (Inl (PermanentJobError ''GitHub installation event is missing installation.id''), db)
      | Some inst \<Rightarrow>
          (case Option.bind action (map_of status_by_action) of
             None \<Rightarrow> (Inr (), db)
           | Some status \<Rightarrow>
               (let gis = set_installation_status (ee_now env) ws inst status (md_integrations db) in
                (Inr (), db\<lparr>md_integrations := gis,
                   md_repositories := (if action = Some ''deleted''
                     then sql_update (installed_by ws inst gis) (untrack (ee_now env)) (md_repositories db)
                     else md_repositories db)\<rparr>))))"

definition github_integration_for_event :: "uuid \<Rightarrow> dict \<Rightarrow> ('d) metrics_db_scheme \<Rightarrow> uuid option result" where
  "github_integration_for_event ws payload db =
     (case installation_of payload of
        None \<Rightarrow> Inr None
      | Some inst \<Rightarrow>
          (case filter (\<lambda>g. gi_workspace_id g = ws \<and> gi_installation_id g = inst) (md_integrations db) of
             [] \<Rightarrow> Inr None
           | [g] \<Rightarrow> Inr (Some (gi_id g))
           | _ \<Rightarrow> Inl (OtherError ''Multiple rows were found when one or none was required'')))"

text \<open>Removed repositories are untracked.\<close>

definition remove_repositories :: "time \<Rightarrow> uuid \<Rightarrow> uuid \<Rightarrow> dict list \<Rightarrow> repository list \<Rightarrow> repository list" where
  "remove_repositories now ws integration removed =
     fold (\<lambda>i. sql_update (\<lambda>r. re_workspace_id r = ws \<and> re_github_integration_id r = integration \<and> re_github_repo_id r = i)
                 (untrack now))
       (List.map_filter (\<lambda>d. as_int (dict_get d ''id'')) removed)"

definition handle_installation_repositories ::
  "event_env \<Rightarrow> dict \<Rightarrow> uuid \<Rightarrow> ('d) events_db_scheme \<Rightarrow> unit result \<times> ('d) events_db_scheme" where
  "handle_installation_repositories env payload ws db =
     (case github_integration_for_event ws payload db of
        Inl e \<Rightarrow> (Inl e, db)
      | Inr None \<Rightarrow> (Inr (), db)
      | Inr (Some integration) \<Rightarrow>
          (case upsert_repositories (ee_lib env) (ee_now env) ws integration (je_utcnow (ee_job env))
                  (object_list (dict_get payload ''repositories_added'')) (md_repositories db) of
             Inl e \<Rightarrow> (Inl e, db)
           | Inr t \<Rightarrow>
               (Inr (), db\<lparr>md_repositories := remove_repositories (ee_now env) ws integration
                  (object_list (dict_get payload ''repositories_removed'')) t\<rparr>)))"

definition remote_repository :: "uuid \<Rightarrow> int \<Rightarrow> repository \<Rightarrow> bool" where
  "remote_repository ws i r \<longleftrightarrow> re_workspace_id r = ws \<and> re_github_repo_id r = i"

definition archive_repository :: "time \<Rightarrow> repository \<Rightarrow> repository" where
  "archive_repository now r =
     r\<lparr>re_archived := True, re_tracking_enabled := False, re_updated_at := now, re_version := re_version r + 1\<rparr>"

definition refresh_repository :: "py_lib \<Rightarrow> time \<Rightarrow> dict \<Rightarrow> repository \<Rightarrow> repository" where
  "refresh_repository lib now d r =
     (let get = (\<lambda>k old. case as_text (dict_get d k) of None \<Rightarrow> old | Some s \<Rightarrow> s) in
      r\<lparr>re_owner_login := (case owner_login_of d of None \<Rightarrow> re_owner_login r | Some s \<Rightarrow> s),
        re_name := get ''name'' (re_name r), re_full_name := get ''full_name'' (re_full_name r),
        re_default_branch := get ''default_branch'' (re_default_branch r), re_visibility := visibility_of lib d,
        re_archived := (case map_of d ''archived'' of None \<Rightarrow> re_archived r | Some v \<Rightarrow> truthy v),
        re_last_synced_at := Some now, re_updated_at := now, re_version := re_version r + 1\<rparr>)"

definition metadata_actions :: "string list" where
  "metadata_actions = [''unarchived'', ''renamed'', ''edited'', ''transferred'', ''publicized'', ''privatized'']"

definition handle_repository ::
  "event_env \<Rightarrow> dict \<Rightarrow> string option \<Rightarrow> uuid \<Rightarrow> ('d) events_db_scheme \<Rightarrow> unit result \<times> ('d) events_db_scheme" where
  "handle_repository env payload action ws db =
     (let d = as_dict (dict_get payload ''repository'') in
      case as_int (dict_get d ''id'') of
        None \<Rightarrow> (Inl (PermanentJobError ''GitHub repository event is missing repository.id''), db)
      | Some i \<Rightarrow>
          (case github_integration_for_event ws payload db of
             Inl e \<Rightarrow> (Inl e, db)
           | Inr integration \<Rightarrow>
               if action = Some ''created'' \<and> integration \<noteq> None
               then (case upsert_repository (ee_lib env) (ee_now env) ws (the integration) (je_utcnow (ee_job env)) d
                            (md_repositories db) of
                       Inl e \<Rightarrow> (Inl e, db)
                     | Inr t \<Rightarrow> (Inr (), db\<lparr>md_repositories := t\<rparr>))
               else if action \<in> {Some ''archived'', Some ''deleted''}
               then (Inr (), db\<lparr>md_repositories := sql_update (remote_repository ws i) (archive_repository (ee_now env))
                                  (md_repositories db)\<rparr>)
               else if action \<in> Some ` set metadata_actions
               then (Inr (), db\<lparr>md_repositories := sql_update (remote_repository ws i) (refresh_repository (ee_lib env) (ee_now env) d)
                                  (md_repositories db)\<rparr>)
               else (Inr (), db)))"

section \<open>Routing\<close>

definition required_repository :: "uuid option \<Rightarrow> uuid result" where
  "required_repository repo =
     (case repo of None \<Rightarrow> Inl (PermanentJobError ''Repository is required for this GitHub event'') | Some r \<Rightarrow> Inr r)"

definition with_repository ::
  "uuid option \<Rightarrow> 's \<Rightarrow> (uuid \<Rightarrow> (unit, 's) outcome) \<Rightarrow> (unit, 's) outcome" where
  "with_repository repo db f = (case required_repository repo of Inl e \<Rightarrow> Some (Inl e, db) | Inr r \<Rightarrow> f r)"

definition dispatch_event ::
  "event_env \<Rightarrow> string \<Rightarrow> string option \<Rightarrow> dict \<Rightarrow> uuid \<Rightarrow> uuid option \<Rightarrow> string option \<Rightarrow> ('d) events_db_scheme \<Rightarrow>
     (unit, ('d) events_db_scheme) outcome" where
  "dispatch_event env event_type action payload ws repo signal db =
     (if event_type = ''pull_request''
      then with_repository repo db (\<lambda>r. handle_pull_request env payload action ws r db)
      else if event_type = ''pull_request_review''
      then with_repository repo db (\<lambda>r. handle_pull_request_review env payload action ws r db)
      else if event_type = ''issues''
      then with_repository repo db (\<lambda>r. Some (handle_issue env payload action ws r db))
      else if event_type = ''workflow_run''
      then (if signal \<noteq> Some ''WORKFLOW_RUN'' then Some (Inr (), db)
            else with_repository repo db (\<lambda>r. Some (handle_workflow_run env payload ws r db)))
      else if event_type = ''deployment_status''
      then (if signal \<noteq> Some ''DEPLOYMENT'' then Some (Inr (), db)
            else with_repository repo db (\<lambda>r. Some (handle_deployment_status env payload ws r db)))
      else if event_type = ''installation'' then Some (handle_installation env payload action ws db)
      else if event_type = ''installation_repositories'' then Some (handle_installation_repositories env payload ws db)
      else if event_type = ''repository'' then Some (handle_repository env payload action ws db)
      else Some (Inr (), db))"

section \<open>The handler\<close>

text \<open>Why an event is not processed, or the arguments of the routing.\<close>

definition event_route ::
  "py_lib \<Rightarrow> raw_event \<Rightarrow> string \<Rightarrow> ('d) metrics_db_scheme \<Rightarrow> string + uuid \<times> uuid option \<times> string option" where
  "event_route lib raw event_type db =
     (case rw_workspace_id raw of
        None \<Rightarrow> Inl ''workspace not resolved''
      | Some ws \<Rightarrow>
          if event_type \<in> repository_optional then Inr (ws, rw_repository_id raw, None)
          else (case rw_repository_id raw of
                  None \<Rightarrow> Inl ''repository not resolved''
                | Some repo \<Rightarrow>
                    (case tracked_repository_deployment_signal lib ws repo db of
                       None \<Rightarrow> Inl ''repository tracking disabled''
                     | Some signal \<Rightarrow> Inr (ws, Some repo, Some signal))))"

definition event_type_of :: "py_lib \<Rightarrow> raw_event \<Rightarrow> dict \<Rightarrow> string" where
  "event_type_of lib raw payload =
     (case nonempty (rw_event_type raw) of
        Some s \<Rightarrow> s
      | None \<Rightarrow> py_text lib (py_or (dict_get payload ''eventType'') (JStr ''unknown'')))"

definition processed_event ::
  "time \<Rightarrow> uuid \<Rightarrow> unit result \<times> ('d) events_db_scheme \<Rightarrow> exn option \<times> ('d) events_db_scheme" where
  "processed_event now i r =
     (case fst r of
        Inl e \<Rightarrow> (Some e, mark_raw_event_failed now i (exn_str e) (snd r))
      | Inr _ \<Rightarrow> (None, mark_raw_event_processed now i (snd r)))"

definition handle_process_github_event ::
  "event_env \<Rightarrow> ('d) events_db_scheme \<Rightarrow> claimed_job \<Rightarrow> string \<Rightarrow> (exn option \<times> ('d) events_db_scheme) option" where
  "handle_process_github_event env db job w =
     (case parse_uuid (py_or (dict_get (cj_payload job) ''rawEventId'') (dict_get (cj_payload job) ''raw_event_id'')) ''rawEventId'' of
        Inl e \<Rightarrow> Some (Some e, db)
      | Inr i \<Rightarrow>
          (case row_with rw_id i (ev_raw_events db) of
             None \<Rightarrow> Some (Some (PermanentJobError (''RAW_EVENT_NOT_FOUND: '' @ uuid_str i)), db)
           | Some raw \<Rightarrow>
               (let event_type = event_type_of (ee_lib env) raw (cj_payload job) in
                case event_route (ee_lib env) raw event_type db of
                  Inl reason \<Rightarrow> Some (None, mark_raw_event_ignored (ee_now env) i reason db)
                | Inr (ws, repo, signal) \<Rightarrow>
                    map_option (processed_event (ee_now env) i)
                      (dispatch_event env event_type (rw_action raw) (json_object (ee_lib env) (rw_payload raw)) ws repo signal
                        (mark_raw_event_processing (ee_now env) i db)))))"

end
