(* ===== verification/Incident_Facts.thy ===== *)
theory Incident_Facts
  imports Linking
begin

text \<open>
  Incident reconciliation: afterwards the GitHub incidents of a repository are exactly what its
  deployments say, whatever was stored before and in whatever order the deliveries came.
\<close>

interpretation incident_upsert: keyed_upsert in_failed_deployment_id "\<lambda>_ _. True" merge_incident
  by unfold_locales (simp add: merge_incident_def)

section \<open>The recovery of a failure\<close>

definition production_success :: "deployment \<Rightarrow> bool" where
  "production_success s \<longleftrightarrow> dp_is_production s \<and> dp_status s = ''SUCCESS''"

lemma set_recoveries: "x \<in> set (recoveries repo db t) \<longleftrightarrow>
   (\<exists>s \<in> set (repo_deployments repo db). production_success s \<and> dp_finished_at s = Some (fst x) \<and> dp_id s = snd x \<and> t < fst x)"
  by (cases x) (force simp: recoveries_def map_filter_def production_success_def split: if_splits)

lemma recovery_none: "recovery_of repo db t = None \<longleftrightarrow>
   \<not> (\<exists>s \<in> set (repo_deployments repo db). \<exists>f. production_success s \<and> dp_finished_at s = Some f \<and> t < f)"
proof -
  have "recovery_of repo db t = None \<longleftrightarrow> (\<forall>x. x \<notin> set (recoveries repo db t))"
    by (cases "recoveries repo db t") (auto simp: recovery_of_def)
  then show ?thesis by (simp add: set_recoveries) blast
qed

lemma recovery_some:
  assumes "recovery_of repo db t = Some (f, i)"
  shows "(\<exists>s \<in> set (repo_deployments repo db). production_success s \<and> dp_finished_at s = Some f \<and> dp_id s = i) \<and> t < f \<and>
    (\<forall>s \<in> set (repo_deployments repo db). \<forall>g. production_success s \<longrightarrow> dp_finished_at s = Some g \<longrightarrow> t < g \<longrightarrow> f \<le> g)"
proof -
  from list_min_Some [OF assms [unfolded recovery_of_def]]
  have m: "(f, i) \<in> set (recoveries repo db t)" "\<And>x. x \<in> set (recoveries repo db t) \<Longrightarrow> (f, i) \<le> x" by blast+
  have "f \<le> g"
    if "s \<in> set (repo_deployments repo db)" "production_success s" "dp_finished_at s = Some g" "t < g" for s g
  proof -
    have "(g, dp_id s) \<in> set (recoveries repo db t)" using that by (force simp: set_recoveries)
    from m(2) [OF this] show ?thesis by auto
  qed
  with m(1) show ?thesis by (auto simp: set_recoveries)
qed

lemma recovery_of_set:
  assumes "set (md_deployments db) = set (md_deployments db2)"
  shows "recovery_of repo db t = recovery_of repo db2 t"
proof -
  have "set (repo_deployments repo db) = set (repo_deployments repo db2)" using assms by (simp add: repo_deployments_def)
  then have "set (recoveries repo db t) = set (recoveries repo db2 t)" by (simp add: set_eq_iff set_recoveries Bex_def)
  then show ?thesis unfolding recovery_of_def by (rule list_min_set)
qed

section \<open>The incidents\<close>

text \<open>What an incident says, without its id and its bookkeeping.\<close>

definition incident_content :: "incident \<Rightarrow> incident" where
  "incident_content i = i\<lparr>in_id := 0, in_updated_at := 0, in_version := 0\<rparr>"

lemma content_fields [simp]:
  "in_failed_deployment_id (incident_content i) = in_failed_deployment_id i"
  "in_source (incident_content i) = in_source i"
  "in_repository_id (incident_content i) = in_repository_id i"
  "in_detected_at (incident_content i) = in_detected_at i"
  "in_status (incident_content i) = in_status i"
  "in_resolved_at (incident_content i) = in_resolved_at i"
  "in_recovery_deployment_id (incident_content i) = in_recovery_deployment_id i"
  by (simp_all add: incident_content_def)

lemma incident_content_of:
  "incident_content (incident_of now db d fresh) = incident_content (incident_of now' db d fresh')"
  "incident_content (merge_incident old (incident_of now db d fresh)) = incident_content (incident_of now' db d fresh')"
  by (simp_all add: incident_content_def incident_of_def merge_incident_def Let_def)

definition derived :: "py_lib \<Rightarrow> time \<Rightarrow> ('d) metrics_db_scheme \<Rightarrow> deployment list \<Rightarrow> incident list \<Rightarrow> incident list" where
  "derived lib now db ds t =
     fold (\<lambda>d t. upsert_incident (incident_of now db d (gen_random_uuid lib (map in_id t))) t) ds t"

lemma failed_key [simp]: "in_failed_deployment_id (incident_of now db d fresh) = Some (dp_id d)"
  by (simp add: incident_of_def Let_def)

lemma derived_frame: "Some x \<notin> (\<lambda>d. Some (dp_id d)) ` set ds \<Longrightarrow>
    row_with in_failed_deployment_id (Some x) (derived lib now db ds t) = row_with in_failed_deployment_id (Some x) t"
proof (induction ds arbitrary: t)
  case Nil
  then show ?case by (simp add: derived_def)
next
  case (Cons d ds)
  let ?t = "upsert_incident (incident_of now db d (gen_random_uuid lib (map in_id t))) t"
  have "derived lib now db (d # ds) t = derived lib now db ds ?t" by (simp add: derived_def)
  moreover have "row_with in_failed_deployment_id (Some x) ?t = row_with in_failed_deployment_id (Some x) t"
    using Cons.prems by (auto simp: upsert_incident_def incident_upsert.put_lookup)
  ultimately show ?case using Cons by auto
qed

lemma derived_lookup:
  assumes "distinct (map dp_id ds)" and "d \<in> set ds"
  shows "\<exists>i. row_with in_failed_deployment_id (Some (dp_id d)) (derived lib now db ds t) = Some i \<and>
     incident_content i = incident_content (incident_of 0 db d 0)"
  using assms
proof (induction ds arbitrary: t)
  case (Cons e ds)
  let ?t = "upsert_incident (incident_of now db e (gen_random_uuid lib (map in_id t))) t"
  have step: "derived lib now db (e # ds) t = derived lib now db ds ?t" by (simp add: derived_def)
  show ?case
  proof (cases "d = e")
    case True
    with Cons.prems have "Some (dp_id d) \<notin> (\<lambda>d. Some (dp_id d)) ` set ds" by (auto simp: image_iff)
    from derived_frame [OF this, of lib now db ?t]
    have "row_with in_failed_deployment_id (Some (dp_id d)) (derived lib now db ds ?t) =
        row_with in_failed_deployment_id (Some (dp_id d)) ?t" .
    with True show ?thesis unfolding step
      by (auto simp: upsert_incident_def incident_upsert.put_lookup split: option.splits
          intro: incident_content_of)
  next
    case False
    with Cons show ?thesis unfolding step by simp
  qed
qed simp

lemma upsert_incident_members:
  "i \<in> set (upsert_incident new t) \<Longrightarrow>
     in_failed_deployment_id new \<noteq> None \<Longrightarrow> in_failed_deployment_id i = in_failed_deployment_id new \<or> i \<in> set t"
  by (auto simp: upsert_incident_def sql_upsert_def set_sql_update merge_incident_def split: if_splits)

lemma upsert_incident_keeps:
  "i \<in> set t \<Longrightarrow> in_failed_deployment_id i \<noteq> in_failed_deployment_id new \<Longrightarrow> i \<in> set (upsert_incident new t)"
  by (force simp: upsert_incident_def sql_upsert_def set_sql_update)

lemma derived_members:
  "i \<in> set (derived lib now db ds t) \<Longrightarrow> (\<exists>d \<in> set ds. in_failed_deployment_id i = Some (dp_id d)) \<or> i \<in> set t"
proof (induction ds arbitrary: t)
  case (Cons d ds)
  let ?t = "upsert_incident (incident_of now db d (gen_random_uuid lib (map in_id t))) t"
  have "i \<in> set (derived lib now db ds ?t)" using Cons.prems by (simp add: derived_def)
  with Cons.IH have "(\<exists>d \<in> set ds. in_failed_deployment_id i = Some (dp_id d)) \<or> i \<in> set ?t" by blast
  with upsert_incident_members [of i "incident_of now db d (gen_random_uuid lib (map in_id t))" t] show ?case by auto
qed (simp add: derived_def)

lemma derived_keeps:
  "i \<in> set t \<Longrightarrow> (\<forall>d \<in> set ds. in_failed_deployment_id i \<noteq> Some (dp_id d)) \<Longrightarrow> i \<in> set (derived lib now db ds t)"
proof (induction ds arbitrary: t)
  case (Cons d ds)
  let ?t = "upsert_incident (incident_of now db d (gen_random_uuid lib (map in_id t))) t"
  have "i \<in> set ?t" using Cons.prems by (intro upsert_incident_keeps) auto
  with Cons show ?case by (simp add: derived_def)
qed (simp add: derived_def)

text \<open>One row per failed deployment.\<close>

definition incident_keys_ok :: "incident list \<Rightarrow> bool" where
  "incident_keys_ok t \<longleftrightarrow> (\<forall>f. sql_count (\<lambda>i. in_failed_deployment_id i = Some f) t \<le> 1)"

lemma upsert_incident_keys:
  assumes "incident_keys_ok t" and "in_failed_deployment_id new = Some g"
  shows "incident_keys_ok (upsert_incident new t)"
  unfolding incident_keys_ok_def
proof
  fix f
  show "sql_count (\<lambda>i. in_failed_deployment_id i = Some f) (upsert_incident new t) \<le> 1"
  proof (cases "Some g \<in> in_failed_deployment_id ` set t")
    case True
    then have "upsert_incident new t = sql_update (\<lambda>old. in_failed_deployment_id old = Some g) (\<lambda>old. merge_incident old new) t"
      using assms(2) by (simp add: upsert_incident_def sql_upsert_def)
    moreover have "sql_count (\<lambda>i. in_failed_deployment_id i = Some f)
        (sql_update (\<lambda>old. in_failed_deployment_id old = Some g) (\<lambda>old. merge_incident old new) t) =
        sql_count (\<lambda>i. in_failed_deployment_id i = Some f) t"
      by (rule sql_count_update_same) (simp add: merge_incident_def assms(2))
    ultimately show ?thesis using assms(1) by (simp add: incident_keys_ok_def)
  next
    case False
    have zero: "sql_count (\<lambda>i. in_failed_deployment_id i = Some f) t = 0" if "f = g"
      using False that by (auto simp: image_iff)
    from False have "upsert_incident new t = t @ [new]" using assms(2) by (simp add: upsert_incident_def sql_upsert_def)
    then show ?thesis using assms zero by (cases "f = g") (simp_all add: sql_count_def incident_keys_ok_def)
  qed
qed

lemma derived_keys: "incident_keys_ok t \<Longrightarrow> incident_keys_ok (derived lib now db ds t)"
  by (induction ds arbitrary: t) (simp_all add: derived_def upsert_incident_keys)

lemma incident_row:
  assumes "incident_keys_ok t" and "row_with in_failed_deployment_id (Some f) t = Some i"
    and "j \<in> set t" and "in_failed_deployment_id j = Some f"
  shows "j = i"
proof -
  from assms(1) have "length (filter (\<lambda>i. in_failed_deployment_id i = Some f) t) \<le> 1"
    by (simp add: incident_keys_ok_def sql_count_def)
  moreover from assms(2) have "i \<in> set (filter (\<lambda>i. in_failed_deployment_id i = Some f) t)"
    using row_with_Some_set by fastforce
  moreover have "j \<in> set (filter (\<lambda>i. in_failed_deployment_id i = Some f) t)" using assms(3,4) by simp
  ultimately show ?thesis by (cases "filter (\<lambda>i. in_failed_deployment_id i = Some f) t") auto
qed

lemma reconcile_unfold: "md_incidents (reconcile_github_incidents lib now repo db) =
   derived lib now db (filter failed_deployment (repo_deployments repo db))
     (filter (\<lambda>i. \<not> stale_incident repo db i) (md_incidents db))"
  by (simp add: reconcile_github_incidents_def derived_def Let_def)

lemma keys_ok_filter: "incident_keys_ok t \<Longrightarrow> incident_keys_ok (filter p t)"
  unfolding incident_keys_ok_def
proof
  fix f
  assume "\<forall>f. sql_count (\<lambda>i. in_failed_deployment_id i = Some f) t \<le> 1"
  then have "sql_count (\<lambda>i. in_failed_deployment_id i = Some f) t \<le> 1" by blast
  moreover have "sql_count (\<lambda>i. in_failed_deployment_id i = Some f) (filter p t) \<le>
      sql_count (\<lambda>i. in_failed_deployment_id i = Some f) t" by (induction t) auto
  ultimately show "sql_count (\<lambda>i. in_failed_deployment_id i = Some f) (filter p t) \<le> 1" by linarith
qed

lemma repo_deployments_ids: "distinct (map dp_id (md_deployments db)) \<Longrightarrow>
    distinct (map dp_id (filter p (repo_deployments repo db)))"
  by (simp add: repo_deployments_def distinct_map_filter)

text \<open>The incident of a failed deployment, by its recovery.\<close>

definition says_failure :: "uuid \<Rightarrow> ('d) metrics_db_scheme \<Rightarrow> deployment \<Rightarrow> time \<Rightarrow> incident \<Rightarrow> bool" where
  "says_failure repo db d t i \<longleftrightarrow> in_failed_deployment_id i = Some (dp_id d) \<and> in_source i = ''GITHUB'' \<and>
     in_repository_id i = repo \<and> in_detected_at i = Some t \<and>
     (in_status i = ''OPEN'' \<longleftrightarrow> \<not> (\<exists>s \<in> set (repo_deployments repo db). \<exists>f. production_success s \<and>
        dp_finished_at s = Some f \<and> t < f)) \<and>
     (\<forall>f. in_resolved_at i = Some f \<longrightarrow> in_status i = ''RESOLVED'' \<and> t < f \<and>
        (\<exists>s \<in> set (repo_deployments repo db). production_success s \<and> dp_finished_at s = Some f \<and>
           in_recovery_deployment_id i = Some (dp_id s)) \<and>
        (\<forall>s \<in> set (repo_deployments repo db). \<forall>g. production_success s \<longrightarrow> dp_finished_at s = Some g \<longrightarrow> t < g \<longrightarrow> f \<le> g))"

lemma content_says_failure:
  assumes c: "incident_content i = incident_content (incident_of 0 db d 0)"
    and t: "dp_finished_at d = Some t" and repo: "dp_repository_id d = repo"
  shows "says_failure repo db d t i"
proof -
  have f: "in_failed_deployment_id i = Some (dp_id d)" "in_source i = ''GITHUB''" "in_repository_id i = repo"
    "in_detected_at i = Some t" "in_status i = (if recovery_of repo db t = None then ''OPEN'' else ''RESOLVED'')"
    "in_resolved_at i = map_option fst (recovery_of repo db t)"
    "in_recovery_deployment_id i = map_option snd (recovery_of repo db t)"
    using arg_cong [OF c, of in_failed_deployment_id] arg_cong [OF c, of in_source]
      arg_cong [OF c, of in_repository_id] arg_cong [OF c, of in_detected_at] arg_cong [OF c, of in_status]
      arg_cong [OF c, of in_resolved_at] arg_cong [OF c, of in_recovery_deployment_id]
    by (simp_all add: incident_of_def Let_def t repo)
  have "in_status i = ''RESOLVED'' \<and> t < g \<and>
      (\<exists>s \<in> set (repo_deployments repo db). production_success s \<and> dp_finished_at s = Some g \<and>
         in_recovery_deployment_id i = Some (dp_id s)) \<and>
      (\<forall>s \<in> set (repo_deployments repo db). \<forall>h. production_success s \<longrightarrow> dp_finished_at s = Some h \<longrightarrow> t < h \<longrightarrow> g \<le> h)"
    if "in_resolved_at i = Some g" for g
  proof -
    from that f(6) obtain s where r: "recovery_of repo db t = Some (g, s)" by auto
    from recovery_some [OF r] f r show ?thesis by auto
  qed
  moreover have "in_status i = ''OPEN'' \<longleftrightarrow> \<not> (\<exists>s \<in> set (repo_deployments repo db). \<exists>f. production_success s \<and>
      dp_finished_at s = Some f \<and> t < f)" using f(5) recovery_none [of repo db t] by simp
  ultimately show ?thesis using f unfolding says_failure_def by blast
qed

lemma reconciled_failure:
  assumes "distinct (map dp_id (md_deployments db))" and "d \<in> set (repo_deployments repo db)"
    and "failed_deployment d" and t: "dp_finished_at d = Some t"
  shows "\<exists>i \<in> set (md_incidents (reconcile_github_incidents lib now repo db)). says_failure repo db d t i"
proof -
  have "d \<in> set (filter failed_deployment (repo_deployments repo db))" using assms(2,3) by simp
  from derived_lookup [OF repo_deployments_ids [OF assms(1)] this] obtain i where
    i: "row_with in_failed_deployment_id (Some (dp_id d)) (md_incidents (reconcile_github_incidents lib now repo db)) = Some i"
    "incident_content i = incident_content (incident_of 0 db d 0)" unfolding reconcile_unfold by blast
  have "dp_repository_id d = repo" using assms(2) by (simp add: repo_deployments_def)
  from content_says_failure [OF i(2) t this] row_with_Some_set [OF i(1)] show ?thesis by blast
qed

lemma reconciled_sources:
  assumes "i \<in> set (md_incidents (reconcile_github_incidents lib now repo db))" "in_repository_id i = repo" "in_source i = ''GITHUB''"
  shows "\<exists>d \<in> set (repo_deployments repo db). failed_deployment d \<and> in_failed_deployment_id i = Some (dp_id d)"
proof -
  from derived_members [OF assms(1) [unfolded reconcile_unfold]]
  consider "\<exists>d \<in> set (filter failed_deployment (repo_deployments repo db)). in_failed_deployment_id i = Some (dp_id d)"
    | "\<not> stale_incident repo db i" by auto
  then show ?thesis
  proof cases
    case 2
    with assms(2,3) show ?thesis by (auto simp: stale_incident_def split: option.splits)
  qed auto
qed


text \<open>
  The incident of a failed deployment says the same whatever the order of the deployment rows
  and whatever incidents were stored before: late and repeated deliveries converge.
\<close>

theorem incidents_ignore_order:
  assumes "distinct (map dp_id (md_deployments db))" and "mset (md_deployments db2) = mset (md_deployments db)"
    and "d \<in> set (repo_deployments repo db)" and "failed_deployment d"
  shows "map_option incident_content (row_with in_failed_deployment_id (Some (dp_id d))
       (md_incidents (reconcile_github_incidents lib now repo db))) =
     map_option incident_content (row_with in_failed_deployment_id (Some (dp_id d))
       (md_incidents (reconcile_github_incidents lib' later repo db2)))"
proof -
  have same: "set (md_deployments db) = set (md_deployments db2)" using assms(2) by (metis set_mset_mset)
  have d2: "distinct (map dp_id (md_deployments db2))"
    using assms(1,2) by (metis mset_eq_imp_distinct_iff mset_map)
  have "d \<in> set (filter failed_deployment (repo_deployments repo db))" using assms(3,4) by simp
  from derived_lookup [OF repo_deployments_ids [OF assms(1)] this] obtain i where
    i: "row_with in_failed_deployment_id (Some (dp_id d)) (md_incidents (reconcile_github_incidents lib now repo db)) = Some i"
    "incident_content i = incident_content (incident_of 0 db d 0)" unfolding reconcile_unfold by blast
  have "d \<in> set (filter failed_deployment (repo_deployments repo db2))"
    using assms(3,4) same by (simp add: repo_deployments_def)
  from derived_lookup [OF repo_deployments_ids [OF d2] this] obtain j where
    j: "row_with in_failed_deployment_id (Some (dp_id d)) (md_incidents (reconcile_github_incidents lib' later repo db2)) = Some j"
    "incident_content j = incident_content (incident_of 0 db2 d 0)" unfolding reconcile_unfold by blast
  have "incident_of 0 db d 0 = incident_of 0 db2 d 0"
    by (simp only: incident_of_def recovery_of_set [OF same])
  with i j show ?thesis by simp
qed

section \<open>Witnesses\<close>

definition sample_deployment :: "uuid \<Rightarrow> string \<Rightarrow> time \<Rightarrow> deployment" where
  "sample_deployment i status t = \<lparr>dp_id = i, dp_workspace_id = 7, dp_repository_id = 4, dp_source = ''GITHUB_WORKFLOW'',
     dp_external_deployment_id = str_int (int i), dp_environment = Some ''Deploy'', dp_is_production = True,
     dp_status = status, dp_commit_sha = Some ''abc'', dp_started_at = None, dp_finished_at = Some t,
     dp_raw_data = JObj [], dp_updated_at = 0, dp_version = 0\<rparr>"

definition sample_metrics_db :: "deployment list \<Rightarrow> unit metrics_db_scheme" where
  "sample_metrics_db ds = \<lparr>ed_jobs = [], ed_workspaces = Map.empty,
     md_repositories = [\<lparr>re_id = 4, re_workspace_id = 7, re_github_integration_id = 2, re_github_repo_id = 1, re_github_node_id = None, re_owner_login = ''o'',
        re_name = ''n'', re_full_name = ''o/n'', re_default_branch = ''main'', re_visibility = ''PUBLIC'', re_archived = False,
        re_tracking_enabled = True, re_settings = JObj [],
        re_last_synced_at = None, re_updated_at = 0, re_version = 0\<rparr>],
     md_integrations = [], md_deployments = ds, md_pull_requests = [], md_commits = [], md_reviews = [],
     md_links = [], md_incidents = []\<rparr>"

definition sample_lib :: py_lib where
  "sample_lib = \<lparr>fromisoformat = (\<lambda>_. None), tz_aware = (\<lambda>_. True), isoformat = (\<lambda>_. ''t''), py_str = (\<lambda>_. []),
     pg_text = (\<lambda>_. []), gen_random_uuid = (\<lambda>xs. Suc (Max (insert 0 (set xs)))),
     text_le = (\<lambda>_ _. True), json_loads = (\<lambda>_. None), strptime = (\<lambda>_. None)\<rparr>"

text \<open>A failure, a success that recovered it, and a later failure that is still open.\<close>

definition outage :: "deployment list" where
  "outage = [sample_deployment 3 ''FAILURE'' 30, sample_deployment 2 ''SUCCESS'' 20, sample_deployment 1 ''FAILURE'' 10]"


theorem incidents_ignore_order_witness:
  "map_option incident_content (row_with in_failed_deployment_id (Some 1)
       (md_incidents (reconcile_github_incidents sample_lib 40 4 (sample_metrics_db outage)))) =
   map_option incident_content (row_with in_failed_deployment_id (Some 1)
       (md_incidents (reconcile_github_incidents sample_lib 50 4
          (reconcile_github_incidents sample_lib 45 4 (sample_metrics_db (rev outage))))))"
proof -
  let ?db = "sample_metrics_db outage"
  let ?db2 = "reconcile_github_incidents sample_lib 45 4 (sample_metrics_db (rev outage))"
  let ?d = "sample_deployment 1 ''FAILURE'' 10"
  have "distinct (map dp_id (md_deployments ?db))" "?d \<in> set (repo_deployments 4 ?db)" "failed_deployment ?d"
    by (simp_all add: sample_metrics_db_def outage_def sample_deployment_def repo_deployments_def failed_deployment_def)
  moreover have "mset (md_deployments ?db2) = mset (md_deployments ?db)"
    by (simp add: sample_metrics_db_def reconcile_github_incidents_def Let_def)
  moreover have "dp_id ?d = 1" by (simp add: sample_deployment_def)
  ultimately show ?thesis using incidents_ignore_order [of ?db ?db2 ?d 4 sample_lib 40 sample_lib 50] by simp
qed

end
