(* ===== verification/Linking_Facts.thy ===== *)
theory Linking_Facts
  imports Incident_Facts
begin

text \<open>
  Links and incidents are functions of the normalized tables: rebuilding them twice changes
  nothing, the order in which deployments arrived does not matter, manual work is kept.
\<close>

section \<open>Links\<close>

lemma row_with_insert_link:
  "row_with link_key x (insert_link l t) = (case row_with link_key x t of None \<Rightarrow> row_with link_key x [l] | Some r \<Rightarrow> Some r)"
proof (cases "link_key l \<in> link_key ` set t")
  case True
  then show ?thesis
    by (auto simp: insert_link_def row_with_None split: option.splits)
qed (simp add: insert_link_def row_with_append)

lemma row_with_insert_links:
  "row_with link_key x (fold insert_link ls t) = (case row_with link_key x t of None \<Rightarrow> row_with link_key x ls | Some r \<Rightarrow> Some r)"
  by (induction ls arbitrary: t) (auto simp: row_with_insert_link split: option.splits)

lemma distinct_insert_links: "distinct (map link_key t) \<Longrightarrow> distinct (map link_key (fold insert_link ls t))"
  by (induction ls arbitrary: t) (auto simp: insert_link_def)

lemma insert_links_extend: "\<exists>u. fold insert_link ls t = t @ u \<and> set u \<subseteq> set ls"
proof (induction ls arbitrary: t)
  case (Cons l ls)
  from Cons [of "insert_link l t"] obtain u where u: "fold insert_link ls (insert_link l t) = insert_link l t @ u" "set u \<subseteq> set ls"
    by blast
  have "insert_link l t @ u = t @ (if link_key l \<in> link_key ` set t then u else l # u)"
    by (simp add: insert_link_def)
  with u show ?case by (intro exI [of _ "if link_key l \<in> link_key ` set t then u else l # u"]) auto
qed simp

lemma set_exact_links: "l \<in> set (exact_links now repo db) \<longleftrightarrow>
    (\<exists>d \<in> set (repo_deployments repo db). \<exists>pr \<in> set (md_pull_requests db). exact_match db d pr \<and>
       l = \<lparr>ln_deployment_id = dp_id d, ln_pull_request_id = pr_id pr, ln_method = exact_method d pr, ln_created_at = now\<rparr>)"
  by (auto simp: exact_links_def)

lemma set_fallback_links: "l \<in> set (fallback_links lib now repo db) \<longleftrightarrow>
    (\<exists>r. row_with re_id repo (md_repositories db) = Some r \<and>
      (\<exists>d \<in> set (repo_deployments repo db). \<exists>pr \<in> set (window_pull_requests lib db r d). good_deployment d \<and>
       l = \<lparr>ln_deployment_id = dp_id d, ln_pull_request_id = pr_id pr, ln_method = ''MERGE_WINDOW'', ln_created_at = now\<rparr>))"
  by (cases "row_with re_id repo (md_repositories db)") (simp_all add: fallback_links_def image_iff Bex_def, blast)

lemma link_frame [simp]:
  "repo_deployments repo (db\<lparr>md_links := ls\<rparr>) = repo_deployments repo db"
  "exact_match (db\<lparr>md_links := ls\<rparr>) = exact_match db"
  "previous_boundary repo (db\<lparr>md_links := ls\<rparr>) = previous_boundary repo db"
  "window_pull_requests lib (db\<lparr>md_links := ls\<rparr>) = window_pull_requests lib db"
  by (simp_all add: fun_eq_iff repo_deployments_def exact_match_def previous_boundary_def window_pull_requests_def
      cong: option.case_cong)

lemma kept_link_frame [simp]:
  "kept_link repo (db\<lparr>md_links := ls\<rparr>) = kept_link repo db"
  "exact_links now repo (db\<lparr>md_links := ls\<rparr>) = exact_links now repo db"
  "fallback_links lib now repo (db\<lparr>md_links := ls\<rparr>) = fallback_links lib now repo db"
  by (simp_all add: kept_link_def fun_eq_iff exact_links_def fallback_links_def cong: option.case_cong)

lemma window_pull_request:
  assumes "pr \<in> set (window_pull_requests lib db r d)"
  shows "pr \<in> set (md_pull_requests db) \<and> pr_state pr = ''MERGED'' \<and>
     (\<exists>p t m. previous_boundary (re_id r) db t = Some p \<and> dp_finished_at d = Some t \<and> pr_merged_at pr = Some m \<and>
        p < m \<and> m \<le> t)"
proof (cases "dp_finished_at d")
  case (Some t)
  show ?thesis
  proof (cases "previous_boundary (re_id r) db t")
    case (Some p)
    with \<open>dp_finished_at d = Some t\<close> assms obtain m where "pr_merged_at pr = Some m" "p < m" "m \<le> t"
      by (auto simp: window_pull_requests_def in_merge_window_def split: option.splits)
    with Some \<open>dp_finished_at d = Some t\<close> assms show ?thesis by (simp add: window_pull_requests_def)
  qed (use assms \<open>dp_finished_at d = Some t\<close> in \<open>simp add: window_pull_requests_def\<close>)
qed (use assms in \<open>simp add: window_pull_requests_def\<close>)

lemma derived_not_kept:
  "l \<in> set (exact_links now repo db) \<union> set (fallback_links lib now repo db) \<Longrightarrow> \<not> kept_link repo db l"
  by (auto simp: set_exact_links set_fallback_links kept_link_def exact_method_def split: if_splits)

lemma links_shape:
  obtains u where "link_deployments_to_pull_requests lib now repo db =
      (length u, db\<lparr>md_links := filter (kept_link repo db) (md_links db) @ u\<rparr>)"
    "set u \<subseteq> set (exact_links now repo db) \<union> set (fallback_links lib now repo db)"
    "filter (kept_link repo db) (md_links db) @ u =
       fold insert_link (fallback_links lib now repo db)
         (fold insert_link (exact_links now repo db) (filter (kept_link repo db) (md_links db)))"
proof -
  let ?k = "filter (kept_link repo db) (md_links db)"
  obtain u where u: "fold insert_link (exact_links now repo db) ?k = ?k @ u" "set u \<subseteq> set (exact_links now repo db)"
    using insert_links_extend by blast
  obtain v where v: "fold insert_link (fallback_links lib now repo db) (?k @ u) = (?k @ u) @ v"
    "set v \<subseteq> set (fallback_links lib now repo db)" using insert_links_extend by blast
  have f: "fold insert_link (fallback_links lib now repo db) (fold insert_link (exact_links now repo db) ?k) = ?k @ (u @ v)"
    using u(1) v(1) by simp
  show ?thesis
  proof (rule that [of "u @ v"])
    show "link_deployments_to_pull_requests lib now repo db = (length (u @ v), db\<lparr>md_links := ?k @ (u @ v)\<rparr>)"
      unfolding link_deployments_to_pull_requests_def Let_def f by simp
    show "set (u @ v) \<subseteq> set (exact_links now repo db) \<union> set (fallback_links lib now repo db)"
      using u(2) v(2) by auto
    show "?k @ (u @ v) = fold insert_link (fallback_links lib now repo db) (fold insert_link (exact_links now repo db) ?k)"
      by (simp only: f)
  qed
qed

text \<open>Linking is a function of the other tables and of the links that are kept.\<close>

lemma relink_keeps:
  assumes "link_deployments_to_pull_requests lib now repo db = (n, db')"
  shows "filter (kept_link repo db') (md_links db') = filter (kept_link repo db) (md_links db)"
proof -
  obtain u where u: "link_deployments_to_pull_requests lib now repo db =
      (length u, db\<lparr>md_links := filter (kept_link repo db) (md_links db) @ u\<rparr>)"
    "set u \<subseteq> set (exact_links now repo db) \<union> set (fallback_links lib now repo db)" by (rule links_shape)
  have "filter (kept_link repo db) u = []" 
    unfolding filter_empty_conv using u(2) derived_not_kept [of _ now repo db lib] by blast
  with u(1) assms show ?thesis by auto
qed

definition link_method_of :: "('d) metrics_db_scheme \<Rightarrow> uuid \<times> uuid \<Rightarrow> string option" where
  "link_method_of db x = map_option ln_method (row_with link_key x (md_links db))"

lemma row_with_map_eq:
  "map f xs = map f ys \<Longrightarrow> (\<And>x. k x = g (f x)) \<Longrightarrow> map_option f (row_with k i xs) = map_option f (row_with k i ys)"
proof (induction xs arbitrary: ys)
  case (Cons x xs)
  then obtain y zs where "ys = y # zs" "f x = f y" "map f xs = map f zs" by (cases ys) auto
  with Cons show ?case by simp
qed simp

lemma links_lookup:
  "link_method_of (snd (link_deployments_to_pull_requests lib now repo db)) x =
     (case row_with link_key x (filter (kept_link repo db) (md_links db)) of
        Some l \<Rightarrow> Some (ln_method l)
      | None \<Rightarrow> map_option ln_method
          (case row_with link_key x (exact_links now repo db) of
             None \<Rightarrow> row_with link_key x (fallback_links lib now repo db) | Some l \<Rightarrow> Some l))"
  by (auto simp: link_method_of_def link_deployments_to_pull_requests_def Let_def row_with_insert_links split: option.splits)

lemma links_lookup_now:
  "map_option ln_method (row_with link_key x (exact_links now repo db)) =
     map_option ln_method (row_with link_key x (exact_links now' repo db))"
  "map_option ln_method (row_with link_key x (fallback_links lib now repo db)) =
     map_option ln_method (row_with link_key x (fallback_links lib now' repo db))"
proof -
  let ?f = "\<lambda>l. (ln_deployment_id l, ln_pull_request_id l, ln_method l)"
  have "map ?f (exact_links now repo db) = map ?f (exact_links now' repo db)"
    by (simp add: exact_links_def map_concat comp_def)
  then have "map_option ?f (row_with link_key x (exact_links now repo db)) =
      map_option ?f (row_with link_key x (exact_links now' repo db))"
    by (rule row_with_map_eq [where g = "\<lambda>(a, b, c). (a, b)"]) (simp add: link_key_def)
  then have "map_option (snd \<circ> snd) (map_option ?f (row_with link_key x (exact_links now repo db))) =
      map_option (snd \<circ> snd) (map_option ?f (row_with link_key x (exact_links now' repo db)))" by (simp only:)
  then show "map_option ln_method (row_with link_key x (exact_links now repo db)) =
     map_option ln_method (row_with link_key x (exact_links now' repo db))"
    by (simp add: option.map_comp comp_def)
  have "map ?f (fallback_links lib now repo db) = map ?f (fallback_links lib now' repo db)"
    by (simp add: fallback_links_def map_concat comp_def split: option.splits)
  then have "map_option ?f (row_with link_key x (fallback_links lib now repo db)) =
      map_option ?f (row_with link_key x (fallback_links lib now' repo db))"
    by (rule row_with_map_eq [where g = "\<lambda>(a, b, c). (a, b)"]) (simp add: link_key_def)
  then have "map_option (snd \<circ> snd) (map_option ?f (row_with link_key x (fallback_links lib now repo db))) =
      map_option (snd \<circ> snd) (map_option ?f (row_with link_key x (fallback_links lib now' repo db)))" by (simp only:)
  then show "map_option ln_method (row_with link_key x (fallback_links lib now repo db)) =
     map_option ln_method (row_with link_key x (fallback_links lib now' repo db))"
    by (simp add: option.map_comp comp_def)
qed

text \<open>Why a rebuilt table holds a link.\<close>

definition link_justified :: "uuid \<Rightarrow> ('d) metrics_db_scheme \<Rightarrow> deployment_link \<Rightarrow> bool" where
  "link_justified repo db l \<longleftrightarrow> l \<in> set (md_links db) \<and> kept_link repo db l \<or>
     (\<exists>d \<in> set (repo_deployments repo db). \<exists>pr \<in> set (md_pull_requests db).
        link_key l = (dp_id d, pr_id pr) \<and>
        (exact_match db d pr \<and> ln_method l = exact_method d pr \<or>
         ln_method l = ''MERGE_WINDOW'' \<and> good_deployment d \<and> pr_state pr = ''MERGED'' \<and>
         (\<exists>p t m. previous_boundary repo db t = Some p \<and> dp_finished_at d = Some t \<and> pr_merged_at pr = Some m \<and>
            p < m \<and> m \<le> t)))"

lemma links_justified:
  assumes "link_deployments_to_pull_requests lib now repo db = (n, db')" and "l \<in> set (md_links db')"
  shows "link_justified repo db l"
proof -
  let ?k = "filter (kept_link repo db) (md_links db)"
  obtain u where u: "db' = db\<lparr>md_links := ?k @ u\<rparr>"
    "set u \<subseteq> set (exact_links now repo db) \<union> set (fallback_links lib now repo db)"
    using links_shape [of lib now repo db] assms(1) by (metis prod.inject)
  then consider "l \<in> set ?k" | "l \<in> set (exact_links now repo db)" | "l \<in> set (fallback_links lib now repo db)"
    using assms(2) by auto
  then show ?thesis
  proof cases
    case 1
    then show ?thesis by (simp add: link_justified_def)
  next
    case 2
    then show ?thesis by (fastforce simp: set_exact_links link_key_def link_justified_def)
  next
    case 3
    then obtain r d pr where w: "row_with re_id repo (md_repositories db) = Some r" "d \<in> set (repo_deployments repo db)"
      "pr \<in> set (window_pull_requests lib db r d)" "good_deployment d" "link_key l = (dp_id d, pr_id pr)"
      "ln_method l = ''MERGE_WINDOW''" by (auto simp: set_fallback_links link_key_def)
    from row_with_Some_set [OF w(1)] have "re_id r = repo" by simp
    with w(3) have "pr \<in> set (md_pull_requests db) \<and> pr_state pr = ''MERGED'' \<and>
        (\<exists>p t m. previous_boundary repo db t = Some p \<and> dp_finished_at d = Some t \<and> pr_merged_at pr = Some m \<and> p < m \<and> m \<le> t)"
      using window_pull_request by blast
    with w show ?thesis unfolding link_justified_def by blast
  qed
qed

lemma exact_matches_linked:
  assumes "d \<in> set (repo_deployments repo db)" "pr \<in> set (md_pull_requests db)" "exact_match db d pr"
  shows "link_method_of (snd (link_deployments_to_pull_requests lib now repo db)) (dp_id d, pr_id pr) \<noteq> None"
proof -
  from assms have "(dp_id d, pr_id pr) \<in> link_key ` set (exact_links now repo db)"
    by (force simp: set_exact_links link_key_def)
  then have "row_with link_key (dp_id d, pr_id pr) (exact_links now repo db) \<noteq> None" by (simp add: row_with_None)
  then show ?thesis unfolding links_lookup by (auto split: option.splits)
qed

lemma relinking_same:
  assumes "link_deployments_to_pull_requests lib now repo db = (n, db')"
  shows "link_method_of (snd (link_deployments_to_pull_requests lib later repo db')) x = link_method_of db' x"
proof -
  have db': "db' = snd (link_deployments_to_pull_requests lib now repo db)" using assms by simp
  obtain u where u: "db' = db\<lparr>md_links := u\<rparr>"
    using links_shape [of lib now repo db] assms by (metis prod.inject)
  have e: "exact_links later repo db' = exact_links later repo db"
    "fallback_links lib later repo db' = fallback_links lib later repo db" by (simp_all add: u)
  show ?thesis
    unfolding links_lookup relink_keeps [OF assms] e
    unfolding db' links_lookup
    using links_lookup_now(1) [of x later repo db now] links_lookup_now(2) [of x lib later repo db now]
    by (cases "row_with link_key x (exact_links later repo db)"; cases "row_with link_key x (exact_links now repo db)")
      (simp_all split: option.splits)
qed

text \<open>
  C20: Rebuilding the links keeps every manual link and every link of another repository, adds a
  link for each pull request a deployment's commit belongs to, and otherwise only links of the
  merge window of a successful production deployment that has a predecessor; rebuilding again
  gives each pair the same method.
\<close>

theorem links_rebuilt:
  assumes "link_deployments_to_pull_requests lib now repo db = (n, db')"
  shows "(\<forall>l \<in> set (md_links db). kept_link repo db l \<longrightarrow> l \<in> set (md_links db')) \<and>
    (\<forall>d \<in> set (repo_deployments repo db). \<forall>pr \<in> set (md_pull_requests db). exact_match db d pr \<longrightarrow>
       link_method_of db' (dp_id d, pr_id pr) \<noteq> None) \<and>
    (\<forall>l \<in> set (md_links db'). link_justified repo db l) \<and>
    (\<forall>later x. link_method_of (snd (link_deployments_to_pull_requests lib later repo db')) x = link_method_of db' x)"
proof -
  obtain u where u: "db' = db\<lparr>md_links := filter (kept_link repo db) (md_links db) @ u\<rparr>"
    using links_shape [of lib now repo db] assms by (metis prod.inject)
  have "l \<in> set (md_links db')" if "l \<in> set (md_links db)" "kept_link repo db l" for l
    using that by (simp add: u)
  moreover have "db' = snd (link_deployments_to_pull_requests lib now repo db)" using assms by simp
  ultimately show ?thesis
    using links_justified [OF assms] exact_matches_linked relinking_same [OF assms] by blast
qed

text \<open>
  A pull request falls in the merge window of one release: two derived window links of a pull
  request belong to deployments that finished at the same instant.
\<close>

theorem merge_windows_disjoint:
  assumes "l1 \<in> set (fallback_links lib now repo db)" and "l2 \<in> set (fallback_links lib now repo db)"
    and "ln_pull_request_id l1 = ln_pull_request_id l2" and "distinct (map pr_id (md_pull_requests db))"
  shows "\<exists>d1 \<in> set (repo_deployments repo db). \<exists>d2 \<in> set (repo_deployments repo db).
     ln_deployment_id l1 = dp_id d1 \<and> ln_deployment_id l2 = dp_id d2 \<and> dp_finished_at d1 = dp_finished_at d2"
proof -
  have window: "\<exists>d \<in> set (repo_deployments repo db). \<exists>pr \<in> set (md_pull_requests db). \<exists>p t m.
      ln_deployment_id l = dp_id d \<and> ln_pull_request_id l = pr_id pr \<and> good_deployment d \<and>
      previous_boundary repo db t = Some p \<and> dp_finished_at d = Some t \<and> pr_merged_at pr = Some m \<and> p < m \<and> m \<le> t"
    if l: "l \<in> set (fallback_links lib now repo db)" for l
  proof -
    from l obtain r d pr where w: "row_with re_id repo (md_repositories db) = Some r" "d \<in> set (repo_deployments repo db)"
      "pr \<in> set (window_pull_requests lib db r d)" "good_deployment d" "ln_deployment_id l = dp_id d"
      "ln_pull_request_id l = pr_id pr" by (auto simp: set_fallback_links)
    from row_with_Some_set [OF w(1)] have "re_id r = repo" by simp
    with w(3) have "pr \<in> set (md_pull_requests db) \<and>
        (\<exists>p t m. previous_boundary repo db t = Some p \<and> dp_finished_at d = Some t \<and> pr_merged_at pr = Some m \<and> p < m \<and> m \<le> t)"
      using window_pull_request by blast
    with w show ?thesis by blast
  qed
  have before: "\<not> t1 < t2" if "d \<in> set (repo_deployments repo db)" "good_deployment d" "dp_finished_at d = Some t1"
    "previous_boundary repo db t2 = Some p" "p < m" "m \<le> t1" for d t1 t2 p m
  proof
    assume "t1 < t2"
    with that(1-3) have "t1 \<in> set (filter (\<lambda>f. f < t2) (List.map_filter (\<lambda>p. if dp_is_production p \<and> dp_status p = ''SUCCESS''
        then dp_finished_at p else None) (repo_deployments repo db)))"
      by (force simp: map_filter_def good_deployment_def)
    with that(4) have "t1 \<le> p" unfolding previous_boundary_def using list_max_Some by blast
    with that(5,6) show False by simp
  qed
  from window [OF assms(1)] obtain d1 pr1 p1 t1 m1 where w1: "d1 \<in> set (repo_deployments repo db)"
    "pr1 \<in> set (md_pull_requests db)" "ln_deployment_id l1 = dp_id d1" "ln_pull_request_id l1 = pr_id pr1" "good_deployment d1"
    "previous_boundary repo db t1 = Some p1" "dp_finished_at d1 = Some t1" "pr_merged_at pr1 = Some m1" "p1 < m1" "m1 \<le> t1" by blast
  from window [OF assms(2)] obtain d2 pr2 p2 t2 m2 where w2: "d2 \<in> set (repo_deployments repo db)"
    "pr2 \<in> set (md_pull_requests db)" "ln_deployment_id l2 = dp_id d2" "ln_pull_request_id l2 = pr_id pr2" "good_deployment d2"
    "previous_boundary repo db t2 = Some p2" "dp_finished_at d2 = Some t2" "pr_merged_at pr2 = Some m2" "p2 < m2" "m2 \<le> t2" by blast
  have "pr1 = pr2" using assms(3,4) w1(2,4) w2(2,4) by (metis distinct_map inj_onD)
  with w1 w2 have "m1 = m2" by simp
  with before [OF w1(1,5,7) w2(6,9)] before [OF w2(1,5,7) w1(6,9)] w1 w2 have "t1 = t2" by fastforce
  with w1 w2 show ?thesis by metis
qed

section \<open>Witnesses\<close>

definition sample_pull_request :: "uuid \<Rightarrow> string \<Rightarrow> time \<Rightarrow> pull_request" where
  "sample_pull_request i sha merged = \<lparr>pr_id = i, pr_workspace_id = 7, pr_repository_id = 4, pr_github_pr_id = int i, pr_github_node_id = None,
     pr_number = int i, pr_title = None, pr_state = ''MERGED'', pr_draft = False, pr_author_login = Some ''ann'',
     pr_base_ref = ''main'', pr_head_ref = ''topic'', pr_head_sha = Some sha, pr_merge_commit_sha = None,
     pr_additions = 1, pr_deletions = 0, pr_changed_files = 1, pr_commit_count = 1, pr_opened_at = Some 0,
     pr_first_commit_at = Some 0, pr_closed_at = Some merged, pr_merged_at = Some merged,
     pr_ready_for_review_at = None, pr_last_synced_at = Some merged, pr_raw_data = JObj [], pr_updated_at = 0,
     pr_version = 0\<rparr>"

text \<open>Two releases; pull request 1 is the commit of the first, 2 was merged between them.\<close>

definition releases :: "unit metrics_db_scheme" where
  "releases = (sample_metrics_db [sample_deployment 1 ''SUCCESS'' 10, sample_deployment 2 ''SUCCESS'' 20])
     \<lparr>md_pull_requests := [sample_pull_request 1 ''abc'' 9, sample_pull_request 2 ''def'' 15]\<rparr>"

lemmas releases_simps = releases_def sample_metrics_db_def sample_deployment_def sample_pull_request_def

lemma releases_window: "window_pull_requests sample_lib releases (hd (md_repositories releases))
    (sample_deployment 2 ''SUCCESS'' 20) = [sample_pull_request 2 ''def'' 15]"
  by (simp add: window_pull_requests_def releases_simps previous_boundary_def repo_deployments_def List.map_filter_def
      deployed_branch_def json_path_text_def nullif_empty_def coalesce_def in_merge_window_def dict_get_def)

theorem links_rebuilt_witness:
  "\<exists>n db'. link_deployments_to_pull_requests sample_lib 30 4 releases = (n, db') \<and>
     link_method_of db' (1, 1) \<noteq> None \<and> link_method_of (snd (link_deployments_to_pull_requests sample_lib 40 4 db')) (2, 2)
       = link_method_of db' (2, 2)"
proof -
  obtain n db' where l: "link_deployments_to_pull_requests sample_lib 30 4 releases = (n, db')" by fastforce
  have "sample_deployment 1 ''SUCCESS'' 10 \<in> set (repo_deployments 4 releases)"
    "sample_pull_request 1 ''abc'' 9 \<in> set (md_pull_requests releases)"
    "exact_match releases (sample_deployment 1 ''SUCCESS'' 10) (sample_pull_request 1 ''abc'' 9)"
    by (simp_all add: releases_simps repo_deployments_def exact_match_def)
  with links_rebuilt [OF l]
  have "link_method_of db' (dp_id (sample_deployment 1 ''SUCCESS'' 10), pr_id (sample_pull_request 1 ''abc'' 9)) \<noteq> None"
    by blast
  moreover have "dp_id (sample_deployment 1 ''SUCCESS'' 10) = 1" "pr_id (sample_pull_request 1 ''abc'' 9) = 1"
    by (simp_all add: releases_simps)
  ultimately show ?thesis using l links_rebuilt [OF l] by metis
qed

theorem merge_windows_disjoint_witness:
  "\<exists>l \<in> set (fallback_links sample_lib 30 4 releases). ln_pull_request_id l = 2 \<and>
     (\<exists>d \<in> set (repo_deployments 4 releases). ln_deployment_id l = dp_id d \<and> dp_finished_at d \<noteq> Some 10)"
proof -
  let ?d = "sample_deployment 2 ''SUCCESS'' 20" and ?p = "sample_pull_request 2 ''def'' 15"
  let ?l = "\<lparr>ln_deployment_id = dp_id ?d, ln_pull_request_id = pr_id ?p, ln_method = ''MERGE_WINDOW'', ln_created_at = 30\<rparr>"
  have r: "row_with re_id 4 (md_repositories releases) = Some (hd (md_repositories releases))" by (simp add: releases_simps)
  have d: "?d \<in> set (repo_deployments 4 releases)" "good_deployment ?d"
    by (simp_all add: releases_simps repo_deployments_def good_deployment_def)
  have "?p \<in> set (window_pull_requests sample_lib releases (hd (md_repositories releases)) ?d)"
    unfolding releases_window by simp
  with r d have l: "?l \<in> set (fallback_links sample_lib 30 4 releases)" unfolding set_fallback_links by blast
  have "distinct (map pr_id (md_pull_requests releases))" by (simp add: releases_simps)
  from merge_windows_disjoint [OF l l refl this] obtain d1 where "d1 \<in> set (repo_deployments 4 releases)"
    "ln_deployment_id ?l = dp_id d1" by blast
  moreover have "dp_id ?d = 2" "pr_id ?p = 2" by (simp_all add: sample_deployment_def sample_pull_request_def)
  moreover from calculation have "dp_finished_at d1 \<noteq> Some 10" by (auto simp: repo_deployments_def releases_simps)
  ultimately show ?thesis using l by (intro bexI [of _ ?l] conjI bexI [of _ d1]) simp_all
qed

end
