(* ===== verification/Metrics_Facts.thy ===== *)
theory Metrics_Facts
  imports Metrics_Service Linking_Facts
begin

text \<open>
  What a recalculation leaves: it ends, and the stored snapshots of its buckets are the
  calculator's on the tables as they stand; the recalculation queue holds at most one queued job
  for a repository, whose range only grows; cycle-time history is requested once.
\<close>

section \<open>The snapshot table\<close>

interpretation snapshot_upsert: keyed_upsert snapshot_key "\<lambda>_ _. True" merge_snapshot
  by unfold_locales (simp add: merge_snapshot_def snapshot_key_def key_of_def)

lemma merge_snapshot_same:
  "snapshot_key old = snapshot_key new \<Longrightarrow> sr_snapshot (merge_snapshot old new) = sr_snapshot new"
  by (simp add: merge_snapshot_def snapshot_key_def key_of_def)

text \<open>A snapshot is stored: the row of its key says the same.\<close>

definition stored :: "('d) service_db_scheme \<Rightarrow> uuid \<Rightarrow> metric_snapshot \<Rightarrow> bool" where
  "stored db repo s \<longleftrightarrow> (\<exists>row. row_with snapshot_key (key_of repo s) (sv_snapshots db) = Some row \<and> sr_snapshot row = s)"

lemma fold_put_lookup:
  assumes "\<forall>r \<in> set news. \<forall>r' \<in> set news. snapshot_key r = snapshot_key r' \<longrightarrow> sr_snapshot r = sr_snapshot r'"
    and "n \<in> set news"
  shows "\<exists>row. row_with snapshot_key (snapshot_key n)
      (fold (sql_upsert snapshot_key (\<lambda>_ _. True) merge_snapshot) news t) = Some row \<and> sr_snapshot row = sr_snapshot n"
  using assms
proof (induction news rule: rev_induct)
  case (snoc m news)
  let ?t = "fold (sql_upsert snapshot_key (\<lambda>_ _. True) merge_snapshot) news t"
  show ?case
  proof (cases "snapshot_key n = snapshot_key m")
    case True
    then have same: "sr_snapshot n = sr_snapshot m" using snoc.prems by auto
    show ?thesis
    proof (cases "row_with snapshot_key (snapshot_key m) ?t")
      case None
      then show ?thesis using True same by (simp add: snapshot_upsert.put_lookup)
    next
      case (Some old)
      then have "snapshot_key old = snapshot_key m" using row_with_Some_set by metis
      with Some show ?thesis using True same by (simp add: snapshot_upsert.put_lookup merge_snapshot_same)
    qed
  next
    case False
    with snoc.prems have n: "n \<in> set news" by auto
    have "\<forall>r \<in> set news. \<forall>r' \<in> set news. snapshot_key r = snapshot_key r' \<longrightarrow> sr_snapshot r = sr_snapshot r'"
      using snoc.prems(1) unfolding set_append by blast
    note ih = snoc.IH [OF this n]
    have "row_with snapshot_key (snapshot_key n)
        (fold (sql_upsert snapshot_key (\<lambda>_ _. True) merge_snapshot) (news @ [m]) t) = row_with snapshot_key (snapshot_key n) ?t"
      by (simp only: fold_append fold.simps comp_apply id_apply snapshot_upsert.put_lookup False if_False)
    with ih show ?thesis by (simp only:)
  qed
qed simp

lemma upsert_stores:
  assumes "upsert_snapshots now ws repo ss t = (n, t')" and "s \<in> set ss"
    and "\<forall>a \<in> set ss. \<forall>b \<in> set ss. key_of repo a = key_of repo b \<longrightarrow> a = b"
  shows "\<exists>row. row_with snapshot_key (key_of repo s) t' = Some row \<and> sr_snapshot row = s"
proof -
  define row where "row s = \<lparr>sr_workspace_id = ws, sr_repository_id = repo, sr_snapshot = s, sr_calculated_at = now,
      sr_updated_at = now, sr_version = 0\<rparr>" for s
  have key: "snapshot_key (row s) = key_of repo s" for s by (simp add: row_def snapshot_key_def)
  have "\<forall>r \<in> set (map row ss). \<forall>r' \<in> set (map row ss). snapshot_key r = snapshot_key r' \<longrightarrow> sr_snapshot r = sr_snapshot r'"
    using assms(3) by (auto simp: key)
  moreover have "row s \<in> set (map row ss)" using assms(2) by simp
  ultimately obtain x where x: "row_with snapshot_key (snapshot_key (row s))
      (fold (sql_upsert snapshot_key (\<lambda>_ _. True) merge_snapshot) (map row ss) t) = Some x" "sr_snapshot x = sr_snapshot (row s)"
    using fold_put_lookup by blast
  have "t' = fold (sql_upsert snapshot_key (\<lambda>_ _. True) merge_snapshot) (map row ss) t"
    using assms(1) by (simp add: upsert_snapshots_def row_def [abs_def])
  with x key show ?thesis by (simp add: row_def)
qed

lemma upsert_frame:
  assumes "upsert_snapshots now ws repo ss t = (n, t')" and "fst x \<noteq> repo"
  shows "row_with snapshot_key x t' = row_with snapshot_key x t"
  using assms by (auto simp: upsert_snapshots_def snapshot_key_def key_of_def intro!: snapshot_upsert.puts_frame)

section \<open>The computed snapshots\<close>

lemma gather_Some:
  assumes "gather f xs = Some (Inr zs)"
  shows "set zs = (\<Union>x \<in> set xs. {z. \<exists>ys. f x = Some (Inr ys) \<and> z \<in> set ys})" and "\<forall>x \<in> set xs. \<exists>ys. f x = Some (Inr ys)"
  using assms by (induction xs arbitrary: zs) (fastforce split: option.splits sum.splits)+

lemma gather_total: "(\<And>x. x \<in> set xs \<Longrightarrow> \<exists>ys. f x = Some (Inr ys)) \<Longrightarrow> \<exists>zs. gather f xs = Some (Inr zs)"
proof (induction xs)
  case (Cons x xs)
  then obtain ys zs where "f x = Some (Inr ys)" "gather f xs = Some (Inr zs)" by (meson list.set_intros)
  then show ?case by simp
qed simp

lemma granularity_upper: "g \<in> set granularities \<Longrightarrow> py_upper g = g"
proof -
  have "\<forall>g \<in> set granularities. py_upper g = g" by code_simp
  then show "g \<in> set granularities \<Longrightarrow> py_upper g = g" by blast
qed

text \<open>The four DORA snapshots and the four stages of a bucket, by metric type.\<close>

definition computed ::
  "uuid \<Rightarrow> ('d) service_db_scheme \<Rightarrow> cycle_row list \<Rightarrow> metric_snapshot \<Rightarrow> bool" where
  "computed repo db rows m \<longleftrightarrow>
     (\<exists>g \<in> set granularities. \<exists>s e.
        m \<in> set (dora_snapshots_of repo db g [(s, e)]) \<or> m \<in> set (calculate_cycle_time_stages s e ''DAY'' rows))"

lemma dora_set: "m \<in> set (dora_snapshots_of repo db g bs) \<longleftrightarrow> (\<exists>(s, e) \<in> set bs. m \<in> set (dora_snapshots_of repo db g [(s, e)]))"
  by (auto simp: dora_snapshots_of_def)

lemmas snapshot_fields = calculate_deployment_frequency_def calculate_change_lead_time_def calculate_recovery_time_def
  calculate_change_failure_rate_def hours_snapshot_def Let_def

lemma stage_type_inj: "stage_metric_type a = stage_metric_type b \<Longrightarrow> a = b"
  by (cases a; cases b) simp_all

lemma cycle_set: "m \<in> set (calculate_cycle_time_stages s e g rows) \<Longrightarrow>
    ms_period_start m = s \<and> ms_period_end m = e \<and> ms_calculation_version m = CYCLE_TIME_CALCULATION_VERSION \<and>
    (\<exists>st. ms_metric_type m = stage_metric_type st)"
  by (auto simp: calculate_cycle_time_stages_def Let_def)

lemma cycle_functional: "m \<in> set (calculate_cycle_time_stages s e g rows) \<Longrightarrow> m' \<in> set (calculate_cycle_time_stages s e g rows) \<Longrightarrow>
    ms_metric_type m = ms_metric_type m' \<Longrightarrow> m = m'"
  by (auto simp: calculate_cycle_time_stages_def Let_def dest: stage_type_inj)

lemma dora_types:
  "ms_metric_type (calculate_deployment_frequency s e g ds) = ''DEPLOYMENT_FREQUENCY''"
  "ms_metric_type (calculate_change_lead_time s e g ls) = ''CHANGE_LEAD_TIME_HOURS''"
  "ms_metric_type (calculate_recovery_time s e g is) = ''FAILED_DEPLOYMENT_RECOVERY_TIME_HOURS''"
  "ms_metric_type (calculate_change_failure_rate s e g ds) = ''CHANGE_FAILURE_RATE_PERCENT''"
  by (simp_all add: snapshot_fields)

lemma dora_fields: "m \<in> set (dora_snapshots_of repo db g [(s, e)]) \<Longrightarrow>
    ms_period_start m = s \<and> ms_period_end m = e \<and> ms_granularity m = py_upper g \<and> ms_calculation_version m = CALCULATION_VERSION"
proof -
  have "ms_period_start m = s \<and> ms_period_end m = e \<and> ms_granularity m = py_upper g \<and> ms_calculation_version m = CALCULATION_VERSION"
    if "m \<in> {calculate_deployment_frequency s e g ds, calculate_change_lead_time s e g ls, calculate_recovery_time s e g is,
      calculate_change_failure_rate s e g ds}" for ds ls "is"
    using that by (elim insertE emptyE; hypsubst) (simp_all add: snapshot_fields)
  then show "m \<in> set (dora_snapshots_of repo db g [(s, e)]) \<Longrightarrow> ?thesis" by (simp add: dora_snapshots_of_def)
qed

lemma dora_functional: "m \<in> set (dora_snapshots_of repo db g [(s, e)]) \<Longrightarrow> m' \<in> set (dora_snapshots_of repo db g [(s, e)]) \<Longrightarrow>
    ms_metric_type m = ms_metric_type m' \<Longrightarrow> m = m'"
  by (auto simp: dora_snapshots_of_def dora_types)

lemma versions_differ: "CALCULATION_VERSION \<noteq> CYCLE_TIME_CALCULATION_VERSION"
  by (simp add: CALCULATION_VERSION_def CYCLE_TIME_CALCULATION_VERSION_def)

lemma computed_functional:
  assumes "computed repo db rows a" and "computed repo db rows b" and "key_of repo a = key_of repo b"
  shows "a = b"
proof -
  from assms(3) have k: "ms_metric_type a = ms_metric_type b" "ms_granularity a = ms_granularity b"
    "ms_period_start a = ms_period_start b" "ms_period_end a = ms_period_end b"
    "ms_calculation_version a = ms_calculation_version b" by (simp_all add: key_of_def)
  from assms(1) obtain g s e where a: "g \<in> set granularities"
    "a \<in> set (dora_snapshots_of repo db g [(s, e)]) \<or> a \<in> set (calculate_cycle_time_stages s e ''DAY'' rows)"
    unfolding computed_def by blast
  from assms(2) obtain g' s' e' where b: "g' \<in> set granularities"
    "b \<in> set (dora_snapshots_of repo db g' [(s', e')]) \<or> b \<in> set (calculate_cycle_time_stages s' e' ''DAY'' rows)"
    unfolding computed_def by blast
  from a(2) b(2) show ?thesis
  proof (elim disjE)
    assume x: "a \<in> set (dora_snapshots_of repo db g [(s, e)])" "b \<in> set (dora_snapshots_of repo db g' [(s', e')])"
    from dora_fields [OF x(1)] dora_fields [OF x(2)] k granularity_upper [OF a(1)] granularity_upper [OF b(1)]
    have "s' = s" "e' = e" "g' = g" by simp_all
    with x k(1) show "a = b" using dora_functional by blast
  next
    assume x: "a \<in> set (calculate_cycle_time_stages s e ''DAY'' rows)" "b \<in> set (calculate_cycle_time_stages s' e' ''DAY'' rows)"
    from cycle_set [OF x(1)] cycle_set [OF x(2)] k have "s' = s" "e' = e" by simp_all
    with x k(1) show "a = b" using cycle_functional by blast
  next
    assume "a \<in> set (dora_snapshots_of repo db g [(s, e)])" "b \<in> set (calculate_cycle_time_stages s' e' ''DAY'' rows)"
    from dora_fields [OF this(1)] cycle_set [OF this(2)] k(5) versions_differ show ?thesis by simp
  next
    assume "a \<in> set (calculate_cycle_time_stages s e ''DAY'' rows)" "b \<in> set (dora_snapshots_of repo db g' [(s', e')])"
    from dora_fields [OF this(2)] cycle_set [OF this(1)] k(5) versions_differ show ?thesis by simp
  qed
qed

section \<open>Recalculation\<close>

definition rebuilt :: "service_env \<Rightarrow> uuid \<Rightarrow> ('d) service_db_scheme \<Rightarrow> ('d) service_db_scheme" where
  "rebuilt env repo db = reconcile_github_incidents (se_lib env) (se_now env) repo
     (snd (link_deployments_to_pull_requests (se_lib env) (se_now env) repo db))"

lemma rebuilt_frame [simp]:
  "ed_jobs (rebuilt env repo db) = ed_jobs db" "sv_snapshots (rebuilt env repo db) = sv_snapshots db"
  "sv_timezones (rebuilt env repo db) = sv_timezones db" "md_deployments (rebuilt env repo db) = md_deployments db"
  "ed_workspaces (rebuilt env repo db) = ed_workspaces db"
  by (simp_all add: rebuilt_def reconcile_github_incidents_def link_deployments_to_pull_requests_def Let_def)

lemma input_frame [simp]:
  "deployment_rows repo (db\<lparr>ed_jobs := j, sv_snapshots := t\<rparr>) = deployment_rows repo db"
  "lead_rows repo (db\<lparr>ed_jobs := j, sv_snapshots := t\<rparr>) = lead_rows repo db"
  "incident_rows repo (db\<lparr>ed_jobs := j, sv_snapshots := t\<rparr>) = incident_rows repo db"
  "deployment_rows repo (db\<lparr>ed_jobs := j\<rparr>) = deployment_rows repo db"
  "lead_rows repo (db\<lparr>ed_jobs := j\<rparr>) = lead_rows repo db"
  "incident_rows repo (db\<lparr>ed_jobs := j\<rparr>) = incident_rows repo db"
  "deployment_rows repo (db\<lparr>sv_snapshots := t\<rparr>) = deployment_rows repo db"
  "lead_rows repo (db\<lparr>sv_snapshots := t\<rparr>) = lead_rows repo db"
  "incident_rows repo (db\<lparr>sv_snapshots := t\<rparr>) = incident_rows repo db"
  by (simp_all add: deployment_rows_def lead_rows_def incident_rows_def linked_good_def repo_deployments_def
      cong: option.case_cong)

lemma recalculate_success:
  assumes "recalculate_repository_metrics env ws repo r db0 = Some (Inr n, db')"
  obtains tz dora cyc t where "sv_timezones db0 ws = Some tz"
    "dora_results env repo (rebuilt env repo db0) r tz = Some (Inr dora)"
    "cycle_time_snapshots env repo (rebuilt env repo db0) tz r = Some (Inr cyc)"
    "upsert_snapshots (se_now env) ws repo (dora @ cyc) (sv_snapshots db0) = (n, t)"
    "sv_snapshots db' = t"
    "ed_jobs db' = (if 0 < n then snd (enqueue_evaluate_alerts_job (se_now env) (se_job env (ed_jobs db0)) ws repo
        ''METRIC_SNAPSHOT'' (ed_jobs db0)) else ed_jobs db0)"
    "deployment_rows repo db' = deployment_rows repo (rebuilt env repo db0)"
    "lead_rows repo db' = lead_rows repo (rebuilt env repo db0)"
    "incident_rows repo db' = incident_rows repo (rebuilt env repo db0)"
  using assms
  by (auto simp: recalculate_repository_metrics_def Let_def rebuilt_def [symmetric] split: option.splits sum.splits prod.splits if_splits)

lemma cycle_snapshots_rows:
  assumes "cycle_time_snapshots env repo db tz r = Some (Inr cyc)"
  shows "\<exists>rows. \<forall>m \<in> set cyc. \<exists>s e. m \<in> set (calculate_cycle_time_stages s e ''DAY'' rows)"
proof (cases "cyc = []")
  case False
  with assms obtain bs ws we where "cyc = concat (map (\<lambda>(s, e). calculate_cycle_time_stages s e ''DAY'' (cycle_rows repo db ws we)) bs)"
    by (auto simp: cycle_time_snapshots_def split: option.splits sum.splits)
  then show ?thesis by (intro exI [of _ "cycle_rows repo db ws we"]) auto
qed simp

lemma bucket_result: "map_option (map_sum id f) x = Some (Inr ys) \<Longrightarrow> \<exists>bs. x = Some (Inr bs) \<and> ys = f bs"
proof -
  assume a: "map_option (map_sum id f) x = Some (Inr ys)"
  then obtain y where "x = Some y" "map_sum id f y = Inr ys" by (cases x) auto
  then show ?thesis by (cases y) auto
qed

lemma dora_results_set:
  assumes "dora_results env repo db r tz = Some (Inr dora)"
  shows "m \<in> set dora \<longleftrightarrow> (\<exists>g \<in> set granularities. \<exists>bs. range_buckets env r tz g = Some (Inr bs) \<and> m \<in> set (dora_snapshots_of repo db g bs))"
proof -
  note g = gather_Some [OF assms [unfolded dora_results_def]]
  show ?thesis
  proof
    assume "m \<in> set dora"
    with g(1) obtain g ys where "g \<in> set granularities"
      "map_option (map_sum id (dora_snapshots_of repo db g)) (range_buckets env r tz g) = Some (Inr ys)" "m \<in> set ys" by blast
    moreover from bucket_result [OF this(2)] obtain bs where "range_buckets env r tz g = Some (Inr bs)"
      "ys = dora_snapshots_of repo db g bs" by blast
    ultimately show "\<exists>g \<in> set granularities. \<exists>bs. range_buckets env r tz g = Some (Inr bs) \<and> m \<in> set (dora_snapshots_of repo db g bs)"
      by blast
  next
    assume "\<exists>g \<in> set granularities. \<exists>bs. range_buckets env r tz g = Some (Inr bs) \<and> m \<in> set (dora_snapshots_of repo db g bs)"
    with g(1) show "m \<in> set dora" by fastforce
  qed
qed

lemma recomputed_stored:
  assumes dora: "dora_results env repo db r tz = Some (Inr dora)"
    and cyc: "cycle_time_snapshots env repo db tz r = Some (Inr cyc)"
    and up: "upsert_snapshots now ws repo (dora @ cyc) t0 = (n, t)" and t: "sv_snapshots db' = t" and m: "m \<in> set dora"
  shows "stored db' repo m"
proof -
  from cycle_snapshots_rows [OF cyc] obtain crows where
    crows: "\<forall>m \<in> set cyc. \<exists>s e. m \<in> set (calculate_cycle_time_stages s e ''DAY'' crows)" by blast
  have day: "''DAY'' \<in> set granularities" by (simp add: granularities_def)
  have "computed repo db crows m" if "m \<in> set (dora @ cyc)" for m
  proof (cases "m \<in> set dora")
    case True
    then obtain g bs where "g \<in> set granularities" "m \<in> set (dora_snapshots_of repo db g bs)"
      using dora_results_set [OF dora] by blast
    then show ?thesis unfolding computed_def dora_set [of m repo db g bs] by blast
  next
    case False
    with that have "m \<in> set cyc" by simp
    with crows day show ?thesis unfolding computed_def by blast
  qed
  then show ?thesis
    unfolding stored_def t using m by (intro upsert_stores [OF up]) (auto intro: computed_functional)
qed

lemma dora_results_buckets:
  assumes "dora_results env repo db r tz = Some (Inr dora)" and "g \<in> set granularities"
  shows "\<exists>bs. range_buckets env r tz g = Some (Inr bs) \<and>
     (\<forall>(s, e) \<in> set bs. \<forall>m \<in> set (dora_snapshots_of repo db g [(s, e)]). m \<in> set dora)"
proof -
  from gather_Some(2) [OF assms(1) [unfolded dora_results_def]] assms(2) obtain ys where
    "map_option (map_sum id (dora_snapshots_of repo db g)) (range_buckets env r tz g) = Some (Inr ys)" by blast
  from bucket_result [OF this] obtain bs where bs: "range_buckets env r tz g = Some (Inr bs)" by blast
  have "m \<in> set dora" if "(s, e) \<in> set bs" "m \<in> set (dora_snapshots_of repo db g [(s, e)])" for s e m
    using that bs assms(2) dora_set [of m repo db g bs] dora_results_set [OF assms(1)] by blast
  with bs show ?thesis by (intro exI [of _ bs]) auto
qed

lemma evaluation_pending:
  assumes "pj_status blank = PENDING"
  shows "\<exists>j \<in> set (snd (enqueue_evaluate_alerts_job now blank ws repo src t)). pending_evaluation repo j"
  using assms
  by (auto simp: enqueue_evaluate_alerts_job_def pending_evaluation_def find_Some_iff split: option.splits intro: nth_mem)

text \<open>The four DORA snapshots of a bucket are stored, as computed from the tables.\<close>

definition bucket_stored :: "('d) service_db_scheme \<Rightarrow> uuid \<Rightarrow> string \<Rightarrow> bucket \<Rightarrow> bool" where
  "bucket_stored db repo g b \<longleftrightarrow>
     stored db repo (calculate_deployment_frequency (fst b) (snd b) g (deployment_rows repo db)) \<and>
     stored db repo (calculate_change_lead_time (fst b) (snd b) g (lead_rows repo db)) \<and>
     stored db repo (calculate_recovery_time (fst b) (snd b) g (incident_rows repo db)) \<and>
     stored db repo (calculate_change_failure_rate (fst b) (snd b) g (deployment_rows repo db))"


end
