(* ===== verification/Metrics_Jobs.thy ===== *)
theory Metrics_Jobs
  imports Metrics_Facts Alerts_Job
begin

text \<open>
  The jobs of the metrics service: a recalculation always ends and meets the dispatcher's
  contract, the queue of recalculations, the request for cycle-time history.
\<close>

section \<open>Termination\<close>

definition zones_ok :: "service_env \<Rightarrow> bool" where
  "zones_ok env \<longleftrightarrow> (\<forall>name z. se_zones env name = Some z \<longrightarrow> time_zone z)"

lemma period_buckets_return:
  assumes "zones_ok env"
  shows "get_period_buckets (se_zones env) a b g name \<noteq> None"
proof (cases "a < b \<and> se_zones env name \<noteq> None \<and> py_upper g \<in> {''DAY'', ''WEEK'', ''MONTH''}")
  case True
  then obtain z where z: "se_zones env name = Some z" by blast
  with assms have tz: "time_zone z" by (simp add: zones_ok_def)
  from True obtain pad where pad: "padding_days (py_upper g) = Some pad" by (auto simp: padding_days_def)
  from time_zone.period_buckets_spec [where zones = "se_zones env" and name = name and g = g, OF tz z pad] True
  show ?thesis by fastforce
next
  case False
  then show ?thesis by (auto simp: get_period_buckets_def Let_def split: option.splits)
qed

lemma period_buckets_result:
  assumes "zones_ok env" and "se_zones env name = Some z" and "g \<in> set granularities"
  shows "\<exists>bs. get_period_buckets (se_zones env) a b g name = Some (Inr bs)"
proof (cases "a < b")
  case True
  have "time_zone z" using assms by (simp add: zones_ok_def)
  moreover obtain pad where "padding_days (py_upper g) = Some pad"
    using assms(3) granularity_upper [OF assms(3)] by (auto simp: padding_days_def granularities_def)
  ultimately show ?thesis
    using time_zone.period_buckets_spec [where zones = "se_zones env" and name = name and g = g, OF _ assms(2)] True by blast
qed (simp add: get_period_buckets_def)

lemma recalculation_buckets_return:
  assumes "zones_ok env"
  shows "get_recalculation_buckets (se_zones env) a b g name \<noteq> None"
proof (cases "padding_days (py_upper g)")
  case (Some pad)
  obtain r where "get_period_buckets (se_zones env) (a - pad * day) (b + pad * day) (py_upper g) name = Some r"
    using period_buckets_return [OF assms] by fastforce
  with Some show ?thesis by (cases r) (simp_all add: get_recalculation_buckets_def Let_def)
qed (simp add: get_recalculation_buckets_def)

lemma recalculation_buckets_result:
  assumes "zones_ok env" and "se_zones env name = Some z" and "g \<in> set granularities" and "a \<le> b"
  shows "\<exists>bs. get_recalculation_buckets (se_zones env) a b g name = Some (Inr bs)"
proof -
  obtain pad where pad: "padding_days (py_upper g) = Some pad"
    using assms(3) granularity_upper [OF assms(3)] by (auto simp: padding_days_def granularities_def)
  from period_buckets_result [OF assms(1-3), of "a - pad * day" "b + pad * day"] obtain cs where
    "get_period_buckets (se_zones env) (a - pad * day) (b + pad * day) (py_upper g) name = Some (Inr cs)"
    using granularity_upper [OF assms(3)] by auto
  with pad assms(4) show ?thesis by (auto simp: get_recalculation_buckets_def Let_def)
qed

definition range_ok :: "recalc_range \<Rightarrow> bool" where
  "range_ok r \<longleftrightarrow> (case (af_from r, af_to r) of (Some a, Some b) \<Rightarrow> a \<le> b | _ \<Rightarrow> True)"

lemma range_buckets_result:
  assumes "zones_ok env" and "se_zones env name = Some z" and "g \<in> set granularities" and "range_ok r"
  shows "\<exists>bs. range_buckets env r name g = Some (Inr bs)"
  using assms period_buckets_result [OF assms(1-3)] recalculation_buckets_result [OF assms(1-3)]
  by (auto simp: range_buckets_def range_ok_def split: option.splits)

lemma cycle_range_ok: "range_ok r \<Longrightarrow> range_ok (cycle_range repo db r)"
  by (auto simp: cycle_range_def range_ok_def Let_def split: option.splits)

lemma range_buckets_return: "zones_ok env \<Longrightarrow> range_buckets env r name g \<noteq> None"
  using period_buckets_return [of env] recalculation_buckets_return [of env]
  by (simp add: range_buckets_def split: option.splits)

lemma gather_return: "(\<And>x. x \<in> set xs \<Longrightarrow> f x \<noteq> None) \<Longrightarrow> gather f xs \<noteq> None"
proof (induction xs)
  case (Cons x xs)
  then obtain y where y: "f x = Some y" by fastforce
  have "gather f xs \<noteq> None" using Cons by simp
  with y show ?case by (cases y) (auto split: sum.splits)
qed simp

lemma cycle_snapshots_result:
  "range_buckets env (cycle_range repo db r) name ''DAY'' = Some (Inr bs) \<Longrightarrow>
     \<exists>cyc. cycle_time_snapshots env repo db name r = Some (Inr cyc)"
  by (cases "list_min (map fst bs)"; cases "list_max (map snd bs)") (simp_all add: cycle_time_snapshots_def)

lemma recalculate_return:
  assumes "zones_ok env"
  shows "recalculate_repository_metrics env ws repo r db \<noteq> None"
proof (cases "sv_timezones db ws")
  case (Some name)
  let ?db = "rebuilt env repo db"
  have "dora_results env repo ?db r name \<noteq> None"
    unfolding dora_results_def using range_buckets_return [OF assms] by (intro gather_return) simp
  then obtain x where x: "dora_results env repo ?db r name = Some x" by blast
  obtain bs where "range_buckets env (cycle_range repo ?db r) name ''DAY'' = Some bs"
    using range_buckets_return [OF assms] by fastforce
  then obtain y where y: "cycle_time_snapshots env repo ?db name r = Some y"
    using cycle_snapshots_result [of env repo ?db r name] by (cases bs) (auto simp: cycle_time_snapshots_def)
  from Some x y show ?thesis
    by (cases x; cases y) (simp_all add: recalculate_repository_metrics_def Let_def rebuilt_def [symmetric] split: prod.splits)
qed (simp add: recalculate_repository_metrics_def Let_def rebuilt_def [symmetric])

lemma recalculate_succeeds:
  assumes "zones_ok env" and name: "sv_timezones db ws = Some name" and z: "se_zones env name = Some z" and r: "range_ok r"
  shows "\<exists>n db'. recalculate_repository_metrics env ws repo r db = Some (Inr n, db')"
proof -
  let ?db = "rebuilt env repo db"
  have "\<exists>ys. map_option (map_sum id (dora_snapshots_of repo ?db g)) (range_buckets env r name g) = Some (Inr ys)"
    if "g \<in> set granularities" for g
    using range_buckets_result [OF assms(1) z that r] by auto
  then have "\<exists>zs. gather (\<lambda>g. map_option (map_sum id (dora_snapshots_of repo ?db g)) (range_buckets env r name g)) granularities
      = Some (Inr zs)" by (rule gather_total)
  then obtain dora where dora: "dora_results env repo ?db r name = Some (Inr dora)"
    unfolding dora_results_def by blast
  have "''DAY'' \<in> set granularities" by (simp add: granularities_def)
  from range_buckets_result [OF assms(1) z this cycle_range_ok [OF r]] obtain bs where
    "range_buckets env (cycle_range repo ?db r) name ''DAY'' = Some (Inr bs)" by blast
  then obtain cyc where "cycle_time_snapshots env repo ?db name r = Some (Inr cyc)"
    using cycle_snapshots_result by blast
  with dora name show ?thesis
    by (auto simp: recalculate_repository_metrics_def Let_def rebuilt_def [symmetric] split: prod.splits)
qed

text \<open>
  With the zones of the zone database a recalculation always returns, and it succeeds whenever
  the workspace has a known time zone and the affected range does not end before it begins.
\<close>

theorem recalculation_returns:
  assumes "zones_ok env"
  shows "recalculate_repository_metrics env ws repo r db \<noteq> None \<and>
    (\<forall>name z. sv_timezones db ws = Some name \<longrightarrow> se_zones env name = Some z \<longrightarrow> range_ok r \<longrightarrow>
       (\<exists>n db'. recalculate_repository_metrics env ws repo r db = Some (Inr n, db')))"
  using recalculate_return [OF assms] recalculate_succeeds [OF assms] by blast

section \<open>The handler\<close>

text \<open>New job rows have an id unused in the table and the schema's defaults.\<close>

definition jobs_fresh :: "service_env \<Rightarrow> bool" where
  "jobs_fresh env \<longleftrightarrow> (\<forall>t. pj_id (se_job env t) \<notin> pj_id ` set t \<and> job_ok (se_job env t) \<and> pj_status (se_job env t) = PENDING)"

lemma job_ok_shape:
  "job_ok j \<Longrightarrow> pj_status j = PENDING \<Longrightarrow>
     job_ok (j\<lparr>pj_workspace_id := a, pj_repository_id := b, pj_job_type := c, pj_payload := d, pj_priority := e\<rparr>)"
  by (simp add: job_ok_def)

lemma append_job:
  assumes "queue_ok t" and "pj_id j \<notin> pj_id ` set t" and "job_ok j"
  shows "queue_ok (t @ [j]) \<and> (\<forall>i. job_row t i \<noteq> None \<longrightarrow> job_row (t @ [j]) i = job_row t i)"
  using assms by (auto simp: queue_ok_def job_row_def row_with_append split: option.splits)

lemma enqueue_evaluation_frame:
  assumes "queue_ok t" and "pj_id b \<notin> pj_id ` set t" and "job_ok b" and "pj_status b = PENDING"
  shows "queue_ok (snd (enqueue_evaluate_alerts_job now b ws repo src t)) \<and>
    (\<forall>i. job_row t i \<noteq> None \<longrightarrow> job_row (snd (enqueue_evaluate_alerts_job now b ws repo src t)) i = job_row t i)"
proof (cases "find (pending_evaluation repo) t")
  case None
  have "job_ok (b\<lparr>pj_workspace_id := x, pj_repository_id := y, pj_job_type := k, pj_payload := p, pj_status := PENDING,
      pj_priority := c, pj_available_at := n\<rparr>)" for x y k p c n
    using assms(3,4) by (simp add: job_ok_def)
  with None assms append_job [OF assms(1)] show ?thesis by (simp add: enqueue_evaluate_alerts_job_def)
qed (simp add: enqueue_evaluate_alerts_job_def assms(1))

lemma recalculate_jobs:
  assumes "recalculate_repository_metrics env ws repo r db = Some (res, db')"
  shows "ed_jobs db' = ed_jobs db \<or>
     ed_jobs db' = snd (enqueue_evaluate_alerts_job (se_now env) (se_job env (ed_jobs db)) ws repo ''METRIC_SNAPSHOT'' (ed_jobs db))"
  using assms
  by (auto simp: recalculate_repository_metrics_def Let_def rebuilt_def [symmetric] split: option.splits sum.splits prod.splits if_splits)

lemma handle_recalculate_cases:
  assumes "handle_recalculate_metrics env db job w = Some (e, db')"
  obtains (rejected) "db' = db" "e \<noteq> Some RequeueWithPayloadError"
    | (ran) ws repo r res where "recalculate_repository_metrics env ws repo r db = Some (res, db')"
        "e = (case res of Inl x \<Rightarrow> Some x | Inr _ \<Rightarrow> None)"
proof (cases "recalculation_args env job")
  case (Inl x)
  have "payload_time lib v \<noteq> Inl RequeueWithPayloadError" for lib v
    by (auto simp: payload_time_def split: if_splits json.splits option.splits)
  then have "recalculation_args env job \<noteq> Inl RequeueWithPayloadError"
    by (auto simp: recalculation_args_def Let_def split: if_splits option.splits sum.splits)
  with Inl assms rejected show ?thesis by (auto simp: handle_recalculate_metrics_def)
next
  case (Inr a)
  obtain repo ws r where "a = (repo, ws, r)" by (cases a)
  with Inr assms ran [of ws repo r] show ?thesis by (auto simp: handle_recalculate_metrics_def)
qed

lemma bucket_errors:
  "get_period_buckets zs a b g name \<noteq> Some (Inl RequeueWithPayloadError)"
  "get_recalculation_buckets zs a b g name \<noteq> Some (Inl RequeueWithPayloadError)"
proof -
  show p: "get_period_buckets zs a b g name \<noteq> Some (Inl RequeueWithPayloadError)" for a b g
    by (auto simp: get_period_buckets_def Let_def split: option.splits if_splits)
  show "get_recalculation_buckets zs a b g name \<noteq> Some (Inl RequeueWithPayloadError)"
    using p by (auto simp: get_recalculation_buckets_def Let_def split: option.splits if_splits sum.splits)
qed

lemma range_error: "range_buckets env r name g \<noteq> Some (Inl RequeueWithPayloadError)"
  using bucket_errors by (simp add: range_buckets_def split: option.splits)

lemma gather_error: "gather f xs = Some (Inl e) \<Longrightarrow> \<exists>x \<in> set xs. f x = Some (Inl e)"
  by (induction xs) (auto split: option.splits sum.splits)

lemma recalculate_error:
  "recalculate_repository_metrics env ws repo r db = Some (Inl e, db') \<Longrightarrow> e \<noteq> RequeueWithPayloadError"
proof
  assume a: "recalculate_repository_metrics env ws repo r db = Some (Inl e, db')" and e: "e = RequeueWithPayloadError"
  have m: "map_option (map_sum id f) x = Some (Inl y) \<Longrightarrow> x = Some (Inl y)"
    for f and x :: "bucket list result option" and y and f' :: "bucket list \<Rightarrow> metric_snapshot list"
    by (cases x) (auto, metis id_apply map_sum.simps sum.distinct(1) sum.exhaust sum.inject(1))
  have "dora_results env repo db r name \<noteq> Some (Inl RequeueWithPayloadError)" for name and db :: "('a) service_db_scheme"
    unfolding dora_results_def using range_error [of env r name] by (auto dest!: gather_error m)
  moreover have "cycle_time_snapshots env repo db name r \<noteq> Some (Inl RequeueWithPayloadError)" for name and db :: "('a) service_db_scheme"
    using range_error [of env _ name] by (auto simp: cycle_time_snapshots_def split: option.splits sum.splits)
  ultimately show False using a e
    by (auto simp: recalculate_repository_metrics_def Let_def split: option.splits sum.splits prod.splits)
qed

lemma recalculation_handler:
  assumes "zones_ok env" and "jobs_fresh env"
  shows "job_handler (\<lambda>db c w. the (handle_recalculate_metrics env db c w))"
proof -
  have step: "queue_ok (ed_jobs db') \<and> (\<forall>i. job_row (ed_jobs db) i \<noteq> None \<longrightarrow> job_row (ed_jobs db') i = job_row (ed_jobs db) i) \<and>
      e \<noteq> Some RequeueWithPayloadError"
    if q: "queue_ok (ed_jobs db)" and h: "the (handle_recalculate_metrics env db c w) = (e, db')"
    for db :: "('a) service_db_scheme" and c w e db'
  proof -
    have "\<exists>x. handle_recalculate_metrics env db c w = Some x"
    proof (cases "recalculation_args env c")
      case (Inr a)
      obtain repo ws r where a: "a = (repo, ws, r)" by (cases a)
      obtain x where "recalculate_repository_metrics env ws repo r db = Some x"
        using recalculate_return [OF assms(1), of ws repo r db] by blast
      with Inr a show ?thesis by (simp add: handle_recalculate_metrics_def)
    qed (simp add: handle_recalculate_metrics_def)
    with h have "handle_recalculate_metrics env db c w = Some (e, db')" by auto
    then show ?thesis
    proof (cases rule: handle_recalculate_cases)
      case rejected
      with q show ?thesis by simp
    next
      case (ran ws repo r res)
      have f: "pj_id (se_job env t) \<notin> pj_id ` set t" "job_ok (se_job env t)" "pj_status (se_job env t) = PENDING" for t
        using assms(2) by (simp_all add: jobs_fresh_def)
      have "e \<noteq> Some RequeueWithPayloadError" using ran recalculate_error [of env ws repo r db RequeueWithPayloadError db']
        by (auto split: sum.splits)
      with recalculate_jobs [OF ran(1)] enqueue_evaluation_frame [OF q f] q show ?thesis by auto
    qed
  qed
  show ?thesis
  proof
    fix db db' :: "('a) service_db_scheme" and c w r
    assume q: "queue_ok (ed_jobs db)" and h: "the (handle_recalculate_metrics env db c w) = (r, db')"
    from step [OF this] show "queue_ok (ed_jobs db')" by blast
    show "owns (ed_jobs db) (cj_id c) w \<Longrightarrow> job_row (ed_jobs db') (cj_id c) = job_row (ed_jobs db) (cj_id c)"
      using step [OF q h] by (auto simp: owns_def)
  next
    fix db db' :: "('a) service_db_scheme" and c w
    assume q: "queue_ok (ed_jobs db)" and h: "the (handle_recalculate_metrics env db c w) = (Some RequeueWithPayloadError, db')"
    from step [OF this] show "\<exists>j. job_row (ed_jobs db') (cj_id c) = Some j \<and> pj_status j = PENDING" by blast
  qed
qed

section \<open>The queue of recalculations\<close>

definition payload_range :: "py_lib \<Rightarrow> dict \<Rightarrow> time \<Rightarrow> time \<Rightarrow> bool" where
  "payload_range lib p a b \<longleftrightarrow> dict_get p ''affected_from'' = JStr (isoformat lib a) \<and>
     dict_get p ''affected_to'' = JStr (isoformat lib b)"

definition iso_ordered :: "py_lib \<Rightarrow> bool" where
  "iso_ordered lib \<longleftrightarrow> (\<forall>a b. text_le lib (isoformat lib a) (isoformat lib b) \<longleftrightarrow> a \<le> b)"

lemma path_text_str: "dict_get d k = JStr s \<Longrightarrow> json_path_text lib (JObj d) [k] = Some s"
  by (simp add: json_path_text_def)

lemma path_text_null: "dict_get d k = JNull \<Longrightarrow> json_path_text lib (JObj d) [k] = None"
  by (simp add: json_path_text_def)

lemma payload_range_new: "payload_range lib (recalculation_payload lib ws repo (Some a) b)
    a (case b of None \<Rightarrow> a | Some b \<Rightarrow> b)"
  by (simp add: payload_range_def recalculation_payload_def dict_get_def)

lemma widen_ranges:
  assumes "iso_ordered lib" and "payload_range lib old a b" and "payload_range lib new c d"
  shows "payload_range lib (widen_payload lib old new) (min a c) (max b d)"
  using assms
  by (auto simp: payload_range_def widen_payload_def Let_def path_text_str sql_least_def sql_greatest_def json_opt_def
      iso_ordered_def min_def max_def)

lemma widen_missing:
  assumes "payload_range lib old a b" and "dict_get new ''affected_from'' = JNull" and "dict_get new ''affected_to'' = JNull"
  shows "payload_range lib (widen_payload lib old new) a b"
  using assms
  by (simp add: payload_range_def widen_payload_def Let_def path_text_str path_text_null sql_least_def sql_greatest_def json_opt_def)

lemma queued_widened [simp]: "queued_recalculation repo j \<Longrightarrow> queued_recalculation repo (widened_job env p j)"
  by (simp add: queued_recalculation_def widened_job_def)

lemma enqueue_widens:
  assumes "find (queued_recalculation repo) t = Some q"
    and "enqueue_recalculate_metrics_job env ws repo a b t = (i, t')"
  shows "i = pj_id q \<and> q \<in> set t \<and> queued_recalculation repo q \<and>
     sql_count (queued_recalculation repo) t' = sql_count (queued_recalculation repo) t \<and>
     widened_job env (recalculation_payload (se_lib env) ws repo a b) q \<in> set t'"
proof -
  have q: "q \<in> set t" "queued_recalculation repo q" using assms(1) by (auto simp: find_Some_iff)
  have "i = pj_id q" "t' = sql_update (queued_recalculation repo) (widened_job env (recalculation_payload (se_lib env) ws repo a b)) t"
    using assms by (simp_all add: enqueue_recalculate_metrics_job_def Let_def)
  with q show ?thesis by (force simp: set_sql_update sql_count_update_same)
qed

text \<open>
  Enqueueing a recalculation leaves exactly one queued recalculation for the repository, ready
  to run with no attempts used; its range is the new one when none was queued, and otherwise the
  smallest range holding the queued and the new one.
\<close>

theorem recalculation_widens:
  assumes "sql_count (queued_recalculation repo) t \<le> 1" and "iso_ordered (se_lib env)" and "jobs_fresh env"
    and "enqueue_recalculate_metrics_job env ws repo (Some a) (Some b) t = (i, t')"
  shows "sql_count (queued_recalculation repo) t' = 1 \<and>
    (\<exists>j \<in> set t'. pj_id j = i \<and> queued_recalculation repo j \<and> pj_status j = PENDING \<and>
       (case find (queued_recalculation repo) t of
          None \<Rightarrow> payload_range (se_lib env) (pj_payload j) a b
        | Some q \<Rightarrow> pj_attempts j = 0 \<and> (\<forall>c d. payload_range (se_lib env) (pj_payload q) c d \<longrightarrow>
            payload_range (se_lib env) (pj_payload j) (min c a) (max d b))))"
proof (cases "find (queued_recalculation repo) t")
  case None
  then have z: "sql_count (queued_recalculation repo) t = 0" by (simp add: find_None_iff)
  from None assms(4) have "t' = t @ [(se_job env t)\<lparr>pj_workspace_id := Some ws, pj_repository_id := Some repo,
      pj_job_type := ''RECALCULATE_METRICS'', pj_payload := recalculation_payload (se_lib env) ws repo (Some a) (Some b),
      pj_status := PENDING, pj_priority := 100, pj_available_at := se_now env\<rparr>]" "i = pj_id (se_job env t)"
    by (simp_all add: enqueue_recalculate_metrics_job_def Let_def)
  then show ?thesis using payload_range_new [of "se_lib env" ws repo a "Some b"] None
    by (simp add: sql_count_append z queued_recalculation_def)
next
  case (Some q)
  let ?p = "recalculation_payload (se_lib env) ws repo (Some a) (Some b)"
  note w = enqueue_widens [OF Some assms(4)]
  then have "sql_count (queued_recalculation repo) t \<noteq> 0" unfolding sql_count_zero by blast
  with assms(1) have "sql_count (queued_recalculation repo) t = 1" by linarith
  then have "sql_count (queued_recalculation repo) t' = 1"
    using w by simp
  moreover have "payload_range (se_lib env) (pj_payload (widened_job env ?p q)) (min c a) (max d b)"
    if "payload_range (se_lib env) (pj_payload q) c d" for c d
    using widen_ranges [OF assms(2) that payload_range_new [of "se_lib env" ws repo a "Some b"]]
    by (simp add: widened_job_def)
  moreover have "queued_recalculation repo (widened_job env ?p q)" using w by simp
  moreover have "pj_id (widened_job env ?p q) = i" "pj_attempts (widened_job env ?p q) = 0" "pj_status (widened_job env ?p q) = PENDING"
    using w by (simp_all add: widened_job_def)
  ultimately show ?thesis using Some w by (intro conjI bexI [of _ "widened_job env ?p q"]) simp_all
qed

text \<open>
  A request without a range asks for a full recalculation; merged with a queued one that has a
  range it is narrowed to that range.
\<close>

lemma full_recalculation_narrowed:
  assumes "find (queued_recalculation repo) t = Some q" and "payload_range (se_lib env) (pj_payload q) a b"
    and "enqueue_recalculate_metrics_job env ws repo None None t = (i, t')"
  shows "\<exists>j \<in> set t'. pj_id j = i \<and> payload_range (se_lib env) (pj_payload j) a b"
proof -
  let ?p = "recalculation_payload (se_lib env) ws repo None None"
  have "payload_range (se_lib env) (pj_payload (widened_job env ?p q)) a b"
    using widen_missing [OF assms(2), of ?p] by (simp add: widened_job_def recalculation_payload_def dict_get_def)
  then show ?thesis using enqueue_widens [OF assms(1,3)]
    by (intro bexI [of _ "widened_job env ?p q"]) (simp_all add: widened_job_def)
qed

lemma sql_count_update_new:
  "(\<And>r. r \<in> set t \<Longrightarrow> q r \<Longrightarrow> \<not> p r \<and> p (f r)) \<Longrightarrow> sql_count p (sql_update q f t) = sql_count p t + sql_count q t"
  by (induction t) auto

text \<open>
  C21: The conflict clause of the enqueueing relies on a unique index over the queued recalculations
  of a repository, but a recalculation that fails while another one is queued is put back to
  FAILED, which makes two queued rows.
\<close>

theorem failed_recalculation_collides:
  assumes "queue_ok t" and "job_row t i = Some j" and "owned_row i w j" and "pj_attempts j < pj_max_attempts j"
    and "pj_attempts j < 1024" and "pj_job_type j = ''RECALCULATE_METRICS''" and "pj_repository_id j = Some repo"
    and "sql_count (queued_recalculation repo) t = 1"
  shows "\<exists>t'. mark_failed now u t i w err False None None = Inr (FAILED, t') \<and>
     sql_count (queued_recalculation repo) t' = 2"
proof -
  have "0 \<le> pj_attempts j" using queue_ok_row [OF assms(1,2)] by (simp add: job_ok_def)
  with assms(5) obtain d where d: "failure_delay u (pj_attempts j) None None = Inr d"
    by (simp add: failure_delay_def retry_delay_seconds_def Let_def)
  let ?f = "failed_row now (now + interval_secs d) (sanitize_error err)"
  have m: "mark_failed now u t i w err False None None = Inr (FAILED, sql_update (owned_row i w) ?f t)"
    using assms(2-4) d by (simp add: mark_failed_eq [OF assms(1)])
  have "r = j" if "r \<in> set t" "owned_row i w r" for r
    using that assms(1,2) job_row_in_set [of t r] by (auto simp: owned_row_def queue_ok_def)
  moreover have "\<not> queued_recalculation repo j \<and> queued_recalculation repo (?f j)"
    using assms(3,6,7) by (simp add: queued_recalculation_def owned_row_def failed_row_def)
  ultimately have "sql_count (queued_recalculation repo) (sql_update (owned_row i w) ?f t) =
      sql_count (queued_recalculation repo) t + sql_count (owned_row i w) t"
    by (intro sql_count_update_new) metis
  moreover have "sql_count (owned_row i w) t = 1" using assms(1-3) by (simp add: owned_count owns_def)
  ultimately show ?thesis using m assms(8) by simp
qed

definition collision :: jobs where
  "collision =
     [(sample_job 1)\<lparr>pj_job_type := ''RECALCULATE_METRICS'', pj_repository_id := Some 4, pj_status := RUNNING,
        pj_attempts := 1, pj_locked_at := Some 0, pj_locked_by := Some ''w''\<rparr>,
      (sample_job 2)\<lparr>pj_job_type := ''RECALCULATE_METRICS'', pj_repository_id := Some 4\<rparr>]"

theorem failed_recalculation_collides_witness:
  "\<exists>t'. mark_failed 5 0 collision 1 ''w'' ''boom'' False None None = Inr (FAILED, t') \<and>
      sql_count (queued_recalculation 4) t' = 2"
proof (rule failed_recalculation_collides)
  show "queue_ok collision" by (simp add: collision_def queue_ok_def sample_job_def job_ok_def)
  show "job_row collision 1 = Some (hd collision)" by (simp add: collision_def job_row_def sample_job_def)
  show "sql_count (queued_recalculation 4) collision = 1"
    by (simp add: collision_def queued_recalculation_def sample_job_def)
qed (simp_all add: collision_def owned_row_def sample_job_def)

section \<open>Cycle-time history\<close>

lemma needs_history_jobs:
  "needs_history env (db\<lparr>ed_jobs := t\<rparr>) r \<Longrightarrow> set (ed_jobs db) \<subseteq> set t \<Longrightarrow> needs_history env db r"
  by (auto simp: needs_history_def)

text \<open>
  The boot-time request queues one backfill for each repository that needs history, keeps the
  queued jobs as they were, and asking again at once queues nothing.
\<close>

theorem history_requested_once:
  assumes "jobs_fresh env" and "enqueue_missing_cycle_time_history env db = (n, db')"
  shows "(\<forall>r \<in> set (md_repositories db). needs_history env db r \<longrightarrow>
       (\<exists>j \<in> set (ed_jobs db'). pj_repository_id j = Some (re_id r) \<and> pj_job_type j = ''BACKFILL_REPOSITORY'' \<and> pj_status j = PENDING)) \<and>
     (\<exists>new. ed_jobs db' = ed_jobs db @ new \<and> length new = n) \<and>
     (queue_ok (ed_jobs db) \<longrightarrow> queue_ok (ed_jobs db')) \<and>
     fst (enqueue_missing_cycle_time_history env db') = 0"
proof -
  let ?rs = "filter (needs_history env db) (md_repositories db)"
  let ?add = "\<lambda>rs t. fold (\<lambda>r t. t @ [history_job r (se_job env t)]) rs t"
  have st: "pj_status (history_job r (se_job env t)) = PENDING" for r t
    using assms(1) by (simp add: history_job_def jobs_fresh_def)
  have shape: "\<exists>new. ?add rs t = t @ new \<and> length new = length rs \<and>
      (\<forall>r \<in> set rs. \<exists>j \<in> set new. pj_repository_id j = Some (re_id r) \<and> pj_job_type j = ''BACKFILL_REPOSITORY'' \<and> pj_status j = PENDING) \<and>
      (queue_ok t \<longrightarrow> queue_ok (t @ new))" for rs t
  proof (induction rs arbitrary: t)
    case (Cons r rs)
    let ?j = "history_job r (se_job env t)"
    from Cons [of "t @ [?j]"] obtain new where n: "?add rs (t @ [?j]) = (t @ [?j]) @ new" "length new = length rs"
      "\<forall>r \<in> set rs. \<exists>j \<in> set new. pj_repository_id j = Some (re_id r) \<and> pj_job_type j = ''BACKFILL_REPOSITORY'' \<and> pj_status j = PENDING"
      "queue_ok (t @ [?j]) \<longrightarrow> queue_ok ((t @ [?j]) @ new)" by blast
    have "pj_id ?j \<notin> pj_id ` set t" "job_ok ?j"
      using assms(1) unfolding history_job_def jobs_fresh_def
      by (simp_all add: job_ok_shape)
    with append_job have "queue_ok t \<longrightarrow> queue_ok (t @ [?j])" by blast
    moreover have "pj_repository_id ?j = Some (re_id r) \<and> pj_job_type ?j = ''BACKFILL_REPOSITORY''" by (simp add: history_job_def)
    ultimately show ?case using n st [of r t] by (intro exI [of _ "?j # new"]) auto
  qed simp
  from shape [of ?rs "ed_jobs db"] obtain new where new: "?add ?rs (ed_jobs db) = ed_jobs db @ new" "length new = length ?rs"
    "\<forall>r \<in> set ?rs. \<exists>j \<in> set new. pj_repository_id j = Some (re_id r) \<and> pj_job_type j = ''BACKFILL_REPOSITORY'' \<and> pj_status j = PENDING"
    "queue_ok (ed_jobs db) \<longrightarrow> queue_ok (ed_jobs db @ new)" by blast
  have db': "db' = db\<lparr>ed_jobs := ed_jobs db @ new\<rparr>" and n: "n = length ?rs"
    using assms(2) new(1) by (auto simp: enqueue_missing_cycle_time_history_def Let_def)
  have "\<not> needs_history env db' r" if "r \<in> set (md_repositories db)" for r
  proof
    assume h: "needs_history env db' r"
    then have "needs_history env db r" unfolding db' by (rule needs_history_jobs) simp
    with that new(3) have "\<exists>j \<in> set (ed_jobs db'). pj_repository_id j = Some (re_id r) \<and> pj_job_type j = ''BACKFILL_REPOSITORY'' \<and>
        pj_status j = PENDING" by (fastforce simp: db')
    with h show False by (auto simp: needs_history_def)
  qed
  then have "fst (enqueue_missing_cycle_time_history env db') = 0"
    by (simp add: enqueue_missing_cycle_time_history_def Let_def filter_empty_conv) (simp add: db')
  with new n db' show ?thesis by fastforce
qed

section \<open>Witnesses\<close>

definition sample_iso :: "time \<Rightarrow> string" where
  "sample_iso t = (if 0 \<le> t then CHR ''p'' else CHR ''n'') # replicate (nat \<bar>t\<bar>) (CHR ''x'')"

definition iso_value :: "string \<Rightarrow> int" where
  "iso_value s = (if take 1 s = ''p'' then int (length s) - 1 else 1 - int (length s))"

definition service_sample :: service_env where
  "service_sample = \<lparr>se_lib = sample_lib\<lparr>isoformat := sample_iso, text_le := (\<lambda>a b. iso_value a \<le> iso_value b)\<rparr>,
     se_zones = utc_only, se_utcnow = 10 * day, se_now = 10 * day,
     se_job = (\<lambda>t. sample_job (Suc (Max (insert 0 (pj_id ` set t)))))\<rparr>"

lemma sample_iso_ordered: "iso_ordered (se_lib service_sample)"
  by (simp add: iso_ordered_def service_sample_def sample_iso_def iso_value_def)

lemma sample_jobs_fresh: "jobs_fresh service_sample"
proof -
  have "Suc (Max (insert 0 (pj_id ` set t))) \<notin> pj_id ` set t" for t :: jobs
  proof
    assume "Suc (Max (insert 0 (pj_id ` set t))) \<in> pj_id ` set t"
    then have "Suc (Max (insert 0 (pj_id ` set t))) \<le> Max (insert 0 (pj_id ` set t))" by (intro Max_ge) auto
    then show False by simp
  qed
  then show ?thesis by (simp add: jobs_fresh_def service_sample_def sample_job_def job_ok_def)
qed

lemma sample_zones_ok: "zones_ok service_sample"
  using utc.time_zone_axioms by (simp add: zones_ok_def service_sample_def utc_only_def)

definition service_db_sample :: "unit service_db_scheme" where
  "service_db_sample = \<lparr>ed_jobs = [], ed_workspaces = Map.empty,
     md_repositories = [\<lparr>re_id = 4, re_workspace_id = 7, re_github_integration_id = 2, re_github_repo_id = 1, re_github_node_id = None, re_owner_login = ''o'',
        re_name = ''n'', re_full_name = ''o/n'', re_default_branch = ''main'', re_visibility = ''PUBLIC'', re_archived = False,
        re_tracking_enabled = True, re_settings = JObj [],
        re_last_synced_at = None, re_updated_at = 0, re_version = 0\<rparr>],
     md_integrations = [\<lparr>gi_id = 2, gi_workspace_id = 7, gi_installation_id = 1, gi_status = ''ACTIVE'', gi_created_at = 0,
        gi_suspended_at = None, gi_last_synced_at = None, gi_updated_at = 0, gi_version = 0\<rparr>],
     md_deployments = outage, md_pull_requests = [], md_commits = [], md_reviews = [],
     md_links = [], md_incidents = [], sv_snapshots = [], sv_timezones = (\<lambda>_. Some ''UTC'')\<rparr>"

definition one_day :: recalc_range where
  "one_day = recalc_range_of service_sample None None (Some 10) (Some 30)"

lemma sample_recalculation: "\<exists>n db'. recalculate_repository_metrics service_sample 7 4 one_day service_db_sample = Some (Inr n, db')"
  by (rule recalculate_succeeds [OF sample_zones_ok, where name = "''UTC''" and z = utc_zone])
    (simp_all add: service_db_sample_def service_sample_def utc_only_def one_day_def recalc_range_of_def range_ok_def)

theorem recalculation_returns_witness:
  "\<exists>n db'. recalculate_repository_metrics service_sample 7 4 one_day service_db_sample = Some (Inr n, db')"
proof -
  have "sv_timezones service_db_sample 7 = Some ''UTC''" "se_zones service_sample ''UTC'' = Some utc_zone" "range_ok one_day"
    by (simp_all add: service_db_sample_def service_sample_def utc_only_def one_day_def recalc_range_of_def range_ok_def)
  with recalculation_returns [OF sample_zones_ok, of 7 4 one_day service_db_sample] show ?thesis by blast
qed


theorem recalculation_widens_witness:
  "\<exists>i t' j. enqueue_recalculate_metrics_job service_sample 7 4 (Some 10) (Some 20)
       (snd (enqueue_recalculate_metrics_job service_sample 7 4 (Some 15) (Some 30) [])) = (i, t') \<and>
     j \<in> set t' \<and> payload_range (se_lib service_sample) (pj_payload j) 10 30"
proof -
  let ?t = "snd (enqueue_recalculate_metrics_job service_sample 7 4 (Some 15) (Some 30) [])"
  let ?q = "(se_job service_sample [])\<lparr>pj_workspace_id := Some 7, pj_repository_id := Some 4,
      pj_job_type := ''RECALCULATE_METRICS'', pj_payload := recalculation_payload (se_lib service_sample) 7 4 (Some 15) (Some 30),
      pj_status := PENDING, pj_priority := 100, pj_available_at := se_now service_sample\<rparr>"
  have t: "?t = [?q]" by (simp add: enqueue_recalculate_metrics_job_def Let_def)
  have q: "queued_recalculation 4 ?q" by (simp add: queued_recalculation_def)
  have one: "sql_count (queued_recalculation 4) ?t \<le> 1" unfolding t using q by simp
  have f: "find (queued_recalculation 4) ?t = Some ?q" unfolding t using q by simp
  have rq: "payload_range (se_lib service_sample) (pj_payload ?q) 15 30"
    using payload_range_new [of "se_lib service_sample" 7 4 15 "Some 30"] by simp
  obtain i t' where e: "enqueue_recalculate_metrics_job service_sample 7 4 (Some 10) (Some 20) ?t = (i, t')"
    using prod.exhaust by blast
  from recalculation_widens [OF one sample_iso_ordered sample_jobs_fresh e] f rq
  have "\<exists>j \<in> set t'. payload_range (se_lib service_sample) (pj_payload j) (min 15 10) (max 30 20)" by fastforce
  with e show ?thesis by auto
qed

theorem history_requested_once_witness:
  "\<exists>n db'. enqueue_missing_cycle_time_history service_sample service_db_sample = (n, db') \<and> n = 1 \<and>
     fst (enqueue_missing_cycle_time_history service_sample db') = 0"
proof -
  obtain n db' where e: "enqueue_missing_cycle_time_history service_sample service_db_sample = (n, db')" by fastforce
  then have "n = 1"
    by (auto simp: enqueue_missing_cycle_time_history_def Let_def needs_history_def service_db_sample_def)
  with history_requested_once [OF sample_jobs_fresh e] e show ?thesis by blast
qed

end
