(* ===== verification/Deployment_Facts.thy ===== *)
theory Deployment_Facts
  imports Deployments Metrics_Jobs Timed_Upsert
begin

text \<open>
  Deployment normalization converges: what is stored for a provider's deployment depends on which
  deliveries arrived, not on their order or repetition; reclassification is idempotent; patterns
  mean what shell patterns mean.
\<close>

section \<open>Patterns\<close>

lemma glob_star: "glob (CHR ''*'' # ps) s \<longleftrightarrow> (\<exists>a b. s = a @ b \<and> glob ps b)"
proof (induction s)
  case Nil
  then show ?case by (simp add: glob.simps(2))
next
  case (Cons c s)
  have "glob (CHR ''*'' # ps) (c # s) \<longleftrightarrow> glob ps (c # s) \<or> glob (CHR ''*'' # ps) s"
    by (simp add: glob.simps(2))
  also have "\<dots> \<longleftrightarrow> (\<exists>a b. c # s = a @ b \<and> glob ps b)"
    using Cons by (auto simp: Cons_eq_append_conv)
  finally show ?case .
qed

definition plain_char :: "char \<Rightarrow> bool" where
  "plain_char c \<longleftrightarrow> c \<noteq> CHR ''*'' \<and> c \<noteq> CHR ''?'' \<and> c \<noteq> CHR ''[''"

lemma glob_plain: "\<forall>c \<in> set ps. plain_char c \<Longrightarrow> glob (ps @ qs) s \<longleftrightarrow> (\<exists>b. s = ps @ b \<and> glob qs b)"
proof (induction ps arbitrary: s)
  case (Cons p ps)
  then have "glob ((p # ps) @ qs) s \<longleftrightarrow> (case s of [] \<Rightarrow> False | c # cs \<Rightarrow> c = p \<and> glob (ps @ qs) cs)"
    by (simp add: glob.simps(2) plain_char_def split: list.split)
  with Cons show ?case by (auto split: list.split)
qed simp

lemma fnmatch_plain: "\<forall>c \<in> set p. plain_char c \<Longrightarrow> fnmatch s p \<longleftrightarrow> s = p"
  using glob_plain [of p "[]" s] by (simp add: fnmatch_def)

lemma fnmatch_containing:
  assumes "\<forall>c \<in> set w. plain_char c"
  shows "fnmatch s (''*'' @ w @ ''*'') \<longleftrightarrow> (\<exists>a b. s = a @ w @ b)"
proof -
  have "glob (CHR ''*'' # []) b" for b by (simp add: glob_star)
  then show ?thesis using glob_plain [OF assms, of "''*''"]
    by (simp add: fnmatch_def glob_star) blast
qed

lemma containing_patterns: "fnmatch s (py_lower ''*deploy*'') \<longleftrightarrow> (\<exists>a b. s = a @ ''deploy'' @ b)"
  "fnmatch s (py_lower ''*production*'') \<longleftrightarrow> (\<exists>a b. s = a @ ''production'' @ b)"
  "fnmatch s (py_lower ''*release*'') \<longleftrightarrow> (\<exists>a b. s = a @ ''release'' @ b)"
proof -
  have l: "py_lower ''*deploy*'' = ''*'' @ ''deploy'' @ ''*''" "py_lower ''*production*'' = ''*'' @ ''production'' @ ''*''"
    "py_lower ''*release*'' = ''*'' @ ''release'' @ ''*''" by code_simp+
  show "fnmatch s (py_lower ''*deploy*'') \<longleftrightarrow> (\<exists>a b. s = a @ ''deploy'' @ b)"
    unfolding l by (rule fnmatch_containing) (simp add: plain_char_def)
  show "fnmatch s (py_lower ''*production*'') \<longleftrightarrow> (\<exists>a b. s = a @ ''production'' @ b)"
    unfolding l by (rule fnmatch_containing) (simp add: plain_char_def)
  show "fnmatch s (py_lower ''*release*'') \<longleftrightarrow> (\<exists>a b. s = a @ ''release'' @ b)"
    unfolding l by (rule fnmatch_containing) (simp add: plain_char_def)
qed

text \<open>
  With no patterns configured a workflow run counts as production exactly when it ran on the
  default branch, compared without case, and its name contains deploy, production or release;
  an environment counts exactly when it is production, prod or live.
\<close>

theorem default_production_signals:
  assumes "settings = []" and "\<forall>c \<in> set (py_lower branch). plain_char c"
  shows "is_production_workflow lib (JStr name) (JStr head) (JStr branch) settings =
      Inr (head \<noteq> [] \<and> py_lower head = py_lower branch \<and> name \<noteq> [] \<and>
        (\<exists>a b. \<exists>w \<in> {''deploy'', ''production'', ''release''}. py_lower name = a @ w @ b)) \<and>
    is_production_environment lib (JStr env) settings =
      Inr (env \<noteq> [] \<and> py_lower env \<in> {''production'', ''prod'', ''live''})"
proof -
  have none: "patterns_of lib (dict_get settings k) = []" for k
    using assms(1) by (simp add: dict_get_def patterns_of_def)
  have branch: "fnmatch (py_lower head) (py_lower branch) \<longleftrightarrow> py_lower head = py_lower branch"
    by (rule fnmatch_plain [OF assms(2)])
  have l: "py_lower ''production'' = ''production''" "py_lower ''prod'' = ''prod''" "py_lower ''live'' = ''live''" by code_simp+
  have e: "fnmatch s ''production'' \<longleftrightarrow> s = ''production''" "fnmatch s ''prod'' \<longleftrightarrow> s = ''prod''"
    "fnmatch s ''live'' \<longleftrightarrow> s = ''live''" for s
    by (rule fnmatch_plain; simp add: plain_char_def)+
  have name: "any_match s [JStr ''*deploy*'', JStr ''*production*'', JStr ''*release*''] =
      Inr (\<exists>a b. \<exists>w \<in> {''deploy'', ''production'', ''release''}. s = a @ w @ b)" for s
    using containing_patterns [of s] by (auto simp del: append_Cons)
  have "is_production_environment lib (JStr env) settings =
      Inr (env \<noteq> [] \<and> py_lower env \<in> {''production'', ''prod'', ''live''})"
    by (simp add: is_production_environment_def is_excluded_def none signal_matches_def negated_def l e)
  moreover define Q where "Q = (\<exists>a b. \<exists>w \<in> {''deploy'', ''production'', ''release''}. py_lower name = a @ w @ b)"
  have n: "any_match (py_lower name) [JStr ''*deploy*'', JStr ''*production*'', JStr ''*release*''] = Inr Q"
    unfolding Q_def by (rule name)
  define B where "B = (py_lower head = py_lower branch)"
  have h: "any_match (py_lower head) [JStr branch] = Inr B" using branch by (simp add: B_def)
  have "is_production_workflow lib (JStr name) (JStr head) (JStr branch) settings =
      Inr (head \<noteq> [] \<and> B \<and> name \<noteq> [] \<and> Q)"
    unfolding is_production_workflow_def signal_matches_def none is_excluded_def negated_def
    by (cases B; cases Q) (simp_all add: n h del: any_match.simps)
  ultimately show ?thesis unfolding Q_def B_def by blast
qed

section \<open>Convergence of the upsert\<close>

text \<open>What the provider says of a deployment.\<close>

definition delivered :: "deployment \<Rightarrow> string option \<times> bool \<times> string \<times> string option \<times> time option \<times> json" where
  "delivered d = (dp_environment d, dp_is_production d, dp_status d, dp_commit_sha d, dp_finished_at d, dp_raw_data d)"

definition finish_of :: "string option \<times> bool \<times> string \<times> string option \<times> time option \<times> json \<Rightarrow> time option" where
  "finish_of c = fst (snd (snd (snd (snd c))))"

lemma finish_of_delivered [simp]: "finish_of (delivered d) = dp_finished_at d"
  by (simp add: finish_of_def delivered_def)

lemma delivered_merge [simp]: "delivered (merge_deployment old new) = delivered new"
  by (simp add: delivered_def merge_deployment_def)

interpretation deployment_upsert: timed_upsert deployment_key not_older merge_deployment delivered finish_of
  by unfold_locales (auto simp: merge_deployment_def deployment_key_def not_older_def delivered_def finish_of_def split: option.splits)

text \<open>Deliveries of a deployment with the same finish are repetitions of each other.\<close>

definition consistent_deliveries :: "deployment list \<Rightarrow> bool" where
  "consistent_deliveries rows \<longleftrightarrow> (\<forall>r \<in> set rows. dp_finished_at r \<noteq> None) \<and>
     (\<forall>a \<in> set rows. \<forall>b \<in> set rows. deployment_key a = deployment_key b \<longrightarrow> dp_finished_at a = dp_finished_at b \<longrightarrow>
        delivered a = delivered b)"


section \<open>Late deliveries\<close>

text \<open>
  A delivery that finished before the stored one, or that has no finish while the stored one
  has, changes no row; every other delivery of a known deployment takes its place, keeps the
  row's id and its first start, and counts the version.
\<close>

theorem late_delivery_ignored:
  assumes "distinct (map deployment_key t)" and "row_with deployment_key (deployment_key r) t = Some old"
  shows "distinct (map deployment_key (run_upsert r t)) \<and>
    (if not_older old r
     then (\<exists>new. row_with deployment_key (deployment_key r) (run_upsert r t) = Some new \<and> delivered new = delivered r \<and>
        dp_id new = dp_id old \<and> dp_version new = dp_version old + 1 \<and>
        (dp_started_at old \<noteq> None \<longrightarrow> dp_started_at new = dp_started_at old))
     else run_upsert r t = t) \<and>
    (\<forall>x. x \<noteq> deployment_key r \<longrightarrow> row_with deployment_key x (run_upsert r t) = row_with deployment_key x t)"
proof -
  have frame: "\<forall>x. x \<noteq> deployment_key r \<longrightarrow> row_with deployment_key x (run_upsert r t) = row_with deployment_key x t"
    by (simp add: run_upsert_def deployment_upsert.put_lookup)
  have dist: "distinct (map deployment_key (run_upsert r t))"
    unfolding run_upsert_def by (rule deployment_upsert.put_distinct [OF assms(1)])
  show ?thesis
  proof (cases "not_older old r")
    case True
    have "delivered (merge_deployment old r) = delivered r" by simp
    with True assms(2) frame dist show ?thesis
      by (auto simp: run_upsert_def deployment_upsert.put_lookup merge_deployment_def coalesce_def)
  next
    case False
    have "\<not> (deployment_key o' = deployment_key r \<and> not_older o' r)" if "o' \<in> set t" for o'
      using False that assms row_with_in_set [OF assms(1) that] by auto
    then have "sql_update (\<lambda>old. deployment_key old = deployment_key r \<and> not_older old r) (\<lambda>old. merge_deployment old r) t = t"
      by (intro sql_update_id) blast
    moreover have "deployment_key r \<in> deployment_key ` set t" using row_with_Some_set [OF assms(2)] by (metis imageI)
    ultimately have "run_upsert r t = t" by (simp add: run_upsert_def sql_upsert_def)
    with False frame dist show ?thesis by simp
  qed
qed

section \<open>Reclassification\<close>

lemma classified_frame: "classified lib r d = Inr b \<Longrightarrow>
    classified lib r (d\<lparr>dp_is_production := b, dp_updated_at := u, dp_version := v\<rparr>) = Inr b"
  by (auto simp: classified_def Let_def split: if_splits)

lemma reclassifications_sound:
  assumes "reclassifications f ds = Inr us"
  shows "\<forall>d \<in> set ds. \<exists>b. f d = Inr b \<and> (b \<noteq> dp_is_production d \<longrightarrow> (dp_id d, b) \<in> set us)"
    and "\<forall>(i, b) \<in> set us. \<exists>d \<in> set ds. dp_id d = i \<and> f d = Inr b \<and> b \<noteq> dp_is_production d"
    and "map fst us = map dp_id (filter (\<lambda>d. f d \<noteq> Inr (dp_is_production d)) ds)"
  using assms by (induction ds arbitrary: us) (fastforce split: sum.splits if_splits)+

lemma reclassifications_none:
  assumes "\<forall>d \<in> set ds. f d = Inr (dp_is_production d)"
  shows "reclassifications f ds = Inr []"
  using assms by (induction ds) simp_all

definition set_production :: "time \<Rightarrow> deployment \<Rightarrow> bool \<Rightarrow> deployment" where
  "set_production now d b = d\<lparr>dp_is_production := b, dp_updated_at := now, dp_version := dp_version d + 1\<rparr>"

lemma apply_updates:
  assumes "distinct (map fst us)"
  shows "fold (\<lambda>(i, b). sql_update (\<lambda>d. dp_id d = i) (\<lambda>d. set_production now d b)) us ds =
     map (\<lambda>d. case map_of us (dp_id d) of None \<Rightarrow> d | Some b \<Rightarrow> set_production now d b) ds"
  using assms
proof (induction us arbitrary: ds)
  case (Cons u us)
  obtain i b where u: "u = (i, b)" by fastforce
  from Cons.prems u have i: "map_of us i = None" by (simp add: map_of_eq_None_iff)
  have "fold (\<lambda>(i, b). sql_update (\<lambda>d. dp_id d = i) (\<lambda>d. set_production now d b)) (u # us) ds =
      map (\<lambda>d. case map_of us (dp_id d) of None \<Rightarrow> d | Some b \<Rightarrow> set_production now d b)
        (sql_update (\<lambda>d. dp_id d = i) (\<lambda>d. set_production now d b) ds)"
    using Cons by (simp add: u)
  also have "\<dots> = map (\<lambda>d. case map_of (u # us) (dp_id d) of None \<Rightarrow> d | Some b \<Rightarrow> set_production now d b) ds"
    using i by (auto simp: sql_update_def u set_production_def)
  finally show ?case .
qed simp

lemma reclassified_row:
  assumes "distinct (map dp_id (md_deployments db))" and "row_with re_id repo (md_repositories db) = Some r"
    and "reclassify_repository_deployments lib now repo db = Inr (n, db')"
  shows "md_deployments db' = map (\<lambda>d. if dp_repository_id d = repo
       then (case classified lib r d of
               Inl e \<Rightarrow> d
             | Inr b \<Rightarrow> if b = dp_is_production d then d else set_production now d b)
       else d) (md_deployments db) \<and>
     (\<forall>d \<in> set (repo_deployments repo db). \<exists>b. classified lib r d = Inr b) \<and>
     n = length (filter (\<lambda>d. classified lib r d \<noteq> Inr (dp_is_production d)) (repo_deployments repo db))"
proof -
  let ?ds = "repo_deployments repo db"
  from assms(2,3) obtain us where us: "reclassifications (classified lib r) ?ds = Inr us" "n = length us"
    "md_deployments db' = fold (\<lambda>(i, b). sql_update (\<lambda>d. dp_id d = i) (\<lambda>d. set_production now d b)) us (md_deployments db)"
    by (auto simp: reclassify_repository_deployments_def set_production_def split: sum.splits)
  note s = reclassifications_sound [OF us(1)]
  have d: "distinct (map dp_id ?ds)" using assms(1) by (simp add: repo_deployments_def distinct_map_filter)
  then have du: "distinct (map fst us)" unfolding s(3) by (simp add: distinct_map_filter)
  have "(case map_of us (dp_id d) of None \<Rightarrow> d | Some b \<Rightarrow> set_production now d b) =
      (if dp_repository_id d = repo
       then (case classified lib r d of Inl e \<Rightarrow> d | Inr b \<Rightarrow> if b = dp_is_production d then d else set_production now d b)
       else d)" if "d \<in> set (md_deployments db)" for d
  proof (cases "map_of us (dp_id d)")
    case None
    have "b = dp_is_production d" if "dp_repository_id d = repo" "classified lib r d = Inr b" for b
    proof (rule ccontr)
      assume "b \<noteq> dp_is_production d"
      with s(1) that \<open>d \<in> set (md_deployments db)\<close> have "(dp_id d, b) \<in> set us" by (auto simp: repo_deployments_def)
      with None show False by (auto simp: map_of_eq_None_iff image_iff)
    qed
    with None show ?thesis by (auto split: sum.splits)
  next
    case (Some b)
    then have "(dp_id d, b) \<in> set us" by (rule map_of_SomeD)
    with s(2) obtain e where e: "e \<in> set ?ds" "dp_id e = dp_id d" "classified lib r e = Inr b" "b \<noteq> dp_is_production e" by blast
    have "e = d" using e(1,2) that assms(1) by (auto simp: repo_deployments_def dest: inj_onD [OF distinct_map [THEN iffD1, THEN conjunct2]])
    with e Some show ?thesis by (auto simp: repo_deployments_def)
  qed
  then have "md_deployments db' = map (\<lambda>d. if dp_repository_id d = repo
       then (case classified lib r d of Inl e \<Rightarrow> d | Inr b \<Rightarrow> if b = dp_is_production d then d else set_production now d b)
       else d) (md_deployments db)" unfolding us(3) apply_updates [OF du] by simp
  moreover have "n = length (filter (\<lambda>d. classified lib r d \<noteq> Inr (dp_is_production d)) ?ds)"
    using us(2) s(3) by (metis length_map)
  ultimately show ?thesis using s(1) by blast
qed

text \<open>
  After reclassification the production flag of every deployment of the repository is what
  the current settings classify it as, manual and foreign rows are as they were, the result
  counts the rows that changed, and reclassifying again changes nothing.
\<close>

theorem reclassification_idempotent:
  assumes "distinct (map dp_id (md_deployments db))" and "row_with re_id repo (md_repositories db) = Some r"
    and "reclassify_repository_deployments lib now repo db = Inr (n, db')"
  shows "(\<forall>d \<in> set (repo_deployments repo db'). classified lib r d = Inr (dp_is_production d)) \<and>
    (\<forall>d \<in> set (md_deployments db). dp_repository_id d \<noteq> repo \<or> dp_source d = ''MANUAL'' \<longrightarrow> d \<in> set (md_deployments db')) \<and>
    n = length (filter (\<lambda>d. classified lib r d \<noteq> Inr (dp_is_production d)) (repo_deployments repo db)) \<and>
    reclassify_repository_deployments lib later repo db' = Inr (0, db')"
proof -
  note row = reclassified_row [OF assms]
  have cl: "classified lib r e = Inr (dp_is_production e)" if e: "e \<in> set (repo_deployments repo db')" for e
  proof -
    from e row obtain d where d: "d \<in> set (repo_deployments repo db)"
      "e = (case classified lib r d of Inl x \<Rightarrow> d | Inr b \<Rightarrow> if b = dp_is_production d then d else set_production now d b)"
      by (auto simp: repo_deployments_def set_production_def split: if_splits sum.splits)
    from d(1) row obtain b where b: "classified lib r d = Inr b" by blast
    from classified_frame [OF b] b d(2) show ?thesis by (auto simp: set_production_def)
  qed
  have "d \<in> set (md_deployments db')" if "d \<in> set (md_deployments db)" "dp_repository_id d \<noteq> repo \<or> dp_source d = ''MANUAL''" for d
  proof -
    have "classified lib r d = Inr (dp_is_production d)" if "dp_source d = ''MANUAL''" using that by (simp add: classified_def Let_def)
    with that row show ?thesis by (force split: sum.splits)
  qed
  moreover have "md_repositories db' = md_repositories db"
    using assms(2,3) by (auto simp: reclassify_repository_deployments_def split: sum.splits)
  then have "reclassify_repository_deployments lib later repo db' = Inr (0, db')"
    using assms(2) reclassifications_none [of "repo_deployments repo db'" "classified lib r"] cl
    by (simp add: reclassify_repository_deployments_def)
  ultimately show ?thesis using cl row by blast
qed

section \<open>Processing a delivery\<close>

lemma upserted_row: "\<exists>d \<in> set (run_upsert row t). dp_id d = upserted_id row t \<and> deployment_key d = deployment_key row"
proof (cases "row_with deployment_key (deployment_key row) t")
  case None
  then have "deployment_key row \<notin> deployment_key ` set t" by (simp add: row_with_None)
  with None show ?thesis by (simp add: upserted_id_def run_upsert_def sql_upsert_def)
next
  case (Some old)
  let ?new = "if not_older old row then merge_deployment old row else old"
  have k: "deployment_key old = deployment_key row" using row_with_Some_set [OF Some] by simp
  have "row_with deployment_key (deployment_key row) (run_upsert row t) = Some ?new"
    using Some by (simp add: run_upsert_def deployment_upsert.put_lookup)
  from row_with_Some_set [OF this] have "?new \<in> set (run_upsert row t)" "deployment_key ?new = deployment_key row" by blast+
  moreover have "dp_id ?new = upserted_id row t" using Some by (simp add: upserted_id_def merge_deployment_def)
  ultimately show ?thesis by blast
qed

lemma enqueued_recalculation:
  assumes "jobs_fresh env"
  shows "\<exists>j \<in> set (snd (enqueue_recalculate_metrics_job env ws repo a b t)). queued_recalculation repo j \<and> pj_status j = PENDING"
proof (cases "find (queued_recalculation repo) t")
  case None
  then show ?thesis by (simp add: enqueue_recalculate_metrics_job_def Let_def queued_recalculation_def)
next
  case (Some q)
  obtain i t' where "enqueue_recalculate_metrics_job env ws repo a b t = (i, t')" by fastforce
  from enqueue_widens [OF Some this] this show ?thesis
    by (intro bexI [of _ "widened_job env (recalculation_payload (se_lib env) ws repo a b) q"])
      (simp_all add: widened_job_def queued_recalculation_def)
qed

lemma store_delivery_spec:
  assumes "jobs_fresh env" and "store_delivery env ws (dp_repository_id row) row db = (res, db')"
  shows "res = Inr (Some (upserted_id row (md_deployments db))) \<and> md_deployments db' = run_upsert row (md_deployments db) \<and>
     (if dp_is_production row then (\<exists>j \<in> set (ed_jobs db'). queued_recalculation (dp_repository_id row) j \<and> pj_status j = PENDING)
      else ed_jobs db' = ed_jobs db)"
proof (cases "dp_is_production row")
  case False
  with assms(2) show ?thesis by (auto simp: store_delivery_def Let_def)
next
  case True
  let ?i = "upserted_id row (md_deployments db)"
  let ?db2 = "snd (link_deployments_to_pull_requests (se_lib env) (se_now env) (dp_repository_id row)
      (db\<lparr>md_deployments := run_upsert row (md_deployments db)\<rparr>))"
  have d2: "md_deployments ?db2 = run_upsert row (md_deployments db)"
    by (simp add: link_deployments_to_pull_requests_def Let_def)
  then have "row_with dp_id ?i (md_deployments ?db2) \<noteq> None"
    unfolding row_with_None using upserted_row [of row "md_deployments db"] by (metis imageI)
  then obtain d where "row_with dp_id ?i (md_deployments ?db2) = Some d" by blast
  then have "update_github_incident_lifecycle (se_lib env) (se_now env) ?i ?db2 =
      Inr (reconcile_github_incidents (se_lib env) (se_now env) (dp_repository_id d) ?db2)"
    by (simp add: update_github_incident_lifecycle_def)
  with assms(2) True have "res = Inr (Some ?i)" "md_deployments db' = md_deployments ?db2"
    "ed_jobs db' = snd (enqueue_recalculate_metrics_job env ws (dp_repository_id row) (dp_finished_at row) None (ed_jobs ?db2))"
    by (auto simp: store_delivery_def Let_def reconcile_github_incidents_def)
  with True d2 enqueued_recalculation [OF assms(1)] show ?thesis by simp
qed

lemma workflow_row_fields:
  assumes "workflow_run_row env db ws repo event = Inr (Some row)"
  shows "dp_repository_id row = repo \<and> dp_source row = ''GITHUB_WORKFLOW'' \<and> dp_status row \<in> {''SUCCESS'', ''FAILURE''}"
  using assms
  by (auto simp: workflow_run_row_def delivery_row_def Let_def split: sum.splits if_splits)

text \<open>
  A workflow run that is not terminal or not well formed changes nothing; any other delivery
  leaves exactly the guarded upsert of its row, returns the id of the stored deployment, and, when
  it is a production deployment, leaves a recalculation of the repository queued.
\<close>

theorem workflow_delivery_effects:
  assumes "jobs_fresh env" and "upsert_deployment_from_workflow_run env ws repo event db = (res, db')"
  shows "(case workflow_run_row env db ws repo event of
       Inl e \<Rightarrow> res = Inl e \<and> db' = db
     | Inr None \<Rightarrow> res = Inr None \<and> db' = db
     | Inr (Some row) \<Rightarrow>
         (\<exists>d \<in> set (md_deployments db'). res = Inr (Some (dp_id d)) \<and> dp_repository_id d = repo \<and>
            dp_source d = ''GITHUB_WORKFLOW'' \<and> dp_external_deployment_id d = dp_external_deployment_id row) \<and>
         md_deployments db' = run_upsert row (md_deployments db) \<and> dp_status row \<in> {''SUCCESS'', ''FAILURE''} \<and>
         (if dp_is_production row then (\<exists>j \<in> set (ed_jobs db'). queued_recalculation repo j \<and> pj_status j = PENDING)
          else ed_jobs db' = ed_jobs db))"
proof (cases "workflow_run_row env db ws repo event")
  case (Inl e)
  with assms(2) show ?thesis by (simp add: upsert_deployment_from_workflow_run_def)
next
  case (Inr r)
  show ?thesis
  proof (cases r)
    case None
    with Inr assms(2) show ?thesis by (simp add: upsert_deployment_from_workflow_run_def)
  next
    case (Some row)
    with Inr have row: "workflow_run_row env db ws repo event = Inr (Some row)" by simp
    note f = workflow_row_fields [OF row]
    have "store_delivery env ws (dp_repository_id row) row db = (res, db')"
      using assms(2) row f by (simp add: upsert_deployment_from_workflow_run_def)
    from store_delivery_spec [OF assms(1) this] have s: "res = Inr (Some (upserted_id row (md_deployments db)))"
      "md_deployments db' = run_upsert row (md_deployments db)"
      "if dp_is_production row then (\<exists>j \<in> set (ed_jobs db'). queued_recalculation repo j \<and> pj_status j = PENDING)
       else ed_jobs db' = ed_jobs db" using f by auto
    from upserted_row [of row "md_deployments db"] obtain d where "d \<in> set (md_deployments db')"
      "dp_id d = upserted_id row (md_deployments db)" "deployment_key d = deployment_key row" unfolding s(2) by blast
    then have "\<exists>d \<in> set (md_deployments db'). res = Inr (Some (dp_id d)) \<and> dp_repository_id d = repo \<and>
        dp_source d = ''GITHUB_WORKFLOW'' \<and> dp_external_deployment_id d = dp_external_deployment_id row"
      using s(1) f by (intro bexI [of _ d]) (auto simp: deployment_key_def)
    with row s f show ?thesis by simp
  qed
qed

section \<open>Witnesses\<close>

theorem default_production_signals_witness:
  "is_production_workflow sample_lib (JStr ''Deploy'') (JStr ''Main'') (JStr ''main'') [] = Inr True"
proof -
  have l: "py_lower ''main'' = ''main''" "py_lower ''Main'' = ''main''" "py_lower ''Deploy'' = ''deploy''" by code_simp+
  have "\<forall>c \<in> set (py_lower ''main''). plain_char c" unfolding l by (simp add: plain_char_def)
  from default_production_signals [OF refl this, of sample_lib "''Deploy''" "''Main''" "[]"]
  have "is_production_workflow sample_lib (JStr ''Deploy'') (JStr ''Main'') (JStr ''main'') [] =
      Inr (\<exists>a b. \<exists>w \<in> {''deploy'', ''production'', ''release''}. py_lower ''Deploy'' = a @ w @ b)" by (simp add: l)
  moreover have "\<exists>a b. \<exists>w \<in> {''deploy'', ''production'', ''release''}. py_lower ''Deploy'' = a @ w @ b"
    by (rule exI [of _ "[]"], rule exI [of _ "[]"]) (simp add: l)
  ultimately show ?thesis by (simp only: simp_thms)
qed

definition first_try :: deployment where
  "first_try = sample_deployment 1 ''FAILURE'' 10"

definition second_try :: deployment where
  "second_try = (sample_deployment 1 ''SUCCESS'' 20)\<lparr>dp_id := 2\<rparr>"

lemmas tries = first_try_def second_try_def sample_deployment_def


theorem late_delivery_ignored_witness: "run_upsert first_try [second_try] = [second_try]"
proof -
  have "distinct (map deployment_key [second_try])" by simp
  moreover have "row_with deployment_key (deployment_key first_try) [second_try] = Some second_try"
    by (simp add: tries deployment_key_def)
  moreover have "\<not> not_older second_try first_try" by (simp add: tries not_older_def)
  ultimately show ?thesis using late_delivery_ignored [of "[second_try]" first_try second_try] by simp
qed

lemma classified_outage:
  "d \<in> set outage \<Longrightarrow> classified sample_lib (hd (md_repositories (sample_metrics_db outage))) d = Inr False"
proof -
  have u: "py_upper ''WORKFLOW_RUN'' = ''WORKFLOW_RUN''" by code_simp
  show "d \<in> set outage \<Longrightarrow> classified sample_lib (hd (md_repositories (sample_metrics_db outage))) d = Inr False"
    by (auto simp: classified_def outage_def sample_metrics_db_def sample_deployment_def dict_get_or_def dict_get_def u
        is_production_workflow_def signal_matches_def py_or_def)
qed

theorem reclassification_idempotent_witness:
  "\<exists>db'. reclassify_repository_deployments sample_lib 50 4 (sample_metrics_db outage) = Inr (3, db') \<and>
     reclassify_repository_deployments sample_lib 60 4 db' = Inr (0, db')"
proof -
  let ?db = "sample_metrics_db outage" and ?r = "hd (md_repositories (sample_metrics_db outage))"
  have dist: "distinct (map dp_id (md_deployments ?db))" by (simp add: sample_metrics_db_def outage_def sample_deployment_def)
  have r: "row_with re_id 4 (md_repositories ?db) = Some ?r" by (simp add: sample_metrics_db_def)
  have ds: "repo_deployments 4 ?db = outage"
    by (simp add: repo_deployments_def sample_metrics_db_def outage_def sample_deployment_def)
  have "\<exists>us. reclassifications (classified sample_lib ?r) xs = Inr us" if "set xs \<subseteq> set outage" for xs
    using that classified_outage by (induction xs) auto
  then obtain us where "reclassifications (classified sample_lib ?r) outage = Inr us" by blast
  then obtain n db' where re: "reclassify_repository_deployments sample_lib 50 4 ?db = Inr (n, db')"
    using r ds by (simp add: reclassify_repository_deployments_def)
  note c = reclassification_idempotent [OF dist r re, of 60]
  have "n = length (filter (\<lambda>d. classified sample_lib ?r d \<noteq> Inr (dp_is_production d)) outage)" using c ds by simp
  also have "filter (\<lambda>d. classified sample_lib ?r d \<noteq> Inr (dp_is_production d)) outage = filter dp_is_production outage"
    using classified_outage by (intro filter_cong) auto
  finally have n: "n = 3" by (simp add: outage_def sample_deployment_def)
  have "reclassify_repository_deployments sample_lib 60 4 db' = Inr (0, db')" using c by blast
  with re [unfolded n] show ?thesis by blast
qed

theorem workflow_delivery_effects_witness:
  "\<exists>db'. upsert_deployment_from_workflow_run service_sample 7 4
      [(''workflow_run'', JObj [(''conclusion'', JStr ''cancelled'')])] (sample_metrics_db outage) = (Inr None, db') \<and>
      db' = sample_metrics_db outage"
proof -
  let ?ev = "[(''workflow_run'', JObj [(''conclusion'', JStr ''cancelled'')])]"
  have l: "py_lower ''cancelled'' = ''cancelled''" by code_simp
  have row: "workflow_run_row service_sample (sample_metrics_db outage) 7 4 ?ev = Inr None"
    by (simp add: workflow_run_row_def get_object_def dict_get_or_def dict_get_def lowered_def py_or_def l)
  obtain res db' where u: "upsert_deployment_from_workflow_run service_sample 7 4 ?ev (sample_metrics_db outage) = (res, db')"
    by fastforce
  from workflow_delivery_effects [OF sample_jobs_fresh u] row u show ?thesis by simp
qed

end
