(* ===== verification/Github_Event_Facts.thy ===== *)
theory Github_Event_Facts
  imports Github_Events Metrics_Jobs Deployment_Facts
begin

text \<open>
  Every delivery ends in exactly one state of its raw event, whatever its handler did; the handlers
  keep the queue's contract; and an uninstalled GitHub App is not heard any more.
\<close>

section \<open>What a handler may do to the queue\<close>

lemma evaluation_extends:
  assumes "jobs_fresh env"
  shows "queue_extends t (snd (enqueue_evaluate_alerts_job now (se_job env t) ws repo src t))"
proof -
  have "pj_id (se_job env t) \<notin> pj_id ` set t" "job_ok (se_job env t)" "pj_status (se_job env t) = PENDING"
    using assms by (simp_all add: jobs_fresh_def)
  from enqueue_evaluation_frame [OF _ this] show ?thesis unfolding queue_extends_def by (metis option.distinct(1))
qed

lemma recalculation_extends:
  assumes "jobs_fresh env"
  shows "queue_extends t (snd (enqueue_recalculate_metrics_job env ws repo a b t))"
proof (cases "find (queued_recalculation repo) t")
  case None
  let ?j = "(se_job env t)\<lparr>pj_workspace_id := Some ws, pj_repository_id := Some repo, pj_job_type := ''RECALCULATE_METRICS'',
      pj_payload := recalculation_payload (se_lib env) ws repo a b, pj_status := PENDING, pj_priority := 100,
      pj_available_at := se_now env\<rparr>"
  have f: "pj_id (se_job env t) \<notin> pj_id ` set t" "job_ok (se_job env t)" "pj_status (se_job env t) = PENDING"
    using assms by (simp_all add: jobs_fresh_def)
  then have "pj_id ?j \<notin> pj_id ` set t" "job_ok ?j" by (auto simp: job_ok_def simp del: not_None_eq)
  from append_job [OF _ this] None show ?thesis
    unfolding queue_extends_def by (auto simp: enqueue_recalculate_metrics_job_def Let_def)
next
  case (Some q)
  let ?f = "widened_job env (recalculation_payload (se_lib env) ws repo a b)"
  have u: "snd (enqueue_recalculate_metrics_job env ws repo a b t) = sql_update (queued_recalculation repo) ?f t"
    using Some by (simp add: enqueue_recalculate_metrics_job_def Let_def)
  have id: "pj_id (?f j) = pj_id j" for j by (simp add: widened_job_def)
  have ok: "job_ok (?f j)" if "job_ok j" "queued_recalculation repo j" for j
    using that by (auto simp: job_ok_def queued_recalculation_def widened_job_def)
  show ?thesis unfolding queue_extends_def u
    using queue_ok_update [of t ?f "queued_recalculation repo", OF _ id ok]
    by (auto simp: job_row_update [of ?f, OF id] queued_recalculation_def)
qed

text \<open>A step of a handler: the raw events are not touched, the queue is only extended.\<close>

definition handler_step :: "('d) events_db_scheme \<Rightarrow> ('d) events_db_scheme \<Rightarrow> bool" where
  "handler_step db db' \<longleftrightarrow> ev_raw_events db' = ev_raw_events db \<and> queue_extends (ed_jobs db) (ed_jobs db')"

lemma handler_step_refl [simp]: "handler_step db db"
  by (simp add: handler_step_def)

lemma handler_step_trans: "handler_step a b \<Longrightarrow> handler_step b c \<Longrightarrow> handler_step a c"
  by (auto simp: handler_step_def intro: queue_extends_trans)

lemma handler_step_tables [simp]:
  "handler_step db (db\<lparr>md_repositories := r\<rparr>)" "handler_step db (db\<lparr>md_pull_requests := p\<rparr>)"
  "handler_step db (db\<lparr>md_reviews := v\<rparr>)" "handler_step db (db\<lparr>ev_github_issues := g\<rparr>)"
  "handler_step db (db\<lparr>md_integrations := i, md_repositories := r\<rparr>)"
  "handler_step db (db\<lparr>md_commits := c, md_pull_requests := p\<rparr>)"
  by (simp_all add: handler_step_def)

text \<open>A result that signals nothing, with a step.\<close>

definition sound_step :: "('d) events_db_scheme \<Rightarrow> 'a result \<times> ('d) events_db_scheme \<Rightarrow> bool" where
  "sound_step db r \<longleftrightarrow> quiet (fst r) \<and> handler_step db (snd r)"

lemma sound_step_simps [simp]:
  "sound_step db (Inr x, db') = handler_step db db'"
  "sound_step db (Inl e, db') \<longleftrightarrow> e \<noteq> RequeueWithPayloadError \<and> handler_step db db'"
  by (simp_all add: sound_step_def)

section \<open>Each handler\<close>

lemma exns_quiet [simp]: "attribute_error \<noteq> RequeueWithPayloadError"
  by (simp add: attribute_error_def)

lemma map_result_quiet: "(\<And>x. x \<in> set xs \<Longrightarrow> quiet (f x)) \<Longrightarrow> quiet (map_result f xs)"
  by (induction xs) (auto intro!: quiet_bindr)

lemma texts_of_quiet: "quiet (texts_of pr)"
  unfolding texts_of_def by (intro map_result_quiet text_param_quiet)

lemma build_row_quiet: "quiet (build_row lib now n ws repo pr action cs ready)"
  unfolding build_row_def Let_def
  by (intro quiet_bindr int_of_json_quiet texts_of_quiet text_param_quiet)
    (auto simp: required_key_def count_of_def int_of_json_quiet intro: texts_of_quiet text_param_quiet split: option.split)

lemma replace_reviews_quiet: "quiet (replace_pull_request_reviews lib i rs db)"
proof -
  have "quiet (review_row lib i r)" for r
    by (auto simp: review_row_def intro!: quiet_bindr text_param_quiet split: option.split)
  then show ?thesis by (auto simp: replace_pull_request_reviews_def intro!: quiet_bindr map_result_quiet)
qed

lemma replace_commits_step: "handler_step db (replace_commits lib now i cs db)"
  by (simp add: replace_commits_def Let_def)

lemma replace_reviews_step: "replace_pull_request_reviews lib i rs db = Inr db' \<Longrightarrow> handler_step db db'"
  by (auto simp: replace_pull_request_reviews_def bindr_Inr)

lemma upsert_pull_request_sound: "sound_step db (upsert_pull_request lib now ws repo pr action cs rs ready db)"
proof (cases "build_row lib now (gen_random_uuid lib (map pr_id (md_pull_requests db))) ws repo pr action cs ready")
  case (Inl e)
  with build_row_quiet [of lib now "gen_random_uuid lib (map pr_id (md_pull_requests db))" ws repo pr action cs ready]
  show ?thesis by (simp add: upsert_pull_request_def)
next
  case (Inr row)
  let ?i = "canonical_id row (md_pull_requests db)"
  let ?db1 = "db\<lparr>md_pull_requests := upsert_row row (md_pull_requests db)\<rparr>"
  let ?db2 = "case cs of None \<Rightarrow> ?db1 | Some c \<Rightarrow> replace_commits lib now ?i c ?db1"
  have s: "handler_step db ?db2"
    using replace_commits_step [of ?db1 lib now ?i] handler_step_trans [of db ?db1] by (simp split: option.split)
  show ?thesis
  proof (cases rs)
    case None
    with Inr s show ?thesis by (simp add: upsert_pull_request_def Let_def)
  next
    case (Some l)
    have u: "upsert_pull_request lib now ws repo pr action cs rs ready db =
        (case replace_pull_request_reviews lib ?i l ?db2 of Inl e \<Rightarrow> (Inl e, ?db2) | Inr d \<Rightarrow> (Inr ?i, d))"
      using Inr Some by (simp add: upsert_pull_request_def Let_def)
    show ?thesis
    proof (cases "replace_pull_request_reviews lib ?i l ?db2")
      case (Inl e)
      with u s replace_reviews_quiet [of lib ?i l ?db2] show ?thesis by (simp only: sound_step_simps quiet_simps sum.case simp_thms)
    next
      case (Inr d)
      from handler_step_trans [OF s replace_reviews_step [OF this]] u Inr show ?thesis
        by (simp only: sound_step_simps sum.case)
    qed
  qed
qed

lemma risk_sound:
  assumes "jobs_fresh (je_service env)"
  shows "quiet (calculate_and_persist_pull_request_risk env ra ws repo i pr files cs db)"
    and "calculate_and_persist_pull_request_risk env ra ws repo i pr files cs db = Inr db' \<Longrightarrow> handler_step db db'"
proof -
  have f: "quiet (feature_int v n)" for v n by (simp add: feature_int_def split: option.split)
  have "quiet (read_file lib d)" for lib d by (auto simp: read_file_def Let_def intro!: quiet_bindr f)
  then have x: "quiet (extract_pull_request_features lib l pr files cs)" for lib l
    unfolding extract_pull_request_features_def Let_def by (auto intro!: quiet_bindr f map_result_quiet)
  have t: "quiet (validated_thresholds ra)"
    by (auto simp: validated_thresholds_def Let_def runtime_error_def split: json.split option.split py_float.split)
  have m: "quiet (load_model ra)"
    by (auto simp: load_model_def verify_metadata_def runtime_error_def intro!: quiet_bindr t
        split: option.split json.split list.split)
  have "quiet (predict ra f)" for f
    by (auto simp: predict_def Let_def runtime_error_def intro!: quiet_bindr m t split: py_float.split)
  with x show "quiet (calculate_and_persist_pull_request_risk env ra ws repo i pr files cs db)"
    by (auto simp: calculate_and_persist_pull_request_risk_def Let_def intro!: quiet_bindr)
  show "calculate_and_persist_pull_request_risk env ra ws repo i pr files cs db = Inr db' \<Longrightarrow> handler_step db db'"
    using evaluation_extends [OF assms]
    by (auto simp: calculate_and_persist_pull_request_risk_def Let_def bindr_Inr handler_step_def)
qed

lemma file_batches_quiet: "(\<And>p. quiet (fetch p)) \<Longrightarrow> quiet (file_batches fetch ps acc)"
  by (induction ps arbitrary: acc) (auto intro!: quiet_bindr)

lemma batch_quiet: "quiet (batch pv inst path p)"
  unfolding batch_def list_page_def by (intro quiet_bindr page_quiet) simp_all

lemma score_sound:
  assumes "jobs_fresh (ee_service env)"
  shows "quiet (score_open_pull_request env r ws repo i n pr cs db)"
    and "score_open_pull_request env r ws repo i n pr cs db = Inr db' \<Longrightarrow> handler_step db db'"
proof -
  have f: "quiet (list_pull_request_files pv inst ow nm k)" for pv inst ow nm k
    by (auto simp: list_pull_request_files_def intro: file_batches_quiet batch_quiet)
  have c: "quiet (non_negative_changed_files pr)"
    by (simp add: non_negative_changed_files_def split: option.split)
  show "quiet (score_open_pull_request env r ws repo i n pr cs db)"
    by (auto simp: score_open_pull_request_def intro!: quiet_bindr f c risk_sound(1) [OF assms])
  show "score_open_pull_request env r ws repo i n pr cs db = Inr db' \<Longrightarrow> handler_step db db'"
    by (auto simp: score_open_pull_request_def bindr_Inr split: if_splits dest: risk_sound(2) [OF assms])
qed

lemma all_batches_quiet:
  assumes "all_batches fetch p acc = Some r" and "\<And>p. quiet (fetch p)"
  shows "quiet r"
proof -
  have "(\<forall>p. quiet (fetch p)) \<longrightarrow> quiet r"
  proof (rule all_batches.raw_induct [OF _ assms(1)], goal_cases)
    case (1 rec fetch p acc r)
    then show ?case by (cases "fetch p") (auto split: if_splits simp: quiet_def)
  qed
  with assms(2) show ?thesis by blast
qed

lemma listing_quiet:
  "list_pull_request_commits pv inst ow nm n = Some r \<Longrightarrow> quiet r"
  "list_pull_request_reviews pv inst ow nm n = Some r \<Longrightarrow> quiet r"
  by (auto simp: list_pull_request_commits_def list_pull_request_reviews_def intro: all_batches_quiet batch_quiet)

lemma converted_quiet: "quiet (Inl e) \<Longrightarrow> provider_exception_as_job_error e \<noteq> RequeueWithPayloadError"
  by (cases e) simp_all

lemma sum_caseE:
  assumes "(case s of Inl e \<Rightarrow> f e | Inr x \<Rightarrow> g x) = y"
  obtains (Inl) e where "s = Inl e" "f e = y" | (Inr) x where "s = Inr x" "g x = y"
  using assms by (cases s) simp_all

lemma import_cases:
  assumes "import_pull_request env r ws repo n action ready db = Some x"
  defines "conv \<equiv> provider_exception_as_job_error" and "pv \<equiv> ee_providers env"
  obtains e where "get_pull_request pv (rc_installation_id r) (rc_owner_login r) (rc_name r) n = Inl e" "x = (Inl (conv e), db)"
    | e where "list_pull_request_commits pv (rc_installation_id r) (rc_owner_login r) (rc_name r) n = Some (Inl e)"
        "x = (Inl (conv e), db)"
    | e where "list_pull_request_reviews pv (rc_installation_id r) (rc_owner_login r) (rc_name r) n = Some (Inl e)"
        "x = (Inl (conv e), db)"
    | pr cs rs e db1 where "upsert_pull_request (ee_lib env) (ee_now env) ws repo pr action (Some cs) (Some rs) ready db = (Inl e, db1)"
        "x = (Inl (conv e), db1)"
    | pr cs rs i db1 where "upsert_pull_request (ee_lib env) (ee_now env) ws repo pr action (Some cs) (Some rs) ready db = (Inr i, db1)"
        "x = (case score_open_pull_request env r ws repo i n pr cs db1 of Inl e \<Rightarrow> (Inl (conv e), db1) | Inr db2 \<Rightarrow> (Inr i, db2))"
proof (cases "get_pull_request pv (rc_installation_id r) (rc_owner_login r) (rc_name r) n")
  case (Inl e)
  with assms(1) that(1) show ?thesis by (simp add: import_pull_request_def Let_def conv_def pv_def)
next
  case (Inr pr)
  from assms(1) [unfolded import_pull_request_def Let_def, folded pv_def conv_def, unfolded Inr sum.case]
  obtain cr where c: "list_pull_request_commits pv (rc_installation_id r) (rc_owner_login r) (rc_name r) n = Some cr"
    and c': "(case cr of Inl e \<Rightarrow> Some (Inl (conv e), db) | Inr commits \<Rightarrow>
      Option.bind (list_pull_request_reviews pv (rc_installation_id r) (rc_owner_login r) (rc_name r) n) (\<lambda>reviews_r.
        case reviews_r of Inl e \<Rightarrow> Some (Inl (conv e), db)
        | Inr reviews \<Rightarrow> (case upsert_pull_request (ee_lib env) (ee_now env) ws repo pr action (Some commits) (Some reviews)
            ready db of (Inl e, db1) \<Rightarrow> Some (Inl (conv e), db1)
          | (Inr i, db1) \<Rightarrow> (case score_open_pull_request env r ws repo i n pr commits db1 of
              Inl e \<Rightarrow> Some (Inl (conv e), db1) | Inr db2 \<Rightarrow> Some (Inr i, db2))))) = Some x"
    by (auto simp only: bind_eq_Some_conv)
  from c' show ?thesis
  proof (cases rule: sum_caseE)
    case (Inl e)
    with c that(2) show ?thesis by simp
  next
    case cs: (Inr cs)
    from cs(2) obtain rr where v: "list_pull_request_reviews pv (rc_installation_id r) (rc_owner_login r) (rc_name r) n = Some rr"
      and v': "(case rr of Inl e \<Rightarrow> Some (Inl (conv e), db)
        | Inr reviews \<Rightarrow> (case upsert_pull_request (ee_lib env) (ee_now env) ws repo pr action (Some cs) (Some reviews)
            ready db of (Inl e, db1) \<Rightarrow> Some (Inl (conv e), db1)
          | (Inr i, db1) \<Rightarrow> (case score_open_pull_request env r ws repo i n pr cs db1 of
              Inl e \<Rightarrow> Some (Inl (conv e), db1) | Inr db2 \<Rightarrow> Some (Inr i, db2)))) = Some x"
      by (auto simp only: bind_eq_Some_conv)
    from v' show ?thesis
    proof (cases rule: sum_caseE)
      case (Inl e)
      with v that(3) show ?thesis by simp
    next
      case rs: (Inr rs)
      obtain res db1 where u: "upsert_pull_request (ee_lib env) (ee_now env) ws repo pr action (Some cs) (Some rs) ready db = (res, db1)"
        by fastforce
      show ?thesis
      proof (cases res)
        case (Inl e)
        with u rs(2) that(4) show ?thesis by simp
      next
        case (Inr i)
        with u rs(2) that(5) [of pr cs rs i db1] show ?thesis by (simp split: sum.splits)
      qed
    qed
  qed
qed

lemma import_sound:
  assumes "jobs_fresh (ee_service env)" and "import_pull_request env r ws repo n action ready db = Some x"
  shows "sound_step db x"
  using assms(2)
proof (cases rule: import_cases)
  case (1 e)
  have "quiet (get_pull_request (ee_providers env) (rc_installation_id r) (rc_owner_login r) (rc_name r) n)"
    unfolding get_pull_request_def by (rule github_request_quiet)
  with 1 have "provider_exception_as_job_error e \<noteq> RequeueWithPayloadError" by (intro converted_quiet) simp
  with 1 show ?thesis by simp
next
  case (2 e)
  from 2(2) converted_quiet [OF listing_quiet(1) [OF 2(1)]] show ?thesis by simp
next
  case (3 e)
  from 3(2) converted_quiet [OF listing_quiet(2) [OF 3(1)]] show ?thesis by simp
next
  case (4 pr cs rs e db1)
  from upsert_pull_request_sound [of db "ee_lib env" "ee_now env" ws repo pr action "Some cs" "Some rs" ready]
  have "quiet (Inl e :: uuid result)" "handler_step db db1" unfolding 4(1) by simp_all
  with 4(2) converted_quiet [of e] show ?thesis by simp
next
  case (5 pr cs rs i db1)
  from upsert_pull_request_sound [of db "ee_lib env" "ee_now env" ws repo pr action "Some cs" "Some rs" ready]
  have s: "handler_step db db1" unfolding 5(1) by simp
  show ?thesis
  proof (cases "score_open_pull_request env r ws repo i n pr cs db1")
    case (Inl e)
    with score_sound(1) [OF assms(1), of r ws repo i n pr cs db1]
    have "provider_exception_as_job_error e \<noteq> RequeueWithPayloadError" by (intro converted_quiet) simp
    with Inl 5(2) s show ?thesis by simp
  next
    case (Inr d)
    from handler_step_trans [OF s score_sound(2) [OF assms(1) Inr]] 5(2) Inr show ?thesis by simp
  qed
qed

lemma recalculate_merged_step:
  assumes "jobs_fresh (ee_service env)"
  shows "handler_step db (recalculate_merged env ws repo i db)"
  using recalculation_extends [OF assms]
  by (auto simp: recalculate_merged_def Let_def handler_step_def link_deployments_to_pull_requests_def split: option.split)

lemma pull_request_sound:
  assumes "jobs_fresh (ee_service env)" and "handle_pull_request env payload action ws repo db = Some x"
  shows "sound_step db x"
proof (cases "action \<in> Some ` set pull_request_actions \<and> (\<exists>d. dict_get payload ''pull_request'' = JObj d)")
  case False
  with assms(2) show ?thesis by (auto simp: handle_pull_request_def split: json.splits if_splits)
next
  case True
  then obtain d where a: "action \<in> Some ` set pull_request_actions" "dict_get payload ''pull_request'' = JObj d"
    by auto
  show ?thesis
  proof (cases "number_text (dict_get d ''number'')")
    case None
    with a assms(2) show ?thesis by (auto simp: handle_pull_request_def)
  next
    case (Some number)
    show ?thesis
    proof (cases "load_github_repository repo db")
      case (Inl e)
      with a Some assms(2) load_quiet(2) [of repo db] show ?thesis by (auto simp: handle_pull_request_def)
    next
      case (Inr r)
      with a Some assms(2) obtain res db1 where
        i: "import_pull_request env r ws repo number action (if action = Some ''ready_for_review''
              then github_timestamp (ee_lib env) (dict_get d ''updated_at'') else None) db = Some (res, db1)"
        and x: "x = (case res of Inl e \<Rightarrow> (Inl e, db1) | Inr i \<Rightarrow> (Inr (), recalculate_merged env ws repo i db1))"
        by (auto simp: handle_pull_request_def)
      from import_sound [OF assms(1) i] have s: "quiet res" "handler_step db db1" by (simp_all add: sound_step_def)
      from recalculate_merged_step [OF assms(1), of db1 ws repo] handler_step_trans [OF s(2)] s x show ?thesis
        by (cases res) auto
    qed
  qed
qed

lemma listed_reviews_sound:
  assumes "jobs_fresh (ee_service env)" and "replace_listed_reviews env r ws repo i n db = Some x"
  shows "sound_step db x"
proof -
  from assms(2) obtain rr where l: "list_pull_request_reviews (ee_providers env) (rc_installation_id r) (rc_owner_login r)
      (rc_name r) (str_int n) = Some rr"
    and x: "x = (case rr of Inl e \<Rightarrow> (Inl (provider_exception_as_job_error e), db)
        | Inr reviews \<Rightarrow> (case replace_pull_request_reviews (ee_lib env) i reviews db of Inl e \<Rightarrow> (Inl e, db)
            | Inr db1 \<Rightarrow> (Inr (), case pull_request_merged_at i db1 of None \<Rightarrow> db1
                | Some merged \<Rightarrow> db1\<lparr>ed_jobs := snd (enqueue_recalculate_metrics_job (ee_service env) ws repo
                     (Some merged) None (ed_jobs db1))\<rparr>)))"
    by (auto simp: replace_listed_reviews_def)
  show ?thesis
  proof (cases rr)
    case (Inl e)
    with converted_quiet listing_quiet(2) [OF l] x show ?thesis by simp
  next
    case (Inr reviews)
    show ?thesis
    proof (cases "replace_pull_request_reviews (ee_lib env) i reviews db")
      case e: (Inl e)
      with replace_reviews_quiet [of "ee_lib env" i reviews db] Inr x show ?thesis by simp
    next
      case d: (Inr db1)
      let ?q = "\<lambda>merged. db1\<lparr>ed_jobs := snd (enqueue_recalculate_metrics_job (ee_service env) ws repo (Some merged) None (ed_jobs db1))\<rparr>"
      have "handler_step db1 (?q merged)" for merged
        using recalculation_extends [OF assms(1)] by (simp add: handler_step_def)
      from handler_step_trans [OF replace_reviews_step [OF d] this] replace_reviews_step [OF d] Inr d x show ?thesis
        by (simp split: option.split)
    qed
  qed
qed

lemma review_sound:
  assumes "jobs_fresh (ee_service env)" and "handle_pull_request_review env payload action ws repo db = Some x"
  shows "sound_step db x"
proof (cases "strict_int (dict_get (as_dict (dict_get payload ''pull_request'')) ''number'')")
  case None
  with assms(2) show ?thesis by (auto simp: handle_pull_request_review_def split: if_splits)
next
  case (Some n)
  show ?thesis
  proof (cases "pull_request_id_of repo n db")
    case (Inl e)
    then have "e \<noteq> RequeueWithPayloadError" by (auto simp: pull_request_id_of_def split: list.splits)
    with Inl Some assms(2) show ?thesis by (auto simp: handle_pull_request_review_def split: if_splits)
  next
    case (Inr found)
    let ?skip = "action \<notin> Some ` set [''submitted'', ''edited'', ''dismissed'']"
    let ?again = "handle_pull_request env [(''pull_request'', dict_get payload ''pull_request'')] (Some ''synchronize'') ws repo db"
    have "handle_pull_request_review env payload action ws repo db = (if ?skip then Some (Inr (), db) else case found of
        None \<Rightarrow> ?again
      | Some i \<Rightarrow> (case load_github_repository repo db of Inl e \<Rightarrow> Some (Inl e, db)
          | Inr r \<Rightarrow> replace_listed_reviews env r ws repo i n db))"
      by (simp only: handle_pull_request_review_def Some Inr option.case sum.case split: option.split)
    with assms(2) have x: "Some x = (if ?skip then Some (Inr (), db) else case found of
        None \<Rightarrow> ?again
      | Some i \<Rightarrow> (case load_github_repository repo db of Inl e \<Rightarrow> Some (Inl e, db)
          | Inr r \<Rightarrow> replace_listed_reviews env r ws repo i n db))" by (simp only:)
    show ?thesis
    proof (cases ?skip)
      case True
      with x show ?thesis by simp
    next
      case False
      show ?thesis
      proof (cases found)
        case None
        with False x have "?again = Some x" by simp
        then show ?thesis by (rule pull_request_sound [OF assms(1)])
      next
        case i: (Some i)
        show ?thesis
        proof (cases "load_github_repository repo db")
          case (Inl e)
          with False i x load_quiet(2) [of repo db] show ?thesis by simp
        next
          case (Inr r)
          with False i x have "replace_listed_reviews env r ws repo i n db = Some x" by simp
          then show ?thesis by (rule listed_reviews_sound [OF assms(1)])
        qed
      qed
    qed
  qed
qed

lemma issue_upsert_sound:
  "quiet (upsert_github_issue lib u now ws repo d ob db)"
  "upsert_github_issue lib u now ws repo d ob db = Inr (r, db') \<Longrightarrow> handler_step db db'"
proof -
  have i: "quiet (github_issue_row lib u now n ws repo d ob)" for lib u now n ws repo d ob
    unfolding github_issue_row_def Let_def
    by (intro quiet_bindr) (auto simp: positive_int_def non_negative_int_def invalid_field_def split: option.split intro!: quiet_bindr)
  show "quiet (upsert_github_issue lib u now ws repo d ob db)"
    unfolding upsert_github_issue_def by (auto intro!: quiet_bindr i split: json.split)
  show "upsert_github_issue lib u now ws repo d ob db = Inr (r, db') \<Longrightarrow> handler_step db db'"
    by (auto simp: upsert_github_issue_def bindr_Inr split: json.splits)
qed

lemma issue_sound: "sound_step db (handle_issue env payload action ws repo db)"
  using issue_upsert_sound(1) [where db = db] issue_upsert_sound(2) [where db = db]
  by (auto simp: handle_issue_def quiet_def split: json.split option.split sum.split)

lemma store_delivery_sound:
  assumes "jobs_fresh env"
  shows "sound_step db (store_delivery env ws repo row db)"
proof -
  let ?db1 = "db\<lparr>md_deployments := run_upsert row (md_deployments db)\<rparr>"
  let ?db2 = "snd (link_deployments_to_pull_requests (se_lib env) (se_now env) repo ?db1)"
  have l: "handler_step db ?db1" "handler_step db ?db2"
    by (simp_all add: link_deployments_to_pull_requests_def Let_def handler_step_def)
  show ?thesis
  proof (cases "update_github_incident_lifecycle (se_lib env) (se_now env) (upserted_id row (md_deployments db)) ?db2")
    case (Inl e)
    then have "e \<noteq> RequeueWithPayloadError" by (auto simp: update_github_incident_lifecycle_def split: option.splits)
    with Inl l show ?thesis by (simp add: store_delivery_def Let_def)
  next
    case (Inr db3)
    then have "handler_step ?db2 db3"
      by (auto simp: update_github_incident_lifecycle_def handler_step_def reconcile_github_incidents_def Let_def split: option.splits)
    from handler_step_trans [OF l(2) this]
    have "handler_step db (db3\<lparr>ed_jobs := snd (enqueue_recalculate_metrics_job env ws repo (dp_finished_at row) None (ed_jobs db3))\<rparr>)"
      using queue_extends_trans recalculation_extends [OF assms] by (auto simp: handler_step_def)
    with Inr l show ?thesis by (simp add: store_delivery_def Let_def)
  qed
qed

lemma delivery_quiet:
  "quiet (get_object d k)" "quiet (lowered v)" "quiet (is_production_workflow lib w h br st)"
  "quiet (is_production_environment lib en st)" "quiet (delivery_row env db ws repo src ext e p s sha a b ev)"
proof -
  have m: "quiet (any_match v ps)" for v ps
    by (induction ps) (auto split: json.split)
  have s: "quiet (signal_matches lib v c ds)" for v c ds
    using m by (auto simp: signal_matches_def Let_def split: json.split)
  have a: "quiet (and_then p q)" if "quiet p" "quiet q" for p q
    using that by (cases "(p, q)" rule: and_then.cases) auto
  have n: "quiet (negated (is_excluded lib v st))" for v st
    using s by (auto simp: negated_def is_excluded_def)
  show "quiet (is_production_workflow lib w h br st)" "quiet (is_production_environment lib en st)"
    unfolding is_production_workflow_def is_production_environment_def by (intro a s n)+
  show "quiet (get_object d k)" "quiet (lowered v)" by (auto simp: get_object_def lowered_def split: json.split)
  show "quiet (delivery_row env db ws repo src ext e p s sha a b ev)"
    using text_param_quiet [of e] text_param_quiet [of sha] by (auto simp: delivery_row_def split: sum.split)
qed

lemma quiet_case: "quiet r \<Longrightarrow> (\<And>x. quiet (f x)) \<Longrightarrow> quiet (case r of Inl e \<Rightarrow> Inl e | Inr x \<Rightarrow> f x)"
  by (cases r) simp_all

lemma quiet_if: "quiet a \<Longrightarrow> quiet b \<Longrightarrow> quiet (if c then a else b)"
  by simp

lemma rows_quiet: "quiet (workflow_run_row env db ws repo ev)" "quiet (deployment_status_row env db ws repo ev)"
  by (simp_all only: workflow_run_row_def deployment_status_row_def Let_def)
    (intro quiet_case quiet_if delivery_quiet, simp_all add: delivery_quiet)+

lemma deployment_upserts_sound:
  assumes "jobs_fresh env"
  shows "sound_step db (upsert_deployment_from_workflow_run env ws repo ev db)"
    and "sound_step db (upsert_deployment_from_deployment_status env ws repo ev db)"
  using rows_quiet [of env db ws repo ev] store_delivery_sound [OF assms]
  by (auto simp: upsert_deployment_from_workflow_run_def upsert_deployment_from_deployment_status_def
      split: sum.split option.split)

lemma deployment_sound:
  assumes "jobs_fresh (ee_service env)"
  shows "sound_step db (handle_workflow_run env payload ws repo db)"
    and "sound_step db (handle_deployment_status env payload ws repo db)"
proof -
  have d: "sound_step db (discard r)" if "sound_step db r" for r :: "uuid option result \<times> 'a events_db_scheme"
    using that by (simp add: discard_def sound_step_def)
  show "sound_step db (handle_workflow_run env payload ws repo db)"
    "sound_step db (handle_deployment_status env payload ws repo db)"
    unfolding handle_workflow_run_def handle_deployment_status_def
    using d deployment_upserts_sound [OF assms, of db ws repo payload] by auto
qed

lemma installation_sound:
  "sound_step db (handle_installation env payload action ws db)"
  "sound_step db (handle_installation_repositories env payload ws db)"
  "sound_step db (handle_repository env payload action ws db)"
proof -
  have g: "quiet (github_integration_for_event ws payload db)"
    by (auto simp: github_integration_for_event_def split: option.split list.split)
  have u: "quiet (upsert_repository lib now ws i s d t)" for lib now i s d t
    using upsert_repositories_quiet [of lib now ws i s "[d]" t] by (cases "upsert_repository lib now ws i s d t") simp_all
  show "sound_step db (handle_installation env payload action ws db)"
    by (auto simp: handle_installation_def Let_def split: option.split)
  show "sound_step db (handle_installation_repositories env payload ws db)"
    using g upsert_repositories_quiet by (auto simp: handle_installation_repositories_def quiet_def split: sum.split option.split)
  show "sound_step db (handle_repository env payload action ws db)"
    using g u by (auto simp: handle_repository_def Let_def quiet_def split: sum.split option.split)
qed

lemma branchE:
  assumes "(if c then a else b) = y"
  obtains "a = y" | "b = y"
  using assms by (cases c) simp_all

lemma dispatch_sound:
  assumes "jobs_fresh (ee_service env)" and "dispatch_event env t action payload ws repo signal db = Some x"
  shows "sound_step db x"
proof -
  have r: "sound_step db x" if "with_repository repo db f = Some x" "\<And>r. f r = Some x \<Longrightarrow> sound_step db x" for f
    using that by (auto simp: with_repository_def required_repository_def split: option.splits)
  note sound = pull_request_sound [OF assms(1)] review_sound [OF assms(1)] issue_sound deployment_sound [OF assms(1)]
    installation_sound
  from assms(2) consider "with_repository repo db (\<lambda>r. handle_pull_request env payload action ws r db) = Some x"
    | "with_repository repo db (\<lambda>r. handle_pull_request_review env payload action ws r db) = Some x"
    | "with_repository repo db (\<lambda>r. Some (handle_issue env payload action ws r db)) = Some x"
    | "with_repository repo db (\<lambda>r. Some (handle_workflow_run env payload ws r db)) = Some x"
    | "with_repository repo db (\<lambda>r. Some (handle_deployment_status env payload ws r db)) = Some x"
    | "Some (handle_installation env payload action ws db) = Some x" | "Some (handle_installation_repositories env payload ws db) = Some x"
    | "Some (handle_repository env payload action ws db) = Some x" | "Some (Inr (), db) = Some x"
    unfolding dispatch_event_def by (elim branchE)
  then show ?thesis
  proof cases
    case 1
    then show ?thesis by (rule r) (rule sound)
  next
    case 2
    then show ?thesis by (rule r) (rule sound)
  next
    case 3
    then show ?thesis by (rule r) (use sound in \<open>auto simp del: sound_step_simps\<close>)
  next
    case 4
    then show ?thesis by (rule r) (use sound in \<open>auto simp del: sound_step_simps\<close>)
  next
    case 5
    then show ?thesis by (rule r) (use sound in \<open>auto simp del: sound_step_simps\<close>)
  qed (use sound in \<open>auto simp del: sound_step_simps(2)\<close>)
qed

section \<open>The life of a raw event\<close>

lemma raw_event_update:
  assumes "\<And>r. rw_id (f r) = rw_id r"
  shows "row_with rw_id k (ev_raw_events (update_raw_event i f db)) =
    (if k = i then map_option f (row_with rw_id k (ev_raw_events db)) else row_with rw_id k (ev_raw_events db))"
  by (cases "row_with rw_id k (ev_raw_events db)")
    (auto simp: update_raw_event_def row_with_sql_update [of rw_id f, OF assms] dest: row_with_Some_set)

lemma raw_event_jobs [simp]: "ed_jobs (update_raw_event i f db) = ed_jobs db"
  by (simp add: update_raw_event_def)

lemmas raw_event_marks = mark_raw_event_processing_def mark_raw_event_processed_def mark_raw_event_ignored_def
  mark_raw_event_failed_def raw_event_update

lemma handled_event:
  assumes "jobs_fresh (ee_service env)"
    and "parse_uuid (py_or (dict_get (cj_payload c) ''rawEventId'') (dict_get (cj_payload c) ''raw_event_id'')) ''rawEventId'' = Inr i"
    and "row_with rw_id i (ev_raw_events db) = Some raw"
    and "handle_process_github_event env db c w = Some (r, db')"
  obtains (ignored) reason where "event_route (ee_lib env) raw (event_type_of (ee_lib env) raw (cj_payload c)) db = Inl reason"
      "r = None" "db' = mark_raw_event_ignored (ee_now env) i reason db"
    | (processed) a d where "event_route (ee_lib env) raw (event_type_of (ee_lib env) raw (cj_payload c)) db = Inr a"
      "handler_step (mark_raw_event_processing (ee_now env) i db) d" "r = None" "db' = mark_raw_event_processed (ee_now env) i d"
    | (failed) a d e where "event_route (ee_lib env) raw (event_type_of (ee_lib env) raw (cj_payload c)) db = Inr a"
      "handler_step (mark_raw_event_processing (ee_now env) i db) d" "r = Some e" "e \<noteq> RequeueWithPayloadError"
      "db' = mark_raw_event_failed (ee_now env) i (exn_str e) d"
proof (cases "event_route (ee_lib env) raw (event_type_of (ee_lib env) raw (cj_payload c)) db")
  case (Inl reason)
  with assms ignored show ?thesis by (simp add: handle_process_github_event_def Let_def)
next
  case (Inr a)
  obtain ws repo sig where a: "a = (ws, repo, sig)" by (cases a)
  from assms Inr a obtain x where
    x: "dispatch_event env (event_type_of (ee_lib env) raw (cj_payload c)) (rw_action raw) (json_object (ee_lib env) (rw_payload raw))
        ws repo sig (mark_raw_event_processing (ee_now env) i db) = Some x"
    and r: "(r, db') = processed_event (ee_now env) i x"
    by (auto simp: handle_process_github_event_def Let_def)
  from dispatch_sound [OF assms(1) x] have s: "quiet (fst x)" "handler_step (mark_raw_event_processing (ee_now env) i db) (snd x)"
    by (simp_all add: sound_step_def)
  show ?thesis
  proof (cases "fst x")
    case (Inl e)
    with failed [OF Inr s(2), of e] s r show ?thesis by (simp add: processed_event_def)
  next
    case u: (Inr u)
    with processed [OF Inr s(2)] r show ?thesis by (simp add: processed_event_def)
  qed
qed

text \<open>
  C25: Every delivery settles its raw event.  Whatever the handler of the event did, the row ends
  IGNORED when the event has no route (the job succeeds), PROCESSED when the handler returned and
  FAILED when it raised (the job fails with that exception), with the reason or the sanitized error,
  one more attempt for a routed event, and no other raw event touched; the handler never asks for a
  continuation, keeps the queue well formed and changes no running job.
\<close>

theorem raw_event_settled:
  assumes "jobs_fresh (ee_service env)"
    and "parse_uuid (py_or (dict_get (cj_payload c) ''rawEventId'') (dict_get (cj_payload c) ''raw_event_id'')) ''rawEventId'' = Inr i"
    and "row_with rw_id i (ev_raw_events db) = Some raw"
    and "handle_process_github_event env db c w = Some (r, db')"
  defines "route \<equiv> event_route (ee_lib env) raw (event_type_of (ee_lib env) raw (cj_payload c)) db"
  shows "(\<exists>raw'. row_with rw_id i (ev_raw_events db') = Some raw' \<and>
      (rw_status raw', rw_last_error raw', rw_processed_at raw') =
        (case route of
           Inl reason \<Rightarrow> (''IGNORED'', Some (sanitize_error reason), Some (ee_now env))
         | Inr _ \<Rightarrow> (case r of
             None \<Rightarrow> (''PROCESSED'', None, Some (ee_now env))
           | Some e \<Rightarrow> (''FAILED'', Some (sanitize_error (exn_str e)), None))) \<and>
      rw_attempt_count raw' = rw_attempt_count raw + (if isl route then 0 else 1) \<and> rw_payload raw' = rw_payload raw) \<and>
    (isl route \<longrightarrow> r = None) \<and> r \<noteq> Some RequeueWithPayloadError \<and>
    (\<forall>k. k \<noteq> i \<longrightarrow> row_with rw_id k (ev_raw_events db') = row_with rw_id k (ev_raw_events db)) \<and>
    (queue_ok (ed_jobs db) \<longrightarrow> queue_ok (ed_jobs db') \<and>
      (\<forall>k j. job_row (ed_jobs db) k = Some j \<longrightarrow> pj_status j = RUNNING \<longrightarrow> job_row (ed_jobs db') k = Some j))"
proof (intro conjI)
  note marks = raw_event_marks handler_step_def route_def
  from handled_event [OF assms(1-4)] show "\<exists>raw'. row_with rw_id i (ev_raw_events db') = Some raw' \<and>
      (rw_status raw', rw_last_error raw', rw_processed_at raw') =
        (case route of
           Inl reason \<Rightarrow> (''IGNORED'', Some (sanitize_error reason), Some (ee_now env))
         | Inr _ \<Rightarrow> (case r of
             None \<Rightarrow> (''PROCESSED'', None, Some (ee_now env))
           | Some e \<Rightarrow> (''FAILED'', Some (sanitize_error (exn_str e)), None))) \<and>
      rw_attempt_count raw' = rw_attempt_count raw + (if isl route then 0 else 1) \<and> rw_payload raw' = rw_payload raw"
    by cases (use assms(3) in \<open>simp_all add: marks\<close>)
  from handled_event [OF assms(1-4)] show "isl route \<longrightarrow> r = None" "r \<noteq> Some RequeueWithPayloadError"
    by (cases; simp add: route_def)+
  from handled_event [OF assms(1-4)] show "\<forall>k. k \<noteq> i \<longrightarrow> row_with rw_id k (ev_raw_events db') = row_with rw_id k (ev_raw_events db)"
    by cases (simp_all add: marks)
  from handled_event [OF assms(1-4)] show "queue_ok (ed_jobs db) \<longrightarrow> queue_ok (ed_jobs db') \<and>
      (\<forall>k j. job_row (ed_jobs db) k = Some j \<longrightarrow> pj_status j = RUNNING \<longrightarrow> job_row (ed_jobs db') k = Some j)"
    by cases (auto simp: mark_raw_event_processing_def mark_raw_event_processed_def mark_raw_event_ignored_def
      mark_raw_event_failed_def handler_step_def queue_extends_def)
qed

lemma event_step:
  assumes "jobs_fresh (ee_service env)" and "handle_process_github_event env db c w = Some (r, db')"
  shows "r \<noteq> Some RequeueWithPayloadError \<and> queue_extends (ed_jobs db) (ed_jobs db')"
proof (cases "parse_uuid (py_or (dict_get (cj_payload c) ''rawEventId'') (dict_get (cj_payload c) ''raw_event_id'')) ''rawEventId''")
  case (Inl e)
  with assms(2) readers_quiet(1) [of _ "''rawEventId''"] show ?thesis by (auto simp: handle_process_github_event_def quiet_def)
next
  case (Inr i)
  show ?thesis
  proof (cases "row_with rw_id i (ev_raw_events db)")
    case None
    with assms(2) Inr show ?thesis by (auto simp: handle_process_github_event_def)
  next
    case (Some raw)
    from handled_event [OF assms(1) Inr Some assms(2)] show ?thesis
      by cases (auto simp: mark_raw_event_processing_def mark_raw_event_processed_def mark_raw_event_ignored_def
        mark_raw_event_failed_def handler_step_def)
  qed
qed

lemma github_event_handler:
  assumes "jobs_fresh (ee_service env)"
  shows "paged_handler (returned (handle_process_github_event env))"
proof (unfold_locales, goal_cases)
  case (1 db c w r db')
  with event_step [OF assms, of db c w r db'] show ?case
    by (cases "handle_process_github_event env db c w") auto
qed

section \<open>An uninstalled App\<close>

lemma untracked_rows:
  "r \<in> set (sql_update p (untrack now) t) \<Longrightarrow> (\<And>x. p (untrack now x) = p x) \<Longrightarrow> p r \<Longrightarrow> \<not> re_tracking_enabled r"
  by (auto simp: sql_update_def untrack_def split: if_splits)

lemma status_set:
  assumes "g \<in> set (set_installation_status now ws inst st gis)" and "gi_workspace_id g = ws" and "gi_installation_id g = inst"
  shows "gi_status g = st"
proof -
  let ?p = "\<lambda>g. gi_workspace_id g = ws \<and> gi_installation_id g = inst \<and>
    (gi_status g \<noteq> st \<or> gi_status g = ''SUSPENDED'' \<and> gi_suspended_at g = None)"
  let ?f = "\<lambda>g. g\<lparr>gi_status := st, gi_suspended_at := (if st = ''SUSPENDED'' then Some now else None),
    gi_updated_at := now, gi_version := gi_version g + 1\<rparr>"
  from assms(1) obtain x where x: "g = (if ?p x then ?f x else x)"
    by (auto simp only: set_installation_status_def sql_update_def set_map)
  show ?thesis
  proof (cases "?p x")
    case True
    with x show ?thesis by simp
  next
    case False
    with x have "g = x" by (simp only: if_False)
    with False assms(2,3) show ?thesis by blast
  qed
qed

lemma update_other: "(\<And>x. p (f x) = p x) \<Longrightarrow> \<not> p r \<Longrightarrow> r \<in> set (sql_update p f t) \<longleftrightarrow> r \<in> set t"
  unfolding sql_update_def by (auto simp: image_iff)


end
