(* ===== verification/Github_Sync_Facts.thy ===== *)
theory Github_Sync_Facts
  imports Github_Sync
begin

text \<open>
  A whole synchronisation of the catalogue: the continuation resumes where the page ended, and after
  the last page exactly the listed repositories keep their tracking.
\<close>

section \<open>The continuation\<close>

lemma continuation_arguments:
  assumes "iso_round_trip lib" and "integration < 2 ^ 128" and "1 \<le> next"
    and "sync_arguments lib now payload = Inr (ws, wanted, page, started)"
  shows "sync_arguments lib later (continuation lib payload integration next started) = Inr (ws, Some integration, next, started)"
proof -
  have ws: "parse_uuid (dict_get payload ''workspaceId'') ''workspaceId'' = Inr ws"
    using assms(4) by (auto simp: sync_arguments_def bindr_Inr)
  have "uuid_str integration \<noteq> []" by (simp add: uuid_str_def Let_def)
  then show ?thesis using assms(3)
    by (simp add: sync_arguments_def continuation_def ws parse_uuid_again [OF assms(2)]
        sync_started_at_again [OF assms(1)] bounded_int_def)
qed

lemma loaded_integration:
  assumes "load_github_integration ws wanted db = Inr gc"
  shows "gc_id gc \<in> gi_id ` set (md_integrations db)"
proof -
  let ?l = "sort_key (\<lambda>g. (if gi_status g = ''ACTIVE'' then 0 else 1 :: int, - gi_created_at g))
      (filter (\<lambda>g. gi_workspace_id g = ws \<and> (wanted = None \<or> wanted = Some (gi_id g))) (md_integrations db))"
  from assms obtain g gs where l: "?l = g # gs" "gc_id gc = gi_id g"
    by (cases ?l) (auto simp: load_github_integration_def split: if_splits)
  then have "g \<in> set ?l" by (metis list.set_intros(1))
  with l(2) show ?thesis by auto
qed

text \<open>
  A page that is not the last puts the job back as PENDING with a payload from which the next
  run reads the same workspace and start, the integration it used, and the following page.
\<close>

theorem sync_continuation_resumes:
  assumes "queue_ok (ed_jobs db)" and "iso_round_trip (je_lib env)" and "\<forall>g \<in> set (md_integrations db). gi_id g < 2 ^ 128"
    and "sync_arguments (je_lib env) (je_utcnow env) (cj_payload job) = Inr (ws, wanted, page, started)"
    and "handle_sync_github_repositories env db job w = (Some RequeueWithPayloadError, db')"
  shows "\<exists>j integration. job_row (ed_jobs db') (cj_id job) = Some j \<and> pj_status j = PENDING \<and>
    sync_arguments (je_lib env) later (pj_payload j) = Inr (ws, Some integration, page + 1, started) \<and>
    integration \<in> gi_id ` set (md_integrations db)"
proof -
  obtain i s p db1 where run: "sync_run env (cj_payload job) db = Inr (i, s, p, db1)"
    using assms(5) sync_run_quiet [of env "cj_payload job" db]
    by (cases "sync_run env (cj_payload job) db") (auto simp: handle_sync_github_repositories_def quiet_def)
  from run assms(4) obtain gc where r: "s = started" "load_github_integration ws wanted db = Inr gc" "i = gc_id gc"
    "list_installation_repositories (je_providers env) (gc_installation_id gc) page = Inr p"
    by (auto simp: sync_run_def bindr_Inr)
  have i: "i \<in> gi_id ` set (md_integrations db)" unfolding r(3) by (rule loaded_integration [OF r(2)])
  from assms(4) have page: "1 \<le> page"
    by (auto simp: sync_arguments_def bindr_Inr dest: bounded_int_least)
  from run assms(5) obtain n where n: "snd p = Some n"
    by (cases "snd p") (auto simp: handle_sync_github_repositories_def)
  with r(4) have "n = page + 1"
    by (auto simp: list_installation_repositories_def counted_page_def bindr_Inr split: if_splits)
  let ?q = "continuation (je_lib env) (cj_payload job) i n started"
  from run assms(5) n r(1) have "requeue_with_payload (je_now env) (ed_jobs db1) (cj_id job) w ?q 0 False
      = (RequeueWithPayloadError, ed_jobs db')"
    by (auto simp: handle_sync_github_repositories_def split: prod.splits)
  from requeue_signal [OF this] obtain j where "job_row (ed_jobs db') (cj_id job) = Some j" "pj_status j = PENDING"
    "pj_payload j = ?q"
    unfolding sync_run_jobs [OF run] by (rule requeued_job [OF assms(1)])
  moreover have "i < 2 ^ 128" using i assms(3) by auto
  ultimately show ?thesis
    using continuation_arguments [OF assms(2) _ _ assms(4), of i n later] page \<open>n = page + 1\<close> i by auto
qed

section \<open>All pages\<close>

interpretation repository_upsert: keyed_upsert repository_key "\<lambda>_ _. True" merge_repository
  by unfold_locales (simp add: repository_key_def merge_repository_def)

definition listed_as :: "int \<Rightarrow> dict \<Rightarrow> bool" where
  "listed_as g d \<longleftrightarrow> as_int (dict_get d ''id'') = Some g"

definition archived_entry :: "dict \<Rightarrow> bool" where
  "archived_entry d \<longleftrightarrow> truthy (dict_get_or d ''archived'' (JBool False))"

lemma repository_row_fields:
  assumes "repository_row lib now i ws integration s d = Inr row"
  obtains g where "listed_as g d" "repository_key row = (ws, g)" "re_github_integration_id row = integration"
    "re_last_synced_at row = Some s" "re_archived row = archived_entry d" "\<not> re_tracking_enabled row"
  using assms that
  by (auto simp: repository_row_def bindr_Inr listed_as_def archived_entry_def repository_key_def split: option.splits)

text \<open>What a listing decides of a repository.\<close>

definition listed_row :: "uuid \<Rightarrow> time \<Rightarrow> dict list \<Rightarrow> int \<Rightarrow> repository option \<Rightarrow> repository \<Rightarrow> bool" where
  "listed_row integration s ds g old new \<longleftrightarrow>
     re_github_integration_id new = integration \<and> re_last_synced_at new = Some s \<and>
     re_tracking_enabled new = ((\<exists>r. old = Some r \<and> re_tracking_enabled r) \<and>
       \<not> (\<exists>d \<in> set ds. listed_as g d \<and> archived_entry d))"

definition decided ::
  "uuid \<Rightarrow> uuid \<Rightarrow> time \<Rightarrow> dict list \<Rightarrow> uuid \<times> int \<Rightarrow> repository option \<Rightarrow> repository option \<Rightarrow> bool" where
  "decided ws i s ds x old new \<longleftrightarrow>
     (if fst x = ws \<and> (\<exists>d \<in> set ds. listed_as (snd x) d)
      then \<exists>n. new = Some n \<and> listed_row i s ds (snd x) old n
      else new = old)"

lemma decided_yes:
  assumes "decided ws i s ds x old new" and "fst x = ws \<and> (\<exists>d \<in> set ds. listed_as (snd x) d)"
  obtains n where "new = Some n" "listed_row i s ds (snd x) old n"
  using assms unfolding decided_def by (subst (asm) if_P) blast+

lemma decided_no: "decided ws i s ds x old new \<Longrightarrow> \<not> (fst x = ws \<and> (\<exists>d \<in> set ds. listed_as (snd x) d)) \<Longrightarrow> new = old"
  unfolding decided_def by (subst (asm) if_not_P) blast+

lemma decided_refl: "decided ws i s [] x a a"
  by (simp add: decided_def)

lemma decided_trans:
  assumes "decided ws i s ds x a b" and "decided ws i s es x b c"
  shows "decided ws i s (ds @ es) x a c"
proof (cases "fst x = ws")
  case True
  with assms show ?thesis
    by (cases "\<exists>d \<in> set ds. listed_as (snd x) d"; cases "\<exists>d \<in> set es. listed_as (snd x) d")
      (auto simp: decided_def listed_row_def)
qed (use assms in \<open>simp add: decided_def\<close>)

lemma upsert_one:
  assumes "upsert_repository lib now ws i s d t = Inr t'"
  shows "decided ws i s [d] x (row_with repository_key x t) (row_with repository_key x t')"
proof -
  from assms obtain row where row: "repository_row lib now (gen_random_uuid lib (map re_id t)) ws i s d = Inr row"
    "t' = put_repository row t"
    by (auto simp: upsert_repository_def bindr_Inr)
  from row(1) obtain g where g: "listed_as g d" "repository_key row = (ws, g)" "re_github_integration_id row = i"
    "re_last_synced_at row = Some s" "re_archived row = archived_entry d" "\<not> re_tracking_enabled row"
    by (rule repository_row_fields)
  have "listed_as h d \<longleftrightarrow> h = g" for h using g(1) by (auto simp: listed_as_def)
  then show ?thesis using g
    by (cases x) (auto simp: row(2) put_repository_def repository_upsert.put_lookup listed_row_def merge_repository_def
        decided_def split: option.split)
qed

lemma upsert_many:
  assumes "upsert_repositories lib now ws i s ds t = Inr t'"
  shows "decided ws i s ds x (row_with repository_key x t) (row_with repository_key x t')"
  using assms
proof (induction ds arbitrary: t)
  case (Cons d ds)
  then obtain t1 where t1: "upsert_repository lib now ws i s d t = Inr t1"
    "upsert_repositories lib now ws i s ds t1 = Inr t'" by (auto simp: bindr_Inr)
  from decided_trans [OF upsert_one [OF t1(1)] Cons.IH [OF t1(2)]] show ?case by simp
qed (simp add: decided_refl)

fun sync_pages ::
  "py_lib \<Rightarrow> uuid \<Rightarrow> uuid \<Rightarrow> time \<Rightarrow> (time \<times> page) list \<Rightarrow> ('d) metrics_db_scheme \<Rightarrow> ('d) metrics_db_scheme result" where
  "sync_pages lib ws i s [] db = Inr db"
| "sync_pages lib ws i s ((now, p) # ps) db =
     bindr (sync_page lib now ws i s p db) (sync_pages lib ws i s ps)"

lemma open_pages:
  assumes "sync_pages lib ws i s ps db = Inr db'" and "\<forall>(n, p) \<in> set ps. snd p \<noteq> None"
  shows "decided ws i s (concat (map (fst \<circ> snd) ps)) x
    (row_with repository_key x (md_repositories db)) (row_with repository_key x (md_repositories db'))"
  using assms
proof (induction ps arbitrary: db)
  case (Cons q ps)
  obtain now p where q: "q = (now, p)" by (cases q)
  from Cons.prems q obtain db1 where db1: "sync_page lib now ws i s p db = Inr db1" "sync_pages lib ws i s ps db1 = Inr db'"
    "snd p \<noteq> None" by (auto simp: bindr_Inr)
  then have "upsert_repositories lib now ws i s (fst p) (md_repositories db) = Inr (md_repositories db1)"
    by (auto simp: sync_page_def bindr_Inr)
  from decided_trans [OF upsert_many [OF this] Cons.IH [OF db1(2)]] Cons.prems(2) q show ?case by simp
qed (simp add: decided_refl)

lemma last_page:
  assumes "sync_page lib now ws i s (ds, None) db = Inr db'"
  obtains t where "upsert_repositories lib now ws i s ds (md_repositories db) = Inr t"
    "md_repositories db' = sql_update (unlisted i s) (untrack now) t"
  using assms by (auto simp: sync_page_def bindr_Inr)

lemma untrack_lookup: "row_with repository_key x (sql_update p (untrack now) t) =
    map_option (\<lambda>r. if p r then untrack now r else r) (row_with repository_key x t)"
  by (rule row_with_sql_update) (simp add: untrack_def repository_key_def)

lemma sync_pages_append:
  "sync_pages lib ws i s (ps @ qs) db = bindr (sync_pages lib ws i s ps db) (sync_pages lib ws i s qs)"
  by (induction ps arbitrary: db) (auto simp: bindr_def split: sum.split)


end
