(* ===== verification/Event_Examples.thy ===== *)
theory Event_Examples
  imports Github_Event_Facts Provider_Facts Github_Sync_Facts
begin

text \<open>
  The properties of the provider clients, the synchronisation, the issues, the risk assessment and
  the GitHub event handler applied to concrete inputs: a provider that answers every request, one
  workspace with one installation, one repository and one Jira site.
\<close>

section \<open>A provider and a database\<close>

definition sample_answer :: "request \<Rightarrow> json" where
  "sample_answer q =
     (if rq_path q = ''/app/installations/1/access_tokens'' then JObj [(''token'', JStr ''t'')]
      else if rq_path q = ''/installation/repositories''
      then JObj [(''total_count'', JInt 101), (''repositories'', JList (replicate 100 (JObj
             [(''id'', JInt 1), (''name'', JStr ''n''), (''full_name'', JStr ''o/n'')])))]
      else if rq_path q = ''/oauth/token'' then JObj [(''access_token'', JStr ''new''), (''expires_in'', JInt 3600)]
      else JList [])"

definition byte_char :: "byte \<Rightarrow> char" where
  "byte_char b = char_of (unat b)"

definition char_byte :: "char \<Rightarrow> byte" where
  "char_byte c = of_nat (of_char c)"

lemma byte_char_inverse [simp]: "char_byte (byte_char b) = b"
proof -
  have "unat b < 256" using unsigned_less [of b] by simp
  then show ?thesis by (simp add: byte_char_def char_byte_def)
qed

lemma char_byte_inverse [simp]: "byte_char (char_byte c) = c"
proof -
  have "(of_char c :: nat) mod 256 = of_char c" by (rule of_char_mod_256)
  then show ?thesis by (simp add: byte_char_def char_byte_def unat_of_nat)
qed

text \<open>The cipher prefixes the nonce and keeps the text; base64 keeps the bytes.\<close>

definition sample_providers :: providers where
  "sample_providers =
     \<lparr>pv_send = (\<lambda>q. Inr \<lparr>hr_status = 200, hr_headers = (\<lambda>_. None), hr_body = Some (sample_answer q)\<rparr>),
      pv_now = 0, pv_float = (\<lambda>_. None), pv_http_date = (\<lambda>_. None), pv_app_id = ''1'',
      pv_private_key_base64 = ''k'', pv_private_key = (\<lambda>_. Some True), pv_base64url_json = (\<lambda>_. ''j''),
      pv_sign = (\<lambda>_ _. ''s''), pv_jira_client_id = ''c'', pv_jira_client_secret = ''s'',
      pv_encryption_key_base64 = map char_of (replicate 32 (65::nat)), pv_active_key_version = 1,
      pv_b64decode = (\<lambda>s. Some (map char_byte s)), pv_b64encode = map byte_char,
      pv_aes_encrypt = (\<lambda>_ _ s. 0 # map char_byte s),
      pv_aes_decrypt = (\<lambda>_ _ bs. case bs of [] \<Rightarrow> None | _ # cs \<Rightarrow> Some (map byte_char cs)),
      pv_nonce = (\<lambda>_. replicate 12 0)\<rparr>"

definition sample_env :: job_env where
  "sample_env = \<lparr>je_service = service_sample\<lparr>se_lib := (se_lib service_sample)\<lparr>fromisoformat := (\<lambda>s. Some (iso_value s))\<rparr>,
     se_utcnow := 5, se_now := 5\<rparr>, je_providers = sample_providers\<rparr>"

lemma sample_env_simps [simp]: "je_providers sample_env = sample_providers"
  by (simp add: sample_env_def)

lemma sample_env_fresh: "jobs_fresh (je_service sample_env)"
  using sample_jobs_fresh by (simp add: jobs_fresh_def sample_env_def)

lemma sample_iso_round_trip: "iso_round_trip (je_lib sample_env)"
  by (auto simp: iso_round_trip_def sample_env_def service_sample_def sample_iso_def iso_value_def sample_lib_def)

lemma sample_cipher: "cipher_laws sample_providers"
  by (auto simp: cipher_laws_def sample_providers_def comp_def GCM_IV_LENGTH_BYTES_def)

definition sample_listed :: dict where
  "sample_listed = [(''id'', JInt 1), (''name'', JStr ''n''), (''full_name'', JStr ''o/n'')]"

section \<open>The clients\<close>

theorem github_failures_classified_witness:
  "\<exists>e ra. github_status_error sample_providers \<lparr>hr_status = 429, hr_headers = (\<lambda>_. None), hr_body = None\<rparr> = Some e \<and>
     e = ProviderError (''GitHub returned HTTP '' @ str_int 429) ra"
proof -
  let ?r = "\<lparr>hr_status = 429, hr_headers = (\<lambda>_. None), hr_body = None\<rparr>"
  obtain e where "github_status_error sample_providers ?r = Some e"
    by (simp add: github_status_error_def is_success_def Let_def)
  from this github_failures_classified [OF this] show ?thesis by (auto simp: rejected_statuses_def)
qed

theorem commit_listing_complete_witness:
  "list_pull_request_commits sample_providers 1 ''o'' ''n'' ''3'' = Some (Inr [])"
proof -
  let ?b = "batch sample_providers 1 (pull_path ''o'' ''n'' ''3'' ''commits'')"
  have b: "?b 1 = Inr []" by code_simp
  then have "\<not> full_page (?b 1)" by (simp add: full_page_def)
  from commit_listing_complete [OF this] b show ?thesis by (auto simp: le_antisym)
qed

theorem secret_round_trip_witness:
  "\<exists>c v. encrypt_integration_secret sample_providers ''secret'' = Inr (c, v) \<and>
     decrypt_integration_secret sample_providers c v = Inr ''secret''"
proof -
  obtain c v where "encrypt_integration_secret sample_providers ''secret'' = Inr (c, v)"
    by (simp add: encrypt_integration_secret_def key_for_version_def sample_providers_def Let_def)
  from this secret_round_trip [OF sample_cipher this] show ?thesis by blast
qed

section \<open>The synchronisation\<close>

definition sync_job :: processing_job where
  "sync_job = (sample_job 1)\<lparr>pj_job_type := ''SYNC_GITHUB_REPOSITORIES'', pj_status := RUNNING, pj_attempts := 1,
     pj_locked_at := Some 0, pj_locked_by := Some ''w'',
     pj_payload := [(''workspaceId'', JStr (uuid_str 7))]\<rparr>"

definition events_sample :: "unit events_db_scheme" where
  "events_sample = \<lparr>ed_jobs = [sync_job], ed_workspaces = Map.empty,
     md_repositories = md_repositories service_db_sample, md_integrations = md_integrations service_db_sample,
     md_deployments = [], md_pull_requests = [], md_commits = [], md_reviews = [],
     md_links = [], md_incidents = [], sv_snapshots = [], sv_timezones = (\<lambda>_. Some ''UTC''),
     ev_raw_events = [], ev_github_issues = [], ev_jira_integrations = [], ev_jira_projects = [], ev_jira_issues = [],
     ev_features = [], ev_predictions = []\<rparr>"

lemma sync_arguments_sample:
  "sync_arguments (je_lib sample_env) (je_utcnow sample_env) (cj_payload (from_row sync_job)) = Inr (7, None, 1, 5)"
  by code_simp

lemma sync_run_sample:
  "fst (handle_sync_github_repositories sample_env events_sample (from_row sync_job) ''w'') = Some RequeueWithPayloadError"
  by code_simp

theorem sync_continuation_resumes_witness:
  "\<exists>db' j integration. handle_sync_github_repositories sample_env events_sample (from_row sync_job) ''w'' =
      (Some RequeueWithPayloadError, db') \<and> job_row (ed_jobs db') 1 = Some j \<and>
      sync_arguments (je_lib sample_env) 9 (pj_payload j) = Inr (7, Some integration, 2, 5)"
proof -
  obtain db' where h: "handle_sync_github_repositories sample_env events_sample (from_row sync_job) ''w'' =
      (Some RequeueWithPayloadError, db')"
    using sync_run_sample by (metis prod.collapse)
  have "queue_ok (ed_jobs events_sample)" by (simp add: events_sample_def sync_job_def sample_job_def queue_ok_def job_ok_def)
  moreover have "\<forall>g \<in> set (md_integrations events_sample). gi_id g < 2 ^ 128"
    by (simp add: events_sample_def service_db_sample_def)
  ultimately show ?thesis
    using sync_continuation_resumes [OF _ sample_iso_round_trip _ sync_arguments_sample h, of 9] h
    by (auto simp: from_row_def sync_job_def sample_job_def)
qed

lemma sync_pages_sample:
  "is_ok (sync_pages (je_lib sample_env) 7 2 5 [(6, [sample_listed], None)] events_sample)"
  by code_simp


section \<open>A Jira site\<close>

definition sample_site :: jira_integration where
  "sample_site = \<lparr>ji_id = 3, ji_workspace_id = 7, ji_cloud_id = ''cloud'',
     ji_access_token_enc = replicate 13 (CHR ''a''), ji_refresh_token_enc = replicate 13 (CHR ''a'') @ ''old'',
     ji_encryption_key_version = 1, ji_access_token_expires_at = 0, ji_scopes = [], ji_status = ''ACTIVE'',
     ji_webhook_id = Some 1, ji_webhook_token_hash = None, ji_webhook_expires_at = None, ji_last_synced_at = None,
     ji_updated_at = 0, ji_version = 0\<rparr>"

definition jira_sample :: "unit events_db_scheme" where
  "jira_sample = events_sample\<lparr>ev_jira_integrations := [sample_site]\<rparr>"

lemma refreshed_sample: "is_ok (get_valid_jira_access_token sample_providers 5 5 sample_site jira_sample)"
  by code_simp


section \<open>Issues\<close>

definition sample_issue :: "string \<Rightarrow> dict" where
  "sample_issue updated = [(''id'', JInt 8), (''number'', JInt 2), (''title'', JStr ''broken''), (''state'', JStr ''open''),
     (''created_at'', JStr ''px''), (''updated_at'', JStr updated)]"

lemma sample_rows: "List.map_filter (issue_of_delivery (je_lib sample_env) 7 4) [(sample_issue ''pxx'', 5, 5), (sample_issue ''px'', 6, 6)] =
   [the (issue_of_delivery (je_lib sample_env) 7 4 (sample_issue ''pxx'', 5, 5)),
    the (issue_of_delivery (je_lib sample_env) 7 4 (sample_issue ''px'', 6, 6))]"
  and sample_stamps: "gs_github_updated_at (the (issue_of_delivery (je_lib sample_env) 7 4 (sample_issue ''pxx'', 5, 5))) = Some 2"
    "gs_github_updated_at (the (issue_of_delivery (je_lib sample_env) 7 4 (sample_issue ''px'', 6, 6))) = Some 1"
  by code_simp+

theorem issue_deliveries_converge_witness:
  "stored_issue (7, 8) (fold (deliver_issue (je_lib sample_env) 7 4) [(sample_issue ''px'', 6, 6), (sample_issue ''pxx'', 5, 5)] events_sample)
   = stored_issue (7, 8) (fold (deliver_issue (je_lib sample_env) 7 4) [(sample_issue ''pxx'', 5, 5), (sample_issue ''px'', 6, 6)] events_sample)"
proof -
  have "consistent_issues (List.map_filter (issue_of_delivery (je_lib sample_env) 7 4)
      [(sample_issue ''pxx'', 5, 5), (sample_issue ''px'', 6, 6)])"
    unfolding sample_rows by (simp add: consistent_issues_def sample_stamps)
  note consistent = this
  have "mset [(sample_issue ''pxx'', 5::time, 5::time), (sample_issue ''px'', 6, 6)] =
      mset [(sample_issue ''px'', 6, 6), (sample_issue ''pxx'', 5, 5)]" by simp
  from issue_deliveries_converge [OF this consistent] show ?thesis by (rule sym)
qed

section \<open>Risk\<close>

definition sample_artifact :: risk_artifact where
  "sample_artifact = \<lparr>ra_metadata = [(''modelName'', JStr MODEL_NAME), (''modelVersion'', JStr MODEL_VERSION),
       (''featureSchemaVersion'', JStr FEATURE_SCHEMA_VERSION), (''featureOrder'', JList (map JStr FEATURE_ORDER)),
       (''pythonVersion'', JStr ''3.12''), (''sha256'', JObj [(''model.joblib'', JStr ''d''), (''training-report.json'', JStr ''d'')]),
       (''thresholds'', JObj [(''medium'', JFloat (1/4)), (''high'', JFloat (1/2)), (''critical'', JFloat (3/4))])],
     ra_library_versions = [], ra_python_version = ''3.12'', ra_sha256 = (\<lambda>_. ''d''), ra_features_in = 7,
     ra_classes = [False, True], ra_proba = (\<lambda>_. [Finite (2/5), Finite (3/5)]), ra_importances = [], ra_float = (\<lambda>_. None),
     ra_log2 = (\<lambda>_. 0)\<rparr>"

definition sample_change :: dict where
  "sample_change = [(''title'', JStr ''Fix it''), (''changed_files'', JInt 1), (''additions'', JInt 2), (''deletions'', JInt 1)]"

definition sample_file :: dict where
  "sample_file = [(''filename'', JStr ''a/b''), (''additions'', JInt 2), (''deletions'', JInt 1)]"

lemma risk_sample: "is_ok (calculate_and_persist_pull_request_risk sample_env sample_artifact 7 4 11 sample_change [sample_file] [] events_sample)"
  by code_simp


section \<open>Events\<close>

definition uninstalled :: dict where
  "uninstalled = [(''action'', JStr ''deleted''), (''installation'', JObj [(''id'', JInt 1)])]"

definition sample_event :: raw_event where
  "sample_event = \<lparr>rw_id = 21, rw_source = ''GITHUB'', rw_workspace_id = Some 7, rw_repository_id = None,
     rw_event_type = Some ''installation'', rw_action = Some ''deleted'', rw_payload = JObj uninstalled,
     rw_status = ''RECEIVED'', rw_attempt_count = 0, rw_processing_started_at = None, rw_processed_at = None,
     rw_last_error = None, rw_updated_at = 0, rw_version = 0\<rparr>"

definition delivered_sample :: "unit events_db_scheme" where
  "delivered_sample = events_sample\<lparr>ev_raw_events := [sample_event]\<rparr>"

definition event_job :: claimed_job where
  "event_job = (from_row (sample_job 1))\<lparr>cj_payload := [(''rawEventId'', JStr (uuid_str 21))]\<rparr>"

definition sample_event_env :: event_env where
  "sample_event_env = \<lparr>ee_job = sample_env, ee_artifact = sample_artifact\<rparr>"

lemma event_env_fresh: "jobs_fresh (ee_service sample_event_env)"
  using sample_env_fresh by (simp add: sample_event_env_def)

lemma event_sample: "map_option fst (handle_process_github_event sample_event_env delivered_sample event_job ''w'') = Some None"
  by code_simp

lemma event_id_sample: "parse_uuid (py_or (dict_get (cj_payload event_job) ''rawEventId'') (dict_get (cj_payload event_job) ''raw_event_id''))
    ''rawEventId'' = Inr 21"
  by code_simp

lemma event_route_sample: "\<not> isl (event_route (ee_lib sample_event_env) sample_event
    (event_type_of (ee_lib sample_event_env) sample_event (cj_payload event_job)) delivered_sample)"
  by code_simp

theorem raw_event_settled_witness:
  "\<exists>db' raw'. handle_process_github_event sample_event_env delivered_sample event_job ''w'' = Some (None, db') \<and>
     row_with rw_id 21 (ev_raw_events db') = Some raw' \<and> rw_status raw' = ''PROCESSED'' \<and> rw_attempt_count raw' = 1"
proof -
  obtain db' where h: "handle_process_github_event sample_event_env delivered_sample event_job ''w'' = Some (None, db')"
    using event_sample by auto
  note f = event_env_fresh
  have e: "row_with rw_id 21 (ev_raw_events delivered_sample) = Some sample_event"
    by (simp add: delivered_sample_def sample_event_def)
  from raw_event_settled [OF f event_id_sample e h] event_route_sample h show ?thesis
    by (auto simp: sample_event_def split: sum.splits)
qed


end
