(* ===== verification/Pull_Request_Facts.thy ===== *)
theory Pull_Request_Facts
  imports Pull_Requests Incident_Facts
begin

text \<open>
  Pull-request normalization stores exactly the commits and reviews GitHub lists, touches nothing
  else, and repeating a delivery changes nothing.
\<close>

section \<open>Replacing the children of a row\<close>

lemma sql_upsert_append:
  assumes "k r \<notin> k ` set A"
  shows "sql_upsert k g m r (A @ B) = A @ sql_upsert k g m r B"
proof -
  have "sql_update (\<lambda>old. k old = k r \<and> g old r) (\<lambda>old. m old r) A = A"
    using assms by (intro sql_update_id) (metis imageI)
  with assms show ?thesis by (auto simp: sql_upsert_def sql_update_def)
qed

lemma sql_upserts_append:
  assumes "\<forall>r \<in> set rows. k r \<notin> k ` set A"
  shows "fold (sql_upsert k g m) rows (A @ B) = A @ fold (sql_upsert k g m) rows B"
  using assms by (induction rows arbitrary: B) (simp_all add: sql_upsert_append)

lemma insert_reviews_append:
  assumes "\<forall>r \<in> set rows. review_key r \<notin> review_key ` set A"
  shows "fold insert_review rows (A @ B) = A @ fold insert_review rows B"
  using assms by (induction rows arbitrary: B) (simp_all add: insert_review_def image_Un)

interpretation commit_upsert: keyed_upsert commit_key "\<lambda>_ _. True" "\<lambda>old new. old\<lparr>pc_committed_at := pc_committed_at new\<rparr>"
  by unfold_locales (simp add: commit_key_def)

interpretation pull_request_upsert: timed_upsert pull_request_key not_staler merge_pull_request
    "\<lambda>p. (pr_number p, pr_title p, pr_state p, pr_draft p, pr_head_sha p, pr_merge_commit_sha p, pr_merged_at p,
          pr_last_synced_at p, pr_raw_data p)"
    "\<lambda>c. fst (snd (snd (snd (snd (snd (snd (snd c)))))))"
  by unfold_locales (auto simp: merge_pull_request_def pull_request_key_def not_staler_def split: option.splits)

lemma commit_rows_owner: "c \<in> set (commit_rows lib i cs) \<Longrightarrow> pc_pull_request_id c = i"
  by (auto simp: commit_rows_def map_filter_def Let_def split: if_splits)

definition stored_commits :: "py_lib \<Rightarrow> uuid \<Rightarrow> dict list \<Rightarrow> pr_commit list" where
  "stored_commits lib i cs = fold upsert_commit (commit_rows lib i cs) []"

lemma replaced_commits:
  "fold upsert_commit (commit_rows lib i cs) (filter (\<lambda>c. pc_pull_request_id c \<noteq> i) t) =
     filter (\<lambda>c. pc_pull_request_id c \<noteq> i) t @ stored_commits lib i cs"
proof -
  have "\<forall>r \<in> set (commit_rows lib i cs). commit_key r \<notin> commit_key ` set (filter (\<lambda>c. pc_pull_request_id c \<noteq> i) t)"
    by (auto simp: commit_key_def dest: commit_rows_owner)
  from sql_upserts_append [OF this, where B = "[]"] show ?thesis by (simp add: stored_commits_def upsert_commit_def)
qed

lemma stored_commits_owner: "c \<in> set (stored_commits lib i cs) \<Longrightarrow> pc_pull_request_id c = i"
proof -
  assume "c \<in> set (stored_commits lib i cs)"
  then have "commit_key c \<in> set (map commit_key (stored_commits lib i cs))" by simp
  then have "commit_key c \<in> set (map commit_key (commit_rows lib i cs))"
    unfolding stored_commits_def upsert_commit_def commit_upsert.puts_keys by simp
  then show ?thesis by (auto simp: commit_key_def dest: commit_rows_owner)
qed

lemma stored_commits_distinct: "distinct (map commit_key (stored_commits lib i cs))"
  unfolding stored_commits_def upsert_commit_def by (rule commit_upsert.puts_distinct) simp

text \<open>The last entry of a commit wins.\<close>

lemma upserts_last:
  assumes "\<forall>r \<in> set rows. pc_pull_request_id r = i"
  shows "row_with commit_key (i, s) (fold upsert_commit rows []) = row_with commit_key (i, s) (rev rows)"
  using assms
proof (induction rows rule: rev_induct)
  case (snoc r rs)
  then have "row_with commit_key (i, s) (fold upsert_commit (rs @ [r]) []) =
      (if (i, s) = commit_key r
       then Some (case row_with commit_key (i, s) (fold upsert_commit rs []) of None \<Rightarrow> r
                  | Some old \<Rightarrow> old\<lparr>pc_committed_at := pc_committed_at r\<rparr>)
       else row_with commit_key (i, s) (rev rs))"
    by (auto simp add: upsert_commit_def commit_upsert.put_lookup split: option.split)
  moreover have "old\<lparr>pc_committed_at := pc_committed_at r\<rparr> = r"
    if "row_with commit_key (i, s) (fold upsert_commit rs []) = Some old" "commit_key r = (i, s)" for old
    using row_with_Some_set [OF that(1)] that(2) by (cases old; cases r) (simp add: commit_key_def)
  ultimately show ?case by (auto split: option.splits)
qed simp

lemma reviews_first:
  "row_with review_key x (fold insert_review rows t) =
     (case row_with review_key x t of None \<Rightarrow> row_with review_key x rows | Some r \<Rightarrow> Some r)"
proof (induction rows arbitrary: t)
  case (Cons r rows)
  then show ?case
    by (auto simp: insert_review_def row_with_append row_with_None split: option.splits)
       (metis imageI row_with_Some_set)+
qed (simp split: option.split)

lemma reviews_distinct: "distinct (map review_key t) \<Longrightarrow> distinct (map review_key (fold insert_review rows t))"
  by (induction rows arbitrary: t) (simp_all add: insert_review_def)

lemma reviews_subset: "set (fold insert_review rows t) \<subseteq> set rows \<union> set t"
proof (induction rows arbitrary: t)
  case (Cons r rows)
  from Cons [of "insert_review r t"] show ?case by (auto simp: insert_review_def split: if_splits)
qed simp

lemma review_rows_owner:
  assumes "map_result (review_row lib i) rs = Inr rows" and "r \<in> set rows"
  shows "rv_pull_request_id r = i"
proof -
  from assms obtain d where "review_row lib i d = Inr r"
    by (auto simp: map_result_Inr list_all2_conv_all_nth in_set_conv_nth)
  then show ?thesis by (auto simp: review_row_def bindr_Inr split: option.splits)
qed

lemma replaced_reviews:
  assumes "map_result (review_row lib i) rs = Inr rows"
  shows "fold insert_review rows (filter (\<lambda>r. rv_pull_request_id r \<noteq> i) t) =
    filter (\<lambda>r. rv_pull_request_id r \<noteq> i) t @ fold insert_review rows []"
proof -
  have "\<forall>r \<in> set rows. review_key r \<notin> review_key ` set (filter (\<lambda>r. rv_pull_request_id r \<noteq> i) t)"
    using review_rows_owner [OF assms] by (auto simp: review_key_def)
  from insert_reviews_append [OF this, where B = "[]"] show ?thesis by simp
qed

section \<open>The canonical row\<close>

definition pull_requests_ok :: "pull_request list \<Rightarrow> bool" where
  "pull_requests_ok t \<longleftrightarrow> distinct (map pr_id t) \<and> distinct (map pull_request_key t)"

lemma merge_pull_request_simps [simp]:
  "pr_id (merge_pull_request old new) = pr_id old"
  "pr_repository_id (merge_pull_request old new) = pr_repository_id old"
  "pr_github_pr_id (merge_pull_request old new) = pr_github_pr_id old"
  "pr_last_synced_at (merge_pull_request old new) = pr_last_synced_at new"
  by (simp_all add: merge_pull_request_def)

lemma upsert_row_ids: "map pr_id (upsert_row row t) =
    map pr_id t @ (if pull_request_key row \<in> pull_request_key ` set t then [] else [pr_id row])"
  by (auto simp: upsert_row_def sql_upsert_def sql_update_def)

lemma upsert_row_ok:
  assumes "pull_requests_ok t" and "pr_id row \<notin> pr_id ` set t"
  shows "pull_requests_ok (upsert_row row t)"
proof -
  have "distinct (map pull_request_key (upsert_row row t))"
    using assms(1) pull_request_upsert.put_distinct by (simp add: pull_requests_ok_def upsert_row_def)
  moreover have "distinct (map pr_id (upsert_row row t))"
    using assms unfolding upsert_row_ids by (simp add: pull_requests_ok_def)
  ultimately show ?thesis by (simp add: pull_requests_ok_def)
qed

text \<open>The row a delivery settles on.\<close>

definition settled_row :: "pull_request \<Rightarrow> pull_request list \<Rightarrow> pull_request" where
  "settled_row row t =
     (case row_with pull_request_key (pull_request_key row) t of
        None \<Rightarrow> row
      | Some old \<Rightarrow> if not_staler old row then merge_pull_request old row else old)"

lemma settled_row_lookup: "row_with pull_request_key (pull_request_key row) (upsert_row row t) = Some (settled_row row t)"
  by (simp add: upsert_row_def pull_request_upsert.put_lookup settled_row_def)

lemma settled_row_in: "settled_row row t \<in> set (upsert_row row t)"
  and settled_row_key: "pull_request_key (settled_row row t) = pull_request_key row"
  using row_with_Some_set [OF settled_row_lookup] by blast+

lemma settled_row_id: "pr_id (settled_row row t) = canonical_id row t"
  by (simp add: settled_row_def canonical_id_def split: option.split)

lemma upsert_row_frame:
  assumes "pull_requests_ok t" and "pr_id p \<noteq> canonical_id row t"
  shows "p \<in> set (upsert_row row t) \<longleftrightarrow> p \<in> set t"
proof -
  have k: "distinct (map pull_request_key t)" using assms(1) by (simp add: pull_requests_ok_def)
  have u: "p \<in> set (upsert_row row t) \<longleftrightarrow> p \<in> set t" if "pull_request_key p \<noteq> pull_request_key row"
    using that by (auto simp: upsert_row_def sql_upsert_def sql_update_def pull_request_key_def)
  have "pull_request_key p \<noteq> pull_request_key row" if "p \<in> set t"
    using row_with_in_set [OF k that] assms(2) by (auto simp: canonical_id_def)
  moreover have "pull_request_key p \<noteq> pull_request_key row" if "p \<in> set (upsert_row row t)"
  proof
    have d: "distinct (map pull_request_key (upsert_row row t))"
      unfolding upsert_row_def by (rule pull_request_upsert.put_distinct [OF k])
    assume "pull_request_key p = pull_request_key row"
    with row_with_in_set [OF d that] settled_row_lookup have "p = settled_row row t" by simp
    with assms(2) settled_row_id show False by simp
  qed
  ultimately show ?thesis using u by blast
qed

section \<open>One delivery\<close>

definition first_commit_set :: "time \<Rightarrow> uuid \<Rightarrow> time option \<Rightarrow> pull_request list \<Rightarrow> pull_request list" where
  "first_commit_set now i first = sql_update (\<lambda>p. pr_id p = i)
     (\<lambda>p. p\<lparr>pr_first_commit_at := first, pr_updated_at := now, pr_version := pr_version p + 1\<rparr>)"

text \<open>What a successful delivery with commits and reviews leaves.\<close>

lemma delivery_result:
  assumes "upsert_pull_request lib now ws repo pr action (Some cs) (Some rs) ready db = (Inr i, db')"
  obtains row rows where
    "build_row lib now (gen_random_uuid lib (map pr_id (md_pull_requests db))) ws repo pr action (Some cs) ready = Inr row"
    "i = canonical_id row (md_pull_requests db)"
    "map_result (review_row lib i) (filter (\<lambda>r. submitted_review lib r \<noteq> None) rs) = Inr rows"
    "md_commits db' = filter (\<lambda>c. pc_pull_request_id c \<noteq> i) (md_commits db) @ stored_commits lib i cs"
    "md_reviews db' = filter (\<lambda>r. rv_pull_request_id r \<noteq> i) (md_reviews db) @ fold insert_review rows []"
    "md_pull_requests db' = first_commit_set now i (list_min (map pc_committed_at (stored_commits lib i cs)))
       (upsert_row row (md_pull_requests db))"
proof -
  from assms obtain row rows where *:
    "build_row lib now (gen_random_uuid lib (map pr_id (md_pull_requests db))) ws repo pr action (Some cs) ready = Inr row"
    "i = canonical_id row (md_pull_requests db)"
    "map_result (review_row lib i) (filter (\<lambda>r. submitted_review lib r \<noteq> None) rs) = Inr rows"
    "db' = (replace_commits lib now i cs (db\<lparr>md_pull_requests := upsert_row row (md_pull_requests db)\<rparr>))
       \<lparr>md_reviews := fold insert_review rows (filter (\<lambda>r. rv_pull_request_id r \<noteq> i) (md_reviews db))\<rparr>"
    by (auto simp: upsert_pull_request_def Let_def replace_pull_request_reviews_def bindr_Inr replace_commits_def
          split: sum.splits)
  have own: "filter (\<lambda>c. pc_pull_request_id c = i) (stored_commits lib i cs) = stored_commits lib i cs"
    using stored_commits_owner by (simp add: filter_id_conv)
  show thesis
    by (rule that [OF *(1-3)])
       (simp_all add: *(4) replace_commits_def replaced_commits replaced_reviews [OF *(3)] Let_def own first_commit_set_def)
qed

lemma build_row_fields:
  assumes "build_row lib now n ws repo pr action commits ready = Inr row"
  shows "pr_id row = n \<and> pr_repository_id row = repo \<and>
    bindr (required_key pr ''id'') int_of_json = Inr (pr_github_pr_id row)"
  using assms by (auto simp: build_row_def Let_def bindr_Inr)

lemma first_commit_set_ids [simp]: "map pr_id (first_commit_set now i f t) = map pr_id t"
  "map pull_request_key (first_commit_set now i f t) = map pull_request_key t"
  by (auto simp: first_commit_set_def sql_update_def pull_request_key_def)

lemma first_commit_set_frame: "pr_id p \<noteq> i \<Longrightarrow> p \<in> set (first_commit_set now i f t) \<longleftrightarrow> p \<in> set t"
  by (auto simp: first_commit_set_def sql_update_def)

lemma first_commit_set_in: "p \<in> set t \<Longrightarrow> pr_id p = i \<Longrightarrow>
    p\<lparr>pr_first_commit_at := f, pr_updated_at := now, pr_version := pr_version p + 1\<rparr> \<in> set (first_commit_set now i f t)"
  by (auto simp: first_commit_set_def sql_update_def)


section \<open>Repetition\<close>

text \<open>A row up to the bookkeeping every write does.\<close>

definition settled :: "pull_request \<Rightarrow> pull_request" where
  "settled p = p\<lparr>pr_updated_at := 0, pr_version := 0\<rparr>"

lemma settled_first:
  "settled (p\<lparr>pr_first_commit_at := f, pr_updated_at := n, pr_version := v\<rparr>) = settled p\<lparr>pr_first_commit_at := f\<rparr>"
  by (cases p) (simp add: settled_def)

lemma build_row_again:
  assumes "build_row lib now n ws repo pr action commits ready = Inr row"
    and "parse_ts lib (dict_get pr ''updated_at'') = Some u"
  shows "build_row lib now' n' ws repo pr action commits ready = Inr (row\<lparr>pr_id := n', pr_updated_at := now'\<rparr>)"
  using assms by (auto simp: build_row_def Let_def bindr_Inr coalesce_def)

lemma upsert_row_known:
  assumes "pull_requests_ok t" and "row_with pull_request_key (pull_request_key row) t = Some p"
  shows "upsert_row row t =
    map (\<lambda>q. if pr_id q = pr_id p then (if not_staler p row then merge_pull_request p row else p) else q) t"
proof -
  have p: "p \<in> set t" "pull_request_key p = pull_request_key row" using row_with_Some_set [OF assms(2)] by blast+
  have "pr_id q = pr_id p \<longleftrightarrow> q = p" "pull_request_key q = pull_request_key p \<longleftrightarrow> q = p" if "q \<in> set t" for q
    using assms(1) p(1) that by (auto simp: pull_requests_ok_def distinct_map dest: inj_onD)
  note this [unfolded p(2)]
  then have "sql_update (\<lambda>old. pull_request_key old = pull_request_key row \<and> not_staler old row)
      (\<lambda>old. merge_pull_request old row) t =
    map (\<lambda>q. if pr_id q = pr_id p then (if not_staler p row then merge_pull_request p row else p) else q) t"
    unfolding sql_update_def by (intro map_cong) auto
  moreover have "pull_request_key row \<in> pull_request_key ` set t" using p by (metis imageI)
  ultimately show ?thesis by (simp add: upsert_row_def sql_upsert_def)
qed

lemma settled_row_stable:
  assumes "not_staler (settled_row row t\<lparr>pr_first_commit_at := f, pr_updated_at := n1, pr_version := v\<rparr>)
      (row\<lparr>pr_id := i, pr_updated_at := n2\<rparr>)"
  shows "settled (merge_pull_request (settled_row row t\<lparr>pr_first_commit_at := f, pr_updated_at := n1, pr_version := v\<rparr>)
      (row\<lparr>pr_id := i, pr_updated_at := n2\<rparr>))\<lparr>pr_first_commit_at := f\<rparr> =
    settled (settled_row row t)\<lparr>pr_first_commit_at := f\<rparr>"
proof -
  let ?k = "pull_request_key row"
  have same: "settled (merge_pull_request (p\<lparr>pr_first_commit_at := f, pr_updated_at := n1, pr_version := v\<rparr>)
        (row\<lparr>pr_id := i, pr_updated_at := n2\<rparr>))\<lparr>pr_first_commit_at := f\<rparr> = settled p\<lparr>pr_first_commit_at := f\<rparr>"
    if "p = merge_pull_request old row \<or> p = row" for p old
    using that by (cases row; cases old) (auto simp: settled_def merge_pull_request_def coalesce_def split: option.split)
  show ?thesis
  proof (cases "row_with pull_request_key ?k t")
    case None
    then show ?thesis using same [of "settled_row row t"] by (simp add: settled_row_def)
  next
    case (Some old)
    then have "not_staler old row"
      using assms by (auto simp: settled_row_def not_staler_def split: if_splits option.splits)
    with Some same [of "settled_row row t" old] show ?thesis by (simp add: settled_row_def)
  qed
qed

lemma redelivered_row:
  assumes "pull_requests_ok t" and "pr_id row \<notin> pr_id ` set t"
  shows "map settled (first_commit_set n2 (canonical_id row t) f
      (upsert_row (row\<lparr>pr_id := i2, pr_updated_at := n2\<rparr>) (first_commit_set n1 (canonical_id row t) f (upsert_row row t)))) =
    map settled (first_commit_set n1 (canonical_id row t) f (upsert_row row t))"
    and "canonical_id (row\<lparr>pr_id := i2, pr_updated_at := n2\<rparr>) (first_commit_set n1 (canonical_id row t) f (upsert_row row t)) =
      canonical_id row t"
proof -
  let ?i = "canonical_id row t" and ?t1 = "upsert_row row t" and ?p = "settled_row row t"
  let ?row = "row\<lparr>pr_id := i2, pr_updated_at := n2\<rparr>" and ?t2 = "first_commit_set n1 (canonical_id row t) f (upsert_row row t)"
  let ?q = "?p\<lparr>pr_first_commit_at := f, pr_updated_at := n1, pr_version := pr_version ?p + 1\<rparr>"
  have ok1: "pull_requests_ok ?t1" by (rule upsert_row_ok [OF assms])
  then have ok2: "pull_requests_ok ?t2" by (simp add: pull_requests_ok_def)
  have key: "pull_request_key ?row = pull_request_key ?q" "pull_request_key ?row = pull_request_key row"
    using settled_row_key [of row t] by (simp_all add: pull_request_key_def)
  have "?q \<in> set ?t2" by (rule first_commit_set_in [OF settled_row_in]) (simp add: settled_row_id)
  with row_with_in_set [of pull_request_key ?t2 ?q] ok2
  have look: "row_with pull_request_key (pull_request_key ?row) ?t2 = Some ?q"
    unfolding key(1) by (simp add: pull_requests_ok_def)
  have id: "pr_id ?q = ?i" by (simp add: settled_row_id)
  show "canonical_id ?row ?t2 = ?i" by (simp add: canonical_id_def [of ?row] look id)
  have stable: "settled (merge_pull_request ?q ?row)\<lparr>pr_first_commit_at := f\<rparr> = settled ?q" if "not_staler ?q ?row"
    using settled_row_stable [OF that] by (simp only: settled_first)
  have "settled (if pr_id z = ?i then z\<lparr>pr_first_commit_at := f, pr_updated_at := n2, pr_version := pr_version z + 1\<rparr> else z) = settled w"
    if "w \<in> set ?t2" "z = (if pr_id w = pr_id ?q then (if not_staler ?q ?row then merge_pull_request ?q ?row else ?q) else w)" for w z
  proof (cases "pr_id w = ?i")
    case True
    moreover have "inj_on pr_id (set ?t2)" using ok2 unfolding pull_requests_ok_def distinct_map by blast
    ultimately have "w = ?q" using that(1) \<open>?q \<in> set ?t2\<close> id by (intro inj_onD [of pr_id "set ?t2"]) simp_all
    have "settled ?q\<lparr>pr_first_commit_at := f\<rparr> = settled ?q" by (simp add: settled_first)
    with \<open>w = ?q\<close> True that(2) id stable show ?thesis by (simp add: settled_first)
  qed (use that(2) id in auto)
  then show "map settled (first_commit_set n2 ?i f (upsert_row ?row ?t2)) = map settled ?t2"
    unfolding upsert_row_known [OF ok2 look] first_commit_set_def [of n2] sql_update_def map_map
    by (intro map_cong refl) simp
qed

text \<open>
  Processing the same delivery again, whenever, changes no commit, no review and of the pull
  requests only the bookkeeping, and reports the same row.
\<close>

theorem redelivery_changes_nothing:
  assumes "pull_requests_ok (md_pull_requests db)"
    and "gen_random_uuid lib (map pr_id (md_pull_requests db)) \<notin> pr_id ` set (md_pull_requests db)"
    and "parse_ts lib (dict_get pr ''updated_at'') = Some u"
    and "upsert_pull_request lib now ws repo pr action (Some cs) (Some rs) ready db = (Inr i, db')"
  shows "\<exists>db''. upsert_pull_request lib later ws repo pr action (Some cs) (Some rs) ready db' = (Inr i, db'') \<and>
    map settled (md_pull_requests db'') = map settled (md_pull_requests db') \<and>
    md_commits db'' = md_commits db' \<and> md_reviews db'' = md_reviews db'"
proof -
  obtain row rows where d:
    "build_row lib now (gen_random_uuid lib (map pr_id (md_pull_requests db))) ws repo pr action (Some cs) ready = Inr row"
    "i = canonical_id row (md_pull_requests db)"
    "map_result (review_row lib i) (filter (\<lambda>r. submitted_review lib r \<noteq> None) rs) = Inr rows"
    "md_commits db' = filter (\<lambda>c. pc_pull_request_id c \<noteq> i) (md_commits db) @ stored_commits lib i cs"
    "md_reviews db' = filter (\<lambda>r. rv_pull_request_id r \<noteq> i) (md_reviews db) @ fold insert_review rows []"
    "md_pull_requests db' = first_commit_set now i (list_min (map pc_committed_at (stored_commits lib i cs)))
       (upsert_row row (md_pull_requests db))"
    by (rule delivery_result [OF assms(4)])
  let ?row = "row\<lparr>pr_id := gen_random_uuid lib (map pr_id (md_pull_requests db')), pr_updated_at := later\<rparr>"
  note again = build_row_again [OF d(1) assms(3)]
  have new: "pr_id row \<notin> pr_id ` set (md_pull_requests db)" using assms(2) build_row_fields [OF d(1)] by simp
  note rr = redelivered_row [OF assms(1) new, folded d(2), of later]
  have i: "canonical_id ?row (md_pull_requests db') = i" unfolding d(6) by (rule rr(2))
  obtain res db'' where run: "upsert_pull_request lib later ws repo pr action (Some cs) (Some rs) ready db' = (res, db'')"
    by fastforce
  then have "res = Inr i"
    by (simp add: upsert_pull_request_def again i Let_def replace_pull_request_reviews_def d(3) del: not_None_eq)
  with run have run: "upsert_pull_request lib later ws repo pr action (Some cs) (Some rs) ready db' = (Inr i, db'')" by simp
  obtain row2 rows2 where e: "build_row lib later (gen_random_uuid lib (map pr_id (md_pull_requests db'))) ws repo pr action
      (Some cs) ready = Inr row2"
    "map_result (review_row lib i) (filter (\<lambda>r. submitted_review lib r \<noteq> None) rs) = Inr rows2"
    "md_commits db'' = filter (\<lambda>c. pc_pull_request_id c \<noteq> i) (md_commits db') @ stored_commits lib i cs"
    "md_reviews db'' = filter (\<lambda>r. rv_pull_request_id r \<noteq> i) (md_reviews db') @ fold insert_review rows2 []"
    "md_pull_requests db'' = first_commit_set later i (list_min (map pc_committed_at (stored_commits lib i cs)))
       (upsert_row row2 (md_pull_requests db'))"
    by (rule delivery_result [OF run])
  from e(1) again have row2: "row2 = ?row" by simp
  have "md_commits db'' = md_commits db'"
    unfolding e(3) d(4) using stored_commits_owner by (auto simp: filter_empty_conv)
  moreover have "filter (\<lambda>r. rv_pull_request_id r \<noteq> i) (fold insert_review rows []) = []"
    using reviews_subset [of rows "[]"] review_rows_owner [OF d(3)] by (auto simp: filter_empty_conv)
  with d(3) e(2) have "md_reviews db'' = md_reviews db'" unfolding e(4) d(5) by simp
  moreover have "map settled (md_pull_requests db'') = map settled (md_pull_requests db')"
    using rr(1) unfolding e(5) d(6) row2 by simp
  ultimately show ?thesis using run by blast
qed

section \<open>Witnesses\<close>

definition event_lib :: py_lib where
  "event_lib = sample_lib\<lparr>fromisoformat := (\<lambda>s. Some (int (length s)))\<rparr>"

definition sample_pr_data :: dict where
  "sample_pr_data = [(''id'', JInt 9), (''number'', JInt 3), (''state'', JStr ''closed''), (''merged'', JBool True),
     (''updated_at'', JStr ''t'')]"

definition sample_commits :: "dict list" where
  "sample_commits = [[(''sha'', JStr ''a''), (''commit'', JObj [(''author'', JObj [(''date'', JStr ''tt'')])])]]"

definition sample_reviews :: "dict list" where
  "sample_reviews = [[(''id'', JInt 5), (''state'', JStr ''approved''), (''submitted_at'', JStr ''ttt'')]]"

lemma sample_pr_result:
  "fst (upsert_pull_request event_lib 40 7 4 sample_pr_data None (Some sample_commits) (Some sample_reviews) None
     (sample_metrics_db [])) = Inr 1"
  by code_simp

lemma sample_pr_updated: "parse_ts event_lib (dict_get sample_pr_data ''updated_at'') = Some 1"
  by code_simp

lemma sample_pr_ok: "pull_requests_ok (md_pull_requests (sample_metrics_db []))"
  "gen_random_uuid event_lib (map pr_id (md_pull_requests (sample_metrics_db [])))
     \<notin> pr_id ` set (md_pull_requests (sample_metrics_db []))"
  by (simp_all add: sample_metrics_db_def pull_requests_ok_def)


theorem redelivery_changes_nothing_witness:
  "\<exists>db' db''. upsert_pull_request event_lib 40 7 4 sample_pr_data None (Some sample_commits) (Some sample_reviews) None
     (sample_metrics_db []) = (Inr 1, db') \<and>
   upsert_pull_request event_lib 90 7 4 sample_pr_data None (Some sample_commits) (Some sample_reviews) None db' = (Inr 1, db'') \<and>
   md_reviews db'' = md_reviews db'"
proof -
  obtain db' where u: "upsert_pull_request event_lib 40 7 4 sample_pr_data None (Some sample_commits) (Some sample_reviews) None
     (sample_metrics_db []) = (Inr 1, db')" using sample_pr_result by (metis prod.collapse)
  from redelivery_changes_nothing [OF sample_pr_ok sample_pr_updated u, of 90] u show ?thesis by blast
qed

end
