(* ===== verification/Backfill.thy ===== *)
theory Backfill
  imports Github_Events Metrics_Service
begin

text \<open>
  The backfill of a repository (\<^verbatim>\<open>app/jobs/handlers/backfill_repository.py\<close>): one page of one stage per
  run, the cursor in the job's payload.  A cursor is a stage and a page, and in the workflow-run
  stage also the window being listed and the windows still to list, as texts the way the payload
  holds them.
\<close>

section \<open>The cursor\<close>

definition OPEN_PULL_REQUEST_STAGE :: string where "OPEN_PULL_REQUEST_STAGE = ''open_pull_requests''"
definition PULL_REQUEST_STAGE :: string where "PULL_REQUEST_STAGE = ''pull_requests''"
definition WORKFLOW_RUN_STAGE :: string where "WORKFLOW_RUN_STAGE = ''workflow_runs''"
definition DEPLOYMENT_STAGE :: string where "DEPLOYMENT_STAGE = ''deployments''"
definition ISSUE_STAGE :: string where "ISSUE_STAGE = ''issues''"
definition REVIEW_STAGE :: string where "REVIEW_STAGE = ''reviews''"
definition REVIEW_PAGE_SIZE :: nat where "REVIEW_PAGE_SIZE = 50"

lemmas stages = OPEN_PULL_REQUEST_STAGE_def PULL_REQUEST_STAGE_def WORKFLOW_RUN_STAGE_def DEPLOYMENT_STAGE_def
  ISSUE_STAGE_def REVIEW_STAGE_def

datatype backfill_cursor =
    StageCursor string int
  | WindowCursor int string string "(string \<times> string) list"

fun cursor_stage :: "backfill_cursor \<Rightarrow> string" where
  "cursor_stage (StageCursor stage page) = stage"
| "cursor_stage (WindowCursor page a b pending) = WORKFLOW_RUN_STAGE"

fun cursor_page :: "backfill_cursor \<Rightarrow> int" where
  "cursor_page (StageCursor stage page) = page"
| "cursor_page (WindowCursor page a b pending) = page"

definition window_json :: "string \<times> string \<Rightarrow> json" where
  "window_json w = JObj [(''start'', JStr (fst w)), (''end'', JStr (snd w))]"

fun cursor_json :: "backfill_cursor \<Rightarrow> json" where
  "cursor_json (StageCursor stage page) = JObj [(''stage'', JStr stage), (''page'', JInt page)]"
| "cursor_json (WindowCursor page a b pending) =
     JObj [(''stage'', JStr WORKFLOW_RUN_STAGE), (''page'', JInt page), (''windowStart'', JStr a), (''windowEnd'', JStr b),
       (''pendingWindows'', JList (map window_json pending))]"

definition backfill_stages :: "string set" where
  "backfill_stages = {OPEN_PULL_REQUEST_STAGE, PULL_REQUEST_STAGE, WORKFLOW_RUN_STAGE, DEPLOYMENT_STAGE, ISSUE_STAGE, REVIEW_STAGE}"

definition initial_stage :: "bool \<Rightarrow> bool \<Rightarrow> string" where
  "initial_stage issues_only reviews_only =
     (if issues_only then ISSUE_STAGE else if reviews_only then REVIEW_STAGE else OPEN_PULL_REQUEST_STAGE)"

definition invalid_window :: "'a result" where
  "invalid_window = Inl (PermanentJobError ''Invalid workflow-run backfill window'')"

text \<open>A pending window, read and written again.\<close>

definition read_window :: "py_lib \<Rightarrow> json \<Rightarrow> (string \<times> string) result" where
  "read_window lib w =
     (case w of
        JObj d \<Rightarrow>
          (case (aware_timestamp lib (dict_get d ''start''), aware_timestamp lib (dict_get d ''end'')) of
             (Some a, Some b) \<Rightarrow> if b \<le> a then invalid_window else Inr (isoformat lib a, isoformat lib b)
           | _ \<Rightarrow> invalid_window)
      | _ \<Rightarrow> invalid_window)"

text \<open>\<^verbatim>\<open>stage not in {...}\<close> hashes the value: a list or an object is a \<^verbatim>\<open>TypeError\<close>.\<close>

definition cursor_of :: "py_lib \<Rightarrow> json \<Rightarrow> time \<Rightarrow> time \<Rightarrow> string \<Rightarrow> backfill_cursor result" where
  "cursor_of lib value cutoff started first_stage =
     (case value of
        JNull \<Rightarrow> Inr (StageCursor first_stage 1)
      | JObj d \<Rightarrow>
          bindr (case dict_get d ''stage'' of
                   JStr s \<Rightarrow> if s \<in> backfill_stages then Inr s else Inl (PermanentJobError ''Invalid backfill cursor stage'')
                 | JList _ \<Rightarrow> Inl (OtherError ''unhashable type'')
                 | JObj _ \<Rightarrow> Inl (OtherError ''unhashable type'')
                 | _ \<Rightarrow> Inl (PermanentJobError ''Invalid backfill cursor stage'')) (\<lambda>stage.
          case strict_int (dict_get d ''page'') of
            None \<Rightarrow> Inl (PermanentJobError ''Invalid backfill cursor page'')
          | Some page \<Rightarrow>
              if page < 1 then Inl (PermanentJobError ''Invalid backfill cursor page'')
              else if stage \<noteq> WORKFLOW_RUN_STAGE then Inr (StageCursor stage page)
              else (let a = (case aware_timestamp lib (dict_get d ''windowStart'') of None \<Rightarrow> cutoff | Some t \<Rightarrow> t);
                        b = (case aware_timestamp lib (dict_get d ''windowEnd'') of None \<Rightarrow> started | Some t \<Rightarrow> t)
                    in case dict_get_or d ''pendingWindows'' (JList []) of
                         JList raw \<Rightarrow>
                           if 64 < length raw then Inl (PermanentJobError ''Invalid workflow-run backfill windows'')
                           else bindr (map_result (read_window lib) raw) (\<lambda>pending.
                             if b \<le> a then invalid_window
                             else Inr (WindowCursor page (isoformat lib a) (isoformat lib b) pending))
                       | _ \<Rightarrow> Inl (PermanentJobError ''Invalid workflow-run backfill windows'')))
      | _ \<Rightarrow> Inl (PermanentJobError ''Invalid backfill cursor''))"

definition workflow_cursor :: "py_lib \<Rightarrow> time \<Rightarrow> time \<Rightarrow> backfill_cursor" where
  "workflow_cursor lib cutoff started = WindowCursor 1 (isoformat lib cutoff) (isoformat lib started) []"

definition bounded_days :: "json \<Rightarrow> int result" where
  "bounded_days value =
     (case int_of_str_of value of
        None \<Rightarrow> Inl (PermanentJobError ''Invalid backfillDays'')
      | Some days \<Rightarrow>
          if days < 1 \<or> 365 < days then Inl (PermanentJobError ''backfillDays must be between 1 and 365'') else Inr days)"

definition backfill_started_at :: "py_lib \<Rightarrow> time \<Rightarrow> json \<Rightarrow> time result" where
  "backfill_started_at lib utcnow value =
     (if value = JNull then Inr utcnow
      else case aware_timestamp lib value of
             None \<Rightarrow> Inl (PermanentJobError ''Invalid backfillStartedAt'')
           | Some t \<Rightarrow> Inr t)"

section \<open>Loops over a page\<close>

text \<open>One item after the other; each returns how many rows it normalized, an error ends the loop.\<close>

fun each_item :: "('i \<Rightarrow> 's \<Rightarrow> (nat, 's) outcome) \<Rightarrow> 'i list \<Rightarrow> 's \<Rightarrow> (nat, 's) outcome" where
  "each_item f [] s = Some (Inr 0, s)"
| "each_item f (x # xs) s =
     Option.bind (f x s) (\<lambda>(r, s1).
       (case r of
          Inl e \<Rightarrow> Some (Inl e, s1)
        | Inr n \<Rightarrow> map_option (\<lambda>(r2, s2). (map_sum id ((+) n) r2, s2)) (each_item f xs s1)))"

text \<open>A finished loop and the cursor that follows.\<close>

definition followed :: "'c option result \<Rightarrow> (nat, 's) outcome \<Rightarrow> ('c option \<times> nat, 's) outcome" where
  "followed next r = map_option (\<lambda>(res, s). (bindr res (\<lambda>n. bindr next (\<lambda>c. Inr (c, n))), s)) r"

definition counted :: "'a option result \<times> 's \<Rightarrow> (nat, 's) outcome" where
  "counted r = Some (map_sum id (\<lambda>v. if v = None then 0 else 1) (fst r), snd r)"

type_synonym 's page_outcome = "(backfill_cursor option \<times> nat, 's) outcome"

text \<open>The provider's state of one pull request.\<close>

definition fetch_pull_request ::
  "providers \<Rightarrow> repository_context \<Rightarrow> string \<Rightarrow> (dict \<times> dict list \<times> dict list) result option" where
  "fetch_pull_request pv r number =
     (case get_pull_request pv (rc_installation_id r) (rc_owner_login r) (rc_name r) number of
        Inl e \<Rightarrow> Some (Inl e)
      | Inr pr \<Rightarrow>
          Option.bind (list_pull_request_commits pv (rc_installation_id r) (rc_owner_login r) (rc_name r) number) (\<lambda>cr.
          (case cr of
             Inl e \<Rightarrow> Some (Inl e)
           | Inr commits \<Rightarrow>
               map_option (\<lambda>rr. bindr rr (\<lambda>reviews. Inr (pr, commits, reviews)))
                 (list_pull_request_reviews pv (rc_installation_id r) (rc_owner_login r) (rc_name r) number))))"

definition without_number :: "'a result" where
  "without_number = Inl (PermanentJobError ''GitHub returned a pull request without a number'')"

section \<open>The stages\<close>

text \<open>The score, unless the pull request is beyond GitHub's file cap.\<close>

definition score_listed_pull_request ::
  "event_env \<Rightarrow> repository_context \<Rightarrow> string \<Rightarrow> dict \<Rightarrow> dict list \<Rightarrow> uuid \<Rightarrow> ('d) events_db_scheme \<Rightarrow>
     ('d) events_db_scheme result" where
  "score_listed_pull_request env r number pr commits i db =
     bindr (non_negative_changed_files pr) (\<lambda>changed.
       if 3000 < changed then Inr db
       else bindr (list_pull_request_files (ee_providers env) (rc_installation_id r) (rc_owner_login r) (rc_name r) number)
              (\<lambda>files. calculate_and_persist_pull_request_risk (ee_job env) (ee_artifact env) (rc_workspace_id r) (rc_id r) i pr
                 files commits db))"

definition store_open_pull_request ::
  "event_env \<Rightarrow> repository_context \<Rightarrow> dict \<Rightarrow> ('d) events_db_scheme \<Rightarrow> (nat, ('d) events_db_scheme) outcome" where
  "store_open_pull_request env r summary db =
     (case number_text (dict_get summary ''number'') of
        None \<Rightarrow> Some (without_number, db)
      | Some number \<Rightarrow>
          map_option (\<lambda>fetched.
            (case fetched of
               Inl e \<Rightarrow> (Inl e, db)
             | Inr (pr, commits, reviews) \<Rightarrow>
                 (case upsert_pull_request (ee_lib env) (ee_now env) (rc_workspace_id r) (rc_id r) pr (Some ''synchronize'')
                         (Some commits) (Some reviews) None db of
                    (Inl e, db1) \<Rightarrow> (Inl e, db1)
                  | (Inr i, db1) \<Rightarrow>
                      (case score_listed_pull_request env r number pr commits i db1 of
                         Inl e \<Rightarrow> (Inl e, db1)
                       | Inr db2 \<Rightarrow> (Inr 1, db2)))))
            (fetch_pull_request (ee_providers env) r number))"

definition process_open_pull_request_page ::
  "event_env \<Rightarrow> repository_context \<Rightarrow> int \<Rightarrow> bool \<Rightarrow> ('d) events_db_scheme \<Rightarrow> ('d) events_db_scheme page_outcome" where
  "process_open_pull_request_page env r page risk_only db =
     (case list_open_pull_requests (ee_providers env) (rc_installation_id r) (rc_owner_login r) (rc_name r) page of
        Inl e \<Rightarrow> Some (Inl e, db)
      | Inr (items, next) \<Rightarrow>
          followed (Inr (case next of
                           Some p \<Rightarrow> Some (StageCursor OPEN_PULL_REQUEST_STAGE p)
                         | None \<Rightarrow> if risk_only then None else Some (StageCursor PULL_REQUEST_STAGE 1)))
            (each_item (store_open_pull_request env r) items db))"

text \<open>\<^verbatim>\<open>ORDER BY merged_at, id LIMIT ... OFFSET ...\<close>; an offset is never negative here.\<close>

definition merged_since :: "uuid \<Rightarrow> time \<Rightarrow> ('d) metrics_db_scheme \<Rightarrow> pull_request list" where
  "merged_since repo cutoff db =
     sort_key (\<lambda>p. (case pr_merged_at p of None \<Rightarrow> 0 | Some t \<Rightarrow> t, pr_id p))
       (filter (\<lambda>p. pr_repository_id p = repo \<and> pr_state p = ''MERGED'' \<and>
          (case pr_merged_at p of None \<Rightarrow> False | Some t \<Rightarrow> cutoff \<le> t)) (md_pull_requests db))"

definition refresh_reviews ::
  "event_env \<Rightarrow> repository_context \<Rightarrow> pull_request \<Rightarrow> ('d) events_db_scheme \<Rightarrow> (nat, ('d) events_db_scheme) outcome" where
  "refresh_reviews env r p db =
     map_option (\<lambda>rr.
       (case bindr rr (\<lambda>reviews. replace_pull_request_reviews (ee_lib env) (pr_id p) reviews db) of
          Inl e \<Rightarrow> (Inl e, db)
        | Inr db1 \<Rightarrow> (Inr 1, db1)))
       (list_pull_request_reviews (ee_providers env) (rc_installation_id r) (rc_owner_login r) (rc_name r) (str_int (pr_number p)))"

definition process_review_page ::
  "event_env \<Rightarrow> repository_context \<Rightarrow> int \<Rightarrow> time \<Rightarrow> ('d) events_db_scheme \<Rightarrow> ('d) events_db_scheme page_outcome" where
  "process_review_page env r page cutoff db =
     (let rows = take REVIEW_PAGE_SIZE (drop (nat (page - 1) * REVIEW_PAGE_SIZE) (merged_since (rc_id r) cutoff db)) in
      followed (Inr (if length rows = REVIEW_PAGE_SIZE then Some (StageCursor REVIEW_STAGE (page + 1)) else None))
        (each_item (refresh_reviews env r) rows db))"

definition store_merged_pull_request ::
  "event_env \<Rightarrow> repository_context \<Rightarrow> time \<Rightarrow> dict \<Rightarrow> ('d) events_db_scheme \<Rightarrow> (nat, ('d) events_db_scheme) outcome" where
  "store_merged_pull_request env r cutoff summary db =
     (case aware_timestamp (ee_lib env) (dict_get summary ''merged_at'') of
        None \<Rightarrow> Some (Inr 0, db)
      | Some merged \<Rightarrow>
          if merged < cutoff then Some (Inr 0, db)
          else (case number_text (dict_get summary ''number'') of
                  None \<Rightarrow> Some (without_number, db)
                | Some number \<Rightarrow>
                    map_option (\<lambda>fetched.
                      (case fetched of
                         Inl e \<Rightarrow> (Inl e, db)
                       | Inr (pr, commits, reviews) \<Rightarrow>
                           (case upsert_pull_request (ee_lib env) (ee_now env) (rc_workspace_id r) (rc_id r) pr (Some ''closed'')
                                   (Some commits) (Some reviews) None db of
                              (res, db1) \<Rightarrow> (map_sum id (\<lambda>_. 1) res, db1))))
                      (fetch_pull_request (ee_providers env) r number)))"

definition after_pull_requests ::
  "py_lib \<Rightarrow> repository_context \<Rightarrow> dict list \<Rightarrow> int option \<Rightarrow> time \<Rightarrow> time \<Rightarrow> backfill_cursor option result" where
  "after_pull_requests lib r items next cutoff started =
     (let oldest = list_min (List.map_filter (\<lambda>d. aware_timestamp lib (dict_get d ''updated_at'')) items);
          signal = py_upper (py_text lib (dict_get_or (rc_settings r) ''deploymentSignal'' (JStr ''WORKFLOW_RUN'')))
      in if next \<noteq> None \<and> (oldest = None \<or> cutoff \<le> the oldest)
         then Inr (Some (StageCursor PULL_REQUEST_STAGE (the next)))
         else if signal = ''WORKFLOW_RUN'' then Inr (Some (workflow_cursor lib cutoff started))
         else if signal = ''DEPLOYMENT'' then Inr (Some (StageCursor DEPLOYMENT_STAGE 1))
         else if signal = ''PUSH'' then Inr None
         else Inl (PermanentJobError ''Repository has an invalid deploymentSignal setting''))"

definition process_pull_request_page ::
  "event_env \<Rightarrow> repository_context \<Rightarrow> int \<Rightarrow> time \<Rightarrow> time \<Rightarrow> ('d) events_db_scheme \<Rightarrow> ('d) events_db_scheme page_outcome" where
  "process_pull_request_page env r page cutoff started db =
     (case list_closed_pull_requests (ee_providers env) (rc_installation_id r) (rc_owner_login r) (rc_name r) page of
        Inl e \<Rightarrow> Some (Inl e, db)
      | Inr (items, next) \<Rightarrow>
          followed (after_pull_requests (ee_lib env) r items next cutoff started)
            (each_item (store_merged_pull_request env r cutoff) items db))"

text \<open>\<^verbatim>\<open>timedelta / 2\<close> rounds a half microsecond to even.\<close>

definition half_even :: "int \<Rightarrow> int" where
  "half_even n = (if even n \<or> even (n div 2) then n div 2 else n div 2 + 1)"

definition store_workflow_run ::
  "event_env \<Rightarrow> repository_context \<Rightarrow> dict \<Rightarrow> ('d) events_db_scheme \<Rightarrow> (nat, ('d) events_db_scheme) outcome" where
  "store_workflow_run env r workflow_run db =
     counted (upsert_deployment_from_workflow_run (ee_service env) (rc_workspace_id r) (rc_id r)
       [(''action'', JStr ''completed''), (''workflow_run'', JObj workflow_run),
        (''repository'', JObj [(''default_branch'', JStr (rc_default_branch r))])] db)"

definition next_window :: "backfill_cursor \<Rightarrow> int option \<Rightarrow> backfill_cursor option" where
  "next_window c next =
     (case c of
        WindowCursor page a b pending \<Rightarrow>
          (case next of
             Some p \<Rightarrow> Some (WindowCursor p a b pending)
           | None \<Rightarrow> (case pending of [] \<Rightarrow> None | w # remaining \<Rightarrow> Some (WindowCursor 1 (fst w) (snd w) remaining)))
      | StageCursor _ _ \<Rightarrow> None)"

definition process_workflow_run_page ::
  "event_env \<Rightarrow> repository_context \<Rightarrow> int \<Rightarrow> string \<Rightarrow> string \<Rightarrow> (string \<times> string) list \<Rightarrow> ('d) events_db_scheme \<Rightarrow>
     ('d) events_db_scheme page_outcome" where
  "process_workflow_run_page env r page window_start window_end pending db =
     (let lib = ee_lib env in
      case (aware_timestamp lib (JStr window_start), aware_timestamp lib (JStr window_end)) of
        (Some a, Some b) \<Rightarrow>
          if b \<le> a then Some (Inl (PermanentJobError ''Invalid workflow-run backfill window''), db)
          else (case list_workflow_runs (ee_providers env) (rc_installation_id r) (rc_owner_login r) (rc_name r) page None
                       (isoformat lib a) (isoformat lib b) of
                  Inl e \<Rightarrow> Some (Inl e, db)
                | Inr ((items, next), total_count) \<Rightarrow>
                    if page = 1 \<and> 1000 \<le> total_count
                    then (if b - a \<le> second
                          then Some (Inl (PermanentJobError ''GitHub returned at least 1,000 workflow runs in one second; narrower lossless backfill is impossible''), db)
                          else let midpoint = a + half_even (b - a) in
                               Some (Inr (Some (WindowCursor 1 (isoformat lib midpoint) (isoformat lib b)
                                 ((isoformat lib a, isoformat lib midpoint) # pending)), 0), db))
                    else followed (Inr (next_window (WindowCursor page window_start window_end pending) next))
                           (each_item (store_workflow_run env r) items db))
      | _ \<Rightarrow> Some (Inl (PermanentJobError ''Invalid workflow-run backfill window''), db))"

definition store_recent_deployment ::
  "event_env \<Rightarrow> repository_context \<Rightarrow> dict \<Rightarrow> ('d) events_db_scheme \<Rightarrow> (nat, ('d) events_db_scheme) outcome" where
  "store_recent_deployment env r d db =
     (case number_text (dict_get d ''id'') of
        None \<Rightarrow> Some (Inl (PermanentJobError ''GitHub returned a deployment without an id''), db)
      | Some i \<Rightarrow>
          Option.bind (terminal_deployment_status (ee_lib env) (ee_providers env) (rc_installation_id r) (rc_owner_login r)
                         (rc_name r) i) (\<lambda>found.
          (case found of
             Inl e \<Rightarrow> Some (Inl e, db)
           | Inr None \<Rightarrow> Some (Inr 0, db)
           | Inr (Some status) \<Rightarrow>
               counted (upsert_deployment_from_deployment_status (ee_service env) (rc_workspace_id r) (rc_id r)
                 [(''deployment'', JObj d), (''deployment_status'', JObj status)] db))))"

definition before_cutoff :: "py_lib \<Rightarrow> time \<Rightarrow> dict \<Rightarrow> bool" where
  "before_cutoff lib cutoff d \<longleftrightarrow>
     (case aware_timestamp lib (dict_get d ''created_at'') of None \<Rightarrow> False | Some t \<Rightarrow> t < cutoff)"

definition process_deployment_page ::
  "event_env \<Rightarrow> repository_context \<Rightarrow> int \<Rightarrow> time \<Rightarrow> ('d) events_db_scheme \<Rightarrow> ('d) events_db_scheme page_outcome" where
  "process_deployment_page env r page cutoff db =
     (case list_deployments (ee_providers env) (rc_installation_id r) (rc_owner_login r) (rc_name r) page of
        Inl e \<Rightarrow> Some (Inl e, db)
      | Inr (items, next) \<Rightarrow>
          (let reached_cutoff = (\<exists>d \<in> set items. before_cutoff (ee_lib env) cutoff d) in
           followed (Inr (if next \<noteq> None \<and> \<not> reached_cutoff then Some (StageCursor DEPLOYMENT_STAGE (the next)) else None))
             (each_item (\<lambda>d db. if before_cutoff (ee_lib env) cutoff d then Some (Inr 0, db) else store_recent_deployment env r d db)
                items db)))"

definition store_issue ::
  "event_env \<Rightarrow> repository_context \<Rightarrow> time \<Rightarrow> dict \<Rightarrow> ('d) events_db_scheme \<Rightarrow> (nat, ('d) events_db_scheme) outcome" where
  "store_issue env r started issue db =
     (case upsert_github_issue (ee_lib env) (je_utcnow (ee_job env)) (ee_now env) (rc_workspace_id r) (rc_id r) issue (Some started) db of
        Inl e \<Rightarrow> Some (Inl e, db)
      | Inr (found, db1) \<Rightarrow> Some (Inr (if found = None then 0 else 1), db1))"

text \<open>An issue that the complete list of open issues does not name is open no longer.\<close>

definition unseen_open :: "repository_context \<Rightarrow> time \<Rightarrow> github_issue \<Rightarrow> bool" where
  "unseen_open r started s \<longleftrightarrow> gs_repository_id s = rc_id r \<and> gs_workspace_id s = rc_workspace_id r \<and>
     gs_state s = ''OPEN'' \<and> gs_last_synced_at s < started"

definition close_issue :: "time \<Rightarrow> time \<Rightarrow> github_issue \<Rightarrow> github_issue" where
  "close_issue now started s =
     s\<lparr>gs_state := ''CLOSED'', gs_closed_at := coalesce (gs_closed_at s) (Some started), gs_updated_at := now,
       gs_version := gs_version s + 1\<rparr>"

definition close_unseen_issues ::
  "event_env \<Rightarrow> repository_context \<Rightarrow> time \<Rightarrow> ('d) events_db_scheme \<Rightarrow> ('d) events_db_scheme" where
  "close_unseen_issues env r started db =
     db\<lparr>ev_github_issues := sql_update (unseen_open r started) (close_issue (ee_now env) started) (ev_github_issues db)\<rparr>"

definition process_issue_page ::
  "event_env \<Rightarrow> repository_context \<Rightarrow> int \<Rightarrow> time \<Rightarrow> ('d) events_db_scheme \<Rightarrow> ('d) events_db_scheme page_outcome" where
  "process_issue_page env r page started db =
     (case list_open_issues (ee_providers env) (rc_installation_id r) (rc_owner_login r) (rc_name r) page of
        Inl e \<Rightarrow> Some (Inl e, db)
      | Inr (items, next) \<Rightarrow>
          map_option (\<lambda>(res, db1).
            (case res of
               Inl e \<Rightarrow> (Inl e, db1)
             | Inr n \<Rightarrow>
                 (case next of
                    Some p \<Rightarrow> (Inr (Some (StageCursor ISSUE_STAGE p), n), db1)
                  | None \<Rightarrow> (Inr (None, n), close_unseen_issues env r started db1))))
            (each_item (store_issue env r started) items db))"

section \<open>The handler\<close>

record backfill_args =
  ba_repository :: uuid
  ba_risk_only :: bool
  ba_issues_only :: bool
  ba_reviews_only :: bool
  ba_started :: time
  ba_cutoff :: time
  ba_cursor :: backfill_cursor

definition backfill_arguments :: "py_lib \<Rightarrow> time \<Rightarrow> dict \<Rightarrow> backfill_args result" where
  "backfill_arguments lib utcnow payload =
     bindr (parse_uuid (dict_get payload ''repositoryId'') ''repositoryId'') (\<lambda>repo.
     bindr (bounded_days (dict_get_or payload ''backfillDays'' (JInt 90))) (\<lambda>days.
     (let only = (\<lambda>k. dict_get payload k = JBool True);
          risk = only ''riskOnly''; issues = only ''issuesOnly''; reviews = only ''reviewsOnly''
      in if risk \<and> issues \<or> risk \<and> reviews \<or> issues \<and> reviews
         then Inl (PermanentJobError ''backfill risk, issue and review modes are exclusive'')
         else bindr (backfill_started_at lib utcnow (dict_get payload ''backfillStartedAt'')) (\<lambda>started.
              bindr (cursor_of lib (dict_get payload ''cursor'') (started - days * day) started (initial_stage issues reviews)) (\<lambda>c.
              Inr \<lparr>ba_repository = repo, ba_risk_only = risk, ba_issues_only = issues, ba_reviews_only = reviews,
                   ba_started = started, ba_cutoff = started - days * day, ba_cursor = c\<rparr>)))))"

text \<open>A cursor of the workflow-run stage always carries its window, so the last case is out of reach there.\<close>

definition process_page ::
  "event_env \<Rightarrow> repository_context \<Rightarrow> backfill_args \<Rightarrow> ('d) events_db_scheme \<Rightarrow> ('d) events_db_scheme page_outcome" where
  "process_page env r a db =
     (let stage = cursor_stage (ba_cursor a); page = cursor_page (ba_cursor a);
          refuse = (\<lambda>m. Some (Inl (PermanentJobError m), db))
      in if ba_reviews_only a
         then (if stage \<noteq> REVIEW_STAGE then refuse ''reviews-only backfill cannot process non-review stages''
               else process_review_page env r page (ba_cutoff a) db)
         else if stage = REVIEW_STAGE then refuse ''review stage requires a reviews-only backfill''
         else if ba_issues_only a
         then (if stage \<noteq> ISSUE_STAGE then refuse ''issues-only backfill cannot process non-issue stages''
               else process_issue_page env r page (ba_started a) db)
         else if stage = OPEN_PULL_REQUEST_STAGE then process_open_pull_request_page env r page (ba_risk_only a) db
         else if ba_risk_only a then refuse ''risk-only backfill cannot process non-risk stages''
         else if stage = PULL_REQUEST_STAGE then process_pull_request_page env r page (ba_cutoff a) (ba_started a) db
         else case ba_cursor a of
                WindowCursor p x y pending \<Rightarrow> process_workflow_run_page env r p x y pending db
              | StageCursor _ _ \<Rightarrow>
                  if stage = DEPLOYMENT_STAGE then process_deployment_page env r page (ba_cutoff a) db
                  else refuse ''Invalid backfill cursor stage'')"

text \<open>After the last page.\<close>

definition backfill_finished ::
  "event_env \<Rightarrow> repository_context \<Rightarrow> backfill_args \<Rightarrow> ('d) events_db_scheme \<Rightarrow> (exn option \<times> ('d) events_db_scheme) option" where
  "backfill_finished env r a db =
     (let recalculate = (\<lambda>db. map_option (\<lambda>(res, db'). (case res of Inl e \<Rightarrow> Some e | Inr _ \<Rightarrow> None, db'))
            (recalculate_repository_metrics (ee_service env) (rc_workspace_id r) (rc_id r)
              (recalc_range_of (ee_service env) (Some (ba_cutoff a)) (Some (ba_started a + day)) None None) db))
      in if ba_reviews_only a then recalculate db
         else if ba_risk_only a \<or> ba_issues_only a then Some (None, db)
         else (case reclassify_repository_deployments (ee_lib env) (ee_now env) (rc_id r) db of
                 Inl e \<Rightarrow> Some (Some e, db)
               | Inr (_, db1) \<Rightarrow> recalculate db1))"

definition backfill_continuation :: "py_lib \<Rightarrow> dict \<Rightarrow> backfill_cursor \<Rightarrow> time \<Rightarrow> dict" where
  "backfill_continuation lib payload c started =
     dict_put (dict_put payload ''cursor'' (cursor_json c)) ''backfillStartedAt'' (JStr (isoformat lib started))"

definition backfill_ended ::
  "event_env \<Rightarrow> claimed_job \<Rightarrow> string \<Rightarrow> repository_context \<Rightarrow> backfill_args \<Rightarrow>
     (backfill_cursor option \<times> nat) result \<times> ('d) events_db_scheme \<Rightarrow> (exn option \<times> ('d) events_db_scheme) option" where
  "backfill_ended env job w r a res =
     (case fst res of
        Inl e \<Rightarrow> Some (Some (provider_exception_as_job_error e), snd res)
      | Inr (Some c, _) \<Rightarrow>
          (case requeue_with_payload (ee_now env) (ed_jobs (snd res)) (cj_id job) w
                  (backfill_continuation (ee_lib env) (cj_payload job) c (ba_started a)) 0 False of
             (e, t) \<Rightarrow> Some (Some e, (snd res)\<lparr>ed_jobs := t\<rparr>))
      | Inr (None, _) \<Rightarrow> backfill_finished env r a (snd res))"

definition handle_backfill_repository ::
  "event_env \<Rightarrow> ('d) events_db_scheme \<Rightarrow> claimed_job \<Rightarrow> string \<Rightarrow> (exn option \<times> ('d) events_db_scheme) option" where
  "handle_backfill_repository env db job w =
     (case backfill_arguments (ee_lib env) (je_utcnow (ee_job env)) (cj_payload job) of
        Inl e \<Rightarrow> Some (Some e, db)
      | Inr a \<Rightarrow>
          (case load_github_repository (ba_repository a) db of
             Inl e \<Rightarrow> Some (Some e, db)
           | Inr r \<Rightarrow>
               if rc_integration_status r \<noteq> ''ACTIVE''
               then Some (Some (PermanentJobError (''GitHub integration is '' @ rc_integration_status r)), db)
               else if rc_archived r \<or> \<not> rc_tracking_enabled r then Some (None, db)
               else Option.bind (process_page env r a db) (backfill_ended env job w r a)))"

end
