(* ===== verification/Backfill_Windows.thy ===== *)
theory Backfill_Windows
  imports Backfill
begin

text \<open>
  The windows of the workflow-run stage leave no gap and stay few, and the next run reads each cursor
  back as it was written.
\<close>

section \<open>Windows\<close>

definition printed :: "py_lib \<Rightarrow> time \<times> time \<Rightarrow> string \<times> string" where
  "printed lib w = (isoformat lib (fst w), isoformat lib (snd w))"

fun window_cursor :: "py_lib \<Rightarrow> int \<Rightarrow> (time \<times> time) list \<Rightarrow> backfill_cursor option" where
  "window_cursor lib page [] = None"
| "window_cursor lib page (w # ws) = Some (WindowCursor page (fst (printed lib w)) (snd (printed lib w)) (map (printed lib) ws))"

lemma half_even_bounds: "2 \<le> n \<Longrightarrow> 0 < half_even n \<and> half_even n < n"
  unfolding half_even_def by (auto; presburger)

lemma half_even_close: "\<bar>n - 2 * half_even n\<bar> \<le> 1"
  unfolding half_even_def by (auto; presburger)

text \<open>What a page does to the windows: the first one is split, stays with the next page, or is done.\<close>

lemma workflow_page_cases:
  assumes "iso_round_trip (ee_lib env)"
    and "process_workflow_run_page env r page (fst (printed (ee_lib env) (x, y))) (snd (printed (ee_lib env) (x, y)))
      (map (printed (ee_lib env)) ws) db = Some (Inr (next, n), db')"
  obtains (split) m where "x < m" "m < y" "second < y - x" "m = x + half_even (y - x)"
      "next = window_cursor (ee_lib env) 1 ((m, y) # (x, m) # ws)"
    | (page) "x < y" "1 \<le> page \<longrightarrow> (\<exists>p \<ge> 1. next = window_cursor (ee_lib env) p ((x, y) # ws))" "next \<noteq> None"
    | (finished) "x < y" "next = window_cursor (ee_lib env) 1 ws"
proof -
  let ?lib = "ee_lib env"
  have t: "aware_timestamp ?lib (JStr (isoformat ?lib t)) = Some t" for t
    using aware_timestamp_again [OF assms(1)] .
  from assms(2) have xy: "x < y" by (auto simp: process_workflow_run_page_def printed_def t Let_def split: if_splits)
  then obtain items nxt total_count where l: "list_workflow_runs (ee_providers env) (rc_installation_id r) (rc_owner_login r) (rc_name r)
      page None (isoformat ?lib x) (isoformat ?lib y) = Inr ((items, nxt), total_count)"
    using assms(2) by (auto simp: process_workflow_run_page_def printed_def t Let_def split: sum.splits)
  show ?thesis
  proof (cases "page = 1 \<and> 1000 \<le> total_count")
    case True
    with assms(2) xy l have s: "second < y - x" "next = window_cursor ?lib 1 ((x + half_even (y - x), y) # (x, x + half_even (y - x)) # ws)"
      by (auto simp: process_workflow_run_page_def printed_def t Let_def split: if_splits)
    then have "2 \<le> y - x" by (simp add: second_def)
    from half_even_bounds [OF this] split [of "x + half_even (y - x)"] s show ?thesis by simp
  next
    case False
    with assms(2) xy l have n: "next = next_window (WindowCursor page (isoformat ?lib x) (isoformat ?lib y) (map (printed ?lib) ws)) nxt"
      by (auto simp: process_workflow_run_page_def printed_def t Let_def followed_def bindr_Inr split: if_splits)
    show ?thesis
    proof (cases nxt)
      case None
      with n xy finished show ?thesis by (cases ws) (simp_all add: next_window_def printed_def)
    next
      case (Some p)
      with l have "p = page + 1"
        by (auto simp: list_workflow_runs_def counted_page_def bindr_Inr split: if_splits)
      with n Some page xy show ?thesis by (auto simp: next_window_def printed_def)
    qed
  qed
qed

text \<open>
  A listing of the runs since \<open>cutoff\<close>: any number of pages, whatever the provider answers and the
  database holds at each; \<open>finished\<close> collects the windows whose last page was normalized.
\<close>

definition window_closed :: "(string \<times> string) list \<Rightarrow> backfill_cursor option \<Rightarrow> bool" where
  "window_closed pending next \<longleftrightarrow>
     (case next of Some (WindowCursor page a b ws) \<Rightarrow> length ws < length pending | _ \<Rightarrow> True)"

inductive workflow_listing :: "py_lib \<Rightarrow> time \<Rightarrow> time \<Rightarrow> (string \<times> string) list \<Rightarrow> backfill_cursor option \<Rightarrow> bool"
  for lib :: py_lib and cutoff started :: time where
  begun: "workflow_listing lib cutoff started [] (Some (workflow_cursor lib cutoff started))"
| page: "workflow_listing lib cutoff started finished (Some (WindowCursor page a b pending)) \<Longrightarrow>
    ee_lib env = lib \<Longrightarrow> process_workflow_run_page env r page a b pending (db :: events_db) = Some (Inr (next, n), db') \<Longrightarrow>
    workflow_listing lib cutoff started (if window_closed pending next then (a, b) # finished else finished) next"

inductive_cases workflow_listingE: "workflow_listing lib cutoff started finished c"

text \<open>The windows to list, from the first: each ends where the one before it begins.\<close>

fun tiles :: "time \<Rightarrow> (time \<times> time) list \<Rightarrow> time \<Rightarrow> bool" where
  "tiles lo [] hi \<longleftrightarrow> lo = hi"
| "tiles lo (w # ws) hi \<longleftrightarrow> snd w = hi \<and> fst w < snd w \<and> tiles lo ws (fst w)"

lemma tiles_le: "tiles lo ws hi \<Longrightarrow> lo \<le> hi"
  by (induction ws arbitrary: hi) force+

definition width :: "time \<times> time \<Rightarrow> int" where
  "width w = snd w - fst w"

fun doubling :: "int list \<Rightarrow> bool" where
  "doubling (p # q # ps) \<longleftrightarrow> 2 * p - 2 \<le> q \<and> doubling (q # ps)"
| "doubling _ \<longleftrightarrow> True"

lemma doubling_last: "doubling (p # ps) \<Longrightarrow> 2 ^ length ps * (p - 2) \<le> last (p # ps) - 2"
proof (induction ps arbitrary: p)
  case (Cons q qs)
  have "2 ^ length (q # qs) * (p - 2) = 2 ^ length qs * (2 * p - 4)" by simp
  also have "\<dots> \<le> 2 ^ length qs * (q - 2)" using Cons.prems by (intro mult_left_mono) auto
  also have "\<dots> \<le> last (q # qs) - 2" using Cons by simp
  finally show ?case by simp
qed simp

fun halved :: "int list \<Rightarrow> bool" where
  "halved (c # p # ps) \<longleftrightarrow> c \<le> p + 1 \<and> doubling (p # ps)"
| "halved _ \<longleftrightarrow> True"

lemma halved_split: "halved (c # ps) \<Longrightarrow> halved ((c - half_even c) # half_even c # ps)"
  using half_even_close [of c] by (cases ps) auto

lemma halved_next: "halved (c # p # ps) \<Longrightarrow> 1 \<le> p \<Longrightarrow> halved (p # ps)"
  by (cases ps) auto

text \<open>No window is narrower than half a second, none wider than the whole.\<close>

definition windows_ok :: "time \<Rightarrow> time \<Rightarrow> (time \<times> time) list \<Rightarrow> bool" where
  "windows_ok cutoff started ws \<longleftrightarrow> halved (map width ws) \<and>
     (\<forall>w \<in> set ws. 500000 \<le> width w \<and> width w \<le> started - cutoff)"

definition covers :: "(time \<times> time) list \<Rightarrow> time \<Rightarrow> time \<Rightarrow> bool" where
  "covers fs a b \<longleftrightarrow> (\<forall>t. a \<le> t \<longrightarrow> t \<le> b \<longrightarrow> (\<exists>w \<in> set fs. fst w \<le> t \<and> t \<le> snd w))"

definition listing_state :: "py_lib \<Rightarrow> time \<Rightarrow> time \<Rightarrow> (string \<times> string) list \<Rightarrow> backfill_cursor option \<Rightarrow> bool" where
  "listing_state lib cutoff started finished c \<longleftrightarrow> (\<exists>page ws fs z. 1 \<le> page \<and> c = window_cursor lib page ws \<and>
     finished = map (printed lib) fs \<and> tiles cutoff ws z \<and> z \<le> started \<and> (z < started \<longrightarrow> covers fs z started) \<and>
     windows_ok cutoff started ws)"

lemma covers_extend: "x < y \<Longrightarrow> y \<le> b \<Longrightarrow> (y < b \<longrightarrow> covers fs y b) \<Longrightarrow> covers ((x, y) # fs) x b"
  unfolding covers_def by (metis (no_types, lifting) fst_conv snd_conv linorder_not_less list.set_intros(1,2) order_less_le order_trans)

lemma window_ok_tl: "windows_ok cutoff started (w # ws) \<Longrightarrow> windows_ok cutoff started ws"
  using halved_next by (cases ws) (auto simp: windows_ok_def)

lemma window_ok_split:
  assumes "windows_ok cutoff started ((x, y) # ws)" and "second < y - x" and "m = x + half_even (y - x)"
  shows "windows_ok cutoff started ((m, y) # (x, m) # ws)"
proof -
  have "halved (map width ((m, y) # (x, m) # ws))"
    using assms(1) halved_split [of "y - x" "map width ws"] by (simp add: windows_ok_def width_def assms(3))
  moreover have "500000 \<le> y - m" "500000 \<le> m - x" "y - m \<le> started - cutoff" "m - x \<le> started - cutoff"
    using assms half_even_close [of "y - x"] by (auto simp: windows_ok_def width_def second_def)
  ultimately show ?thesis using assms(1) by (simp add: windows_ok_def width_def)
qed

lemma listing_invariant:
  assumes "iso_round_trip lib" and "workflow_listing lib cutoff started finished c" and "500000 \<le> started - cutoff"
  shows "listing_state lib cutoff started finished c"
  using assms(2)
proof induction
  case begun
  have "workflow_cursor lib cutoff started = the (window_cursor lib 1 [(cutoff, started)])"
    by (simp add: workflow_cursor_def printed_def)
  then show ?case using assms(3)
    unfolding listing_state_def
    by (intro exI [of _ 1] exI [of _ "[(cutoff, started)]"] exI [of _ "[]"] exI [of _ started])
      (auto simp: windows_ok_def width_def)
next
  case (page finished pg a b pending env r db "next" n db')
  then obtain q ws fs z where st: "1 \<le> q" "Some (WindowCursor pg a b pending) = window_cursor lib q ws" "finished = map (printed lib) fs"
    "tiles cutoff ws z" "z \<le> started" "z < started \<longrightarrow> covers fs z started" "windows_ok cutoff started ws"
    unfolding listing_state_def by blast
  then obtain x y rest where ws: "ws = (x, y) # rest" by (cases ws) auto
  with st have eqs: "pg = q" "a = fst (printed lib (x, y))" "b = snd (printed lib (x, y))" "pending = map (printed lib) rest" "z = y" "x < y"
    "tiles cutoff rest x" by auto
  from page.hyps(3) have run: "process_workflow_run_page env r q (fst (printed lib (x, y))) (snd (printed lib (x, y))) (map (printed lib) rest) db
      = Some (Inr (next, n), db')" unfolding eqs .
  show ?case
  proof (cases rule: workflow_page_cases [OF assms(1) [folded page.hyps(2)] run [folded page.hyps(2)], unfolded page.hyps(2), case_names split page finished])
    case (split m)
    then have "\<not> window_closed pending next" by (simp add: window_closed_def eqs)
    with split st ws eqs window_ok_split [of cutoff started x y rest m] show ?thesis
      unfolding listing_state_def
      by (intro exI [of _ 1] exI [of _ "(m, y) # (x, m) # rest"] exI [of _ fs] exI [of _ y]) auto
  next
    case page
    then obtain p where "1 \<le> p" "next = window_cursor lib p ((x, y) # rest)" using st(1) by blast
    moreover from this have "\<not> window_closed pending next" by (simp add: window_closed_def eqs)
    ultimately show ?thesis using st ws eqs unfolding listing_state_def
      by (intro exI [of _ p] exI [of _ ws] exI [of _ fs] exI [of _ y]) auto
  next
    case finished
    then have "window_closed pending next" by (cases rest) (simp_all add: window_closed_def eqs)
    moreover have "covers ((x, y) # fs) x started" using covers_extend [of x y started fs] st eqs by simp
    ultimately show ?thesis using finished st ws eqs window_ok_tl [of cutoff started "(x, y)" rest]
      unfolding listing_state_def
      by (intro exI [of _ 1] exI [of _ rest] exI [of _ "(x, y) # fs"] exI [of _ x]) (auto simp: printed_def)
  qed
qed


section \<open>The cursor in the payload\<close>

lemma read_window_again: "iso_round_trip lib \<Longrightarrow> fst w < snd w \<Longrightarrow> read_window lib (window_json (printed lib w)) = Inr (printed lib w)"
  by (simp add: read_window_def window_json_def printed_def aware_timestamp_again dict_get_def)

lemma read_windows_again:
  assumes "iso_round_trip lib" and "\<forall>w \<in> set ws. fst w < snd w"
  shows "map_result (read_window lib) (map window_json (map (printed lib) ws)) = Inr (map (printed lib) ws)"
  using assms(2) by (induction ws) (simp_all add: read_window_again [OF assms(1)])

text \<open>Cursors the engine may write: a known stage and page, or windows in order, at most 64 of them waiting.\<close>

definition cursor_ok :: "py_lib \<Rightarrow> backfill_cursor \<Rightarrow> bool" where
  "cursor_ok lib c \<longleftrightarrow> 1 \<le> cursor_page c \<and> (case c of
     StageCursor s p \<Rightarrow> s \<in> backfill_stages \<and> s \<noteq> WORKFLOW_RUN_STAGE
   | WindowCursor p a b pending \<Rightarrow> length pending \<le> 64 \<and>
       (\<exists>w ws. (a, b) = printed lib w \<and> pending = map (printed lib) ws \<and> (\<forall>v \<in> set (w # ws). fst v < snd v)))"

lemma cursor_again:
  assumes "iso_round_trip lib" and "cursor_ok lib c"
  shows "cursor_of lib (cursor_json c) cutoff started s = Inr c"
proof (cases c)
  case (StageCursor st p)
  with assms(2) show ?thesis by (simp add: cursor_of_def cursor_ok_def dict_get_def)
next
  case (WindowCursor p a b pending)
  with assms(2) obtain w ws where w: "(a, b) = printed lib w" "pending = map (printed lib) ws" "fst w < snd w"
    "\<forall>v \<in> set ws. fst v < snd v" "length pending \<le> 64" "1 \<le> p"
    by (auto simp: cursor_ok_def)
  have "WORKFLOW_RUN_STAGE \<in> backfill_stages" by (simp add: backfill_stages_def)
  with WindowCursor w read_windows_again [OF assms(1) w(4)] show ?thesis
    by (simp add: cursor_of_def dict_get_def dict_get_or_def printed_def aware_timestamp_again [OF assms(1)] Let_def)
qed

text \<open>
  The windows stay few: a backfill of at most 365 days never holds more than 26 waiting windows,
  well below the 64 a cursor may carry, and the next run reads each cursor back as it was written.
\<close>

theorem window_cursor_readable:
  assumes "iso_round_trip lib" and "1 \<le> days" and "days \<le> 365"
    and "workflow_listing lib (started - days * day) started finished (Some c)"
  shows "\<exists>page a b pending. c = WindowCursor page a b pending \<and> length pending \<le> 26 \<and>
    cursor_of lib (cursor_json c) cutoff' started' stage = Inr c"
proof -
  let ?cut = "started - days * day"
  have "500000 \<le> started - ?cut"
    using mult_right_mono [OF assms(2), of day] by (simp add: day_def hour_def minute_def second_def)
  from listing_invariant [OF assms(1,4) this]
  obtain page ws z where st: "1 \<le> page" "Some c = window_cursor lib page ws" "tiles ?cut ws z" "windows_ok ?cut started ws"
    unfolding listing_state_def by blast
  then obtain w rest where ws: "ws = w # rest" by (cases ws) auto
  have small: "length rest \<le> 26"
  proof (cases rest)
    case (Cons v vs)
    have d: "doubling (width v # map width vs)" "500000 \<le> width v" using st(4) by (simp_all add: ws Cons windows_ok_def)
    have "last (width v # map width vs) \<in> width ` set rest" unfolding Cons using last_in_set [of "width v # map width vs"] by simp
    then have l: "last (width v # map width vs) \<le> 365 * day"
      using st(4) assms(3) by (auto simp: ws windows_ok_def day_def hour_def minute_def second_def)
    have "(2 :: int) ^ length vs * 499998 \<le> 2 ^ length vs * (width v - 2)" using d(2) by (intro mult_left_mono) auto
    also have "\<dots> \<le> 365 * day" using doubling_last [OF d(1)] l by simp
    finally have "(2 :: int) ^ length vs < 2 ^ 26" by (simp add: day_def hour_def minute_def second_def)
    then have "length vs < 26" by (rule power_less_imp_less_exp [rotated]) simp
    with Cons show ?thesis by simp
  qed simp
  have "\<forall>v \<in> set ws. fst v < snd v" using st(4) by (auto simp: windows_ok_def width_def)
  then have "\<exists>w' ws'. (fst (printed lib w), snd (printed lib w)) = printed lib w' \<and> map (printed lib) rest = map (printed lib) ws' \<and>
      (\<forall>v \<in> set (w' # ws'). fst v < snd v)"
    unfolding ws by (intro exI [of _ w] exI [of _ rest]) simp
  with st(1,2) ws small have ok: "cursor_ok lib c" by (simp add: cursor_ok_def)
  from st(2) ws small cursor_again [OF assms(1) ok] show ?thesis by auto
qed

end
