(* ===== verification/Backfill_Facts.thy ===== *)
theory Backfill_Facts
  imports Backfill_Windows Github_Event_Facts
begin

text \<open>
  A run of the backfill: every page keeps the raw events and the running jobs, the continuation
  resumes at the cursor it was given, and the handler keeps the dispatcher's contract.
\<close>

section \<open>Each page\<close>

lemma each_item_sound:
  assumes "\<And>x db r. f x db = Some r \<Longrightarrow> sound_step db r" and "each_item f xs db = Some r"
  shows "sound_step db r"
  using assms(2)
proof (induction xs arbitrary: db r)
  case (Cons x xs)
  then obtain r1 d1 where f: "f x db = Some (r1, d1)" by (auto simp: bind_eq_Some_conv)
  have s: "quiet r1" "handler_step db d1" using assms(1) [OF f] by (simp_all add: sound_step_def)
  show ?case
  proof (cases r1)
    case (Inl e)
    with Cons.prems f s show ?thesis by auto
  next
    case (Inr n)
    with Cons.prems f obtain r2 d2 where e: "each_item f xs d1 = Some (r2, d2)" "r = (map_sum id ((+) n) r2, d2)" by auto
    from Cons.IH [OF e(1)] e(2) s(2) handler_step_trans [of db d1 d2] show ?thesis by (simp add: sound_step_def)
  qed
qed simp

lemma followed_sound:
  assumes "quiet next" and "\<And>x. r = Some x \<Longrightarrow> sound_step db x" and "followed next r = Some x"
  shows "sound_step db x"
  using assms by (auto simp: followed_def sound_step_def intro!: quiet_bindr)

lemma counted_sound: "sound_step db r \<Longrightarrow> counted r = Some x \<Longrightarrow> sound_step db x"
  by (auto simp: counted_def sound_step_def)

lemma fetch_quiet: "fetch_pull_request pv r number = Some x \<Longrightarrow> quiet x"
proof -
  assume f: "fetch_pull_request pv r number = Some x"
  have g: "quiet (get_pull_request pv (rc_installation_id r) (rc_owner_login r) (rc_name r) number)"
    unfolding get_pull_request_def by (rule github_request_quiet)
  show "quiet x"
  proof (cases "get_pull_request pv (rc_installation_id r) (rc_owner_login r) (rc_name r) number")
    case (Inl e)
    with f g show ?thesis by (auto simp: fetch_pull_request_def)
  next
    case (Inr pr)
    with f obtain cr where c: "list_pull_request_commits pv (rc_installation_id r) (rc_owner_login r) (rc_name r) number = Some cr"
      by (auto simp: fetch_pull_request_def bind_eq_Some_conv)
    show ?thesis
    proof (cases cr)
      case (Inl e)
      with f Inr c listing_quiet(1) [OF c] show ?thesis by (auto simp: fetch_pull_request_def)
    next
      case (Inr commits)
      with f \<open>get_pull_request _ _ _ _ _ = Inr pr\<close> c obtain rr where
        v: "list_pull_request_reviews pv (rc_installation_id r) (rc_owner_login r) (rc_name r) number = Some rr"
        and x: "x = bindr rr (\<lambda>reviews. Inr (pr, commits, reviews))"
        by (auto simp: fetch_pull_request_def)
      show ?thesis unfolding x by (intro quiet_bindr listing_quiet(2) [OF v]) simp
    qed
  qed
qed

lemma page_listing_quiet:
  "quiet (list_page pv inst path params page n)"
  unfolding list_page_def by (intro quiet_bindr page_quiet) simp

lemma listings_quiet:
  "quiet (list_open_pull_requests pv inst ow nm page)" "quiet (list_closed_pull_requests pv inst ow nm page)"
  "quiet (list_open_issues pv inst ow nm page)" "quiet (list_deployments pv inst ow nm page)"
  "quiet (list_workflow_runs pv inst ow nm page br a b)"
  by (simp_all add: list_open_pull_requests_def list_closed_pull_requests_def list_open_issues_def list_deployments_def
      list_workflow_runs_def page_listing_quiet counted_page_quiet)

lemma without_number_quiet [simp]: "quiet without_number"
  by (simp add: without_number_def)

lemma upsert_step:
  assumes "upsert_pull_request lib now ws repo pr action cs rs ready db = (res, db1)"
  shows "quiet res \<and> handler_step db db1"
  using upsert_pull_request_sound [of db lib now ws repo pr action cs rs ready] unfolding assms by (simp add: sound_step_def)

lemma scored_sound:
  assumes "jobs_fresh (ee_service env)"
  shows "quiet (score_listed_pull_request env r number pr cs i db)"
    and "score_listed_pull_request env r number pr cs i db = Inr db' \<Longrightarrow> handler_step db db'"
proof -
  have f: "quiet (list_pull_request_files pv inst ow nm k)" for pv inst ow nm k
    by (auto simp: list_pull_request_files_def intro: file_batches_quiet batch_quiet)
  have c: "quiet (non_negative_changed_files pr)"
    by (simp add: non_negative_changed_files_def split: option.split)
  show "quiet (score_listed_pull_request env r number pr cs i db)"
    by (auto simp: score_listed_pull_request_def intro!: quiet_bindr f c risk_sound(1) [OF assms(1)])
  show "score_listed_pull_request env r number pr cs i db = Inr db' \<Longrightarrow> handler_step db db'"
    by (auto simp: score_listed_pull_request_def bindr_Inr split: if_splits dest: risk_sound(2) [OF assms(1)])
qed

lemma open_pull_request_sound:
  assumes "jobs_fresh (ee_service env)" and "store_open_pull_request env r d db = Some x"
  shows "sound_step db x"
proof (cases "number_text (dict_get d ''number'')")
  case None
  with assms(2) show ?thesis by (auto simp: store_open_pull_request_def sound_step_def)
next
  case (Some number)
  with assms(2) obtain fetched where f: "fetch_pull_request (ee_providers env) r number = Some fetched"
    by (auto simp: store_open_pull_request_def)
  show ?thesis
  proof (cases fetched)
    case (Inl e)
    with assms(2) Some f fetch_quiet [OF f] show ?thesis by (auto simp: store_open_pull_request_def)
  next
    case (Inr y)
    obtain pr commits reviews where y: "y = (pr, commits, reviews)" by (cases y)
    obtain res db1 where u: "upsert_pull_request (ee_lib env) (ee_now env) (rc_workspace_id r) (rc_id r) pr (Some ''synchronize'')
        (Some commits) (Some reviews) None db = (res, db1)" by fastforce
    note s = upsert_step [OF u]
    show ?thesis
    proof (cases res)
      case (Inl e)
      with assms(2) Some f Inr y u s show ?thesis by (auto simp: store_open_pull_request_def)
    next
      case i: (Inr i)
      let ?scored = "score_listed_pull_request env r number pr commits i db1"
      have x: "x = (case ?scored of Inl e \<Rightarrow> (Inl e, db1) | Inr db2 \<Rightarrow> (Inr 1, db2))"
        using assms(2) by (simp add: store_open_pull_request_def Some f Inr y u i)
      show ?thesis
      proof (cases ?scored)
        case (Inl e)
        with scored_sound(1) [OF assms(1), of r number pr commits i db1] s show ?thesis unfolding x by simp
      next
        case (Inr db2)
        from handler_step_trans [OF conjunct2 [OF s] scored_sound(2) [OF assms(1) Inr]] Inr show ?thesis unfolding x by simp
      qed
    qed
  qed
qed

lemma merged_pull_request_sound:
  assumes "store_merged_pull_request env r cutoff d db = Some x"
  shows "sound_step db x"
proof -
  from assms consider "x = (Inr 0, db)" | "x = (without_number, db)"
    | number fetched where "fetch_pull_request (ee_providers env) r number = Some fetched"
        "x = (case fetched of Inl e \<Rightarrow> (Inl e, db)
          | Inr (pr, commits, reviews) \<Rightarrow>
              (case upsert_pull_request (ee_lib env) (ee_now env) (rc_workspace_id r) (rc_id r) pr (Some ''closed'')
                   (Some commits) (Some reviews) None db of (res, db1) \<Rightarrow> (map_sum id (\<lambda>_. 1) res, db1)))"
    by (auto simp: store_merged_pull_request_def split: option.splits if_splits)
  then show ?thesis
  proof cases
    case (3 number fetched)
    show ?thesis
    proof (cases fetched)
      case (Inl e)
      with 3 fetch_quiet [OF 3(1)] show ?thesis by simp
    next
      case (Inr y)
      obtain pr commits reviews where y: "y = (pr, commits, reviews)" by (cases y)
      obtain res db1 where u: "upsert_pull_request (ee_lib env) (ee_now env) (rc_workspace_id r) (rc_id r) pr (Some ''closed'')
          (Some commits) (Some reviews) None db = (res, db1)" by fastforce
      from upsert_step [OF u] 3(2) Inr y u show ?thesis by (simp add: sound_step_def)
    qed
  qed (simp_all add: sound_step_def)
qed

lemma refreshed_sound:
  assumes "refresh_reviews env r p db = Some x"
  shows "sound_step db x"
proof -
  from assms obtain rr where l: "list_pull_request_reviews (ee_providers env) (rc_installation_id r) (rc_owner_login r) (rc_name r)
      (str_int (pr_number p)) = Some rr"
    and x: "x = (case bindr rr (\<lambda>reviews. replace_pull_request_reviews (ee_lib env) (pr_id p) reviews db) of
      Inl e \<Rightarrow> (Inl e, db) | Inr db1 \<Rightarrow> (Inr 1, db1))"
    by (auto simp: refresh_reviews_def)
  let ?s = "bindr rr (\<lambda>reviews. replace_pull_request_reviews (ee_lib env) (pr_id p) reviews db)"
  have "quiet ?s" by (intro quiet_bindr listing_quiet(2) [OF l] replace_reviews_quiet)
  moreover have "?s = Inr db1 \<Longrightarrow> handler_step db db1" for db1 by (auto simp: bindr_Inr dest: replace_reviews_step)
  ultimately show ?thesis unfolding x by (cases ?s) (auto simp only: sound_step_simps sum.case quiet_simps handler_step_refl)
qed

lemma workflow_run_sound:
  assumes "jobs_fresh (ee_service env)" and "store_workflow_run env r d db = Some x"
  shows "sound_step db x"
proof -
  let ?ev = "[(''action'', JStr ''completed''), (''workflow_run'', JObj d), (''repository'', JObj [(''default_branch'', JStr (rc_default_branch r))])]"
  have "sound_step db (upsert_deployment_from_workflow_run (ee_service env) (rc_workspace_id r) (rc_id r) ?ev db)"
    by (rule deployment_upserts_sound(1) [OF assms(1)])
  from counted_sound [OF this] assms(2) show ?thesis by (simp add: store_workflow_run_def)
qed

lemma status_quiet: "terminal_deployment_status lib pv inst ow nm i = Some x \<Longrightarrow> quiet x"
proof -
  have "(\<forall>p. quiet (fetch p)) \<longrightarrow> quiet y" if "find_status lib fetch p = Some y" for fetch p y
  proof (rule find_status.raw_induct [OF _ that], goal_cases)
    case (1 rec lib' fetch p y)
    then show ?case by (cases "fetch p") (auto split: if_splits option.splits simp: quiet_def)
  qed
  then show "terminal_deployment_status lib pv inst ow nm i = Some x \<Longrightarrow> quiet x"
    using batch_quiet by (auto simp: terminal_deployment_status_def)
qed

lemma recent_deployment_sound:
  assumes "jobs_fresh (ee_service env)" and "store_recent_deployment env r d db = Some x"
  shows "sound_step db x"
proof (cases "number_text (dict_get d ''id'')")
  case None
  with assms(2) show ?thesis by (auto simp: store_recent_deployment_def)
next
  case (Some i)
  with assms(2) obtain found where f: "terminal_deployment_status (ee_lib env) (ee_providers env) (rc_installation_id r)
      (rc_owner_login r) (rc_name r) i = Some found"
    by (auto simp: store_recent_deployment_def bind_eq_Some_conv)
  show ?thesis
  proof (cases found)
    case (Inl e)
    with Some f assms(2) status_quiet [OF f] show ?thesis by (auto simp: store_recent_deployment_def)
  next
    case (Inr st)
    show ?thesis
    proof (cases st)
      case None
      with Some f Inr assms(2) show ?thesis by (auto simp: store_recent_deployment_def)
    next
      case status: (Some status)
      with Some f Inr assms(2) have "counted (upsert_deployment_from_deployment_status (ee_service env) (rc_workspace_id r) (rc_id r)
          [(''deployment'', JObj d), (''deployment_status'', JObj status)] db) = Some x"
        by (simp add: store_recent_deployment_def)
      with counted_sound [OF deployment_upserts_sound(2) [OF assms(1)]] show ?thesis by blast
    qed
  qed
qed

lemma issue_item_sound:
  assumes "store_issue env r started d db = Some x"
  shows "sound_step db x"
proof (cases "upsert_github_issue (ee_lib env) (je_utcnow (ee_job env)) (ee_now env) (rc_workspace_id r) (rc_id r) d (Some started) db")
  case (Inl e)
  with assms issue_upsert_sound(1) [of "ee_lib env" "je_utcnow (ee_job env)" "ee_now env" "rc_workspace_id r" "rc_id r" d "Some started" db]
  show ?thesis by (auto simp: store_issue_def quiet_def)
next
  case (Inr y)
  with assms issue_upsert_sound(2) [of "ee_lib env" "je_utcnow (ee_job env)" "ee_now env" "rc_workspace_id r" "rc_id r" d "Some started" db]
  show ?thesis by (cases y) (auto simp: store_issue_def)
qed

lemma issue_page_sound:
  assumes "process_issue_page env r page started db = Some x"
  shows "sound_step db x"
proof (cases "list_open_issues (ee_providers env) (rc_installation_id r) (rc_owner_login r) (rc_name r) page")
  case (Inl e)
  with assms listings_quiet(3) [of "ee_providers env" "rc_installation_id r" "rc_owner_login r" "rc_name r" page] show ?thesis
    by (auto simp: process_issue_page_def)
next
  case (Inr y)
  obtain items nxt where y: "y = (items, nxt)" by (cases y)
  with Inr assms obtain res db1 where l: "each_item (store_issue env r started) items db = Some (res, db1)"
    and x: "x = (case res of Inl e \<Rightarrow> (Inl e, db1) | Inr n \<Rightarrow> (case nxt of
        Some p \<Rightarrow> (Inr (Some (StageCursor ISSUE_STAGE p), n), db1)
      | None \<Rightarrow> (Inr (None, n), close_unseen_issues env r started db1)))"
    by (auto simp: process_issue_page_def)
  from each_item_sound [OF issue_item_sound l] have s: "quiet res" "handler_step db db1" by (simp_all add: sound_step_def)
  have "handler_step db (close_unseen_issues env r started db1)"
    using s(2) by (simp add: close_unseen_issues_def handler_step_def)
  with s x show ?thesis by (simp split: sum.splits option.splits)
qed

lemma workflow_page_sound:
  assumes "jobs_fresh (ee_service env)" and "process_workflow_run_page env r page a b pending db = Some res"
  shows "sound_step db res"
proof -
  let ?lib = "ee_lib env"
  let ?bad = "Some (Inl (PermanentJobError ''Invalid workflow-run backfill window''), db) :: ('a events_db_scheme) page_outcome"
  show ?thesis
  proof (cases "aware_timestamp ?lib (JStr a)")
    case None
    with assms(2) show ?thesis by (auto simp: process_workflow_run_page_def)
  next
    case x: (Some x)
    show ?thesis
    proof (cases "aware_timestamp ?lib (JStr b)")
      case None
      with x assms(2) show ?thesis by (auto simp: process_workflow_run_page_def)
    next
      case y: (Some y)
      let ?l = "list_workflow_runs (ee_providers env) (rc_installation_id r) (rc_owner_login r) (rc_name r) page None
          (isoformat ?lib x) (isoformat ?lib y)"
      show ?thesis
      proof (cases ?l)
        case (Inl e)
        with x y assms(2) listings_quiet(5) [of "ee_providers env" "rc_installation_id r" "rc_owner_login r" "rc_name r" page None
            "isoformat ?lib x" "isoformat ?lib y"]
        show ?thesis by (auto simp: process_workflow_run_page_def Let_def split: if_splits)
      next
        case (Inr l)
        obtain items nxt n where l: "l = ((items, nxt), n)" by (metis prod.exhaust)
        show ?thesis
        proof (cases "y \<le> x \<or> page = 1 \<and> 1000 \<le> n")
          case True
          with x y Inr l assms(2) show ?thesis by (auto simp: process_workflow_run_page_def Let_def split: if_splits)
        next
          case False
          with x y Inr l assms(2) have f: "followed (Inr (next_window (WindowCursor page a b pending) nxt))
              (each_item (store_workflow_run env r) items db) = Some res"
            by (auto simp: process_workflow_run_page_def Let_def split: if_splits)
          show ?thesis by (rule followed_sound [OF _ each_item_sound [OF workflow_run_sound [OF assms(1)]] f]) simp
        qed
      qed
    qed
  qed
qed

lemma listed_page_sound:
  assumes "(case l of Inl e \<Rightarrow> Some (Inl e, db) | Inr (items, nxt) \<Rightarrow> followed (g items nxt) (each_item (f items nxt) items db)) = Some x"
    and "quiet l" and "\<And>items nxt. quiet (g items nxt)" and "\<And>items nxt d db r. f items nxt d db = Some r \<Longrightarrow> sound_step db r"
  shows "sound_step db x"
proof (cases l)
  case (Inl e)
  with assms(1,2) show ?thesis by auto
next
  case (Inr y)
  obtain items nxt where "y = (items, nxt)" by (cases y)
  with Inr assms(1) have f: "followed (g items nxt) (each_item (f items nxt) items db) = Some x" by simp
  show ?thesis by (rule followed_sound [OF assms(3) each_item_sound [OF assms(4)] f])
qed

lemma process_page_sound:
  assumes "jobs_fresh (ee_service env)" and "process_page env r a db = Some x"
  shows "sound_step db x"
proof -
  let ?page = "cursor_page (ba_cursor a)"
  have next_quiet: "quiet (after_pull_requests lib r items nxt cutoff started)" for lib items nxt cutoff started
    by (simp add: after_pull_requests_def Let_def)
  from assms(2) consider (refused) m where "x = (Inl (PermanentJobError m), db)"
    | (reviews) "process_review_page env r ?page (ba_cutoff a) db = Some x"
    | (issues) "process_issue_page env r ?page (ba_started a) db = Some x"
    | (opened) "process_open_pull_request_page env r ?page (ba_risk_only a) db = Some x"
    | (merged) "process_pull_request_page env r ?page (ba_cutoff a) (ba_started a) db = Some x"
    | (runs) p y z pending where "process_workflow_run_page env r p y z pending db = Some x"
    | (deployments) "process_deployment_page env r ?page (ba_cutoff a) db = Some x"
    unfolding process_page_def Let_def
    by (auto split: if_splits backfill_cursor.splits)
  then show ?thesis
  proof cases
    case reviews
    show ?thesis
      by (rule followed_sound [OF _ each_item_sound [OF refreshed_sound] reviews [unfolded process_review_page_def Let_def]]) simp
  next
    case issues
    then show ?thesis by (rule issue_page_sound)
  next
    case opened
    then show ?thesis unfolding process_open_pull_request_page_def
      by (rule listed_page_sound [where f = "\<lambda>_ _. store_open_pull_request env r"])
        (simp_all add: listings_quiet open_pull_request_sound [OF assms(1)] del: split_paired_All)
  next
    case merged
    then show ?thesis unfolding process_pull_request_page_def
      by (rule listed_page_sound [where f = "\<lambda>_ _. store_merged_pull_request env r (ba_cutoff a)"])
        (auto simp: listings_quiet next_quiet intro: merged_pull_request_sound)
  next
    case (runs p y z pending)
    then show ?thesis by (rule workflow_page_sound [OF assms(1)])
  next
    case deployments
    then show ?thesis unfolding process_deployment_page_def Let_def
      by (rule listed_page_sound) (auto simp: listings_quiet split: if_splits intro: recent_deployment_sound [OF assms(1)])
  qed (simp_all)
qed

section \<open>The next cursor\<close>

fun waiting :: "backfill_cursor \<Rightarrow> nat" where
  "waiting (StageCursor s p) = 0"
| "waiting (WindowCursor p a b pending) = length pending"

lemma stage_ok [simp]: "cursor_ok lib (StageCursor s p) \<longleftrightarrow> 1 \<le> p \<and> s \<in> backfill_stages \<and> s \<noteq> WORKFLOW_RUN_STAGE"
  by (simp add: cursor_ok_def)

lemma stages_known [simp]:
  "OPEN_PULL_REQUEST_STAGE \<in> backfill_stages" "PULL_REQUEST_STAGE \<in> backfill_stages" "DEPLOYMENT_STAGE \<in> backfill_stages"
  "ISSUE_STAGE \<in> backfill_stages" "REVIEW_STAGE \<in> backfill_stages"
  "OPEN_PULL_REQUEST_STAGE \<noteq> WORKFLOW_RUN_STAGE" "PULL_REQUEST_STAGE \<noteq> WORKFLOW_RUN_STAGE" "DEPLOYMENT_STAGE \<noteq> WORKFLOW_RUN_STAGE"
  "ISSUE_STAGE \<noteq> WORKFLOW_RUN_STAGE" "REVIEW_STAGE \<noteq> WORKFLOW_RUN_STAGE"
  by (simp_all add: backfill_stages_def stages)

lemma window_cursor_ok:
  assumes "1 \<le> p" and "length ws \<le> 64" and "\<forall>v \<in> set (w # ws). fst v < snd v" and "Some c = window_cursor lib p (w # ws)"
  shows "cursor_ok lib c"
proof -
  from assms(3) have "\<exists>w' ws'. (fst (printed lib w), snd (printed lib w)) = printed lib w' \<and> map (printed lib) ws = map (printed lib) ws' \<and>
      (\<forall>v \<in> set (w' # ws'). fst v < snd v)"
    by (intro exI [of _ w] exI [of _ ws]) simp
  with assms(1,2,4) show ?thesis by (simp add: cursor_ok_def)
qed

lemma workflow_page_next:
  assumes "iso_round_trip (ee_lib env)" and "cursor_ok (ee_lib env) (WindowCursor p a b pending)" and "length pending < 64"
    and "process_workflow_run_page env r p a b pending db = Some (Inr (Some c, n), db')"
  shows "cursor_ok (ee_lib env) c"
proof -
  let ?lib = "ee_lib env"
  from assms(2) obtain w ws where w: "(a, b) = printed ?lib w" "pending = map (printed ?lib) ws" "\<forall>v \<in> set (w # ws). fst v < snd v" "1 \<le> p"
    by (auto simp: cursor_ok_def)
  obtain x y where xy: "w = (x, y)" by (cases w)
  have ab: "a = fst (printed ?lib (x, y))" "b = snd (printed ?lib (x, y))" using w(1) unfolding xy [symmetric] by (metis fst_conv, metis snd_conv)
  have run: "process_workflow_run_page env r p (fst (printed ?lib (x, y))) (snd (printed ?lib (x, y))) (map (printed ?lib) ws) db
      = Some (Inr (Some c, n), db')" using assms(4) unfolding ab w(2) .
  show ?thesis
  proof (cases rule: workflow_page_cases [OF assms(1) run, case_names split page finished])
    case (split m)
    have "length ((x, m) # ws) \<le> 64" using assms(3) w(2) by simp
    from window_cursor_ok [OF _ this _ split(5)] split w(3) show ?thesis by simp
  next
    case page
    then obtain q where "1 \<le> q" "Some c = window_cursor ?lib q ((x, y) # ws)" using w(4) by blast
    from window_cursor_ok [OF this(1) _ _ this(2)] assms(3) w xy show ?thesis by simp
  next
    case finished
    then obtain v vs where ws: "ws = v # vs" by (cases ws) auto
    with finished have "Some c = window_cursor ?lib 1 (v # vs)" by simp
    from window_cursor_ok [OF _ _ _ this] assms(3) w ws show ?thesis by simp
  qed
qed

lemma list_page_next: "list_page pv inst path params page k = Inr (items, Some p) \<Longrightarrow> p = page + 1"
  by (auto simp: list_page_def bindr_Inr split: if_splits)

lemma listing_next:
  "list_open_pull_requests pv inst ow nm page = Inr (items, Some p) \<Longrightarrow> p = page + 1"
  "list_closed_pull_requests pv inst ow nm page = Inr (items, Some p) \<Longrightarrow> p = page + 1"
  "list_open_issues pv inst ow nm page = Inr (items, Some p) \<Longrightarrow> p = page + 1"
  "list_deployments pv inst ow nm page = Inr (items, Some p) \<Longrightarrow> p = page + 1"
  by (auto simp: list_open_pull_requests_def list_closed_pull_requests_def list_open_issues_def list_deployments_def
      dest: list_page_next)

lemma followed_next: "followed nxt r = Some (Inr (c, n), db') \<Longrightarrow> nxt = Inr c"
  by (auto simp: followed_def bindr_Inr)

lemma process_page_next:
  assumes "iso_round_trip (ee_lib env)" and "cursor_ok (ee_lib env) (ba_cursor a)" and "waiting (ba_cursor a) < 64"
    and "ba_cutoff a < ba_started a" and "process_page env r a db = Some (Inr (Some c, n), db')"
  shows "cursor_ok (ee_lib env) c"
proof -
  let ?page = "cursor_page (ba_cursor a)"
  have page: "1 \<le> ?page" using assms(2) by (simp add: cursor_ok_def)
  have w: "cursor_ok (ee_lib env) (workflow_cursor (ee_lib env) (ba_cutoff a) (ba_started a))"
    using assms(4) window_cursor_ok [of 1 "[]" "(ba_cutoff a, ba_started a)"] by (simp add: workflow_cursor_def printed_def)
  from assms(5) consider
      (reviews) "process_review_page env r ?page (ba_cutoff a) db = Some (Inr (Some c, n), db')"
    | (issues) "process_issue_page env r ?page (ba_started a) db = Some (Inr (Some c, n), db')"
    | (opened) "process_open_pull_request_page env r ?page (ba_risk_only a) db = Some (Inr (Some c, n), db')"
    | (merged) "process_pull_request_page env r ?page (ba_cutoff a) (ba_started a) db = Some (Inr (Some c, n), db')"
    | (runs) p y z pending where "ba_cursor a = WindowCursor p y z pending"
        "process_workflow_run_page env r p y z pending db = Some (Inr (Some c, n), db')"
    | (deployments) "process_deployment_page env r ?page (ba_cutoff a) db = Some (Inr (Some c, n), db')"
    unfolding process_page_def Let_def
    by (auto split: if_splits backfill_cursor.splits)
  then show ?thesis
  proof cases
    case reviews
    from followed_next [OF reviews [unfolded process_review_page_def Let_def]] page show ?thesis by (auto split: if_splits)
  next
    case issues
    then show ?thesis using page
      by (auto simp: process_issue_page_def split: sum.splits option.splits dest!: listing_next)
  next
    case opened
    then show ?thesis using page
      by (auto simp: process_open_pull_request_page_def split: sum.splits option.splits if_splits dest!: followed_next listing_next)
  next
    case merged
    then show ?thesis using page w
      by (auto simp: process_pull_request_page_def after_pull_requests_def Let_def split: sum.splits option.splits if_splits
          dest!: followed_next listing_next)
  next
    case (runs p y z pending)
    with assms(2,3) workflow_page_next [OF assms(1), of p y z pending r db c n db'] show ?thesis by simp
  next
    case deployments
    then show ?thesis using page
      by (auto simp: process_deployment_page_def Let_def split: sum.splits option.splits if_splits dest!: followed_next listing_next)
  qed
qed

section \<open>A run\<close>

lemma read_window_ok: "read_window lib v = Inr p \<Longrightarrow> \<exists>w. p = printed lib w \<and> fst w < snd w"
proof -
  assume "read_window lib v = Inr p"
  then obtain a b where "p = (isoformat lib a, isoformat lib b)" "a < b"
    by (auto simp: read_window_def invalid_window_def split: json.splits option.splits if_splits)
  then show ?thesis by (intro exI [of _ "(a, b)"]) (simp add: printed_def)
qed

lemma read_windows_ok:
  "map_result (read_window lib) vs = Inr ps \<Longrightarrow> length ps = length vs \<and> (\<exists>ws. ps = map (printed lib) ws \<and> (\<forall>w \<in> set ws. fst w < snd w))"
proof (induction vs arbitrary: ps)
  case (Cons v vs)
  then obtain p qs where p: "read_window lib v = Inr p" "map_result (read_window lib) vs = Inr qs" "ps = p # qs"
    by (auto simp: bindr_Inr)
  from read_window_ok [OF p(1)] Cons.IH [OF p(2)] obtain w ws where "p = printed lib w" "fst w < snd w" "qs = map (printed lib) ws"
    "\<forall>w \<in> set ws. fst w < snd w" "length qs = length vs" by blast
  with p(3) show ?case by (intro conjI exI [of _ "w # ws"]) simp_all
qed simp

lemma window_result:
  assumes "bindr (map_result f raw) (\<lambda>pending. if b \<le> a then invalid_window
      else Inr (WindowCursor page (isoformat lib a) (isoformat lib b) pending)) = Inr c"
  shows "\<exists>ps. map_result f raw = Inr ps \<and> a < b \<and> c = WindowCursor page (isoformat lib a) (isoformat lib b) ps"
  using assms by (auto simp: bindr_Inr invalid_window_def split: if_splits)

lemma cursor_of_ok:
  assumes "cursor_of lib v cutoff started s = Inr c" and "s \<in> backfill_stages" and "s \<noteq> WORKFLOW_RUN_STAGE"
  shows "cursor_ok lib c"
proof (cases v)
  case JNull
  with assms show ?thesis by (auto simp: cursor_of_def)
next
  case (JObj d)
  let ?stage = "case dict_get d ''stage'' of
      JStr s \<Rightarrow> if s \<in> backfill_stages then Inr s else Inl (PermanentJobError ''Invalid backfill cursor stage'')
    | JList _ \<Rightarrow> Inl (OtherError ''unhashable type'') | JObj _ \<Rightarrow> Inl (OtherError ''unhashable type'')
    | _ \<Rightarrow> Inl (PermanentJobError ''Invalid backfill cursor stage'')"
  from JObj assms(1) obtain stage where s: "?stage = Inr stage"
    by (cases ?stage) (simp_all add: cursor_of_def)
  with JObj assms(1) obtain page where p: "strict_int (dict_get d ''page'') = Some page" "1 \<le> page"
    by (cases "strict_int (dict_get d ''page'')") (auto simp: cursor_of_def not_less split: if_splits)
  have st: "stage \<in> backfill_stages" "1 \<le> page"
    "stage \<noteq> WORKFLOW_RUN_STAGE \<and> c = StageCursor stage page \<or>
     stage = WORKFLOW_RUN_STAGE \<and> (\<exists>raw ps a b. map_result (read_window lib) raw = Inr ps \<and> length raw \<le> 64 \<and> a < b \<and>
       c = WindowCursor page (isoformat lib a) (isoformat lib b) ps)"
  proof -
    show "stage \<in> backfill_stages" using s by (auto split: json.splits if_splits)
    show "1 \<le> page" by (rule p)
    show "stage \<noteq> WORKFLOW_RUN_STAGE \<and> c = StageCursor stage page \<or>
      stage = WORKFLOW_RUN_STAGE \<and> (\<exists>raw ps a b. map_result (read_window lib) raw = Inr ps \<and> length raw \<le> 64 \<and> a < b \<and>
       c = WindowCursor page (isoformat lib a) (isoformat lib b) ps)"
    proof (cases "stage = WORKFLOW_RUN_STAGE")
      case False
      with JObj assms(1) s p show ?thesis by (simp add: cursor_of_def)
    next
      case True
      with JObj assms(1) s p obtain raw where "dict_get_or d ''pendingWindows'' (JList []) = JList raw"
        by (cases "dict_get_or d ''pendingWindows'' (JList [])") (simp_all add: cursor_of_def Let_def)
      with True JObj assms(1) s p have "length raw \<le> 64"
        "bindr (map_result (read_window lib) raw) (\<lambda>pending.
           if (case aware_timestamp lib (dict_get d ''windowEnd'') of None \<Rightarrow> started | Some t \<Rightarrow> t)
              \<le> (case aware_timestamp lib (dict_get d ''windowStart'') of None \<Rightarrow> cutoff | Some t \<Rightarrow> t) then invalid_window
           else Inr (WindowCursor page
             (isoformat lib (case aware_timestamp lib (dict_get d ''windowStart'') of None \<Rightarrow> cutoff | Some t \<Rightarrow> t))
             (isoformat lib (case aware_timestamp lib (dict_get d ''windowEnd'') of None \<Rightarrow> started | Some t \<Rightarrow> t)) pending)) = Inr c"
        by (simp_all add: cursor_of_def Let_def split: if_splits)
      with True window_result show ?thesis by blast
    qed
  qed
  from st(3) show ?thesis
  proof (elim disjE conjE exE)
    fix raw ps a b
    assume r: "map_result (read_window lib) raw = Inr ps" "length raw \<le> 64" "a < b"
      "c = WindowCursor page (isoformat lib a) (isoformat lib b) ps"
    from read_windows_ok [OF r(1)] obtain ws where ws: "ps = map (printed lib) ws" "\<forall>w \<in> set ws. fst w < snd w" "length ps = length raw"
      by blast
    with r st(2) window_cursor_ok [of page ws "(a, b)" c lib] show ?thesis by (simp add: printed_def)
  qed (use st in simp)
qed (use assms in \<open>simp_all add: cursor_of_def\<close>)

lemma arguments_ok:
  assumes "backfill_arguments lib now payload = Inr a"
  shows "cursor_ok lib (ba_cursor a)" and "ba_cutoff a < ba_started a"
proof -
  from assms obtain days started only where d: "bounded_days (dict_get_or payload ''backfillDays'' (JInt 90)) = Inr days"
    "ba_cutoff a = ba_started a - days * day"
    "cursor_of lib (dict_get payload ''cursor'') (ba_cutoff a) (ba_started a) (initial_stage (ba_issues_only a) (ba_reviews_only a)) = Inr (ba_cursor a)"
    by (auto simp: backfill_arguments_def bindr_Inr Let_def split: if_splits)
  show "cursor_ok lib (ba_cursor a)"
    by (rule cursor_of_ok [OF d(3)]) (simp_all add: initial_stage_def)
  have "1 \<le> days" using d(1) by (auto simp: bounded_days_def split: option.splits if_splits)
  then show "ba_cutoff a < ba_started a" using d(2) by (simp add: day_def hour_def minute_def second_def)
qed

lemma arguments_again:
  assumes "iso_round_trip lib" and "backfill_arguments lib now payload = Inr a" and "cursor_ok lib c"
  shows "backfill_arguments lib later (backfill_continuation lib payload c (ba_started a)) = Inr (a\<lparr>ba_cursor := c\<rparr>)"
proof -
  have s: "backfill_started_at lib later (JStr (isoformat lib (ba_started a))) = Inr (ba_started a)"
    using aware_timestamp_again [OF assms(1)] by (simp add: backfill_started_at_def)
  from assms(2) show ?thesis
    by (auto simp: backfill_arguments_def backfill_continuation_def bindr_Inr Let_def s cursor_again [OF assms(1,3)] split: if_splits)
qed

lemma reclassify_quiet: "quiet (reclassify_repository_deployments lib now repo db)"
proof -
  have m: "quiet (classified lib r d)" for r d
    by (auto simp: classified_def Let_def intro: delivery_quiet)
  have "quiet (reclassifications (classified lib r) ds)" for r ds
    using m [of r] by (induction ds) (auto simp: quiet_def split: sum.split)
  then show ?thesis by (auto simp: reclassify_repository_deployments_def quiet_def split: option.split sum.split)
qed

lemma finished_step:
  assumes "backfill_finished env r a db = Some (e, db')" and "jobs_fresh (ee_service env)"
  shows "e \<noteq> Some RequeueWithPayloadError \<and> queue_extends (ed_jobs db) (ed_jobs db')"
proof -
  let ?range = "recalc_range_of (ee_service env) (Some (ba_cutoff a)) (Some (ba_started a + day)) None None"
  have rec: "x \<noteq> Some RequeueWithPayloadError \<and> queue_extends (ed_jobs d) (ed_jobs d')"
    if m: "recalculate_repository_metrics (ee_service env) (rc_workspace_id r) (rc_id r) ?range d = Some (res, d')"
      "x = (case res of Inl e \<Rightarrow> Some e | Inr _ \<Rightarrow> None)" for d d' :: "'a events_db_scheme" and x res
    using recalculate_jobs [OF m(1)] recalculate_error [of "ee_service env" "rc_workspace_id r" "rc_id r" ?range d _ d'] m
      evaluation_extends [OF assms(2)] by (auto split: sum.splits)
  have c: "reclassify_repository_deployments (ee_lib env) (ee_now env) (rc_id r) db \<noteq> Inl RequeueWithPayloadError"
    and j: "reclassify_repository_deployments (ee_lib env) (ee_now env) (rc_id r) db = Inr (n, d) \<Longrightarrow> ed_jobs d = ed_jobs db" for n d
    using reclassify_quiet [of "ee_lib env" "ee_now env" "rc_id r" db]
    by (auto simp: quiet_def reclassify_repository_deployments_def split: option.splits sum.splits)
  show ?thesis
  proof (cases "ba_reviews_only a")
    case True
    with assms(1) obtain res where "recalculate_repository_metrics (ee_service env) (rc_workspace_id r) (rc_id r) ?range db = Some (res, db')"
      "e = (case res of Inl e \<Rightarrow> Some e | Inr _ \<Rightarrow> None)" by (auto simp: backfill_finished_def Let_def)
    then show ?thesis by (rule rec)
  next
    case False
    show ?thesis
    proof (cases "ba_risk_only a \<or> ba_issues_only a")
      case True
      with False assms(1) show ?thesis by (auto simp: backfill_finished_def Let_def)
    next
      case full: False
      show ?thesis
      proof (cases "reclassify_repository_deployments (ee_lib env) (ee_now env) (rc_id r) db")
        case (Inl x)
        with False full assms(1) c show ?thesis by (auto simp: backfill_finished_def Let_def)
      next
        case (Inr y)
        obtain n d where y: "y = (n, d)" by (cases y)
        with False full Inr assms(1) obtain res where "recalculate_repository_metrics (ee_service env) (rc_workspace_id r) (rc_id r) ?range d = Some (res, db')"
          "e = (case res of Inl e \<Rightarrow> Some e | Inr _ \<Rightarrow> None)" by (auto simp: backfill_finished_def Let_def)
        from rec [OF this] j [OF Inr [unfolded y]] show ?thesis by simp
      qed
    qed
  qed
qed

lemma arguments_quiet: "quiet (backfill_arguments lib now payload)"
proof -
  have w: "quiet (read_window lib v)" for v
    by (auto simp: read_window_def invalid_window_def split: json.split option.split)
  have c: "quiet (cursor_of lib v cut st s)" for v cut st s
    unfolding cursor_of_def Let_def
    by (auto simp: invalid_window_def split: json.split option.split intro!: quiet_bindr map_result_quiet w)
  have "quiet (bounded_days v)" "quiet (backfill_started_at lib now v)" for v
    by (auto simp: bounded_days_def backfill_started_at_def split: option.split)
  with c readers_quiet(1) show ?thesis unfolding backfill_arguments_def Let_def
    by (intro quiet_bindr) (auto intro!: quiet_bindr)
qed

lemma backfill_run:
  assumes "jobs_fresh (ee_service env)" and "handle_backfill_repository env db job w = Some (r, db')"
  obtains (quiet) "queue_extends (ed_jobs db) (ed_jobs db')" "r \<noteq> Some RequeueWithPayloadError"
    | (paged) a rc c n db1 where "backfill_arguments (ee_lib env) (je_utcnow (ee_job env)) (cj_payload job) = Inr a"
        "process_page env rc a db = Some (Inr (Some c, n), db1)" "queue_extends (ed_jobs db) (ed_jobs db1)"
        "requeue_with_payload (ee_now env) (ed_jobs db1) (cj_id job) w
           (backfill_continuation (ee_lib env) (cj_payload job) c (ba_started a)) 0 False = (the r, ed_jobs db')" "r \<noteq> None"
proof (cases "backfill_arguments (ee_lib env) (je_utcnow (ee_job env)) (cj_payload job)")
  case (Inl e)
  with arguments_quiet [of "ee_lib env" "je_utcnow (ee_job env)" "cj_payload job"] assms(2) quiet show ?thesis
    by (auto simp: handle_backfill_repository_def)
next
  case (Inr a)
  show ?thesis
  proof (cases "load_github_repository (ba_repository a) db")
    case (Inl e)
    with Inr load_quiet(2) [of "ba_repository a" db] assms(2) quiet show ?thesis
      by (auto simp: handle_backfill_repository_def)
  next
    case rc: (Inr rc)
    show ?thesis
    proof (cases "rc_integration_status rc \<noteq> ''ACTIVE'' \<or> rc_archived rc \<or> \<not> rc_tracking_enabled rc")
      case True
      with Inr rc assms(2) quiet show ?thesis by (auto simp: handle_backfill_repository_def split: if_splits)
    next
      case False
      with Inr rc assms(2) obtain res db1 where p: "process_page env rc a db = Some (res, db1)"
        and e: "backfill_ended env job w rc a (res, db1) = Some (r, db')"
        by (auto simp: handle_backfill_repository_def bind_eq_Some_conv)
      from process_page_sound [OF assms(1) p] have s: "quiet res" "queue_extends (ed_jobs db) (ed_jobs db1)"
        by (simp_all add: sound_step_def handler_step_def)
      show ?thesis
      proof (cases res)
        case (Inl x)
        with s converted_quiet [of x] e quiet show ?thesis by (auto simp: backfill_ended_def)
      next
        case y: (Inr y)
        obtain nxt n where nxt: "y = (nxt, n)" by (cases y)
        show ?thesis
        proof (cases nxt)
          case None
          with e y nxt have "backfill_finished env rc a db1 = Some (r, db')" by (simp add: backfill_ended_def)
          from finished_step [OF this assms(1)] queue_extends_trans [OF s(2)] quiet show ?thesis by blast
        next
          case (Some c)
          obtain x t where q: "requeue_with_payload (ee_now env) (ed_jobs db1) (cj_id job) w
              (backfill_continuation (ee_lib env) (cj_payload job) c (ba_started a)) 0 False = (x, t)" by fastforce
          with e y nxt Some have "r = Some x" "db' = db1\<lparr>ed_jobs := t\<rparr>" by (auto simp: backfill_ended_def)
          with paged [OF Inr _ s(2)] p y nxt Some q show ?thesis by simp
        qed
      qed
    qed
  qed
qed

lemma backfill_handler:
  assumes "jobs_fresh (ee_service env)"
  shows "paged_handler (returned (handle_backfill_repository env))"
proof (unfold_locales, goal_cases)
  case (1 db c w r db')
  show ?case
  proof (cases "handle_backfill_repository env db c w")
    case None
    with 1 show ?thesis by (intro exI [of _ "ed_jobs db"]) auto
  next
    case (Some x)
    with 1 have "handle_backfill_repository env db c w = Some (r, db')" by simp
    with assms show ?thesis by (cases rule: backfill_run) blast+
  qed
qed

text \<open>
  C7: A page that is not the last puts the backfill back as PENDING with a payload from which the
  next run, whenever it comes, reads the same repository, mode, start and cutoff, and exactly the
  cursor the page ended with.
\<close>

theorem backfill_resumes:
  assumes "jobs_fresh (ee_service env)" and "iso_round_trip (ee_lib env)" and "queue_ok (ed_jobs db)"
    and "backfill_arguments (ee_lib env) (je_utcnow (ee_job env)) (cj_payload job) = Inr a" and "waiting (ba_cursor a) < 64"
    and "handle_backfill_repository env db job w = Some (Some RequeueWithPayloadError, db')"
  shows "\<exists>j c r n db1. process_page env r a db = Some (Inr (Some c, n), db1) \<and>
    job_row (ed_jobs db') (cj_id job) = Some j \<and> pj_status j = PENDING \<and>
    (\<forall>later. backfill_arguments (ee_lib env) later (pj_payload j) = Inr (a\<lparr>ba_cursor := c\<rparr>))"
  using assms(1,6)
proof (cases rule: backfill_run)
  case quiet
  then show ?thesis by simp
next
  case (paged a' rc c n db1)
  with assms(4) have a: "a' = a" by simp
  note page = paged(2) [unfolded a]
  have c: "cursor_ok (ee_lib env) c"
    by (rule process_page_next [OF assms(2) arguments_ok(1) [OF assms(4)] assms(5) arguments_ok(2) [OF assms(4)] page])
  from paged(3) assms(3) have q: "queue_ok (ed_jobs db1)" by (simp add: queue_extends_def)
  from requeue_signal [OF paged(4) [simplified]] obtain j where j: "job_row (ed_jobs db') (cj_id job) = Some j" "pj_status j = PENDING"
    "pj_payload j = backfill_continuation (ee_lib env) (cj_payload job) c (ba_started a')"
    by (rule requeued_job [OF q])
  with page arguments_again [OF assms(2,4) c] show ?thesis unfolding a by auto
qed

end
