(* ===== verification/Backfill_Examples.thy ===== *)
theory Backfill_Examples
  imports Backfill_Facts Event_Examples
begin

text \<open>The properties of the backfill at concrete inputs.\<close>

section \<open>Windows\<close>

abbreviation sample_event_lib :: py_lib where
  "sample_event_lib \<equiv> ee_lib sample_event_env"

lemma event_iso_round_trip: "iso_round_trip sample_event_lib"
  using sample_iso_round_trip by (simp add: sample_event_env_def)

definition sample_context :: repository_context where
  "sample_context = \<lparr>rc_id = 4, rc_workspace_id = 7, rc_integration_id = 2, rc_installation_id = 1, rc_owner_login = ''o'',
     rc_name = ''n'', rc_full_name = ''o/n'', rc_default_branch = ''main'', rc_archived = False, rc_tracking_enabled = True,
     rc_settings = [], rc_integration_status = ''ACTIVE''\<rparr>"

lemma no_runs: "list_workflow_runs sample_providers 1 ''o'' ''n'' 1 None a b = Inr (([], None), 0)"
  by code_simp

lemma event_providers: "ee_providers sample_event_env = sample_providers"
  by (simp add: sample_event_env_def)

lemma empty_window:
  assumes "x < y"
  shows "process_workflow_run_page sample_event_env sample_context 1 (isoformat sample_event_lib x) (isoformat sample_event_lib y) []
    db = Some (Inr (None, 0), db)"
  using assms
  by (simp add: process_workflow_run_page_def aware_timestamp_again [OF event_iso_round_trip] sample_context_def Let_def
      event_providers no_runs followed_def next_window_def)


theorem window_cursor_readable_witness:
  "cursor_of sample_event_lib (cursor_json (workflow_cursor sample_event_lib 0 (1 * day))) 3 4 REVIEW_STAGE =
     Inr (workflow_cursor sample_event_lib 0 (1 * day))"
proof -
  have "workflow_listing sample_event_lib (1 * day - 1 * day) (1 * day) [] (Some (workflow_cursor sample_event_lib 0 (1 * day)))"
    using workflow_listing.begun [of sample_event_lib "1 * day - 1 * day" "1 * day"] by simp
  from window_cursor_readable [OF event_iso_round_trip _ _ this] show ?thesis by auto
qed

section \<open>A run\<close>

definition backfill_job :: processing_job where
  "backfill_job = sync_job\<lparr>pj_job_type := ''BACKFILL_REPOSITORY'', pj_payload := [(''repositoryId'', JStr (uuid_str 4))]\<rparr>"

definition backfill_sample :: "unit events_db_scheme" where
  "backfill_sample = events_sample\<lparr>ed_jobs := [backfill_job]\<rparr>"

lemma backfill_args_sample: "map_sum id (\<lambda>a. waiting (ba_cursor a)) (backfill_arguments sample_event_lib
    (je_utcnow (ee_job sample_event_env)) (cj_payload (from_row backfill_job))) = Inr 0"
  by code_simp

lemma backfill_run_sample:
  "map_option fst (handle_backfill_repository sample_event_env backfill_sample (from_row backfill_job) ''w'') =
     Some (Some RequeueWithPayloadError)"
  by code_simp

theorem backfill_resumes_witness:
  "\<exists>db' j a c. handle_backfill_repository sample_event_env backfill_sample (from_row backfill_job) ''w'' =
      Some (Some RequeueWithPayloadError, db') \<and> job_row (ed_jobs db') 1 = Some j \<and>
      backfill_arguments sample_event_lib 9 (pj_payload j) = Inr (a\<lparr>ba_cursor := c\<rparr>)"
proof -
  obtain db' where h: "handle_backfill_repository sample_event_env backfill_sample (from_row backfill_job) ''w'' =
      Some (Some RequeueWithPayloadError, db')"
    using backfill_run_sample by auto
  obtain a where a: "backfill_arguments sample_event_lib (je_utcnow (ee_job sample_event_env)) (cj_payload (from_row backfill_job)) = Inr a"
    "waiting (ba_cursor a) < 64"
    using backfill_args_sample by (cases "backfill_arguments sample_event_lib (je_utcnow (ee_job sample_event_env))
        (cj_payload (from_row backfill_job))") auto
  have "queue_ok (ed_jobs backfill_sample)"
    by (simp add: backfill_sample_def backfill_job_def sync_job_def sample_job_def queue_ok_def job_ok_def)
  from backfill_resumes [OF event_env_fresh event_iso_round_trip this a h] h show ?thesis
    by (auto simp: from_row_def backfill_job_def sync_job_def sample_job_def)
qed

end
