(* ===== verification/Jira_Handlers.thy ===== *)
theory Jira_Handlers
  imports Github_Events
begin

text \<open>
  The Jira jobs: webhook deliveries (\<^verbatim>\<open>jira_event.py\<close>), the catalogue of projects and the import of
  unresolved issues (\<^verbatim>\<open>sync_jira_projects.py\<close>), the renewal of the webhook (\<^verbatim>\<open>renew_jira_webhook.py\<close>).
\<close>

section \<open>Webhook deliveries\<close>

text \<open>The raw-event statements are those of the GitHub handler.\<close>

definition jira_mark_processing :: "time \<Rightarrow> uuid \<Rightarrow> ('d) events_db_scheme \<Rightarrow> ('d) events_db_scheme" where
  "jira_mark_processing now i = update_raw_event i (\<lambda>r.
     r\<lparr>rw_status := ''PROCESSING'', rw_attempt_count := rw_attempt_count r + 1, rw_processing_started_at := Some now,
       rw_processed_at := None, rw_last_error := None, rw_updated_at := now, rw_version := rw_version r + 1\<rparr>)"

definition jira_mark_processed :: "time \<Rightarrow> uuid \<Rightarrow> ('d) events_db_scheme \<Rightarrow> ('d) events_db_scheme" where
  "jira_mark_processed now i = update_raw_event i (\<lambda>r.
     r\<lparr>rw_status := ''PROCESSED'', rw_processed_at := Some now, rw_last_error := None, rw_updated_at := now,
       rw_version := rw_version r + 1\<rparr>)"

definition jira_mark_failed :: "time \<Rightarrow> uuid \<Rightarrow> string \<Rightarrow> ('d) events_db_scheme \<Rightarrow> ('d) events_db_scheme" where
  "jira_mark_failed now i err = update_raw_event i (\<lambda>r.
     r\<lparr>rw_status := ''FAILED'', rw_processed_at := None, rw_last_error := Some (sanitize_error err),
       rw_updated_at := now, rw_version := rw_version r + 1\<rparr>)"

definition load_jira_event :: "uuid \<Rightarrow> ('d) events_db_scheme \<Rightarrow> raw_event option" where
  "load_jira_event i db = find (\<lambda>r. rw_id r = i \<and> rw_source r = ''JIRA'') (ev_raw_events db)"

definition assert_integration_workspace :: "uuid \<Rightarrow> uuid \<Rightarrow> ('d) events_db_scheme \<Rightarrow> unit result" where
  "assert_integration_workspace integration ws db =
     (if \<exists>j \<in> set (ev_jira_integrations db). ji_id j = integration \<and> ji_workspace_id j = ws then Inr ()
      else Inl (PermanentJobError ''Jira integration is not in the event workspace''))"

definition resolve_project :: "uuid \<Rightarrow> uuid \<Rightarrow> string \<Rightarrow> ('d) events_db_scheme \<Rightarrow> uuid option result" where
  "resolve_project ws integration remote db =
     (case filter (\<lambda>p. jp_workspace_id p = ws \<and> jp_jira_integration_id p = integration \<and> jp_jira_project_id p = remote \<and>
             jp_tracking_enabled p) (ev_jira_projects db) of
        [] \<Rightarrow> Inr None
      | [p] \<Rightarrow> Inr (Some (jp_id p))
      | _ \<Rightarrow> Inl (OtherError ''Multiple rows were found when one or none was required''))"

definition dispatch_issue_event ::
  "py_lib \<Rightarrow> time \<Rightarrow> uuid \<Rightarrow> uuid \<Rightarrow> string \<Rightarrow> dict \<Rightarrow> ('d) events_db_scheme \<Rightarrow> ('d) events_db_scheme result" where
  "dispatch_issue_event lib now ws integration event_type payload db =
     (if \<not> starts_with event_type ''jira:issue_'' then Inr db
      else case dict_get payload ''issue'' of
             JObj issue \<Rightarrow>
               (let remote = dict_get (as_dict (dict_get (as_dict (dict_get issue ''fields'')) ''project'')) ''id'' in
                if remote = JNull then Inr db
                else bindr (resolve_project ws integration (py_text lib remote) db) (\<lambda>project.
                     case project of
                       None \<Rightarrow> Inr db
                     | Some p \<Rightarrow>
                         if event_type = ''jira:issue_deleted''
                         then (let remote_issue = dict_get issue ''id'' in
                               Inr (if remote_issue = JNull then db
                                    else db\<lparr>ev_jira_issues := filter (\<lambda>s. \<not> (js_workspace_id s = ws \<and> js_jira_project_id s = p \<and>
                                           js_jira_issue_id s = py_text lib remote_issue)) (ev_jira_issues db)\<rparr>))
                         else upsert_jira_issue lib now ws p issue db))
           | _ \<Rightarrow> Inr db)"

text \<open>The arguments, the event and its workspace; nothing is written before they are read.\<close>

definition jira_event_arguments ::
  "dict \<Rightarrow> ('d) events_db_scheme \<Rightarrow> (uuid \<times> uuid \<times> raw_event \<times> uuid) result" where
  "jira_event_arguments payload db =
     bindr (parse_uuid (dict_get payload ''rawEventId'') ''rawEventId'') (\<lambda>i.
     bindr (parse_uuid (dict_get payload ''jiraIntegrationId'') ''jiraIntegrationId'') (\<lambda>integration.
     case load_jira_event i db of
       None \<Rightarrow> Inl (PermanentJobError (''Raw event '' @ uuid_str i @ '' not found''))
     | Some raw \<Rightarrow>
         (case rw_workspace_id raw of
            None \<Rightarrow> Inl (PermanentJobError ''Missing workspaceId'')
          | Some ws \<Rightarrow> bindr (assert_integration_workspace integration ws db) (\<lambda>_. Inr (i, integration, raw, ws)))))"

definition jira_event_type :: "raw_event \<Rightarrow> string" where
  "jira_event_type raw = (case nonempty (rw_event_type raw) of None \<Rightarrow> ''unknown'' | Some s \<Rightarrow> s)"

definition handle_process_jira_event ::
  "job_env \<Rightarrow> ('d) events_db_scheme \<Rightarrow> claimed_job \<Rightarrow> string \<Rightarrow> exn option \<times> ('d) events_db_scheme" where
  "handle_process_jira_event env db job w =
     (case jira_event_arguments (cj_payload job) db of
        Inl e \<Rightarrow> (Some e, db)
      | Inr (i, integration, raw, ws) \<Rightarrow>
          (let db1 = jira_mark_processing (je_now env) i db in
           case dispatch_issue_event (je_lib env) (je_now env) ws integration (jira_event_type raw)
                  (json_object (je_lib env) (rw_payload raw)) db1 of
             Inl e \<Rightarrow> (Some e, jira_mark_failed (je_now env) i (exn_str e) db1)
           | Inr db2 \<Rightarrow> (None, jira_mark_processed (je_now env) i db2)))"

section \<open>Calling Jira\<close>

text \<open>
  The \<^verbatim>\<open>try\<close> block the Jira jobs share: a valid token, then the call; a failure that is permanent or
  the last attempt marks the integration, and is raised converted.
\<close>

definition jira_call ::
  "job_env \<Rightarrow> claimed_job \<Rightarrow> jira_integration \<Rightarrow> (string \<Rightarrow> jira_integration \<Rightarrow> 'a result) \<Rightarrow> ('d) events_db_scheme \<Rightarrow>
     ('a \<times> jira_integration) result \<times> ('d) events_db_scheme" where
  "jira_call env job integration call db =
     (let fail = (\<lambda>e db'. (let converted = provider_exception_as_job_error e in
            (Inl converted,
             if is_permanent converted \<or> cj_max_attempts job \<le> cj_attempts job
             then mark_jira_integration_error (je_now env) (ji_id integration) db' else db')))
      in case get_valid_jira_access_token (je_providers env) (je_utcnow env) (je_now env) integration db of
           Inl e \<Rightarrow> fail e db
         | Inr (token, current, db1) \<Rightarrow>
             (case call token current of
                Inl e \<Rightarrow> fail e db1
              | Inr x \<Rightarrow> (Inr (x, current), db1)))"

section \<open>The catalogue of projects\<close>

definition jira_project_row :: "time \<Rightarrow> uuid \<Rightarrow> uuid \<Rightarrow> uuid \<Rightarrow> time \<Rightarrow> dict \<Rightarrow> jira_project result" where
  "jira_project_row now new_id ws integration sync_started d =
     (case (nonempty_text (dict_get d ''id''), nonempty_text (dict_get d ''key''), nonempty_text (dict_get d ''name'')) of
        (Some remote, Some key, Some name) \<Rightarrow>
          bindr (text_param (py_or (dict_get d ''projectTypeKey'') (JStr ''software''))) (\<lambda>kind.
          Inr \<lparr>jp_id = new_id, jp_workspace_id = ws, jp_jira_integration_id = integration, jp_jira_project_id = remote,
               jp_project_key = key, jp_project_name = name, jp_project_type = (case kind of None \<Rightarrow> [] | Some k \<Rightarrow> k),
               jp_tracking_enabled = False, jp_last_synced_at = Some sync_started, jp_updated_at = now, jp_version = 0\<rparr>)
      | _ \<Rightarrow> Inl (PermanentJobError ''Jira returned an invalid project record''))"

definition jira_project_key :: "jira_project \<Rightarrow> uuid \<times> string" where
  "jira_project_key p = (jp_jira_integration_id p, jp_jira_project_id p)"

definition merge_jira_project :: "jira_project \<Rightarrow> jira_project \<Rightarrow> jira_project" where
  "merge_jira_project old new =
     old\<lparr>jp_project_key := jp_project_key new, jp_project_name := jp_project_name new, jp_project_type := jp_project_type new,
         jp_last_synced_at := jp_last_synced_at new, jp_updated_at := jp_updated_at new, jp_version := jp_version old + 1\<rparr>"

definition upsert_jira_project ::
  "py_lib \<Rightarrow> time \<Rightarrow> uuid \<Rightarrow> uuid \<Rightarrow> time \<Rightarrow> dict \<Rightarrow> jira_project list \<Rightarrow> jira_project list result" where
  "upsert_jira_project lib now ws integration sync_started d t =
     bindr (jira_project_row now (gen_random_uuid lib (map jp_id t)) ws integration sync_started d) (\<lambda>row.
       Inr (sql_upsert jira_project_key (\<lambda>_ _. True) merge_jira_project row t))"

fun upsert_jira_projects ::
  "py_lib \<Rightarrow> time \<Rightarrow> uuid \<Rightarrow> uuid \<Rightarrow> time \<Rightarrow> dict list \<Rightarrow> jira_project list \<Rightarrow> jira_project list result" where
  "upsert_jira_projects lib now ws integration sync_started [] t = Inr t"
| "upsert_jira_projects lib now ws integration sync_started (d # ds) t =
     bindr (upsert_jira_project lib now ws integration sync_started d t)
       (upsert_jira_projects lib now ws integration sync_started ds)"

definition unlisted_project :: "uuid \<Rightarrow> time \<Rightarrow> jira_project \<Rightarrow> bool" where
  "unlisted_project integration sync_started p \<longleftrightarrow> jp_jira_integration_id p = integration \<and>
     (case jp_last_synced_at p of None \<Rightarrow> True | Some t \<Rightarrow> t < sync_started)"

definition untrack_project :: "time \<Rightarrow> jira_project \<Rightarrow> jira_project" where
  "untrack_project now p = p\<lparr>jp_tracking_enabled := False, jp_updated_at := now, jp_version := jp_version p + 1\<rparr>"

text \<open>The transaction of a page.\<close>

definition project_page ::
  "py_lib \<Rightarrow> time \<Rightarrow> uuid \<Rightarrow> uuid \<Rightarrow> time \<Rightarrow> page \<Rightarrow> ('d) events_db_scheme \<Rightarrow> ('d) events_db_scheme result" where
  "project_page lib now ws integration sync_started p db =
     bindr (upsert_jira_projects lib now ws integration sync_started (fst p) (ev_jira_projects db)) (\<lambda>t.
       Inr (if snd p = None
            then db\<lparr>ev_jira_projects := sql_update (unlisted_project integration sync_started) (untrack_project now) t,
                    ev_jira_integrations := sql_update (\<lambda>j. ji_id j = integration \<and> ji_status j = ''ACTIVE'')
                      (\<lambda>j. j\<lparr>ji_last_synced_at := Some sync_started, ji_updated_at := now, ji_version := ji_version j + 1\<rparr>)
                      (ev_jira_integrations db)\<rparr>
            else db\<lparr>ev_jira_projects := t\<rparr>))"

text \<open>The end of a run: with a cursor the job is put back with it.\<close>

definition jira_requeue ::
  "job_env \<Rightarrow> claimed_job \<Rightarrow> string \<Rightarrow> dict \<Rightarrow> rat \<Rightarrow> bool \<Rightarrow> ('d) events_db_scheme \<Rightarrow> exn option \<times> ('d) events_db_scheme" where
  "jira_requeue env job w payload delay_seconds reset db =
     (case requeue_with_payload (je_now env) (ed_jobs db) (cj_id job) w payload delay_seconds reset of
        (e, t) \<Rightarrow> (Some e, db\<lparr>ed_jobs := t\<rparr>))"

definition jira_continuation :: "py_lib \<Rightarrow> dict \<Rightarrow> json \<Rightarrow> time \<Rightarrow> dict" where
  "jira_continuation lib payload cursor started =
     dict_put (dict_put payload ''cursor'' cursor) ''syncStartedAt'' (JStr (isoformat lib started))"

definition sync_projects ::
  "job_env \<Rightarrow> ('d) events_db_scheme \<Rightarrow> claimed_job \<Rightarrow> string \<Rightarrow> uuid \<Rightarrow> uuid \<Rightarrow> exn option \<times> ('d) events_db_scheme" where
  "sync_projects env db job w ws integration_id =
     (case bindr (bounded_int 0 (dict_get_or (cj_payload job) ''cursor'' (JInt 0)) ''cursor'') (\<lambda>start_at.
           bindr (sync_started_at (je_lib env) (je_utcnow env) (dict_get (cj_payload job) ''syncStartedAt'')) (\<lambda>started.
           bindr (load_jira_integration integration_id (Some ws) db) (\<lambda>integration. Inr (start_at, started, integration)))) of
        Inl e \<Rightarrow> (Some e, db)
      | Inr (start_at, started, integration) \<Rightarrow>
          (case jira_call env job integration (\<lambda>token j. list_projects (je_providers env) (ji_cloud_id j) token start_at) db of
             (Inl e, db1) \<Rightarrow> (Some e, db1)
           | (Inr (p, _), db1) \<Rightarrow>
               (case project_page (je_lib env) (je_now env) ws integration_id started p db1 of
                  Inl e \<Rightarrow> (Some e, db1)
                | Inr db2 \<Rightarrow>
                    (case snd p of
                       None \<Rightarrow> (None, db2)
                     | Some next \<Rightarrow>
                         jira_requeue env job w (jira_continuation (je_lib env) (cj_payload job) (JInt next) started) 0 False db2))))"

section \<open>The import of issues\<close>

text \<open>\<^verbatim>\<open>list(dict.fromkeys(values))\<close>: the first of equal values stays.\<close>

definition unique :: "'a list \<Rightarrow> 'a list" where
  "unique xs = rev (remdups (rev xs))"

definition project_ids :: "json \<Rightarrow> uuid list result" where
  "project_ids value =
     (case value of
        JList vs \<Rightarrow>
          if vs = [] \<or> 500 < length vs then Inl (PermanentJobError ''Invalid jiraProjectIds'')
          else bindr (map_result (\<lambda>v. parse_uuid v ''jiraProjectIds'') vs) (\<lambda>ids. Inr (unique ids))
      | _ \<Rightarrow> Inl (PermanentJobError ''Invalid jiraProjectIds''))"

record issue_cursor =
  ic_project_index :: int
  ic_next_page_token :: "string option"

definition issue_cursor_of :: "json \<Rightarrow> issue_cursor result" where
  "issue_cursor_of value =
     (case value of
        JNull \<Rightarrow> Inr \<lparr>ic_project_index = 0, ic_next_page_token = None\<rparr>
      | JObj d \<Rightarrow>
          bindr (bounded_int 0 (dict_get d ''projectIndex'') ''projectIndex'') (\<lambda>i.
          case dict_get d ''nextPageToken'' of
            JNull \<Rightarrow> Inr \<lparr>ic_project_index = i, ic_next_page_token = None\<rparr>
          | JStr s \<Rightarrow>
              if s = [] \<or> 4096 < length s then Inl (PermanentJobError ''Invalid Jira issue sync nextPageToken'')
              else Inr \<lparr>ic_project_index = i, ic_next_page_token = Some s\<rparr>
          | _ \<Rightarrow> Inl (PermanentJobError ''Invalid Jira issue sync nextPageToken''))
      | _ \<Rightarrow> Inl (PermanentJobError ''Invalid Jira issue sync cursor''))"

definition issue_cursor_json :: "issue_cursor \<Rightarrow> json" where
  "issue_cursor_json c = JObj [(''projectIndex'', JInt (ic_project_index c)),
     (''nextPageToken'', case ic_next_page_token c of None \<Rightarrow> JNull | Some s \<Rightarrow> JStr s)]"

text \<open>The requested projects that are tracked, in the order of the request.\<close>

definition load_tracked_projects :: "uuid \<Rightarrow> uuid \<Rightarrow> uuid list \<Rightarrow> ('d) events_db_scheme \<Rightarrow> jira_project list" where
  "load_tracked_projects ws integration requested db =
     (let rows = filter (\<lambda>p. jp_workspace_id p = ws \<and> jp_jira_integration_id p = integration \<and> jp_tracking_enabled p \<and>
            jp_id p \<in> set requested) (ev_jira_projects db)
      in List.map_filter (\<lambda>i. row_with jp_id i rows) requested)"

definition missing_issue :: "uuid \<Rightarrow> uuid \<Rightarrow> time \<Rightarrow> jira_issue \<Rightarrow> bool" where
  "missing_issue ws project sync_started s \<longleftrightarrow> js_workspace_id s = ws \<and> js_jira_project_id s = project \<and>
     js_resolved_at s = None \<and> js_updated_at s < sync_started"

definition close_missing_jira_issues ::
  "time \<Rightarrow> uuid \<Rightarrow> uuid \<Rightarrow> time \<Rightarrow> ('d) events_db_scheme \<Rightarrow> ('d) events_db_scheme" where
  "close_missing_jira_issues now ws project sync_started db =
     db\<lparr>ev_jira_issues := sql_update (missing_issue ws project sync_started)
       (\<lambda>s. s\<lparr>js_resolved_at := coalesce (js_resolved_at s) (Some sync_started), js_updated_at := now,
              js_version := js_version s + 1\<rparr>) (ev_jira_issues db)\<rparr>"

fun upsert_jira_issues ::
  "py_lib \<Rightarrow> time \<Rightarrow> uuid \<Rightarrow> uuid \<Rightarrow> dict list \<Rightarrow> ('d) events_db_scheme \<Rightarrow> unit result \<times> ('d) events_db_scheme" where
  "upsert_jira_issues lib now ws project [] db = (Inr (), db)"
| "upsert_jira_issues lib now ws project (d # ds) db =
     (case upsert_jira_issue lib now ws project d db of
        Inl e \<Rightarrow> (Inl e, db)
      | Inr db1 \<Rightarrow> upsert_jira_issues lib now ws project ds db1)"

text \<open>A page's issues are stored, and after the last page of a project the others are resolved.\<close>

definition issue_page ::
  "job_env \<Rightarrow> uuid \<Rightarrow> jira_project \<Rightarrow> issue_cursor \<Rightarrow> time \<Rightarrow> dict list \<times> string option \<Rightarrow> ('d) events_db_scheme \<Rightarrow>
     issue_cursor result \<times> ('d) events_db_scheme" where
  "issue_page env ws project cursor started p db =
     (case upsert_jira_issues (je_lib env) (je_now env) ws (jp_id project) (fst p) db of
        (Inl e, db1) \<Rightarrow> (Inl e, db1)
      | (Inr _, db1) \<Rightarrow>
          (case snd p of
             Some token \<Rightarrow> (Inr (cursor\<lparr>ic_next_page_token := Some token\<rparr>), db1)
           | None \<Rightarrow>
               (Inr \<lparr>ic_project_index = ic_project_index cursor + 1, ic_next_page_token = None\<rparr>,
                close_missing_jira_issues (je_now env) ws (jp_id project) started db1)))"

definition issue_sync_arguments ::
  "py_lib \<Rightarrow> time \<Rightarrow> dict \<Rightarrow> (uuid list \<times> issue_cursor \<times> time) result" where
  "issue_sync_arguments lib utcnow payload =
     bindr (project_ids (dict_get payload ''jiraProjectIds'')) (\<lambda>ids.
     bindr (issue_cursor_of (dict_get payload ''cursor'')) (\<lambda>cursor.
     bindr (sync_started_at lib utcnow (dict_get payload ''syncStartedAt'')) (\<lambda>started. Inr (ids, cursor, started))))"

definition handle_issue_sync ::
  "job_env \<Rightarrow> ('d) events_db_scheme \<Rightarrow> claimed_job \<Rightarrow> string \<Rightarrow> uuid \<Rightarrow> uuid \<Rightarrow> exn option \<times> ('d) events_db_scheme" where
  "handle_issue_sync env db job w ws integration_id =
     (case issue_sync_arguments (je_lib env) (je_utcnow env) (cj_payload job) of
        Inl e \<Rightarrow> (Some e, db)
      | Inr (ids, cursor, started) \<Rightarrow>
          (let projects = load_tracked_projects ws integration_id ids db in
           if int (length projects) \<le> ic_project_index cursor then (None, db)
           else let project = projects ! nat (ic_project_index cursor) in
                (case load_jira_integration integration_id (Some ws) db of
                   Inl e \<Rightarrow> (Some e, db)
                 | Inr integration \<Rightarrow>
                     (case jira_call env job integration (\<lambda>token j. list_unresolved_issues (je_providers env) (ji_cloud_id j) token
                             (jp_project_key project) (ic_next_page_token cursor)) db of
                        (Inl e, db1) \<Rightarrow> (Some e, db1)
                      | (Inr (p, _), db1) \<Rightarrow>
                          (case issue_page env ws project cursor started p db1 of
                             (Inl e, db2) \<Rightarrow> (Some e, db2)
                           | (Inr next, db2) \<Rightarrow>
                               if ic_project_index next < int (length projects)
                               then jira_requeue env job w (jira_continuation (je_lib env) (cj_payload job) (issue_cursor_json next) started)
                                      0 False db2
                               else (None, db2))))))"

definition handle_sync_jira_projects ::
  "job_env \<Rightarrow> ('d) events_db_scheme \<Rightarrow> claimed_job \<Rightarrow> string \<Rightarrow> exn option \<times> ('d) events_db_scheme" where
  "handle_sync_jira_projects env db job w =
     (case bindr (parse_uuid (dict_get (cj_payload job) ''workspaceId'') ''workspaceId'') (\<lambda>ws.
           bindr (parse_uuid (dict_get (cj_payload job) ''jiraIntegrationId'') ''jiraIntegrationId'') (\<lambda>i. Inr (ws, i))) of
        Inl e \<Rightarrow> (Some e, db)
      | Inr (ws, i) \<Rightarrow>
          if dict_get (cj_payload job) ''issuesOnly'' = JBool True then handle_issue_sync env db job w ws i
          else sync_projects env db job w ws i)"

section \<open>The webhook\<close>

definition parse_expiration :: "py_lib \<Rightarrow> string \<Rightarrow> time result" where
  "parse_expiration lib s =
     (let z = py_replace ''Z'' ''+00:00'' s in
      case fromisoformat lib z of
        None \<Rightarrow> Inl (PermanentJobError ''Jira returned an invalid webhook expiration'')
      | Some t \<Rightarrow> if tz_aware lib z then Inr t else Inl (PermanentJobError ''Jira returned an invalid webhook expiration''))"

text \<open>What is asked of Jira: whether it still has the webhook, and its new expiration.\<close>

definition renewed_expiration :: "job_env \<Rightarrow> int \<Rightarrow> string \<Rightarrow> jira_integration \<Rightarrow> time result" where
  "renewed_expiration env webhook token j =
     bindr (webhook_exists (je_providers env) (ji_cloud_id j) token webhook) (\<lambda>found.
     if \<not> found then Inl (PermanentJobError
       ''Jira no longer lists the registered webhook; reconnect Jira to restore authenticated delivery'')
     else bindr (refresh_webhook (je_providers env) (ji_cloud_id j) token webhook) (parse_expiration (je_lib env)))"

definition renewal_delay :: "time \<Rightarrow> time \<Rightarrow> rat" where
  "renewal_delay now expiration = total_seconds (max (expiration - 5 * day) (now + day) - now)"

definition renewal_payload :: "jira_integration \<Rightarrow> uuid \<Rightarrow> dict" where
  "renewal_payload j i = [(''workspaceId'', JStr (uuid_str (ji_workspace_id j))), (''jiraIntegrationId'', JStr (uuid_str i))]"

definition renewal_row :: "uuid \<Rightarrow> int \<Rightarrow> jira_integration \<Rightarrow> bool" where
  "renewal_row i webhook j \<longleftrightarrow> ji_id j = i \<and> ji_status j = ''ACTIVE'' \<and> ji_webhook_id j = Some webhook"

definition renew_webhook ::
  "job_env \<Rightarrow> ('d) events_db_scheme \<Rightarrow> claimed_job \<Rightarrow> string \<Rightarrow> jira_integration \<Rightarrow> int \<Rightarrow> exn option \<times> ('d) events_db_scheme" where
  "renew_webhook env db job w integration webhook =
     (case jira_call env job integration (renewed_expiration env webhook) db of
        (Inl e, db1) \<Rightarrow> (Some e, db1)
      | (Inr (expiration, current), db1) \<Rightarrow>
          (if sql_count (renewal_row (ji_id integration) webhook) (ev_jira_integrations db1) \<noteq> 1
           then (Some (PermanentJobError ''Jira integration changed while its webhook was renewed''), db1)
           else jira_requeue env job w (renewal_payload current (ji_id integration))
                  (renewal_delay (je_utcnow env) expiration) True
                  (db1\<lparr>ev_jira_integrations := sql_update (renewal_row (ji_id integration) webhook)
                     (\<lambda>j. j\<lparr>ji_webhook_expires_at := Some expiration, ji_updated_at := je_now env, ji_version := ji_version j + 1\<rparr>)
                     (ev_jira_integrations db1)\<rparr>)))"

text \<open>The integration the payload names; the workspace may be missing.\<close>

definition renewal_integration :: "dict \<Rightarrow> ('d) events_db_scheme \<Rightarrow> jira_integration result" where
  "renewal_integration payload db =
     (let ws_raw = dict_get payload ''workspaceId'' in
      bindr (parse_uuid (dict_get payload ''jiraIntegrationId'') ''jiraIntegrationId'') (\<lambda>i.
      bindr (if truthy ws_raw then map_sum id Some (parse_uuid ws_raw ''workspaceId'') else Inr None) (\<lambda>ws.
      load_jira_integration i ws db)))"

definition handle_renew_jira_webhook ::
  "job_env \<Rightarrow> ('d) events_db_scheme \<Rightarrow> claimed_job \<Rightarrow> string \<Rightarrow> exn option \<times> ('d) events_db_scheme" where
  "handle_renew_jira_webhook env db job w =
     (case renewal_integration (cj_payload job) db of
        Inl e \<Rightarrow> (Some e, db)
      | Inr integration \<Rightarrow>
          (case (ji_webhook_id integration, nonempty (ji_webhook_token_hash integration)) of
             (Some webhook, Some _) \<Rightarrow> renew_webhook env db job w integration webhook
           | _ \<Rightarrow>
               (Some (PermanentJobError
                  ''Jira webhook authentication is incomplete; reconnect Jira to create an authenticated webhook''),
                mark_jira_integration_error (je_now env) (ji_id integration) db)))"

end
