(* ===== verification/Jira_Facts.thy ===== *)
theory Jira_Facts
  imports Jira_Handlers Github_Event_Facts
begin

text \<open>
  The Jira jobs: every delivery settles its raw event, a renewal is rescheduled before the webhook
  expires, a failure that cannot be retried shows on the integration, and an import of issues
  resumes where its page ended.
\<close>

section \<open>Results that signal nothing\<close>

lemma jira_request_quiet: "quiet (jira_request pv cloud token verb path params body)"
  unfolding jira_request_def by (intro quiet_bindr answered_quiet) (auto dest: status_errors_quiet split: json.split)

lemma list_projects_quiet: "quiet (list_projects pv cloud token start_at)"
  unfolding list_projects_def
  by (intro quiet_bindr jira_request_quiet) (auto simp: Let_def int_of_json_quiet intro!: quiet_bindr split: json.split)

lemma list_unresolved_issues_quiet: "quiet (list_unresolved_issues pv cloud token key next)"
  unfolding list_unresolved_issues_def Let_def
  by (intro quiet_bindr jira_request_quiet) (auto simp: Let_def split: json.split)

lemma webhook_pages_quiet: "(\<And>k. quiet (fetch k)) \<Longrightarrow> quiet (webhook_pages fetch webhook n start)"
proof (induction n arbitrary: start)
  case (Suc n)
  show ?case unfolding webhook_pages.simps
    by (intro quiet_bindr Suc.prems) (auto simp: Suc split: json.split option.split)
qed simp

lemma parse_expiration_quiet: "quiet (parse_expiration lib s)"
  by (auto simp: parse_expiration_def Let_def split: option.split)

lemma renewed_expiration_quiet: "quiet (renewed_expiration env webhook token j)"
proof -
  have "quiet (refresh_webhook pv cloud token webhook)" for pv cloud
    unfolding refresh_webhook_def by (intro quiet_bindr jira_request_quiet) (simp split: option.split)
  then show ?thesis unfolding renewed_expiration_def webhook_exists_def
    by (intro quiet_bindr webhook_pages_quiet jira_request_quiet) (auto intro!: quiet_bindr parse_expiration_quiet)
qed

lemma secrets_quiet: "quiet (encrypt_integration_secret pv s)" "quiet (decrypt_integration_secret pv c v)"
proof -
  have "quiet (key_for_version pv v)" for v by (auto simp: key_for_version_def Let_def split: option.split)
  then show "quiet (encrypt_integration_secret pv s)" "quiet (decrypt_integration_secret pv c v)"
    unfolding encrypt_integration_secret_def decrypt_integration_secret_def Let_def
    by (auto intro!: quiet_bindr split: option.split)
qed

lemma refresh_oauth_quiet: "quiet (refresh_oauth_token pv t)"
  unfolding refresh_oauth_token_def Let_def
  by (auto intro!: quiet_bindr answered_quiet int_of_json_quiet dest: status_errors_quiet split: json.split option.split)

lemma valid_token_quiet: "quiet (get_valid_jira_access_token pv utcnow now j db)"
proof -
  have "quiet (refreshed_row pv utcnow now l)" for l
    unfolding refreshed_row_def by (intro quiet_bindr secrets_quiet refresh_oauth_quiet) (auto intro!: quiet_bindr secrets_quiet)
  then show ?thesis unfolding get_valid_jira_access_token_def open_token_def
    by (auto intro!: quiet_bindr secrets_quiet split: option.split)
qed

lemma jira_call_sound:
  assumes "\<And>t j. quiet (call t j)" and "jira_call env job i call db = (r, db')"
  shows "quiet r \<and> ed_jobs db' = ed_jobs db \<and> ev_raw_events db' = ev_raw_events db"
proof (cases "get_valid_jira_access_token (je_providers env) (je_utcnow env) (je_now env) i db")
  case (Inl e)
  with valid_token_quiet [of "je_providers env" "je_utcnow env" "je_now env" i db] converted_quiet [of e] assms(2)
  show ?thesis by (auto simp: jira_call_def mark_jira_integration_error_def Let_def split: if_splits)
next
  case (Inr x)
  obtain token current db1 where x: "x = (token, current, db1)" by (cases x)
  have j: "ed_jobs db1 = ed_jobs db" "ev_raw_events db1 = ev_raw_events db" using Inr x
    by (auto simp: get_valid_jira_access_token_def bindr_Inr split: if_splits option.splits)
  show ?thesis
  proof (cases "call token current")
    case (Inl e)
    with assms(1) [of token current] converted_quiet [of e] assms(2) Inr x j show ?thesis
      by (auto simp: jira_call_def mark_jira_integration_error_def Let_def split: if_splits)
  next
    case y: (Inr y)
    with assms(2) Inr x j show ?thesis by (auto simp: jira_call_def Let_def)
  qed
qed


section \<open>A delivery\<close>

lemma jira_issue_row_quiet: "quiet (jira_issue_row lib now n ws p issue)"
proof -
  have "quiet (parse_jira_timestamp lib v)" for v
    by (auto simp: parse_jira_timestamp_def split: json.split)
  then show ?thesis unfolding jira_issue_row_def Let_def by (auto intro!: quiet_bindr text_param_quiet)
qed

lemma upsert_jira_issue_quiet: "quiet (upsert_jira_issue lib now ws p issue db)"
  unfolding upsert_jira_issue_def by (intro quiet_bindr jira_issue_row_quiet) simp

lemma put_jira_issue_frame:
  assumes "js_jira_project_id s \<noteq> js_jira_project_id r"
  shows "s \<in> set (put_jira_issue r t) \<longleftrightarrow> s \<in> set t"
proof -
  have "s \<noteq> merge_jira_issue old r" if "jira_issue_key old = jira_issue_key r" for old
    using that assms by (auto simp: merge_jira_issue_def jira_issue_key_def)
  moreover have "jira_issue_key s \<noteq> jira_issue_key r" using assms by (simp add: jira_issue_key_def)
  ultimately show ?thesis using assms
    by (auto simp: put_jira_issue_def sql_upsert_def set_sql_update image_iff split: if_splits)
qed

text \<open>One project's issues differ.\<close>

definition only_project :: "uuid \<Rightarrow> jira_issue list \<Rightarrow> jira_issue list \<Rightarrow> bool" where
  "only_project p t t' \<longleftrightarrow> (\<forall>s. js_jira_project_id s \<noteq> p \<longrightarrow> s \<in> set t' \<longleftrightarrow> s \<in> set t)"

lemma only_project_refl [simp]: "only_project p t t"
  by (simp add: only_project_def)

lemma only_project_trans: "only_project p t u \<Longrightarrow> only_project p u v \<Longrightarrow> only_project p t v"
  by (simp add: only_project_def)

lemma upsert_jira_issue_cases:
  assumes "upsert_jira_issue lib now ws p issue db = Inr db'"
  obtains t where "db' = db\<lparr>ev_jira_issues := t\<rparr>" "only_project p (ev_jira_issues db) t"
proof -
  from assms obtain row where row:
    "jira_issue_row lib now (gen_random_uuid lib (map js_id (ev_jira_issues db))) ws p issue = Inr row"
    "db' = (case row of None \<Rightarrow> db | Some r \<Rightarrow> db\<lparr>ev_jira_issues := put_jira_issue r (ev_jira_issues db)\<rparr>)"
    by (auto simp: upsert_jira_issue_def bindr_Inr)
  show thesis
  proof (cases row)
    case None
    with row(2) that [of "ev_jira_issues db"] show ?thesis by simp
  next
    case (Some r)
    with row(1) have "js_jira_project_id r = p"
      by (auto simp: jira_issue_row_def Let_def bindr_Inr split: if_splits)
    with put_jira_issue_frame [of _ r "ev_jira_issues db"] Some row(2) that [of "put_jira_issue r (ev_jira_issues db)"]
    show ?thesis by (auto simp: only_project_def)
  qed
qed

lemma resolved_project:
  assumes "resolve_project ws integration remote db = Inr (Some p)"
  shows "\<exists>q \<in> set (ev_jira_projects db). jp_id q = p \<and> jp_workspace_id q = ws \<and> jp_jira_integration_id q = integration \<and>
    jp_tracking_enabled q"
proof -
  let ?l = "filter (\<lambda>p. jp_workspace_id p = ws \<and> jp_jira_integration_id p = integration \<and> jp_jira_project_id p = remote \<and>
    jp_tracking_enabled p) (ev_jira_projects db)"
  from assms obtain q where q: "?l = [q]" "jp_id q = p"
    by (auto simp: resolve_project_def split: list.splits)
  then have "q \<in> set ?l" by simp
  with q(2) show ?thesis by auto
qed

lemma dispatch_issue_quiet: "quiet (dispatch_issue_event lib now ws integration t payload db)"
proof -
  have "quiet (resolve_project ws integration r db)" for r
    by (simp add: resolve_project_def split: list.split)
  then show ?thesis unfolding dispatch_issue_event_def Let_def
    by (auto intro!: quiet_bindr upsert_jira_issue_quiet split: json.split option.split)
qed

lemma dispatch_issue_cases:
  assumes "dispatch_issue_event lib now ws integration t payload db = Inr db'"
  obtains (unchanged) "db' = db"
    | (project) remote p u where "resolve_project ws integration remote db = Inr (Some p)"
        "db' = db\<lparr>ev_jira_issues := u\<rparr>" "only_project p (ev_jira_issues db) u"
proof (cases "\<exists>issue. starts_with t ''jira:issue_'' \<and> dict_get payload ''issue'' = JObj issue \<and>
    dict_get (as_dict (dict_get (as_dict (dict_get issue ''fields'')) ''project'')) ''id'' \<noteq> JNull")
  case False
  with assms unchanged show thesis
    by (auto simp: dispatch_issue_event_def Let_def split: if_splits json.splits)
next
  case True
  then obtain issue where i: "starts_with t ''jira:issue_''" "dict_get payload ''issue'' = JObj issue"
    "dict_get (as_dict (dict_get (as_dict (dict_get issue ''fields'')) ''project'')) ''id'' \<noteq> JNull" by blast
  let ?r = "py_text lib (dict_get (as_dict (dict_get (as_dict (dict_get issue ''fields'')) ''project'')) ''id'')"
  from assms i obtain project where r: "resolve_project ws integration ?r db = Inr project"
    by (auto simp: dispatch_issue_event_def Let_def bindr_Inr)
  show thesis
  proof (cases project)
    case None
    with assms i r unchanged show ?thesis by (simp add: dispatch_issue_event_def Let_def)
  next
    case (Some p)
    show ?thesis
    proof (cases "t = ''jira:issue_deleted''")
      case True
      let ?u = "filter (\<lambda>s. \<not> (js_workspace_id s = ws \<and> js_jira_project_id s = p \<and>
          js_jira_issue_id s = py_text lib (dict_get issue ''id''))) (ev_jira_issues db)"
      from assms i r Some True have e: "db' = (if dict_get issue ''id'' = JNull then db else db\<lparr>ev_jira_issues := ?u\<rparr>)"
        by (simp add: dispatch_issue_event_def Let_def)
      show ?thesis
      proof (cases "dict_get issue ''id'' = JNull")
        case True
        show ?thesis by (rule unchanged) (simp only: e True if_True simp_thms)
      next
        case False
        have "only_project p (ev_jira_issues db) ?u" by (auto simp: only_project_def)
        with e [unfolded if_not_P [OF False]] show ?thesis by (rule project [OF r [unfolded Some]])
      qed
    next
      case False
      with assms i r Some have "upsert_jira_issue lib now ws p issue db = Inr db'"
        by (simp add: dispatch_issue_event_def Let_def)
      then show ?thesis by (rule upsert_jira_issue_cases) (rule project [OF r [unfolded Some]])
    qed
  qed
qed


lemma dispatch_issue_frame:
  assumes "dispatch_issue_event lib now ws integration t payload db = Inr db'"
  shows "ed_jobs db' = ed_jobs db \<and> ev_raw_events db' = ev_raw_events db \<and>
    (\<forall>s. \<not> (\<exists>q \<in> set (ev_jira_projects db). jp_id q = js_jira_project_id s \<and> jp_workspace_id q = ws \<and>
       jp_jira_integration_id q = integration \<and> jp_tracking_enabled q) \<longrightarrow>
     (s \<in> set (ev_jira_issues db') \<longleftrightarrow> s \<in> set (ev_jira_issues db)))"
  using assms
proof (cases rule: dispatch_issue_cases)
  case (project remote p u)
  show ?thesis using resolved_project [OF project(1)] project(2,3) by (auto simp: only_project_def)
qed simp

lemma jira_arguments_event:
  assumes "jira_event_arguments payload db = Inr (i, integration, raw, ws)" and "distinct (map rw_id (ev_raw_events db))"
  shows "row_with rw_id i (ev_raw_events db) = Some raw"
proof -
  from assms(1) have "find (\<lambda>r. rw_id r = i \<and> rw_source r = ''JIRA'') (ev_raw_events db) = Some raw"
    by (auto simp: jira_event_arguments_def load_jira_event_def bindr_Inr split: option.splits)
  then have "raw \<in> set (ev_raw_events db)" "rw_id raw = i" by (auto simp: find_Some_iff)
  moreover from this obtain r where r: "row_with rw_id i (ev_raw_events db) = Some r"
    by (cases "row_with rw_id i (ev_raw_events db)") (auto simp: row_with_None)
  ultimately show ?thesis using row_with_Some_set [OF r] assms(2) by (auto simp: distinct_map dest: inj_onD)
qed

lemma raw_event_tables [simp]:
  "ev_jira_issues (update_raw_event i f db) = ev_jira_issues db" "ev_jira_projects (update_raw_event i f db) = ev_jira_projects db"
  by (simp_all add: update_raw_event_def)

text \<open>
  C9: A Jira delivery settles its raw event: PROCESSED when it could be applied, FAILED with the
  sanitized error (which the job raises) when not, one more attempt either way; no other event and
  no job changes, a failed delivery changes no issue, and an issue of a project that is not tracked
  through the delivery's integration is never written or deleted.
\<close>

theorem jira_event_settled:
  assumes "distinct (map rw_id (ev_raw_events db))"
    and "jira_event_arguments (cj_payload c) db = Inr (i, integration, raw, ws)"
    and "handle_process_jira_event env db c w = (r, db')"
  shows "(\<exists>raw'. row_with rw_id i (ev_raw_events db') = Some raw' \<and>
      (rw_status raw', rw_last_error raw', rw_processed_at raw') =
        (case r of None \<Rightarrow> (''PROCESSED'', None, Some (je_now env))
         | Some e \<Rightarrow> (''FAILED'', Some (sanitize_error (exn_str e)), None)) \<and>
      rw_attempt_count raw' = rw_attempt_count raw + 1 \<and> rw_payload raw' = rw_payload raw) \<and>
    (\<forall>k. k \<noteq> i \<longrightarrow> row_with rw_id k (ev_raw_events db') = row_with rw_id k (ev_raw_events db)) \<and>
    ed_jobs db' = ed_jobs db \<and> r \<noteq> Some RequeueWithPayloadError \<and>
    (\<forall>s. r \<noteq> None \<or> \<not> (\<exists>q \<in> set (ev_jira_projects db). jp_id q = js_jira_project_id s \<and> jp_workspace_id q = ws \<and>
        jp_jira_integration_id q = integration \<and> jp_tracking_enabled q) \<longrightarrow>
      (s \<in> set (ev_jira_issues db') \<longleftrightarrow> s \<in> set (ev_jira_issues db)))"
proof -
  note raw = jira_arguments_event [OF assms(2,1)]
  note marks = jira_mark_processing_def jira_mark_processed_def jira_mark_failed_def raw_event_update
  let ?db1 = "jira_mark_processing (je_now env) i db"
  let ?x = "dispatch_issue_event (je_lib env) (je_now env) ws integration (jira_event_type raw)
      (json_object (je_lib env) (rw_payload raw)) ?db1"
  show ?thesis
  proof (cases ?x)
    case (Inl e)
    with dispatch_issue_quiet [of "je_lib env" "je_now env" ws integration "jira_event_type raw" "json_object (je_lib env) (rw_payload raw)" ?db1]
    have "e \<noteq> RequeueWithPayloadError" by simp
    with Inl assms(2,3) raw show ?thesis
      by (auto simp: handle_process_jira_event_def Let_def marks)
  next
    case (Inr db2)
    from dispatch_issue_frame [OF Inr] have f: "ed_jobs db2 = ed_jobs ?db1" "ev_raw_events db2 = ev_raw_events ?db1"
      "\<forall>s. \<not> (\<exists>q \<in> set (ev_jira_projects db). jp_id q = js_jira_project_id s \<and> jp_workspace_id q = ws \<and>
         jp_jira_integration_id q = integration \<and> jp_tracking_enabled q) \<longrightarrow>
       (s \<in> set (ev_jira_issues db2) \<longleftrightarrow> s \<in> set (ev_jira_issues db))"
      by (simp_all add: marks)
    from Inr assms(2,3) have r: "r = None" "db' = jira_mark_processed (je_now env) i db2"
      by (auto simp: handle_process_jira_event_def Let_def)
    from f(1) have j: "ed_jobs db' = ed_jobs db" by (simp add: r marks)
    from f(2) raw have "row_with rw_id i (ev_raw_events db') = Some (raw\<lparr>rw_status := ''PROCESSED'',
        rw_attempt_count := rw_attempt_count raw + 1, rw_processing_started_at := Some (je_now env),
        rw_processed_at := Some (je_now env), rw_last_error := None, rw_updated_at := je_now env,
        rw_version := rw_version raw + 1 + 1\<rparr>)"
      "\<forall>k. k \<noteq> i \<longrightarrow> row_with rw_id k (ev_raw_events db') = row_with rw_id k (ev_raw_events db)"
      by (simp_all add: r marks)
    moreover have "ev_jira_issues db' = ev_jira_issues db2" by (simp add: r marks)
    ultimately show ?thesis using j r(1) f(3) by simp
  qed
qed

section \<open>The contract\<close>

text \<open>How a Jira job that calls the provider ends: the queue untouched, or its row put back.\<close>

definition ends_run :: "jobs \<Rightarrow> uuid \<Rightarrow> string \<Rightarrow> exn option \<times> ('d) events_db_scheme \<Rightarrow> bool" where
  "ends_run t i w res \<longleftrightarrow> ed_jobs (snd res) = t \<and> fst res \<noteq> Some RequeueWithPayloadError \<or>
     (\<exists>now p d b. requeue_with_payload now t i w p d b = (the (fst res), ed_jobs (snd res)) \<and> fst res \<noteq> None)"

lemma ends_run_simps [simp]:
  "ends_run t i w (None, db) \<longleftrightarrow> ed_jobs db = t"
  "e \<noteq> RequeueWithPayloadError \<Longrightarrow> ed_jobs db = t \<Longrightarrow> ends_run t i w (Some e, db)"
  by (auto simp: ends_run_def)

lemma jira_requeue_run: "ed_jobs db = t \<Longrightarrow> ends_run t (cj_id job) w (jira_requeue env job w p d b db)"
proof -
  assume t: "ed_jobs db = t"
  obtain e u where "requeue_with_payload (je_now env) t (cj_id job) w p d b = (e, u)" by fastforce
  then show ?thesis unfolding ends_run_def by (intro disjI2 exI [of _ "je_now env"] exI [of _ p] exI [of _ d] exI [of _ b])
    (simp add: jira_requeue_def t)
qed

lemma upsert_jira_projects_quiet: "quiet (upsert_jira_projects lib now ws i s ds t)"
proof (induction ds arbitrary: t)
  case (Cons d ds)
  have "quiet (upsert_jira_project lib now ws i s d t)"
    unfolding upsert_jira_project_def jira_project_row_def by (auto intro!: quiet_bindr text_param_quiet split: option.split)
  with Cons show ?case by (auto intro!: quiet_bindr)
qed simp

lemma project_page_sound:
  "quiet (project_page lib now ws i s p db)" "project_page lib now ws i s p db = Inr db' \<Longrightarrow> ed_jobs db' = ed_jobs db"
  by (auto simp: project_page_def bindr_Inr intro!: quiet_bindr upsert_jira_projects_quiet)

lemma upsert_jira_issues_sound:
  "upsert_jira_issues lib now ws p ds db = (r, db') \<Longrightarrow>
     quiet r \<and> ed_jobs db' = ed_jobs db \<and> only_project p (ev_jira_issues db) (ev_jira_issues db')"
proof (induction ds arbitrary: db)
  case (Cons d ds)
  show ?case
  proof (cases "upsert_jira_issue lib now ws p d db")
    case (Inl e)
    with Cons.prems upsert_jira_issue_quiet [of lib now ws p d db] show ?thesis by auto
  next
    case (Inr db1)
    then obtain t where t: "db1 = db\<lparr>ev_jira_issues := t\<rparr>" "only_project p (ev_jira_issues db) t"
      by (rule upsert_jira_issue_cases)
    from Cons.IH [of db1] Cons.prems Inr t show ?thesis by (auto intro: only_project_trans)
  qed
qed auto

lemma import_page_sound:
  assumes "issue_page env ws project c s p db = (r, db')"
  shows "quiet r \<and> ed_jobs db' = ed_jobs db"
proof -
  obtain x db1 where u: "upsert_jira_issues (je_lib env) (je_now env) ws (jp_id project) (fst p) db = (x, db1)" by fastforce
  from upsert_jira_issues_sound [OF u] assms u show ?thesis
    by (auto simp: issue_page_def close_missing_jira_issues_def split: sum.splits option.splits)
qed

lemma project_ids_quiet: "quiet (project_ids v)"
  by (auto simp: project_ids_def intro!: quiet_bindr map_result_quiet readers_quiet split: json.split)

lemma issue_cursor_quiet: "quiet (issue_cursor_of v)"
  by (auto simp: issue_cursor_of_def intro!: quiet_bindr readers_quiet split: json.split)

lemma issue_sync_arguments_quiet: "quiet (issue_sync_arguments lib now payload)"
  unfolding issue_sync_arguments_def
  by (intro quiet_bindr project_ids_quiet issue_cursor_quiet readers_quiet) simp


lemma sync_projects_run: "ends_run (ed_jobs db) (cj_id job) w (sync_projects env db job w ws i)"
proof (cases "bindr (bounded_int 0 (dict_get_or (cj_payload job) ''cursor'' (JInt 0)) ''cursor'') (\<lambda>start_at.
    bindr (sync_started_at (je_lib env) (je_utcnow env) (dict_get (cj_payload job) ''syncStartedAt'')) (\<lambda>started.
    bindr (load_jira_integration i (Some ws) db) (\<lambda>integration. Inr (start_at, started, integration))))")
  case (Inl e)
  moreover have "quiet (bindr (bounded_int 0 (dict_get_or (cj_payload job) ''cursor'' (JInt 0)) ''cursor'') (\<lambda>start_at.
    bindr (sync_started_at (je_lib env) (je_utcnow env) (dict_get (cj_payload job) ''syncStartedAt'')) (\<lambda>started.
    bindr (load_jira_integration i (Some ws) db) (\<lambda>integration. Inr (start_at, started, integration)))))"
    by (intro quiet_bindr readers_quiet load_quiet) simp
  ultimately show ?thesis by (simp add: sync_projects_def)
next
  case (Inr a)
  obtain start_at started integration where a: "a = (start_at, started, integration)" by (cases a)
  let ?call = "\<lambda>token j. list_projects (je_providers env) (ji_cloud_id j) token start_at"
  obtain r db1 where c: "jira_call env job integration ?call db = (r, db1)" by fastforce
  from jira_call_sound [OF list_projects_quiet c] have q: "quiet r" "ed_jobs db1 = ed_jobs db" by simp_all
  show ?thesis
  proof (cases r)
    case (Inl e)
    with q Inr a c show ?thesis by (simp add: sync_projects_def)
  next
    case ok: (Inr x)
    obtain p current where x: "x = (p, current)" by (cases x)
    show ?thesis
    proof (cases "project_page (je_lib env) (je_now env) ws i started p db1")
      case (Inl e)
      with project_page_sound(1) [of "je_lib env" "je_now env" ws i started p db1] q ok x c a Inr show ?thesis
        by (simp add: sync_projects_def)
    next
      case page: (Inr db2)
      from project_page_sound(2) [OF page] q have "ed_jobs db2 = ed_jobs db" by simp
      from jira_requeue_run [OF this] this page q ok x c a Inr show ?thesis by (simp add: sync_projects_def split: option.split)
    qed
  qed
qed

lemma issue_sync_run: "ends_run (ed_jobs db) (cj_id job) w (handle_issue_sync env db job w ws i)"
proof (cases "issue_sync_arguments (je_lib env) (je_utcnow env) (cj_payload job)")
  case (Inl e)
  with issue_sync_arguments_quiet [of "je_lib env" "je_utcnow env" "cj_payload job"] show ?thesis
    by (simp add: handle_issue_sync_def)
next
  case (Inr a)
  obtain ids cursor started where a: "a = (ids, cursor, started)" by (cases a)
  let ?ps = "load_tracked_projects ws i ids db" and ?k = "ic_project_index cursor"
  show ?thesis
  proof (cases "int (length ?ps) \<le> ?k")
    case True
    with Inr a show ?thesis by (simp add: handle_issue_sync_def Let_def)
  next
    case False
    note start = Inr a False
    show ?thesis
    proof (cases "load_jira_integration i (Some ws) db")
      case (Inl e)
      with load_quiet(3) [of i "Some ws" db] start show ?thesis by (simp add: handle_issue_sync_def Let_def)
    next
      case j: (Inr integration)
      let ?project = "?ps ! nat ?k"
      let ?call = "\<lambda>token j. list_unresolved_issues (je_providers env) (ji_cloud_id j) token (jp_project_key ?project)
        (ic_next_page_token cursor)"
      obtain r db1 where c: "jira_call env job integration ?call db = (r, db1)" by fastforce
      from jira_call_sound [OF list_unresolved_issues_quiet c] have q: "quiet r" "ed_jobs db1 = ed_jobs db" by simp_all
      show ?thesis
      proof (cases r)
        case (Inl e)
        with q start j c show ?thesis by (simp add: handle_issue_sync_def Let_def)
      next
        case ok: (Inr x)
        obtain p current where x: "x = (p, current)" by (cases x)
        obtain res db2 where p: "issue_page env ws ?project cursor started p db1 = (res, db2)" by fastforce
        from import_page_sound [OF p] q have q2: "quiet res" "ed_jobs db2 = ed_jobs db" by simp_all
        from jira_requeue_run [OF q2(2)] q2 p ok x start j c show ?thesis
          by (cases res) (simp_all add: handle_issue_sync_def Let_def)
      qed
    qed
  qed
qed

lemma sync_run: "ends_run (ed_jobs db) (cj_id job) w (handle_sync_jira_projects env db job w)"
proof -
  have "quiet (bindr (parse_uuid (dict_get (cj_payload job) ''workspaceId'') ''workspaceId'') (\<lambda>ws.
      bindr (parse_uuid (dict_get (cj_payload job) ''jiraIntegrationId'') ''jiraIntegrationId'') (\<lambda>i. Inr (ws, i))))"
    by (intro quiet_bindr readers_quiet) simp
  then show ?thesis unfolding handle_sync_jira_projects_def
    by (auto simp: sync_projects_run issue_sync_run split: sum.split)
qed

lemma renewal_integration_quiet: "quiet (renewal_integration payload db)"
  unfolding renewal_integration_def Let_def by (intro quiet_bindr readers_quiet load_quiet) (simp add: readers_quiet)

lemma renewal_run: "ends_run (ed_jobs db) (cj_id job) w (handle_renew_jira_webhook env db job w)"
proof (cases "renewal_integration (cj_payload job) db")
  case (Inl e)
  with renewal_integration_quiet [of "cj_payload job" db] show ?thesis by (simp add: handle_renew_jira_webhook_def)
next
  case (Inr j)
  have marked: "ed_jobs (mark_jira_integration_error n k d) = ed_jobs d" for n k and d :: "('a) events_db_scheme"
    by (simp add: mark_jira_integration_error_def)
  have renew: "ends_run (ed_jobs db) (cj_id job) w (renew_webhook env db job w j h)" for h
  proof -
    obtain r db1 where c: "jira_call env job j (renewed_expiration env h) db = (r, db1)" by fastforce
    from jira_call_sound [OF renewed_expiration_quiet c] have q: "quiet r" "ed_jobs db1 = ed_jobs db" by simp_all
    then have "ends_run (ed_jobs db) (cj_id job) w (jira_requeue env job w p d b (db1\<lparr>ev_jira_integrations := t\<rparr>))" for p d b t
      by (intro jira_requeue_run) simp
    with q c show ?thesis
      by (cases r) (auto simp: renew_webhook_def split: prod.split)
  qed
  from Inr renew marked show ?thesis
    by (auto simp: handle_renew_jira_webhook_def split: option.split)
qed

lemma ends_run_paged:
  assumes "\<And>db c w. ends_run (ed_jobs db) (cj_id c) w (h db c w)"
  shows "paged_handler h"
proof (unfold_locales, goal_cases)
  case (1 db c w r db')
  with assms [of db c w] show ?case by (intro exI [of _ "ed_jobs db"]) (auto simp: ends_run_def)
qed

interpretation jira_sync: paged_handler "handle_sync_jira_projects env" for env
  by (rule ends_run_paged) (rule sync_run)

interpretation jira_renewal: paged_handler "handle_renew_jira_webhook env" for env
  by (rule ends_run_paged) (rule renewal_run)

lemma jira_event_run: "ends_run (ed_jobs db) (cj_id c) w (handle_process_jira_event env db c w)"
proof (cases "jira_event_arguments (cj_payload c) db")
  case (Inl e)
  have "quiet (jira_event_arguments (cj_payload c) db)" unfolding jira_event_arguments_def
    by (intro quiet_bindr readers_quiet) (auto simp: assert_integration_workspace_def intro!: quiet_bindr split: option.split)
  with Inl show ?thesis by (simp add: handle_process_jira_event_def)
next
  case (Inr a)
  obtain i integration raw ws where a: "a = (i, integration, raw, ws)" by (cases a)
  let ?x = "dispatch_issue_event (je_lib env) (je_now env) ws integration (jira_event_type raw)
      (json_object (je_lib env) (rw_payload raw)) (jira_mark_processing (je_now env) i db)"
  have q: "quiet ?x" by (rule dispatch_issue_quiet)
  show ?thesis
  proof (cases ?x)
    case (Inl e)
    with q Inr a show ?thesis
      by (simp add: handle_process_jira_event_def Let_def jira_mark_failed_def jira_mark_processing_def)
  next
    case x: (Inr db2)
    with dispatch_issue_frame [OF x] Inr a show ?thesis
      by (simp add: handle_process_jira_event_def Let_def jira_mark_processed_def jira_mark_processing_def)
  qed
qed

interpretation jira_events: paged_handler "handle_process_jira_event env" for env
  by (rule ends_run_paged) (rule jira_event_run)


section \<open>Failures\<close>

definition integration_statuses :: "('d) events_db_scheme \<Rightarrow> (uuid \<times> string) list" where
  "integration_statuses db = map (\<lambda>j. (ji_id j, ji_status j)) (ev_jira_integrations db)"

lemma statuses_marked:
  "integration_statuses (mark_jira_integration_error now i db) =
     map (\<lambda>(k, s). if k = i \<and> s = ''ACTIVE'' then (k, ''ERROR'') else (k, s)) (integration_statuses db)"
  by (auto simp: integration_statuses_def mark_jira_integration_error_def sql_update_def)

lemma statuses_refreshed:
  assumes "get_valid_jira_access_token pv utcnow now integration db = Inr (token, current, db')"
  shows "integration_statuses db' = integration_statuses db \<and> ed_jobs db' = ed_jobs db"
proof (cases "db' = db")
  case False
  with assms obtain locked where l:
    "find (\<lambda>j. ji_id j = ji_id integration \<and> ji_workspace_id j = ji_workspace_id integration) (ev_jira_integrations db) = Some locked"
    "ji_status locked = ''ACTIVE''" "refreshed_row pv utcnow now locked = Inr (token, current)"
    "db' = db\<lparr>ev_jira_integrations := sql_update (\<lambda>j. ji_id j = ji_id integration \<and> ji_status j = ''ACTIVE'') (\<lambda>_. current)
       (ev_jira_integrations db)\<rparr>"
    by (auto simp: get_valid_jira_access_token_def bindr_Inr split: if_splits option.splits)
  then have "ji_id current = ji_id integration" "ji_status current = ''ACTIVE''"
    by (auto simp: refreshed_row_def bindr_Inr find_Some_iff split: prod.splits if_splits)
  then show ?thesis by (auto simp: integration_statuses_def l(4) sql_update_def)
qed simp

text \<open>
  A Jira job whose call to Jira fails raises the converted exception, and the integration shows
  it exactly when nobody will try again: with a permanent failure or on the last attempt an active
  integration becomes ERROR; otherwise, and for every other integration always, the status stays.
\<close>

theorem jira_failure_marks_integration:
  assumes "\<And>t j. quiet (call t j)" and "jira_call env job integration call db = (Inl e, db')"
  shows "integration_statuses db' =
      (if is_permanent e \<or> cj_max_attempts job \<le> cj_attempts job
       then map (\<lambda>(k, s). if k = ji_id integration \<and> s = ''ACTIVE'' then (k, ''ERROR'') else (k, s)) (integration_statuses db)
       else integration_statuses db) \<and>
    ed_jobs db' = ed_jobs db \<and> (\<exists>raised. e = provider_exception_as_job_error raised) \<and> e \<noteq> RequeueWithPayloadError"
proof (intro conjI)
  show "ed_jobs db' = ed_jobs db" "e \<noteq> RequeueWithPayloadError" using jira_call_sound [OF assms] by simp_all
  from assms(2) obtain raised db1 where r: "e = provider_exception_as_job_error raised" "integration_statuses db1 = integration_statuses db"
    "db' = (if is_permanent e \<or> cj_max_attempts job \<le> cj_attempts job
       then mark_jira_integration_error (je_now env) (ji_id integration) db1 else db1)"
    using statuses_refreshed by (fastforce simp: jira_call_def Let_def split: sum.splits prod.splits)
  then show "\<exists>raised. e = provider_exception_as_job_error raised" by blast
  show "integration_statuses db' = (if is_permanent e \<or> cj_max_attempts job \<le> cj_attempts job
       then map (\<lambda>(k, s). if k = ji_id integration \<and> s = ''ACTIVE'' then (k, ''ERROR'') else (k, s)) (integration_statuses db)
       else integration_statuses db)"
    by (simp add: r(2,3) statuses_marked)
qed

section \<open>The renewal\<close>

lemma valid_token_row:
  assumes "distinct (map ji_id (ev_jira_integrations db))"
    and "integration \<in> set (ev_jira_integrations db)" and "ji_status integration = ''ACTIVE''"
    and "get_valid_jira_access_token pv utcnow now integration db = Inr (token, current, db')"
  shows "current \<in> set (ev_jira_integrations db') \<and> ji_id current = ji_id integration \<and>
    ji_workspace_id current = ji_workspace_id integration \<and> distinct (map ji_id (ev_jira_integrations db'))"
  using assms
proof (cases rule: valid_token_cases)
  case kept
  with assms show ?thesis by simp
next
  case refreshed
  have "map ji_id (ev_jira_integrations db') = map ji_id (ev_jira_integrations db)"
    using refreshed(4) by (auto simp: refreshed(3) sql_update_def)
  with refreshed assms(1) show ?thesis by simp
qed

lemma loaded_jira:
  assumes "load_jira_integration i ws db = Inr j"
  shows "j \<in> set (ev_jira_integrations db) \<and> ji_id j = i \<and> ji_status j = ''ACTIVE''"
  using assms by (auto simp: load_jira_integration_def find_Some_iff split: option.splits if_splits)

lemma load_jira_unique:
  assumes "distinct (map ji_id (ev_jira_integrations db))" and "j \<in> set (ev_jira_integrations db)" and "ji_status j = ''ACTIVE''"
  shows "load_jira_integration (ji_id j) (Some (ji_workspace_id j)) db = Inr j"
proof -
  let ?p = "\<lambda>x. ji_id x = ji_id j \<and> (Some (ji_workspace_id j) = None \<or> Some (ji_workspace_id j) = Some (ji_workspace_id x))"
  obtain l where l: "find ?p (ev_jira_integrations db) = Some l"
    using assms(2) by (cases "find ?p (ev_jira_integrations db)") (auto simp: find_None_iff)
  then have "l \<in> set (ev_jira_integrations db)" "ji_id l = ji_id j" by (auto simp: find_Some_iff)
  with assms(1,2) have "l = j" by (auto simp: distinct_map dest: inj_onD)
  with l assms(3) show ?thesis by (simp add: load_jira_integration_def)
qed

lemma requeued_exact:
  assumes "queue_ok t" and "requeue_with_payload now t i w p d b = (RequeueWithPayloadError, t')"
  obtains j where "job_row t' i = Some (requeued_row now (now + interval_secs d) p b j)"
proof -
  from requeue_signal [OF assms(2)] assms(1) have o: "owns t i w"
    "t' = sql_update (owned_row i w) (requeued_row now (now + interval_secs d) p b) t"
    by (simp_all add: requeue_txn_eq split: if_splits)
  from owned_update_row [of "requeued_row now (now + interval_secs d) p b", OF _ o(1)] that show thesis
    unfolding o(2) by (auto simp: requeued_row_def)
qed

lemma interval_total: "interval_secs (total_seconds t) = t"
proof -
  have "total_seconds t * of_int second = of_int t" by (simp add: total_seconds_def second_def)
  then show ?thesis by (simp only: interval_secs_def round_half_even_of_int)
qed

lemma renewal_integration_again:
  assumes "distinct (map ji_id (ev_jira_integrations db))" and "j \<in> set (ev_jira_integrations db)"
    and "ji_status j = ''ACTIVE''" and "ji_id j < 2 ^ 128" and "ji_workspace_id j < 2 ^ 128"
  shows "renewal_integration (renewal_payload j (ji_id j)) db = Inr j"
proof -
  have "truthy (JStr (uuid_str (ji_workspace_id j)))" by (simp add: uuid_str_def Let_def)
  then show ?thesis using parse_uuid_again [OF assms(4)] parse_uuid_again [OF assms(5)] load_jira_unique [OF assms(1-3)]
    by (simp add: renewal_integration_def renewal_payload_def dict_get_def Let_def)
qed


text \<open>
  C8: A renewed webhook is renewed again in time.  The job goes back to PENDING with its attempts
  reset, due five days before the new expiration but not sooner than a day from now; the expiration
  is stored on the active integration, and the new payload leads the next run to that row.
\<close>

theorem webhook_renewal_scheduled:
  assumes "queue_ok (ed_jobs db)" and "distinct (map ji_id (ev_jira_integrations db))"
    and "\<forall>j \<in> set (ev_jira_integrations db). ji_id j < 2 ^ 128 \<and> ji_workspace_id j < 2 ^ 128"
    and "handle_renew_jira_webhook env db job w = (Some RequeueWithPayloadError, db')"
  shows "\<exists>j row expiration. job_row (ed_jobs db') (cj_id job) = Some j \<and> pj_status j = PENDING \<and> pj_attempts j = 0 \<and>
    pj_available_at j - je_now env = max (expiration - 5 * day) (je_utcnow env + day) - je_utcnow env \<and>
    renewal_integration (pj_payload j) db' = Inr row \<and> row \<in> set (ev_jira_integrations db') \<and>
    ji_webhook_expires_at row = Some expiration \<and> ji_webhook_id row \<noteq> None"
proof -
  from assms(4) renewal_integration_quiet [of "cj_payload job" db] obtain i where i: "renewal_integration (cj_payload job) db = Inr i"
    by (cases "renewal_integration (cj_payload job) db") (auto simp: handle_renew_jira_webhook_def)
  with assms(4) obtain h where h: "ji_webhook_id i = Some h"
    and renewed: "renew_webhook env db job w i h = (Some RequeueWithPayloadError, db')"
    by (auto simp: handle_renew_jira_webhook_def split: option.splits)
  from i obtain k wso where "load_jira_integration k wso db = Inr i"
    by (auto simp: renewal_integration_def bindr_Inr Let_def)
  from loaded_jira [OF this] have row: "i \<in> set (ev_jira_integrations db)" "ji_status i = ''ACTIVE''" by simp_all
  obtain r db1 where c: "jira_call env job i (renewed_expiration env h) db = (r, db1)" by fastforce
  from jira_call_sound [OF renewed_expiration_quiet c] have q: "quiet r" "ed_jobs db1 = ed_jobs db" by simp_all
  with renewed c obtain e current where r: "r = Inr (e, current)" by (cases r) (auto simp: renew_webhook_def)
  with c obtain token where "get_valid_jira_access_token (je_providers env) (je_utcnow env) (je_now env) i db = Inr (token, current, db1)"
    by (auto simp: jira_call_def Let_def split: sum.splits prod.splits if_splits)
  from valid_token_row [OF assms(2) row this] have cur: "current \<in> set (ev_jira_integrations db1)" "ji_id current = ji_id i"
    "ji_workspace_id current = ji_workspace_id i" "distinct (map ji_id (ev_jira_integrations db1))" by simp_all
  let ?p = "renewal_row (ji_id i) h" and ?f = "\<lambda>j. j\<lparr>ji_webhook_expires_at := Some e, ji_updated_at := je_now env,
    ji_version := ji_version j + 1\<rparr>"
  let ?t = "sql_update ?p ?f (ev_jira_integrations db1)"
  from renewed c r have one: "sql_count ?p (ev_jira_integrations db1) = 1"
    and req: "jira_requeue env job w (renewal_payload current (ji_id i)) (renewal_delay (je_utcnow env) e) True
        (db1\<lparr>ev_jira_integrations := ?t\<rparr>) = (Some RequeueWithPayloadError, db')"
    by (auto simp: renew_webhook_def split: if_splits)
  from one obtain x where x: "x \<in> set (ev_jira_integrations db1)" "?p x"
    by (metis One_nat_def sql_count_zero zero_neq_one)
  then have "ji_id x = ji_id current" by (simp add: renewal_row_def cur(2))
  with x(1) cur(1,4) have "x = current" by (auto simp: distinct_map dest: inj_onD)
  with x(2) have p: "?p current" by simp
  let ?q = "renewal_payload current (ji_id i)" and ?d = "renewal_delay (je_utcnow env) e"
  from req have "requeue_with_payload (je_now env) (ed_jobs db) (cj_id job) w ?q ?d True = (RequeueWithPayloadError, ed_jobs db')"
    and t: "ev_jira_integrations db' = ?t"
    by (auto simp: jira_requeue_def q split: prod.splits)
  from requeued_exact [OF assms(1) this(1)] obtain j where
    j: "job_row (ed_jobs db') (cj_id job) = Some (requeued_row (je_now env) (je_now env + interval_secs ?d) ?q True j)" .
  have in': "?f current \<in> set (ev_jira_integrations db')" using cur(1) p by (force simp: t set_sql_update)
  have "map ji_id ?t = map ji_id (ev_jira_integrations db1)" by (rule map_sql_update_key) simp
  then have "distinct (map ji_id (ev_jira_integrations db'))" using cur(4) by (simp add: t)
  from renewal_integration_again [OF this in'] p row assms(3) cur(2,3)
  have "renewal_integration ?q db' = Inr (?f current)" by (simp add: renewal_row_def renewal_payload_def)
  moreover have "interval_secs ?d = max (e - 5 * day) (je_utcnow env + day) - je_utcnow env"
    unfolding renewal_delay_def by (rule interval_total)
  ultimately show ?thesis using j in' p by (auto simp: requeued_row_def renewal_row_def)
qed

section \<open>The import of issues\<close>

lemma unique_distinct [simp]: "distinct (unique xs)" "set (unique xs) = set xs"
  by (simp_all add: unique_def)

lemma issue_cursor_bounds: "issue_cursor_of v = Inr c \<Longrightarrow> 0 \<le> ic_project_index c"
proof -
  assume "issue_cursor_of v = Inr c"
  then consider "ic_project_index c = 0" | d where "v = JObj d" by (cases v) (auto simp: issue_cursor_of_def)
  then show "0 \<le> ic_project_index c"
  proof cases
    case 2
    with \<open>issue_cursor_of v = Inr c\<close> have "bounded_int 0 (dict_get d ''projectIndex'') ''projectIndex'' = Inr (ic_project_index c)"
      by (cases "dict_get d ''nextPageToken''") (auto simp: issue_cursor_of_def bindr_Inr split: if_splits)
    then show ?thesis by (rule bounded_int_least)
  qed simp
qed

lemma issue_cursor_again:
  assumes "0 \<le> ic_project_index c" and "ic_next_page_token c \<noteq> Some []"
  shows "issue_cursor_of (issue_cursor_json c) =
    (case ic_next_page_token c of
       Some s \<Rightarrow> if 4096 < length s then Inl (PermanentJobError ''Invalid Jira issue sync nextPageToken'') else Inr c
     | None \<Rightarrow> Inr c)"
  using assms by (cases c) (auto simp: issue_cursor_of_def issue_cursor_json_def dict_get_def bounded_int_def Let_def split: option.split)

lemma issue_page_next:
  assumes "issue_page env ws project c s p db = (Inr next, db')"
  shows "next = (case snd p of Some token \<Rightarrow> c\<lparr>ic_next_page_token := Some token\<rparr>
    | None \<Rightarrow> \<lparr>ic_project_index = ic_project_index c + 1, ic_next_page_token = None\<rparr>)"
  using assms by (auto simp: issue_page_def split: sum.splits prod.splits option.splits)

lemma nonempty_text_Some: "nonempty_text v = Some s \<Longrightarrow> s \<noteq> []"
  by (cases v) (auto split: if_splits)

lemma issue_tokens_nonempty:
  assumes "list_unresolved_issues pv cloud token key t = Inr (ds, Some next)"
  shows "next \<noteq> []"
proof -
  from assms obtain body where
    "(case dict_get_or body ''issues'' (JList []) of
         JList vs \<Rightarrow>
            if dict_get body ''nextPageToken'' \<noteq> JNull \<and> nonempty_text (dict_get body ''nextPageToken'') = None
            then Inl (provider_error ''Jira issue search returned an invalid nextPageToken'' None)
            else Inr (dicts_of vs, nonempty_text (dict_get body ''nextPageToken''))
       | _ \<Rightarrow> Inl (provider_error ''Jira issue search response field issues is not a list'' None)) = Inr (ds, Some next)"
    unfolding list_unresolved_issues_def Let_def bindr_Inr by blast
  then have "nonempty_text (dict_get body ''nextPageToken'') = Some next"
    by (cases "dict_get_or body ''issues'' (JList [])") (auto split: if_splits)
  then show ?thesis by (rule nonempty_text_Some)
qed

lemma issue_sync_page:
  assumes "issue_sync_arguments (je_lib env) (je_utcnow env) (cj_payload job) = Inr (ids, cursor, started)"
    and "handle_issue_sync env db job w ws i = (Some RequeueWithPayloadError, db')"
  obtains nxt t where "ic_project_index cursor < int (length (load_tracked_projects ws i ids db))"
    "ic_next_page_token nxt \<noteq> Some []"
    "ic_project_index nxt = ic_project_index cursor + (if ic_next_page_token nxt = None then 1 else 0)"
    "t = ed_jobs db" "requeue_with_payload (je_now env) t (cj_id job) w
       (jira_continuation (je_lib env) (cj_payload job) (issue_cursor_json nxt) started) 0 False =
       (RequeueWithPayloadError, ed_jobs db')"
proof -
  let ?ps = "load_tracked_projects ws i ids db" and ?k = "ic_project_index cursor"
  let ?project = "?ps ! nat ?k"
  let ?call = "\<lambda>token j. list_unresolved_issues (je_providers env) (ji_cloud_id j) token (jp_project_key ?project)
    (ic_next_page_token cursor)"
  from assms have k: "?k < int (length ?ps)" by (auto simp: handle_issue_sync_def Let_def split: if_splits)
  note start = assms(1) k
  from assms(2) load_quiet(3) [of i "Some ws" db] start obtain integration where j: "load_jira_integration i (Some ws) db = Inr integration"
    by (cases "load_jira_integration i (Some ws) db") (auto simp: handle_issue_sync_def Let_def)
  obtain r db1 where c: "jira_call env job integration ?call db = (r, db1)" by fastforce
  from jira_call_sound [OF list_unresolved_issues_quiet c] have q: "quiet r" "ed_jobs db1 = ed_jobs db" by simp_all
  with assms(2) start j c obtain p current where r: "r = Inr (p, current)"
    by (cases r) (auto simp: handle_issue_sync_def Let_def)
  with c obtain token where l: "?call token current = Inr p"
    by (auto simp: jira_call_def Let_def split: sum.splits prod.splits if_splits)
  obtain res db2 where pg: "issue_page env ws ?project cursor started p db1 = (res, db2)" by fastforce
  from import_page_sound [OF pg] q have q2: "quiet res" "ed_jobs db2 = ed_jobs db" by simp_all
  with assms(2) start j c r pg obtain nx where n: "res = Inr nx"
    by (cases res) (auto simp: handle_issue_sync_def Let_def)
  from assms(2) start j c r pg n have req: "jira_requeue env job w (jira_continuation (je_lib env) (cj_payload job)
      (issue_cursor_json nx) started) 0 False db2 = (Some RequeueWithPayloadError, db')"
    by (auto simp: handle_issue_sync_def Let_def split: if_splits)
  note nx = issue_page_next [OF pg [unfolded n]]
  have "ic_next_page_token nx \<noteq> Some []"
    using nx l issue_tokens_nonempty by (cases p) (fastforce split: option.splits)
  moreover have "ic_project_index nx = ic_project_index cursor + (if ic_next_page_token nx = None then 1 else 0)"
    by (simp add: nx split: option.split)
  ultimately show thesis using that [of nx "ed_jobs db2"] k req q2(2)
    by (auto simp: jira_requeue_def split: prod.splits)
qed

text \<open>
  An import of issues resumes where its page ended.  The job goes back to PENDING with a payload
  from which any later run reads the same projects and start, and the cursor after the page: the
  next page of the same project, or the first page of the next one; only a page token of more than
  4096 characters is refused, so such an import fails instead of continuing.
\<close>

theorem issue_import_resumes:
  assumes "queue_ok (ed_jobs db)" and "iso_round_trip (je_lib env)"
    and "issue_sync_arguments (je_lib env) (je_utcnow env) (cj_payload job) = Inr (ids, cursor, started)"
    and "handle_issue_sync env db job w ws i = (Some RequeueWithPayloadError, db')"
  shows "\<exists>j nxt. job_row (ed_jobs db') (cj_id job) = Some j \<and> pj_status j = PENDING \<and>
    ic_project_index nxt = ic_project_index cursor + (if ic_next_page_token nxt = None then 1 else 0) \<and>
    ic_project_index cursor < int (length (load_tracked_projects ws i ids db)) \<and>
    (\<forall>later. issue_sync_arguments (je_lib env) later (pj_payload j) =
       (case ic_next_page_token nxt of
          Some token \<Rightarrow> if 4096 < length token then Inl (PermanentJobError ''Invalid Jira issue sync nextPageToken'')
                        else Inr (ids, nxt, started)
        | None \<Rightarrow> Inr (ids, nxt, started)))"
  using assms(3,4)
proof (cases rule: issue_sync_page)
  case (1 nxt t)
  let ?q = "jira_continuation (je_lib env) (cj_payload job) (issue_cursor_json nxt) started"
  from 1(5) assms(1) obtain j where j: "job_row (ed_jobs db') (cj_id job) = Some j" "pj_status j = PENDING" "pj_payload j = ?q"
    unfolding 1(4) by (elim requeued_exact) (auto simp: requeued_row_def)
  from assms(3) have ids: "project_ids (dict_get (cj_payload job) ''jiraProjectIds'') = Inr ids"
    and c: "issue_cursor_of (dict_get (cj_payload job) ''cursor'') = Inr cursor"
    by (auto simp: issue_sync_arguments_def bindr_Inr)
  have "0 \<le> ic_project_index nxt" using issue_cursor_bounds [OF c] 1(3) by simp
  note again = issue_cursor_again [OF this 1(2)]
  have "issue_sync_arguments (je_lib env) later ?q =
       (case ic_next_page_token nxt of
          Some token \<Rightarrow> if 4096 < length token then Inl (PermanentJobError ''Invalid Jira issue sync nextPageToken'')
                        else Inr (ids, nxt, started)
        | None \<Rightarrow> Inr (ids, nxt, started))" for later
    by (simp add: issue_sync_arguments_def jira_continuation_def ids again sync_started_at_again [OF assms(2)] split: option.split)
  then show ?thesis unfolding j(3) [symmetric] using j(1,2) 1(1,3) by blast
qed

section \<open>Projects untracked during an import\<close>

lemma tracked_ids:
  "map jp_id (load_tracked_projects ws i ids db) = filter (\<lambda>x. x \<in> jp_id ` set (load_tracked_projects ws i ids db)) ids"
proof -
  define f where "f x = row_with jp_id x (filter (\<lambda>p. jp_workspace_id p = ws \<and> jp_jira_integration_id p = i \<and> jp_tracking_enabled p \<and>
            jp_id p \<in> set ids) (ev_jira_projects db))" for x
  have f: "f x = Some p \<Longrightarrow> jp_id p = x" for x p unfolding f_def by (rule row_with_Some_set [THEN conjunct2])
  have l: "load_tracked_projects ws i ids db = List.map_filter f ids"
    by (simp add: load_tracked_projects_def f_def [abs_def] Let_def)
  have "map jp_id (List.map_filter f xs) = filter (\<lambda>x. f x \<noteq> None) xs" for xs
    using f by (induction xs) (auto simp: List.map_filter_simps split: option.split)
  moreover have "x \<in> jp_id ` set (List.map_filter f ids) \<longleftrightarrow> f x \<noteq> None" if "x \<in> set ids" for x
    using that f by (force simp: List.map_filter_def)
  ultimately show ?thesis unfolding l by (simp cong: filter_cong)
qed


lemma tracked_distinct: "project_ids v = Inr ids \<Longrightarrow> distinct (map jp_id (load_tracked_projects ws i ids db))"
  unfolding tracked_ids by (auto simp: project_ids_def bindr_Inr split: json.splits if_splits)

lemma row_with_filter: "row_with k x (filter (\<lambda>r. k r \<noteq> y) t) = (if x = y then None else row_with k x t)"
  by (induction t) auto

lemma untracked_filter:
  assumes "\<And>p. Q p \<Longrightarrow> jp_tracking_enabled p" and "\<And>p. Q (untrack_project now p) \<Longrightarrow> Q p"
  shows "filter Q (sql_update (\<lambda>p. jp_id p = y) (untrack_project now) t) = filter (\<lambda>p. jp_id p \<noteq> y) (filter Q t)"
  using assms(1) [of "untrack_project now _"] by (induction t) (auto simp: untrack_project_def)

lemma load_untracked:
  "load_tracked_projects ws i ids
     (db\<lparr>ev_jira_projects := sql_update (\<lambda>p. jp_id p = y) (untrack_project now) (ev_jira_projects db)\<rparr>) =
   filter (\<lambda>p. jp_id p \<noteq> y) (load_tracked_projects ws i ids db)"
proof -
  let ?Q = "\<lambda>p. jp_workspace_id p = ws \<and> jp_jira_integration_id p = i \<and> jp_tracking_enabled p \<and> jp_id p \<in> set ids"
  let ?rows = "filter ?Q (ev_jira_projects db)"
  have "List.map_filter (\<lambda>x. if x = y then None else row_with jp_id x ?rows) xs =
      filter (\<lambda>p. jp_id p \<noteq> y) (List.map_filter (\<lambda>x. row_with jp_id x ?rows) xs)" for xs
    by (induction xs) (auto simp: List.map_filter_simps split: option.split dest: row_with_Some_set)
  moreover have "filter ?Q (sql_update (\<lambda>p. jp_id p = y) (untrack_project now) (ev_jira_projects db)) =
      filter (\<lambda>p. jp_id p \<noteq> y) ?rows"
    by (rule untracked_filter) (auto simp: untrack_project_def)
  ultimately show ?thesis unfolding load_tracked_projects_def Let_def by (simp del: filter_filter add: row_with_filter)
qed

lemma filter_other_keys:
  "distinct (map k xs) \<Longrightarrow> n < length xs \<Longrightarrow> filter (\<lambda>x. k x \<noteq> k (xs ! n)) xs = take n xs @ drop (Suc n) xs"
proof (induction xs arbitrary: n)
  case (Cons a xs)
  show ?case
  proof (cases n)
    case 0
    with Cons.prems(1) have "filter (\<lambda>x. k x \<noteq> k a) xs = xs" by (metis (mono_tags) distinct.simps(2) filter_True imageI list.map(2) list.set_map)
    with 0 show ?thesis by simp
  next
    case (Suc m)
    with Cons.prems have "xs ! m \<in> set xs" "k a \<notin> k ` set xs" by simp_all
    then have "k a \<noteq> k (xs ! m)" by blast
    with Suc Cons show ?thesis by simp
  qed
qed simp


section \<open>The end of a project\<close>

lemma update_kept: "\<not> p r \<Longrightarrow> (\<And>x. p x \<Longrightarrow> f x \<noteq> r) \<Longrightarrow> r \<in> set (sql_update p f t) \<longleftrightarrow> r \<in> set t"
  unfolding set_sql_update by (auto simp: image_iff)


end
