(* ===== verification/Engine.thy ===== *)
theory Engine
  imports Backfill_Facts Jira_Facts Alerts_Job Delete_Workspace
begin

text \<open>
  The whole engine: one database with every table, the handler table of \<^verbatim>\<open>dispatcher.py\<close> with the
  modelled handlers behind its nine job types, and the dispatch of a claimed job by it.
\<close>

section \<open>State\<close>

record engine_state = events_db +
  en_rules :: "alert_rule list"
  en_deliveries :: "delivery list"

text \<open>
  The alert queries read columns the other theories do not keep (names of workspaces, ids and
  creation times of snapshots and predictions, the JSON text of dimensions): \<open>en_alert_rows\<close> gives
  the rows they see.
\<close>

record engine_env =
  en_events :: event_env
  en_alerts :: alert_env
  en_cascade :: "uuid \<Rightarrow> jobs \<Rightarrow> jobs"
  en_alert_rows :: "events_db \<Rightarrow> risk_prediction_row list \<times> dora_row list \<times> (uuid \<Rightarrow> uuid \<Rightarrow> (string \<times> string) option)"

definition alert_view :: "engine_env \<Rightarrow> ('d) engine_state_scheme \<Rightarrow> alert_db" where
  "alert_view env db =
     (case en_alert_rows env (events_db.truncate db) of
        (predictions, snapshots, names) \<Rightarrow>
          \<lparr>ed_jobs = ed_jobs db, ed_workspaces = ed_workspaces db, ad_rules = en_rules db, ad_deliveries = en_deliveries db,
           ad_predictions = predictions, ad_snapshots = snapshots, ad_names = names\<rparr>)"

definition alert_job ::
  "engine_env \<Rightarrow> ('d) engine_state_scheme \<Rightarrow> claimed_job \<Rightarrow> string \<Rightarrow> exn option \<times> ('d) engine_state_scheme" where
  "alert_job env db c w =
     (case handle_evaluate_alerts (en_alerts env) (alert_view env db) c w of
        (r, a) \<Rightarrow> (r, db\<lparr>ed_jobs := ed_jobs a, ed_workspaces := ed_workspaces a, en_rules := ad_rules a,
                         en_deliveries := ad_deliveries a\<rparr>))"

section \<open>The handler table\<close>

text \<open>\<^verbatim>\<open>HANDLERS[job_type]\<close>; \<open>None\<close> is a handler that does not return.\<close>

definition engine_handler ::
  "engine_env \<Rightarrow> string \<Rightarrow> ('d) engine_state_scheme \<Rightarrow> claimed_job \<Rightarrow> string \<Rightarrow> (exn option \<times> ('d) engine_state_scheme) option" where
  "engine_handler env name db c w =
     (let jobs = ee_job (en_events env) in
      if name = ''PROCESS_GITHUB_EVENT'' then handle_process_github_event (en_events env) db c w
      else if name = ''PROCESS_JIRA_EVENT'' then Some (handle_process_jira_event jobs db c w)
      else if name = ''BACKFILL_REPOSITORY'' then handle_backfill_repository (en_events env) db c w
      else if name = ''SYNC_GITHUB_REPOSITORIES'' then Some (handle_sync_github_repositories jobs db c w)
      else if name = ''SYNC_JIRA_PROJECTS'' then Some (handle_sync_jira_projects jobs db c w)
      else if name = ''RENEW_JIRA_WEBHOOK'' then Some (handle_renew_jira_webhook jobs db c w)
      else if name = ''DELETE_WORKSPACE'' then Some (handle_delete_workspace (en_cascade env) db c w)
      else if name = ''RECALCULATE_METRICS'' then handle_recalculate_metrics (je_service jobs) db c w
      else Some (alert_job env db c w))"

definition engine_dispatch ::
  "time \<Rightarrow> rat \<Rightarrow> engine_env \<Rightarrow> ('d) engine_state_scheme \<Rightarrow> claimed_job \<Rightarrow> string \<Rightarrow>
     (job_dispatch_outcome result \<times> ('d) engine_state_scheme) option" where
  "engine_dispatch now u env db c w =
     (if cj_job_type c \<in> set handler_names \<and> engine_handler env (cj_job_type c) db c w = None then None
      else Some (dispatch_job now u (\<lambda>name. returned (engine_handler env name)) db c w))"

section \<open>The contracts together\<close>

context paged_handler
begin

lemma is_job_handler: "job_handler handle"
  by (rule paging.job_handler_axioms)

end

context tenant_cascade
begin

lemma is_job_handler: "job_handler (handle_delete_workspace cascade)"
  by (rule deleting.job_handler_axioms)

end

lemma alert_job_handler: "job_handler (alert_job env)"
proof -
  have f: "ed_jobs db' = ed_jobs db \<and> r \<noteq> Some RequeueWithPayloadError" if "alert_job env db c w = (r, db')"
    for db db' :: "('a) engine_state_scheme" and c w r
  proof -
    obtain x a where a: "handle_evaluate_alerts (en_alerts env) (alert_view env db) c w = (x, a)" by fastforce
    from handle_alerts_frame [OF this] that a show ?thesis
      by (auto simp: alert_job_def alert_view_def split: prod.splits)
  qed
  show ?thesis by unfold_locales (auto dest!: f)
qed

lemma recalculation_total:
  assumes "zones_ok env"
  shows "handle_recalculate_metrics env db c w \<noteq> None"
proof (cases "recalculation_args env c")
  case (Inr a)
  obtain repo ws r where a: "a = (repo, ws, r)" by (cases a)
  obtain x where "recalculate_repository_metrics env ws repo r db = Some x"
    using recalculate_return [OF assms, of ws repo r db] by blast
  with Inr a show ?thesis by (simp add: handle_recalculate_metrics_def)
qed (simp add: handle_recalculate_metrics_def)

lemma engine_contract:
  assumes "jobs_fresh (ee_service (en_events env))" and "zones_ok (ee_service (en_events env))"
    and "tenant_cascade (en_cascade env)"
  shows "job_handler (returned (engine_handler env name :: 'd engine_state_scheme \<Rightarrow> _))"
proof -
  note defs = engine_handler_def [abs_def] Let_def
  consider "name = ''PROCESS_GITHUB_EVENT''" | "name = ''PROCESS_JIRA_EVENT''" | "name = ''BACKFILL_REPOSITORY''"
    | "name = ''SYNC_GITHUB_REPOSITORIES''" | "name = ''SYNC_JIRA_PROJECTS''" | "name = ''RENEW_JIRA_WEBHOOK''"
    | "name = ''DELETE_WORKSPACE''" | "name = ''RECALCULATE_METRICS''"
    | "name \<noteq> ''PROCESS_GITHUB_EVENT''" "name \<noteq> ''PROCESS_JIRA_EVENT''" "name \<noteq> ''BACKFILL_REPOSITORY''"
        "name \<noteq> ''SYNC_GITHUB_REPOSITORIES''" "name \<noteq> ''SYNC_JIRA_PROJECTS''" "name \<noteq> ''RENEW_JIRA_WEBHOOK''"
        "name \<noteq> ''DELETE_WORKSPACE''" "name \<noteq> ''RECALCULATE_METRICS''" by blast
  then show ?thesis
  proof cases
    case 1
    with paged_handler.is_job_handler [OF github_event_handler [OF assms(1)]] show ?thesis by (simp add: defs)
  next
    case 2
    with paged_handler.is_job_handler [OF jira_events.paged_handler_axioms] show ?thesis by (simp add: defs)
  next
    case 3
    with paged_handler.is_job_handler [OF backfill_handler [OF assms(1)]] show ?thesis by (simp add: defs)
  next
    case 4
    with paged_handler.is_job_handler [OF github_sync.paged_handler_axioms] show ?thesis by (simp add: defs)
  next
    case 5
    with paged_handler.is_job_handler [OF jira_sync.paged_handler_axioms] show ?thesis by (simp add: defs)
  next
    case 6
    with paged_handler.is_job_handler [OF jira_renewal.paged_handler_axioms] show ?thesis by (simp add: defs)
  next
    case 7
    with tenant_cascade.is_job_handler [OF assms(3)] show ?thesis by (simp add: defs)
  next
    case 8
    have "returned (handle_recalculate_metrics (ee_service (en_events env))) =
        (\<lambda>(db :: 'd engine_state_scheme) c w. the (handle_recalculate_metrics (ee_service (en_events env)) db c w))"
    proof (intro ext)
      fix db :: "'d engine_state_scheme" and c :: claimed_job and w :: string
      from recalculation_total [OF assms(2), of db c w]
      show "returned (handle_recalculate_metrics (ee_service (en_events env))) db c w =
          the (handle_recalculate_metrics (ee_service (en_events env)) db c w)" by (auto split: option.split)
    qed
    with 8 recalculation_handler [OF assms(2,1)] show ?thesis by (simp add: defs)
  next
    case 9
    with alert_job_handler show ?thesis by (simp add: defs)
  qed
qed

lemma reports_settled:
  assumes "reports (r, db') i"
  shows "\<exists>out j'. r = Inr out \<and> job_row (ed_jobs db') i = Some j' \<and> pj_status j' = outcome_status out \<and>
    pj_locked_by j' = None \<and> queue_ok (ed_jobs db')"
proof -
  from assms obtain out j' where o: "r = Inr out" "job_row (ed_jobs db') i = Some j'" "pj_status j' = outcome_status out"
    "queue_ok (ed_jobs db')" by (auto simp: reports_def)
  have "pj_status j' \<noteq> RUNNING" using o(3) by (cases out) simp_all
  with queue_ok_row [OF o(4,2)] have "pj_locked_by j' = None" by (simp add: job_ok_def)
  with o show ?thesis by blast
qed


end
