(* ===== verification/Jira_Examples.thy ===== *)
theory Jira_Examples
  imports Jira_Facts Event_Examples
begin

text \<open>The properties of the Jira jobs at concrete inputs: one site with a webhook and two tracked projects.\<close>

section \<open>A site\<close>

definition jira_answer :: "request \<Rightarrow> json" where
  "jira_answer q =
     (if rq_path q = ''/ex/jira/cloud/rest/api/3/webhook'' then JObj [(''values'', JList [JObj [(''id'', JInt 1)]])]
      else if rq_path q = ''/ex/jira/cloud/rest/api/3/webhook/refresh'' then JObj [(''expirationDate'', JStr ''pxx'')]
      else if rq_path q = ''/ex/jira/cloud/rest/api/3/search/jql''
      then JObj [(''issues'', JList []), (''nextPageToken'', JStr ''page2'')]
      else sample_answer q)"

definition jira_env :: job_env where
  "jira_env = sample_env\<lparr>je_providers := sample_providers\<lparr>pv_send := (\<lambda>q. Inr \<lparr>hr_status = 200, hr_headers = (\<lambda>_. None),
     hr_body = Some (jira_answer q)\<rparr>)\<rparr>\<rparr>"

lemma jira_iso_round_trip: "iso_round_trip (je_lib jira_env)"
  using sample_iso_round_trip by (simp add: jira_env_def)

definition hooked_site :: jira_integration where
  "hooked_site = sample_site\<lparr>ji_webhook_token_hash := Some ''h''\<rparr>"

definition tracked_project :: "uuid \<Rightarrow> jira_project" where
  "tracked_project i = \<lparr>jp_id = i, jp_workspace_id = 7, jp_jira_integration_id = 3, jp_jira_project_id = ''10'', jp_project_key = ''K'',
     jp_project_name = ''n'', jp_project_type = ''software'', jp_tracking_enabled = True, jp_last_synced_at = None,
     jp_updated_at = 0, jp_version = 0\<rparr>"

definition open_issue :: jira_issue where
  "open_issue = \<lparr>js_id = 40, js_workspace_id = 7, js_jira_project_id = 31, js_jira_issue_id = ''90'', js_issue_key = ''K-1'',
     js_issue_type = None, js_status_name = None, js_priority_name = None, js_summary = None, js_is_incident = False,
     js_jira_created_at = None, js_jira_updated_at = None, js_resolved_at = None, js_raw_data = JNull, js_created_at = 0,
     js_updated_at = 0, js_version = 1\<rparr>"

definition jira_job :: processing_job where
  "jira_job = sync_job\<lparr>pj_payload := [(''workspaceId'', JStr (uuid_str 7)), (''jiraIntegrationId'', JStr (uuid_str 3)),
     (''jiraProjectIds'', JList [JStr (uuid_str 31), JStr (uuid_str 32)])]\<rparr>"

definition jira_event :: raw_event where
  "jira_event = sample_event\<lparr>rw_source := ''JIRA'', rw_event_type := Some ''jira:issue_deleted'',
     rw_payload := JObj [(''issue'', JObj [(''id'', JInt 90), (''fields'', JObj [(''project'', JObj [(''id'', JInt 10)])])])]\<rparr>"

definition hooked_sample :: "unit events_db_scheme" where
  "hooked_sample = events_sample\<lparr>ed_jobs := [jira_job], ev_jira_integrations := [hooked_site], ev_raw_events := [jira_event],
     ev_jira_projects := [tracked_project 31, (tracked_project 32)\<lparr>jp_jira_project_id := ''11''\<rparr>],
     ev_jira_issues := [open_issue]\<rparr>"

lemma hooked_queue: "queue_ok (ed_jobs hooked_sample)"
  by (simp add: hooked_sample_def jira_job_def sync_job_def sample_job_def queue_ok_def job_ok_def)

section \<open>Witnesses\<close>

definition jira_event_job :: claimed_job where
  "jira_event_job = (from_row jira_job)\<lparr>cj_payload := [(''rawEventId'', JStr (uuid_str 21)), (''jiraIntegrationId'', JStr (uuid_str 3))]\<rparr>"

lemma jira_arguments_sample: "jira_event_arguments (cj_payload jira_event_job) hooked_sample = Inr (21, 3, jira_event, 7)"
  by code_simp

lemma jira_event_sample: "fst (handle_process_jira_event jira_env hooked_sample jira_event_job ''w'') = None"
  by code_simp

theorem jira_event_settled_witness:
  "\<exists>db' raw'. handle_process_jira_event jira_env hooked_sample jira_event_job ''w'' = (None, db') \<and>
     row_with rw_id 21 (ev_raw_events db') = Some raw' \<and> rw_status raw' = ''PROCESSED'' \<and> rw_attempt_count raw' = 1"
proof -
  obtain db' where h: "handle_process_jira_event jira_env hooked_sample jira_event_job ''w'' = (None, db')"
    using jira_event_sample by (metis prod.collapse)
  have "distinct (map rw_id (ev_raw_events hooked_sample))" by (simp add: hooked_sample_def)
  from jira_event_settled [OF this jira_arguments_sample h] h show ?thesis
    by (auto simp: jira_event_def sample_event_def)
qed

theorem jira_failure_marks_integration_witness:
  "\<exists>e db'. jira_call jira_env (from_row jira_job) hooked_site (\<lambda>_ _. Inl (PermanentJobError ''gone'') :: unit result) hooked_sample =
     (Inl e, db') \<and> integration_statuses db' = [(3, ''ERROR'')]"
proof -
  let ?r = "jira_call jira_env (from_row jira_job) hooked_site (\<lambda>_ _. Inl (PermanentJobError ''gone'') :: unit result) hooked_sample"
  have "map_sum is_permanent (\<lambda>_. ()) (fst ?r) = Inl True" by code_simp
  then obtain e db' where r: "?r = (Inl e, db')" "is_permanent e" by (cases ?r; cases "fst ?r") auto
  have s: "integration_statuses hooked_sample = [(3, ''ACTIVE'')]" by code_simp
  have i: "ji_id hooked_site = 3" by (simp add: hooked_site_def sample_site_def)
  from jira_failure_marks_integration [OF _ r(1)] r s i show ?thesis by auto
qed

lemma renewal_sample: "fst (handle_renew_jira_webhook jira_env hooked_sample (from_row jira_job) ''w'') = Some RequeueWithPayloadError"
  by code_simp

theorem webhook_renewal_scheduled_witness:
  "\<exists>db' j row. handle_renew_jira_webhook jira_env hooked_sample (from_row jira_job) ''w'' = (Some RequeueWithPayloadError, db') \<and>
     job_row (ed_jobs db') 1 = Some j \<and> pj_attempts j = 0 \<and> renewal_integration (pj_payload j) db' = Inr row"
proof -
  obtain db' where h: "handle_renew_jira_webhook jira_env hooked_sample (from_row jira_job) ''w'' = (Some RequeueWithPayloadError, db')"
    using renewal_sample by (metis prod.collapse)
  have "distinct (map ji_id (ev_jira_integrations hooked_sample))"
    "\<forall>j \<in> set (ev_jira_integrations hooked_sample). ji_id j < 2 ^ 128 \<and> ji_workspace_id j < 2 ^ 128"
    by (simp_all add: hooked_sample_def hooked_site_def sample_site_def)
  from webhook_renewal_scheduled [OF hooked_queue this h] h show ?thesis
    by (auto simp: from_row_def jira_job_def sync_job_def sample_job_def)
qed

lemma issue_arguments_sample: "issue_sync_arguments (je_lib jira_env) (je_utcnow jira_env) (cj_payload (from_row jira_job)) =
    Inr ([31, 32], \<lparr>ic_project_index = 0, ic_next_page_token = None\<rparr>, 5)"
  by code_simp

lemma issue_run_sample: "fst (handle_issue_sync jira_env hooked_sample (from_row jira_job) ''w'' 7 3) = Some RequeueWithPayloadError"
  by code_simp

theorem issue_import_resumes_witness:
  "\<exists>db' j (nxt :: issue_cursor). handle_issue_sync jira_env hooked_sample (from_row jira_job) ''w'' 7 3 = (Some RequeueWithPayloadError, db') \<and>
     job_row (ed_jobs db') 1 = Some j \<and> pj_status j = PENDING \<and>
     ic_project_index nxt = (if ic_next_page_token nxt = None then 1 else 0)"
proof -
  obtain db' where h: "handle_issue_sync jira_env hooked_sample (from_row jira_job) ''w'' 7 3 = (Some RequeueWithPayloadError, db')"
    using issue_run_sample by (metis prod.collapse)
  have i: "cj_id (from_row jira_job) = 1" by (simp add: from_row_def jira_job_def sync_job_def sample_job_def)
  from issue_import_resumes [OF hooked_queue jira_iso_round_trip issue_arguments_sample h] obtain j and nxt :: issue_cursor where
    "job_row (ed_jobs db') 1 = Some j" "pj_status j = PENDING" "ic_project_index nxt = 0 + (if ic_next_page_token nxt = None then 1 else 0)"
    unfolding i issue_cursor.select_convs by blast
  with h show ?thesis unfolding add_0 by blast
qed

lemma project_ids_sample: "project_ids (JList [JStr (uuid_str 31), JStr (uuid_str 32)]) = Inr [31, 32]"
  by code_simp



end
