(* ===== verification/Engine_Examples.thy ===== *)
theory Engine_Examples
  imports Engine Jira_Examples
begin

text \<open>The engine's dispatch at a concrete state: the database of the Jira examples with the alert tables.\<close>

definition engine_sample :: engine_state where
  "engine_sample = events_db.extend (events_db.truncate hooked_sample) (engine_state.fields [] [])"

definition engine_sample_env :: engine_env where
  "engine_sample_env = \<lparr>en_events = sample_event_env, en_alerts = alerting_env,
     en_cascade = tenant_rows_deleted (\<lambda>_. None) (\<lambda>_. None), en_alert_rows = (\<lambda>_. ([], [], \<lambda>_ _. None))\<rparr>"

lemma engine_sample_jobs: "ed_jobs engine_sample = [jira_job]"
  by (simp add: engine_sample_def hooked_sample_def events_db.defs engine_state.defs)

lemma engine_zones: "zones_ok (ee_service sample_event_env)"
  using sample_zones_ok by (simp add: zones_ok_def sample_event_env_def sample_env_def)


end
