(* ===== verification/Outcomes.thy ===== *)
theory Outcomes
  imports Risk Deployments
begin

text \<open>
  The labels of merged pull requests (\<^verbatim>\<open>app/risk/outcomes.py\<close>) and stale pull requests
  (\<^verbatim>\<open>app/risk/stale.py\<close>).
\<close>

section \<open>Values of a row\<close>

text \<open>A date column as the code finds it: missing, text, or a datetime.  A datetime without a zone is UTC.\<close>

datatype moment = Missing | Text string | Instant time

fun moment_time :: "py_lib \<Rightarrow> moment \<Rightarrow> time option result" where
  "moment_time lib Missing = Inr None"
| "moment_time lib (Text s) =
     (case fromisoformat lib (py_replace ''Z'' ''+00:00'' s) of
        None \<Rightarrow> Inl (ValueError ''Invalid isoformat string'')
      | Some t \<Rightarrow> Inr (Some t))"
| "moment_time lib (Instant t) = Inr (Some t)"

fun present :: "moment \<Rightarrow> bool" where
  "present Missing = False"
| "present (Text s) = (s \<noteq> [])"
| "present (Instant t) = True"

section \<open>The patterns\<close>

text \<open>\<^verbatim>\<open>pattern.search\<close>: the leftmost match; \<open>m\<close> matches at a position, given the character before it.\<close>

fun re_search :: "(char option \<Rightarrow> string \<Rightarrow> 'a option) \<Rightarrow> char option \<Rightarrow> string \<Rightarrow> 'a option" where
  "re_search m prev [] = m prev []"
| "re_search m prev (c # cs) = (case m prev (c # cs) of Some x \<Rightarrow> Some x | None \<Rightarrow> re_search m (Some c) cs)"

definition decimal_digit :: "char \<Rightarrow> bool" where
  "decimal_digit c \<longleftrightarrow> (let n = of_char c :: nat in 48 \<le> n \<and> n \<le> 57)"

text \<open>\<^verbatim>\<open>\b\<close> after a word, and \<^verbatim>\<open>\s+\<close>.\<close>

definition word_ends :: "string \<Rightarrow> bool" where
  "word_ends s \<longleftrightarrow> (case s of [] \<Rightarrow> True | c # _ \<Rightarrow> \<not> py_word c)"

definition spaces :: "string \<Rightarrow> string option" where
  "spaces s = (case s of c # _ \<Rightarrow> if py_space c then Some (dropWhile py_space s) else None | [] \<Rightarrow> None)"

text \<open>\<^verbatim>\<open>#?(\d+)\<close>: the digits and what follows them.\<close>

definition hash_number :: "string \<Rightarrow> (string \<times> string) option" where
  "hash_number s =
     (let r = (case s of c # cs \<Rightarrow> if c = CHR ''#'' then cs else s | [] \<Rightarrow> s); ds = takeWhile decimal_digit r in
      if ds = [] then None else Some (ds, dropWhile decimal_digit r))"

text \<open>
  \<^verbatim>\<open>_REVERT_PATTERN\<close> at a position of the lower-cased title: the alternatives exclude each other, so
  the order of the attempts does not matter; the value is group 2.
\<close>

definition revert_reference :: "string \<Rightarrow> string option" where
  "revert_reference s =
     Option.bind (spaces s) (\<lambda>r.
     map_option fst (hash_number
       (if starts_with r ''pr'' then (case spaces (drop 2 r) of Some r' \<Rightarrow> r' | None \<Rightarrow> r) else r)))"

definition revert_at :: "char option \<Rightarrow> string \<Rightarrow> string option option" where
  "revert_at prev s =
     (if prev = None \<and> starts_with s ''revert'' \<and> word_ends (drop 6 s) then Some None
      else if starts_with s ''reverts'' \<and> revert_reference (drop 7 s) \<noteq> None then Some (revert_reference (drop 7 s))
      else if starts_with s ''reverting'' \<and> word_ends (drop 9 s) \<or> starts_with s ''rollback'' \<and> word_ends (drop 8 s)
      then Some None else None)"

text \<open>\<^verbatim>\<open>_HOTFIX_PATTERN\<close> at a position; the value is group 1.\<close>

definition hotfix_head :: "string \<Rightarrow> string option" where
  "hotfix_head s =
     (if starts_with s ''hotfix'' then Some (drop 6 s)
      else if starts_with s ''patch'' then Some (drop 5 s)
      else if starts_with s ''emergency''
      then Option.bind (spaces (drop 9 s)) (\<lambda>r. if starts_with r ''fix'' then Some (drop 3 r) else None)
      else None)"

definition skip_word :: "string list \<Rightarrow> string \<Rightarrow> string" where
  "skip_word words s =
     (case find (starts_with s) words of None \<Rightarrow> s | Some w \<Rightarrow> dropWhile py_space (drop (length w) s))"

definition hotfix_at :: "char option \<Rightarrow> string \<Rightarrow> string option" where
  "hotfix_at prev s =
     (if (case prev of None \<Rightarrow> False | Some c \<Rightarrow> py_word c) then None
      else Option.bind (hotfix_head s) (\<lambda>r.
           Option.bind (spaces r) (\<lambda>r.
           Option.bind (hash_number (skip_word [''pr''] (skip_word [''for'', ''to'', ''referencing''] r))) (\<lambda>(ds, rest).
           if word_ends rest then Some ds else None))))"

text \<open>\<^verbatim>\<open>sub in s\<close>.\<close>

fun contains :: "string \<Rightarrow> string \<Rightarrow> bool" where
  "contains sub [] = (sub = [])"
| "contains sub (c # cs) = (starts_with (c # cs) sub \<or> contains sub cs)"

definition reverts :: "int \<Rightarrow> string \<Rightarrow> bool" where
  "reverts number title =
     (case re_search revert_at None (py_lower title) of
        None \<Rightarrow> False
      | Some ref \<Rightarrow>
          (case ref of None \<Rightarrow> False | Some ds \<Rightarrow> py_int 10 ds = Some number) \<or> contains (str_int number) title)"

definition hotfixes :: "int \<Rightarrow> string \<Rightarrow> bool" where
  "hotfixes number title =
     (case re_search hotfix_at None (py_lower title) of None \<Rightarrow> False | Some ds \<Rightarrow> py_int 10 ds = Some number)"

section \<open>Outcomes\<close>

definition DEFAULT_OBSERVATION_WINDOW_DAYS :: int where "DEFAULT_OBSERVATION_WINDOW_DAYS = 14"

record later_pr =
  lp_number :: json
  lp_title :: string
  lp_opened_at :: moment

record deployment_fact =
  of_id :: json
  of_environment :: json
  of_finished_at :: moment
  of_status :: string
  of_is_production :: bool

record incident_fact =
  oi_id :: json
  oi_title :: json
  oi_severity :: json
  oi_detected_at :: moment

datatype evidence =
    NoEvidence
  | RevertEvidence json string time
  | HotfixEvidence json string time
  | DeploymentEvidence json json time
  | IncidentEvidence json json json time

record pr_outcome =
  oc_is_risky :: bool
  oc_reason :: string
  oc_merged_at :: "time option"
  oc_observed_until :: time
  oc_evidence :: evidence

text \<open>The first item that decides; an item that raises ends the loop.\<close>

fun first_decision :: "('a \<Rightarrow> 'b option result) \<Rightarrow> 'a list \<Rightarrow> 'b option result" where
  "first_decision f [] = Inr None"
| "first_decision f (x # xs) = bindr (f x) (\<lambda>r. case r of None \<Rightarrow> first_decision f xs | Some y \<Rightarrow> Inr (Some y))"

text \<open>\<^verbatim>\<open>if t and merged_at_dt <= t <= observed_until\<close>.\<close>

definition in_window :: "py_lib \<Rightarrow> time \<Rightarrow> time \<Rightarrow> moment \<Rightarrow> (time \<Rightarrow> 'b option) \<Rightarrow> 'b option result" where
  "in_window lib merged until m f =
     bindr (moment_time lib m) (\<lambda>t. Inr (case t of
       None \<Rightarrow> None
     | Some t \<Rightarrow> if merged \<le> t \<and> t \<le> until then f t else None))"

definition later_pr_evidence :: "py_lib \<Rightarrow> int \<Rightarrow> time \<Rightarrow> time \<Rightarrow> later_pr \<Rightarrow> (string \<times> evidence) option result" where
  "later_pr_evidence lib number merged until p =
     in_window lib merged until (lp_opened_at p) (\<lambda>t.
       if reverts number (lp_title p) then Some (''EXPLICIT_REVERT'', RevertEvidence (lp_number p) (lp_title p) t)
       else if hotfixes number (lp_title p) then Some (''HOTFIX_REMEDY'', HotfixEvidence (lp_number p) (lp_title p) t)
       else None)"

definition deployment_evidence :: "py_lib \<Rightarrow> time \<Rightarrow> time \<Rightarrow> deployment_fact \<Rightarrow> (string \<times> evidence) option result" where
  "deployment_evidence lib merged until d =
     in_window lib merged until (of_finished_at d) (\<lambda>t.
       if of_is_production d \<and> py_upper (of_status d) = ''FAILURE''
       then Some (''FAILED_DEPLOYMENT'', DeploymentEvidence (of_id d) (of_environment d) t) else None)"

definition incident_evidence :: "py_lib \<Rightarrow> time \<Rightarrow> time \<Rightarrow> incident_fact \<Rightarrow> (string \<times> evidence) option result" where
  "incident_evidence lib merged until i =
     in_window lib merged until (oi_detected_at i) (\<lambda>t.
       Some (''PRODUCTION_INCIDENT'', IncidentEvidence (oi_id i) (oi_title i) (oi_severity i) t))"

definition evaluate_pr_outcome ::
  "py_lib \<Rightarrow> time \<Rightarrow> int \<Rightarrow> moment \<Rightarrow> later_pr list \<Rightarrow> deployment_fact list \<Rightarrow> incident_fact list \<Rightarrow> int \<Rightarrow>
     pr_outcome result" where
  "evaluate_pr_outcome lib utcnow number merged_at later_prs deployments incidents observation_window_days =
     (if \<not> present merged_at
      then Inr \<lparr>oc_is_risky = False, oc_reason = ''NOT_MERGED'', oc_merged_at = None, oc_observed_until = utcnow,
                oc_evidence = NoEvidence\<rparr>
      else bindr (moment_time lib merged_at) (\<lambda>m. let merged = the m; until = merged + observation_window_days * day in
           bindr (first_decision (later_pr_evidence lib number merged until) later_prs) (\<lambda>r.
           bindr (case r of Some e \<Rightarrow> Inr (Some e) | None \<Rightarrow> first_decision (deployment_evidence lib merged until) deployments) (\<lambda>r.
           bindr (case r of Some e \<Rightarrow> Inr (Some e) | None \<Rightarrow> first_decision (incident_evidence lib merged until) incidents) (\<lambda>r.
           Inr (case r of
                  Some (reason, e) \<Rightarrow> \<lparr>oc_is_risky = True, oc_reason = reason, oc_merged_at = Some merged,
                    oc_observed_until = until, oc_evidence = e\<rparr>
                | None \<Rightarrow> \<lparr>oc_is_risky = False, oc_reason = ''NO_ADVERSE_EVENT_OBSERVED'', oc_merged_at = Some merged,
                    oc_observed_until = until, oc_evidence = NoEvidence\<rparr>))))))"

section \<open>Stale pull requests\<close>

definition DEFAULT_STALE_HOURS_THRESHOLD :: rat where "DEFAULT_STALE_HOURS_THRESHOLD = 120"

record pr_activity =
  pa_updated_at :: moment
  pa_last_synced_at :: moment
  pa_opened_at :: moment
  pa_raw_data :: json

text \<open>The base timestamps raise on bad text.\<close>

definition base_timestamps :: "py_lib \<Rightarrow> pr_activity \<Rightarrow> time list result" where
  "base_timestamps lib r =
     map_sum id (List.map_filter id)
       (map_result (moment_time lib) (filter present [pa_updated_at r, pa_last_synced_at r, pa_opened_at r]))"

text \<open>\<^verbatim>\<open>raw_data.get(key) or []\<close> as objects; what is no object has no \<^verbatim>\<open>get\<close>.\<close>

definition raw_entries :: "dict \<Rightarrow> string \<Rightarrow> dict list result" where
  "raw_entries raw key =
     (case py_or (dict_get raw key) (JList []) of
        JList vs \<Rightarrow> map_result (\<lambda>v. case v of JObj d \<Rightarrow> Inr d | _ \<Rightarrow> Inl attribute_error) vs
      | _ \<Rightarrow> Inl attribute_error)"

text \<open>A date the code cannot read is passed over (\<open>parse_ts\<close>).\<close>

definition activity_timestamps :: "py_lib \<Rightarrow> pr_activity \<Rightarrow> time list result" where
  "activity_timestamps lib r =
     bindr (base_timestamps lib r) (\<lambda>base.
     bindr (case py_or (pa_raw_data r) (JObj []) of JObj d \<Rightarrow> Inr d | _ \<Rightarrow> Inl attribute_error) (\<lambda>raw.
     bindr (raw_entries raw ''commits'') (\<lambda>commits.
     bindr (raw_entries raw ''reviews'') (\<lambda>reviews.
     bindr (raw_entries raw ''comments'') (\<lambda>comments.
     Inr (base @
       List.map_filter (\<lambda>c. parse_ts lib (py_or (dict_get c ''committerDate'') (dict_get c ''authorDate''))) commits @
       List.map_filter (\<lambda>r. parse_ts lib (dict_get r ''submittedAt'')) reviews @
       List.map_filter (\<lambda>c. parse_ts lib (py_or (dict_get c ''updatedAt'') (dict_get c ''createdAt''))) comments))))))"

definition calculate_hours_since_activity :: "py_lib \<Rightarrow> time \<Rightarrow> pr_activity \<Rightarrow> rat result" where
  "calculate_hours_since_activity lib now r =
     bindr (activity_timestamps lib r) (\<lambda>ts.
       Inr (case ts of
              [] \<Rightarrow> 0
            | t # ts \<Rightarrow> max 0 (total_seconds (now - fold max ts t) / 3600)))"

record stale_check =
  sk_is_stale :: bool
  sk_hours_since_last_activity :: rat
  sk_threshold_hours :: rat
  sk_reason :: string

text \<open>\<open>fixed1\<close> is the format \<^verbatim>\<open>.1f\<close>.\<close>

definition check_stale :: "(rat \<Rightarrow> string) \<Rightarrow> bool \<Rightarrow> rat \<Rightarrow> rat \<Rightarrow> stale_check" where
  "check_stale fixed1 is_open hours threshold =
     (let is_stale = is_open \<and> threshold \<le> hours in
      \<lparr>sk_is_stale = is_stale, sk_hours_since_last_activity = py_round 2 hours, sk_threshold_hours = threshold,
       sk_reason = (if is_stale
         then ''Open PR inactive for '' @ fixed1 hours @ ''h (threshold: '' @ fixed1 threshold @ ''h)''
         else ''PR is active or closed'')\<rparr>)"

end
