(* ===== verification/Outcomes_Facts.thy ===== *)
theory Outcomes_Facts
  imports Outcomes Metrics_Jobs
begin

text \<open>What the labels of merged pull requests rest on, and when an open pull request is stale.\<close>

section \<open>Labels\<close>

lemma first_decision_None: "first_decision f xs = Inr None \<Longrightarrow> x \<in> set xs \<Longrightarrow> f x = Inr None"
  by (induction xs) (auto simp: bindr_Inr split: option.splits)

lemma first_decision_Some: "first_decision f xs = Inr (Some y) \<Longrightarrow> \<exists>x \<in> set xs. f x = Inr (Some y)"
  by (induction xs) (auto simp: bindr_Inr split: option.splits)

text \<open>The event happened in the observation window.\<close>

definition observed :: "py_lib \<Rightarrow> time \<Rightarrow> time \<Rightarrow> moment \<Rightarrow> bool" where
  "observed lib m until x \<longleftrightarrow> (\<exists>t. moment_time lib x = Inr (Some t) \<and> m \<le> t \<and> t \<le> until)"

lemma in_window_None: "in_window lib m until x f = Inr None \<Longrightarrow> moment_time lib x = Inr (Some t) \<Longrightarrow> m \<le> t \<Longrightarrow> t \<le> until \<Longrightarrow> f t = None"
  by (simp add: in_window_def)

lemma in_window_Some:
  "in_window lib m until x f = Inr (Some y) \<Longrightarrow> \<exists>t. moment_time lib x = Inr (Some t) \<and> m \<le> t \<and> t \<le> until \<and> f t = Some y"
  by (auto simp: in_window_def bindr_Inr split: option.splits if_splits)

fun evidence_time :: "evidence \<Rightarrow> time option" where
  "evidence_time NoEvidence = None"
| "evidence_time (RevertEvidence k title t) = Some t"
| "evidence_time (HotfixEvidence k title t) = Some t"
| "evidence_time (DeploymentEvidence i env t) = Some t"
| "evidence_time (IncidentEvidence i title sev t) = Some t"

definition adverse_pr :: "py_lib \<Rightarrow> int \<Rightarrow> time \<Rightarrow> time \<Rightarrow> later_pr \<Rightarrow> bool" where
  "adverse_pr lib number m until p \<longleftrightarrow> observed lib m until (lp_opened_at p) \<and> (reverts number (lp_title p) \<or> hotfixes number (lp_title p))"

definition adverse_deployment :: "py_lib \<Rightarrow> time \<Rightarrow> time \<Rightarrow> deployment_fact \<Rightarrow> bool" where
  "adverse_deployment lib m until d \<longleftrightarrow> observed lib m until (of_finished_at d) \<and> of_is_production d \<and> py_upper (of_status d) = ''FAILURE''"

text \<open>
  A search decides whether \<open>P\<close> holds: without a decision it does not, and a decision comes with evidence
  from the window.
\<close>

definition decides :: "time \<Rightarrow> time \<Rightarrow> bool \<Rightarrow> (string \<times> evidence) option \<Rightarrow> bool" where
  "decides m until P r \<longleftrightarrow> (case r of
     None \<Rightarrow> \<not> P | Some (reason, e) \<Rightarrow> P \<and> (\<exists>t. evidence_time e = Some t \<and> m \<le> t \<and> t \<le> until))"

lemma search_decides:
  assumes "first_decision f xs = Inr r" and "\<And>x r. f x = Inr r \<Longrightarrow> decides m until (P x) r"
  shows "decides m until (\<exists>x \<in> set xs. P x) r"
proof (cases r)
  case None
  have "\<not> P x" if "x \<in> set xs" for x
    using assms(2) [OF first_decision_None [OF assms(1) [unfolded None] that]] by (simp add: decides_def)
  with None show ?thesis by (simp add: decides_def)
next
  case (Some y)
  from first_decision_Some [OF assms(1) [unfolded Some]] obtain x where "x \<in> set xs" "f x = Inr (Some y)" by blast
  with assms(2) [of x "Some y"] Some show ?thesis by (auto simp: decides_def)
qed

lemma next_decides:
  assumes "(case r of Some e \<Rightarrow> Inr (Some e) | None \<Rightarrow> rest) = Inr r'" and "decides m until P r"
    and "\<And>r. rest = Inr r \<Longrightarrow> decides m until Q r"
  shows "decides m until (P \<or> Q) r'"
  using assms by (cases r) (auto simp: decides_def split: option.splits)

lemma events_decide:
  "later_pr_evidence lib number m until p = Inr r \<Longrightarrow> decides m until (adverse_pr lib number m until p) r"
  "deployment_evidence lib m until d = Inr r \<Longrightarrow> decides m until (adverse_deployment lib m until d) r"
  "incident_evidence lib m until i = Inr r \<Longrightarrow> decides m until (observed lib m until (oi_detected_at i)) r"
  by (cases r; auto simp: decides_def later_pr_evidence_def deployment_evidence_def incident_evidence_def adverse_pr_def
      adverse_deployment_def observed_def dest!: in_window_None in_window_Some split: if_splits)+





section \<open>Staleness\<close>

lemma hours_threshold: "120 \<le> max 0 (total_seconds t / 3600) \<longleftrightarrow> 120 * hour \<le> t"
proof -
  have "120 \<le> max 0 (total_seconds t / 3600) \<longleftrightarrow> 120 \<le> total_seconds t / 3600" by (simp add: le_max_iff_disj)
  also have "\<dots> \<longleftrightarrow> (120 * 3600 :: rat) \<le> of_int t / of_int second"
    by (simp add: total_seconds_def le_divide_eq)
  also have "\<dots> \<longleftrightarrow> (of_int (120 * 3600 * second) :: rat) \<le> of_int t"
    by (simp add: second_def field_simps)
  also have "\<dots> \<longleftrightarrow> 120 * hour \<le> t" unfolding of_int_le_iff by (simp add: hour_def minute_def second_def)
  finally show ?thesis .
qed

lemma fold_max_le: "fold max ts (t :: time) \<le> u \<longleftrightarrow> (\<forall>x \<in> set (t # ts). x \<le> u)"
  by (induction ts arbitrary: t) auto

lemma map_sum_Inr_iff: "map_sum id f r = Inr y \<longleftrightarrow> (\<exists>x. r = Inr x \<and> y = f x)"
  by (cases r) auto

lemma synced_counts:
  assumes "activity_timestamps lib r = Inr ts" and "pa_last_synced_at r = Instant s"
  shows "s \<in> set ts"
proof -
  from assms(1) obtain base where b: "base_timestamps lib r = Inr base" "set base \<subseteq> set ts"
    by (auto simp: activity_timestamps_def bindr_Inr)
  from b(1) assms(2) have "s \<in> set base"
    by (auto simp: base_timestamps_def map_sum_Inr_iff bindr_Inr List.map_filter_def split: if_splits)
  with b(2) show ?thesis by blast
qed

text \<open>
  C39: With the default threshold an open pull request is stale exactly when the code finds an
  activity and every one lies at least five days back, and a closed one never is; among the
  activities is the row's last synchronisation, so a pull request that is synchronised is not stale.
\<close>

theorem stale_exact:
  assumes "activity_timestamps lib r = Inr ts" and "calculate_hours_since_activity lib now r = Inr h"
  shows "(sk_is_stale (check_stale fixed1 is_open h DEFAULT_STALE_HOURS_THRESHOLD) \<longleftrightarrow>
       is_open \<and> ts \<noteq> [] \<and> (\<forall>t \<in> set ts. t + 120 * hour \<le> now)) \<and>
    (\<forall>s. pa_last_synced_at r = Instant s \<longrightarrow> now < s + 120 * hour \<longrightarrow>
       \<not> sk_is_stale (check_stale fixed1 is_open h DEFAULT_STALE_HOURS_THRESHOLD))"
proof -
  have e: "sk_is_stale (check_stale fixed1 is_open h DEFAULT_STALE_HOURS_THRESHOLD) \<longleftrightarrow>
       is_open \<and> ts \<noteq> [] \<and> (\<forall>t \<in> set ts. t + 120 * hour \<le> now)"
  proof (cases ts)
    case Nil
    with assms have "h = 0" by (simp add: calculate_hours_since_activity_def)
    with Nil show ?thesis by (simp add: check_stale_def DEFAULT_STALE_HOURS_THRESHOLD_def)
  next
    case (Cons t us)
    with assms have "h = max 0 (total_seconds (now - fold max us t) / 3600)" by (simp add: calculate_hours_since_activity_def)
    then have "120 \<le> h \<longleftrightarrow> fold max us t \<le> now - 120 * hour" by (simp only: hours_threshold) linarith
    also have "\<dots> \<longleftrightarrow> (\<forall>t \<in> set ts. t + 120 * hour \<le> now)" unfolding fold_max_le Cons by (simp add: le_diff_eq)
    finally show ?thesis using Cons by (simp add: check_stale_def DEFAULT_STALE_HOURS_THRESHOLD_def Let_def)
  qed
  have "\<not> sk_is_stale (check_stale fixed1 is_open h DEFAULT_STALE_HOURS_THRESHOLD)"
    if "pa_last_synced_at r = Instant s" "now < s + 120 * hour" for s
    using synced_counts [OF assms(1) that(1)] that(2) unfolding e by (meson not_le)
  with e show ?thesis by blast
qed

definition idle_pr :: pr_activity where
  "idle_pr = \<lparr>pa_updated_at = Instant 0, pa_last_synced_at = Instant 5, pa_opened_at = Missing, pa_raw_data = JNull\<rparr>"

theorem stale_exact_witness:
  "\<not> sk_is_stale (check_stale (\<lambda>_. []) True 0 DEFAULT_STALE_HOURS_THRESHOLD) \<and>
   calculate_hours_since_activity sample_lib 5 idle_pr = Inr 0"
proof -
  have a: "activity_timestamps sample_lib idle_pr = Inr [0, 5]" by code_simp
  then have h: "calculate_hours_since_activity sample_lib 5 idle_pr = Inr 0"
    by (simp add: calculate_hours_since_activity_def total_seconds_def)
  have "pa_last_synced_at idle_pr = Instant 5" "(5::time) < 5 + 120 * hour"
    by (simp_all add: idle_pr_def hour_def minute_def second_def)
  with stale_exact [OF a h, of "\<lambda>_. []" True] h show ?thesis by blast
qed

end
