(* ===== verification/Training_Data.thy ===== *)
theory Training_Data
  imports Outcomes
begin

text \<open>
  The data set of the risk model: \<^verbatim>\<open>ml_training/src/dataset_loader.py\<close> and \<^verbatim>\<open>constants.py\<close>.  The file
  system, SHA-256, pickle and what the code leaves to pandas and numpy (marking duplicates, joining two
  frames, converting a column, the logarithm) are the record \<open>research_lib\<close>; comparisons and sums of
  columns are written out.  Messages leave out the values they print.
\<close>

section \<open>Constants\<close>

definition SPLITS :: "string list" where "SPLITS = [''train'', ''valid'', ''test'']"

definition EXPECTED_SOURCE_SHA256 :: "(string \<times> string) list" where
  "EXPECTED_SOURCE_SHA256 =
     [(''changes_train.pkl'', ''088898f4c87a59dfeaaabdbc48488b7e224ea7109ee453d0e8d244146b715f85''),
      (''changes_valid.pkl'', ''dc9bb8f3390b74b5329a2186332466c22d78e71047521c56f1d8b598147c723b''),
      (''changes_test.pkl'', ''23107219e63648b6516d74ff73b1e696c5e8eb368f6766c10e88d61dadb0809d''),
      (''features_train.pkl'', ''0b9992d77cd07f45a71bd327a3d408ed3f0ab7a907ffdc10f9916a8f226dc42a''),
      (''features_valid.pkl'', ''e2ee48d5cd9e7f59bea726d4f6a71ef58712ae58d3388d8195a798369cf0d2cf''),
      (''features_test.pkl'', ''136eebbb1c1719bffbfed8f0d686e3c015c5756a7b3c43d6f700a07687ab58fa''),
      (''dataset_dict.pkl'', ''9006b36e814bbafcab2b7f82c443b4d117ec865836e706c3c9378737b688f5eb'')]"

definition training_FEATURE_ORDER :: "string list" where
  "training_FEATURE_ORDER = [''ns'', ''nd'', ''nf'', ''entropy'', ''la'', ''ld'', ''fix'']"

section \<open>Files and frames\<close>

text \<open>A cell of a column; what a pickle holds: a sequence of sequences, or a frame with its columns.\<close>

datatype cell = BoolCell bool | TextCell string | NumberCell py_float | OtherCell

datatype pickled =
    Sequences "cell list list"
  | Frame "string list" "(string \<Rightarrow> cell) list"
  | OtherPickled

record label_row =
  lb_hash :: string
  lb_label :: cell
  lb_message :: cell

record measured_row =
  mr_hash :: string
  mr_buggy :: cell
  mr_cells :: "string \<Rightarrow> cell"

text \<open>
  Files of the data directory go by their names.  \<open>rs_int8\<close> and \<open>rs_float64\<close> convert a cell (\<open>None\<close>:
  \<^verbatim>\<open>TypeError\<close> or \<^verbatim>\<open>ValueError\<close>), \<open>rs_duplicated\<close> is \<^verbatim>\<open>duplicated(keep=False)\<close>, \<open>rs_merge\<close> the inner
  join on the hash.
\<close>

record research_lib =
  rs_str :: "cell \<Rightarrow> string"
  rs_nfkc :: "string \<Rightarrow> string"
  rs_is_file :: "string \<Rightarrow> bool"
  rs_sha256 :: "string \<Rightarrow> string"
  rs_pickle :: "string \<Rightarrow> pickled result"
  rs_duplicated :: "string list \<Rightarrow> bool list"
  rs_merge :: "label_row list \<Rightarrow> measured_row list \<Rightarrow> (label_row \<times> measured_row) list"
  rs_int8 :: "cell \<Rightarrow> int option"
  rs_float64 :: "cell \<Rightarrow> py_float option"
  rs_log2 :: "rat \<Rightarrow> rat"

text \<open>What pandas documents of the two operations on frames.\<close>

definition frame_laws :: "research_lib \<Rightarrow> bool" where
  "frame_laws lib \<longleftrightarrow>
     (\<forall>hs. True \<in> set (rs_duplicated lib hs) \<longleftrightarrow> \<not> distinct hs) \<and>
     (\<forall>ls ms. distinct (map lb_hash ls) \<longrightarrow> distinct (map mr_hash ms) \<longrightarrow> lb_hash ` set ls = mr_hash ` set ms \<longrightarrow>
        map fst (rs_merge lib ls ms) = ls \<and>
        (\<forall>(l, m) \<in> set (rs_merge lib ls ms). m \<in> set ms \<and> mr_hash m = lb_hash l))"

text \<open>\<^verbatim>\<open>DatasetIntegrityError\<close> is a \<^verbatim>\<open>ValueError\<close>.\<close>

definition integrity :: "string \<Rightarrow> 'a result" where
  "integrity m = Inl (ValueError m)"

section \<open>Cells\<close>

fun parse_fix :: "cell \<Rightarrow> rat result" where
  "parse_fix (BoolCell b) = Inr (if b then 1 else 0)"
| "parse_fix (TextCell s) =
     (let normalized = py_lower (py_strip s) in
      if normalized = ''true'' then Inr 1
      else if normalized = ''false'' then Inr 0
      else integrity ''unsupported fix string'')"
| "parse_fix (NumberCell (Finite q)) = (if q \<in> {0, 1} then Inr q else integrity ''unsupported fix value'')"
| "parse_fix _ = integrity ''unsupported fix value''"

definition training_fix_words :: "string list" where
  "training_fix_words = [''bug'', ''bugfix'', ''defect'', ''fix'', ''fixed'', ''fixes'', ''fixing'', ''hotfix'', ''patch'', ''regression'']"

text \<open>\<^verbatim>\<open>[a-z0-9]\<close>, and \<^verbatim>\<open>FIX_PATTERN\<close> at a position, given the character before it.\<close>

definition lower_alnum :: "char \<Rightarrow> bool" where
  "lower_alnum c \<longleftrightarrow> (let n = of_char c :: nat in (97 \<le> n \<and> n \<le> 122) \<or> (48 \<le> n \<and> n \<le> 57))"

definition training_fix_at :: "char option \<Rightarrow> string \<Rightarrow> string option" where
  "training_fix_at prev s =
     (if (case prev of Some c \<Rightarrow> lower_alnum c | None \<Rightarrow> False) then None
      else find (\<lambda>w. starts_with s w \<and> (case drop (length w) s of c # _ \<Rightarrow> \<not> lower_alnum c | [] \<Rightarrow> True)) training_fix_words)"

definition message_matches_runtime_fix_rule :: "research_lib \<Rightarrow> cell \<Rightarrow> int" where
  "message_matches_runtime_fix_rule lib value =
     (case re_search training_fix_at None (py_lower (rs_nfkc lib (rs_str lib value))) of Some _ \<Rightarrow> 1 | None \<Rightarrow> 0)"

definition normalize_commit_hash :: "research_lib \<Rightarrow> cell \<Rightarrow> string result" where
  "normalize_commit_hash lib value =
     (let commit_hash = py_lower (py_strip (rs_str lib value)) in
      if commit_hash = [] then integrity ''empty commit hash'' else Inr commit_hash)"

section \<open>Files\<close>

definition validate_hash :: "research_lib \<Rightarrow> bool \<Rightarrow> string \<Rightarrow> string result" where
  "validate_hash lib verify_source_checksums name =
     (if \<not> rs_is_file lib name then integrity (''missing dataset file: '' @ name)
      else let actual = rs_sha256 lib name in
           if verify_source_checksums
           then (case map_of EXPECTED_SOURCE_SHA256 name of
                   None \<Rightarrow> Inl (OtherError name)
                 | Some expected \<Rightarrow> if actual \<noteq> expected then integrity (''checksum mismatch for '' @ name) else Inr actual)
           else Inr actual)"

definition load_pickle :: "research_lib \<Rightarrow> bool \<Rightarrow> string \<Rightarrow> pickled result" where
  "load_pickle lib allow_unsafe_pickle name =
     (if \<not> allow_unsafe_pickle then integrity ''pickle loading is disabled'' else rs_pickle lib name)"

section \<open>One split\<close>

record dataset_split =
  ds_name :: string
  ds_commit_hashes :: "string list"
  ds_features :: "rat list list"
  ds_labels :: "int list"
  ds_source_sha256 :: "(string \<times> string) list"
  ds_fix_message_comparison :: "(string \<times> int) list"

text \<open>The two files as frames, up to their join.\<close>

definition label_frame :: "research_lib \<Rightarrow> cell list \<Rightarrow> cell list \<Rightarrow> cell list \<Rightarrow> label_row list result" where
  "label_frame lib commit_ids labels messages =
     bindr (map_result (normalize_commit_hash lib) commit_ids) (\<lambda>hashes.
     Inr (map (\<lambda>(h, l, m). \<lparr>lb_hash = h, lb_label = l, lb_message = m\<rparr>) (zip hashes (zip labels messages))))"

definition feature_frame :: "research_lib \<Rightarrow> (string \<Rightarrow> cell) list \<Rightarrow> measured_row list result" where
  "feature_frame lib rows =
     bindr (map_result (\<lambda>row. normalize_commit_hash lib (row ''commit_hash'')) rows) (\<lambda>hashes.
     Inr (map (\<lambda>(h, row). \<lparr>mr_hash = h, mr_buggy = row ''is_buggy_commit'', mr_cells = row\<rparr>) (zip hashes rows)))"

definition join_frames ::
  "research_lib \<Rightarrow> cell list \<Rightarrow> cell list \<Rightarrow> cell list \<Rightarrow> string list \<Rightarrow> (string \<Rightarrow> cell) list \<Rightarrow>
     (label_row \<times> measured_row) list result" where
  "join_frames lib commit_ids labels messages columns rows =
     (if length commit_ids \<noteq> length labels \<or> length commit_ids \<noteq> length messages
      then integrity ''parallel-sequence length mismatch''
      else if \<not> set ([''commit_hash'', ''is_buggy_commit''] @ training_FEATURE_ORDER) \<subseteq> set columns
      then integrity ''missing columns''
      else bindr (label_frame lib commit_ids labels messages) (\<lambda>ls.
           bindr (feature_frame lib rows) (\<lambda>ms.
           if True \<in> set (rs_duplicated lib (map lb_hash ls)) \<or> True \<in> set (rs_duplicated lib (map mr_hash ms))
           then integrity ''duplicate commit hashes''
           else if lb_hash ` set ls \<noteq> mr_hash ` set ms then integrity ''commit-hash join mismatch''
           else Inr (rs_merge lib ls ms))))"

text \<open>The labels: both columns are converted, checked and compared.\<close>

definition int8_column :: "research_lib \<Rightarrow> cell list \<Rightarrow> int list result" where
  "int8_column lib cells =
     (case those (map (rs_int8 lib) cells) of None \<Rightarrow> integrity ''non-binary labels'' | Some ks \<Rightarrow> Inr ks)"

definition joined_labels :: "research_lib \<Rightarrow> (label_row \<times> measured_row) list \<Rightarrow> int list result" where
  "joined_labels lib joined =
     bindr (int8_column lib (map (lb_label \<circ> fst) joined)) (\<lambda>change_label.
     bindr (int8_column lib (map (mr_buggy \<circ> snd) joined)) (\<lambda>is_buggy_commit.
     if \<not> set change_label \<subseteq> {0, 1} then integrity ''non-binary change_label''
     else if \<not> set is_buggy_commit \<subseteq> {0, 1} then integrity ''non-binary is_buggy_commit''
     else if change_label \<noteq> is_buggy_commit then integrity ''label disagreement between files''
     else Inr change_label))"

text \<open>The prepared \<^verbatim>\<open>fix\<close> against the rule for messages.\<close>

definition fix_comparison :: "rat list \<Rightarrow> int list \<Rightarrow> (string \<times> int) list" where
  "fix_comparison prepared message =
     (let both = zip prepared message; count = (\<lambda>p. int (length (filter p both))) in
      [(''rows'', int (length both)),
       (''preparedFixPositive'', count (\<lambda>(p, m). p = 1)),
       (''messageRulePositive'', sum_list message),
       (''agree'', count (\<lambda>(p, m). p = of_int m)),
       (''preparedPositiveMessageNegative'', count (\<lambda>(p, m). p = 1 \<and> m = 0)),
       (''preparedNegativeMessagePositive'', count (\<lambda>(p, m). p = 0 \<and> m = 1))])"

text \<open>The seven numbers of a row, \<^verbatim>\<open>fix\<close> being parsed already.\<close>

definition numeric_row :: "research_lib \<Rightarrow> measured_row \<Rightarrow> rat \<Rightarrow> py_float list option" where
  "numeric_row lib row fix_value =
     those (map (\<lambda>name. if name = ''fix'' then Some (Finite fix_value) else rs_float64 lib (mr_cells row name)) training_FEATURE_ORDER)"

definition finite_row :: "py_float list \<Rightarrow> rat list option" where
  "finite_row xs = those (map (\<lambda>x. case x of Finite q \<Rightarrow> Some q | _ \<Rightarrow> None) xs)"

text \<open>The unnormalized entropy of a change in \<^verbatim>\<open>nf\<close> files: column 3 against column 2.\<close>

definition entropy_excess :: "(rat \<Rightarrow> rat) \<Rightarrow> rat list \<Rightarrow> bool" where
  "entropy_excess log2 row \<longleftrightarrow> (if 1 < row ! 2 then log2 (row ! 2) else 0) + 1 / 10 ^ 6 < row ! 3"

definition lone_entropy :: "rat list \<Rightarrow> bool" where
  "lone_entropy row \<longleftrightarrow> row ! 2 \<le> 1 \<and> 1 / 10 ^ 6 < \<bar>row ! 3\<bar>"

definition feature_values :: "research_lib \<Rightarrow> measured_row list \<Rightarrow> rat list \<Rightarrow> rat list list result" where
  "feature_values lib ms fixes =
     (case those (map2 (numeric_row lib) ms fixes) of
        None \<Rightarrow> integrity ''non-numeric feature''
      | Some numeric \<Rightarrow>
          (case those (map finite_row numeric) of
             None \<Rightarrow> integrity ''missing or non-finite feature''
           | Some values \<Rightarrow>
               if \<exists>row \<in> set values. \<exists>x \<in> set row. x < 0 then integrity ''negative feature''
               else if \<exists>row \<in> set values. entropy_excess (rs_log2 lib) row
               then integrity ''entropy exceeds unnormalized base-2 Shannon ceiling''
               else if \<exists>row \<in> set values. lone_entropy row then integrity ''single-file change has non-zero entropy''
               else Inr values))"

definition joined_split ::
  "research_lib \<Rightarrow> string \<Rightarrow> (string \<times> string) list \<Rightarrow> (label_row \<times> measured_row) list \<Rightarrow> dataset_split result" where
  "joined_split lib split source_sha256 joined =
     bindr (joined_labels lib joined) (\<lambda>labels.
     bindr (map_result (\<lambda>(l, m). parse_fix (mr_cells m ''fix'')) joined) (\<lambda>fixes.
     bindr (feature_values lib (map snd joined) fixes) (\<lambda>values.
     Inr \<lparr>ds_name = split, ds_commit_hashes = map (lb_hash \<circ> fst) joined, ds_features = values, ds_labels = labels,
          ds_source_sha256 = source_sha256,
          ds_fix_message_comparison = fix_comparison fixes (map (message_matches_runtime_fix_rule lib \<circ> lb_message \<circ> fst) joined)\<rparr>)))"

definition load_split :: "research_lib \<Rightarrow> bool \<Rightarrow> bool \<Rightarrow> string \<Rightarrow> dataset_split result" where
  "load_split lib allow_unsafe_pickle verify_source_checksums split =
     (let changes_name = ''changes_'' @ split @ ''.pkl''; features_name = ''features_'' @ split @ ''.pkl'' in
      bindr (validate_hash lib verify_source_checksums changes_name) (\<lambda>c.
      bindr (validate_hash lib verify_source_checksums features_name) (\<lambda>f.
      bindr (load_pickle lib allow_unsafe_pickle changes_name) (\<lambda>changes.
      bindr (load_pickle lib allow_unsafe_pickle features_name) (\<lambda>features.
      case changes of
        Sequences [commit_ids, labels, messages, _] \<Rightarrow>
          (case features of
             Frame columns rows \<Rightarrow>
               bindr (join_frames lib commit_ids labels messages columns rows)
                 (joined_split lib split [(changes_name, c), (features_name, f)])
           | _ \<Rightarrow> integrity (features_name @ '' must contain a pandas DataFrame''))
      | _ \<Rightarrow> integrity (changes_name @ '' must contain four parallel sequences''))))))"

section \<open>The data set\<close>

definition class_distribution :: "dataset_split \<Rightarrow> (string \<times> int) list" where
  "class_distribution s = map (\<lambda>k. (str_int k, int (count_list (ds_labels s) k))) (sort (remdups (ds_labels s)))"

text \<open>A pair of splits that share a commit, in the order the code compares them.\<close>

fun leaking :: "dataset_split list \<Rightarrow> (string \<times> string) option" where
  "leaking [] = None"
| "leaking (s # ss) =
     (case find (\<lambda>r. set (ds_commit_hashes s) \<inter> set (ds_commit_hashes r) \<noteq> {}) ss of
        Some r \<Rightarrow> Some (ds_name s, ds_name r)
      | None \<Rightarrow> leaking ss)"

definition check_split :: "dataset_split \<Rightarrow> unit result" where
  "check_split s =
     (if fst ` set (class_distribution s) \<noteq> {''0'', ''1''} then integrity (ds_name s @ '' split does not contain both classes'')
      else if \<exists>row \<in> set (ds_features s). length row \<noteq> length training_FEATURE_ORDER
      then integrity (''wrong feature width in '' @ ds_name s)
      else Inr ())"

definition load_jitfine_dataset :: "research_lib \<Rightarrow> bool \<Rightarrow> bool \<Rightarrow> dataset_split list result" where
  "load_jitfine_dataset lib allow_unsafe_pickle verify_source_checksums =
     bindr (validate_hash lib verify_source_checksums ''dataset_dict.pkl'') (\<lambda>_.
     bindr (map_result (load_split lib allow_unsafe_pickle verify_source_checksums) SPLITS) (\<lambda>splits.
     case leaking splits of
       Some (left, right) \<Rightarrow> integrity (left @ ''/'' @ right @ '' leakage'')
     | None \<Rightarrow> bindr (map_result check_split splits) (\<lambda>_. Inr splits)))"

end
