(* ===== verification/Training_Facts.thy ===== *)
theory Training_Facts
  imports Training_Data
begin

text \<open>What a data set that loads is worth, and how its rule for fixes differs from the engine's.\<close>

section \<open>Columns\<close>

lemma those_Some: "those xs = Some ys \<longleftrightarrow> xs = map Some ys"
  by (induction xs arbitrary: ys) (auto split: option.splits)

lemma those_length: "those xs = Some ys \<Longrightarrow> length ys = length xs"
  by (simp add: those_Some)

lemma integrity_Inr [simp]: "integrity m \<noteq> Inr x"
  by (simp add: integrity_def)

lemma parse_fix_binary: "parse_fix c = Inr q \<Longrightarrow> q \<in> {0, 1}"
  by (cases c rule: parse_fix.cases) (auto simp: Let_def split: if_splits)

lemma joined_labels_binary:
  assumes "joined_labels lib joined = Inr ls"
  shows "length ls = length joined \<and> set ls \<subseteq> {0, 1}"
  using assms by (auto simp: joined_labels_def bindr_Inr int8_column_def split: option.splits if_splits dest: those_length)

lemma parsed_fixes:
  assumes "map_result (\<lambda>(l, m). parse_fix (mr_cells m ''fix'')) joined = Inr fs"
  shows "length fs = length joined \<and> set fs \<subseteq> {0, 1}"
  using assms by (auto simp: map_result_Inr list_all2_conv_all_nth in_set_conv_nth split_beta dest!: parse_fix_binary)

section \<open>Rows\<close>

definition row_sound :: "(rat \<Rightarrow> rat) \<Rightarrow> rat list \<Rightarrow> bool" where
  "row_sound log2 row \<longleftrightarrow> length row = length training_FEATURE_ORDER \<and> (\<forall>x \<in> set row. 0 \<le> x) \<and> row ! 6 \<in> {0, 1} \<and>
     row ! 3 \<le> (if 1 < row ! 2 then log2 (row ! 2) else 0) + 1 / 10 ^ 6"

lemma numeric_row_shape:
  assumes "numeric_row lib m q = Some xs" and "finite_row xs = Some row"
  shows "length row = 7 \<and> row ! 6 = q"
proof -
  have "xs = map Finite row"
    using assms(2) unfolding finite_row_def those_Some
    by (induction xs arbitrary: row) (auto split: py_float.splits)
  with assms(1) show ?thesis
    by (auto simp: numeric_row_def those_Some training_FEATURE_ORDER_def split: option.splits)
qed

lemma feature_values_sound:
  assumes "feature_values lib ms fs = Inr vs" and "length fs = length ms" and "set fs \<subseteq> {0, 1}"
  shows "length vs = length ms \<and> (\<forall>row \<in> set vs. row_sound (rs_log2 lib) row)"
proof -
  from assms(1) obtain numeric where n: "those (map2 (numeric_row lib) ms fs) = Some numeric" "those (map finite_row numeric) = Some vs"
    and c: "\<forall>row \<in> set vs. \<forall>x \<in> set row. 0 \<le> x" "\<forall>row \<in> set vs. \<not> entropy_excess (rs_log2 lib) row"
    by (auto simp: feature_values_def not_less split: option.splits if_splits)
  from n have l: "length numeric = length ms" "length vs = length ms"
    using assms(2) by (auto dest!: those_length)
  have "row_sound (rs_log2 lib) (vs ! i)" if i: "i < length vs" for i
  proof -
    have "map2 (numeric_row lib) ms fs ! i = map Some numeric ! i" "map finite_row numeric ! i = map Some vs ! i"
      using n unfolding those_Some by simp_all
    with i l assms(2) have "numeric_row lib (ms ! i) (fs ! i) = Some (numeric ! i)" "finite_row (numeric ! i) = Some (vs ! i)"
      by simp_all
    from numeric_row_shape [OF this] have "length (vs ! i) = 7" "vs ! i ! 6 = fs ! i" by simp_all
    moreover have "fs ! i \<in> {0, 1}" using assms(2,3) i l by (auto dest!: subsetD simp: in_set_conv_nth)
    moreover have "vs ! i \<in> set vs" using i by simp
    ultimately show ?thesis using c by (auto simp: row_sound_def training_FEATURE_ORDER_def entropy_excess_def not_less)
  qed
  with l show ?thesis by (auto simp: in_set_conv_nth)
qed

section \<open>Splits\<close>

definition split_sound :: "research_lib \<Rightarrow> dataset_split \<Rightarrow> bool" where
  "split_sound lib s \<longleftrightarrow> distinct (ds_commit_hashes s) \<and> length (ds_features s) = length (ds_commit_hashes s) \<and>
     length (ds_labels s) = length (ds_commit_hashes s) \<and> set (ds_labels s) \<subseteq> {0, 1} \<and>
     (\<forall>row \<in> set (ds_features s). row_sound (rs_log2 lib) row)"

lemma joined_distinct:
  assumes "frame_laws lib" and "join_frames lib ids labels messages columns rows = Inr joined"
  shows "distinct (map (lb_hash \<circ> fst) joined)"
proof -
  from assms obtain ls ms where d: "distinct (map lb_hash ls)" "distinct (map mr_hash ms)" "lb_hash ` set ls = mr_hash ` set ms"
    and j: "joined = rs_merge lib ls ms"
    by (auto simp: join_frames_def bindr_Inr frame_laws_def split: if_splits)
  with assms(1) have "map fst joined = ls" by (simp add: frame_laws_def)
  with d(1) show ?thesis by (metis map_map)
qed

lemma joined_split_sound:
  assumes "joined_split lib split digests joined = Inr s" and "distinct (map (lb_hash \<circ> fst) joined)"
  shows "split_sound lib s \<and> ds_name s = split \<and> ds_source_sha256 s = digests"
proof -
  from assms(1) obtain ls fs vs where p: "joined_labels lib joined = Inr ls"
    "map_result (\<lambda>(l, m). parse_fix (mr_cells m ''fix'')) joined = Inr fs" "feature_values lib (map snd joined) fs = Inr vs"
    and s: "s = \<lparr>ds_name = split, ds_commit_hashes = map (lb_hash \<circ> fst) joined, ds_features = vs, ds_labels = ls,
      ds_source_sha256 = digests,
      ds_fix_message_comparison = fix_comparison fs (map (message_matches_runtime_fix_rule lib \<circ> lb_message \<circ> fst) joined)\<rparr>"
    by (auto simp: joined_split_def bindr_Inr)
  from feature_values_sound [OF p(3)] parsed_fixes [OF p(2)] joined_labels_binary [OF p(1)] assms(2)
  show ?thesis by (simp add: s split_sound_def)
qed

definition digests_expected :: "dataset_split \<Rightarrow> bool" where
  "digests_expected s \<longleftrightarrow> (\<forall>(name, digest) \<in> set (ds_source_sha256 s). map_of EXPECTED_SOURCE_SHA256 name = Some digest)"

lemma validated_hash:
  "validate_hash lib True name = Inr d \<Longrightarrow> map_of EXPECTED_SOURCE_SHA256 name = Some d"
  by (auto simp: validate_hash_def Let_def split: option.splits if_splits)

lemma load_split_sound:
  assumes "frame_laws lib" and "load_split lib allow verify split = Inr s"
  shows "split_sound lib s \<and> ds_name s = split \<and> allow \<and> (verify \<longrightarrow> digests_expected s)"
proof -
  let ?c = "''changes_'' @ split @ ''.pkl''" and ?f = "''features_'' @ split @ ''.pkl''"
  from assms(2) obtain c f changes features where h: "validate_hash lib verify ?c = Inr c" "validate_hash lib verify ?f = Inr f"
    and m: "(case changes of
        Sequences [commit_ids, labels, messages, _] \<Rightarrow>
          (case features of
             Frame columns rows \<Rightarrow>
               bindr (join_frames lib commit_ids labels messages columns rows) (joined_split lib split [(?c, c), (?f, f)])
           | _ \<Rightarrow> integrity (?f @ '' must contain a pandas DataFrame''))
      | _ \<Rightarrow> integrity (?c @ '' must contain four parallel sequences'')) = Inr s"
    and "load_pickle lib allow ?c = Inr changes"
    unfolding load_split_def Let_def bindr_Inr by blast
  then have a: allow by (simp add: load_pickle_def split: if_splits)
  from m obtain ids labels messages columns rows joined where
    j: "join_frames lib ids labels messages columns rows = Inr joined" "joined_split lib split [(?c, c), (?f, f)] joined = Inr s"
    by (auto simp: bindr_Inr split: pickled.splits list.splits)
  from joined_split_sound [OF j(2) joined_distinct [OF assms(1) j(1)]] h a validated_hash show ?thesis
    by (auto simp: digests_expected_def)
qed

section \<open>The data set\<close>

lemma leaking_none:
  assumes "leaking ss = None" and "\<forall>s \<in> set ss. distinct (ds_commit_hashes s)"
  shows "distinct (concat (map ds_commit_hashes ss))"
  using assms by (induction ss) (auto simp: find_None_iff split: option.splits)

lemma both_classes:
  assumes "check_split s = Inr u" and "set (ds_labels s) \<subseteq> {0, 1}"
  shows "set (ds_labels s) = {0, 1}"
proof -
  have k: "fst ` set (class_distribution s) = str_int ` set (ds_labels s)"
    by (auto simp: class_distribution_def image_iff)
  from assms(1) have e: "str_int ` set (ds_labels s) = {''0'', ''1''}" unfolding k [symmetric] by (simp add: check_split_def split: if_splits)
  have "str_int 0 = ''0''" "str_int 1 = ''1''" by code_simp+
  with e have "str_int ` set (ds_labels s) = str_int ` {0, 1}" by simp
  moreover have "inj str_int" using str_int_inj by (auto simp: inj_def)
  ultimately show ?thesis by (simp only: inj_image_eq_iff)
qed

text \<open>
  C33: A data set that loads is sound: the three splits in order, each with distinct commits, a label
  of 0 or 1 and seven non-negative features per commit, both classes present, \<^verbatim>\<open>fix\<close> binary and the
  entropy below its ceiling; no commit occurs in two splits; the pickles were allowed, and with
  checksums on they are the recorded ones.
\<close>

theorem dataset_sound:
  assumes "frame_laws lib" and "load_jitfine_dataset lib allow verify = Inr splits"
  shows "map ds_name splits = SPLITS \<and> allow \<and>
    (\<forall>s \<in> set splits. split_sound lib s \<and> set (ds_labels s) = {0, 1} \<and> (verify \<longrightarrow> digests_expected s)) \<and>
    distinct (concat (map ds_commit_hashes splits))"
proof -
  from assms(2) have l: "map_result (load_split lib allow verify) SPLITS = Inr splits" and k: "leaking splits = None"
    and c: "\<forall>s \<in> set splits. \<exists>u. check_split s = Inr u"
    by (auto simp: load_jitfine_dataset_def bindr_Inr map_result_Inr list_all2_conv_all_nth in_set_conv_nth split: option.splits prod.splits)
       (metis option.exhaust surj_pair)
  from l have a: "list_all2 (\<lambda>n s. split_sound lib s \<and> ds_name s = n \<and> allow \<and> (verify \<longrightarrow> digests_expected s)) SPLITS splits"
    unfolding map_result_Inr by (rule list_all2_mono) (rule load_split_sound [OF assms(1)])
  then have n: "map ds_name splits = SPLITS" by (auto simp: list_all2_conv_all_nth list_eq_iff_nth_eq)
  from a have s: "\<forall>s \<in> set splits. split_sound lib s \<and> allow \<and> (verify \<longrightarrow> digests_expected s)"
    by (auto simp: list_all2_conv_all_nth in_set_conv_nth)
  from n s have allow by (cases splits) (auto simp: SPLITS_def)
  moreover have "distinct (concat (map ds_commit_hashes splits))" using leaking_none [OF k] s by (simp add: split_sound_def)
  ultimately show ?thesis using n s c both_classes by (auto simp: split_sound_def)
qed

section \<open>The two rules for fixes\<close>

text \<open>\<^verbatim>\<open>str\<close> keeps a text and NFKC keeps ASCII.\<close>

definition text_laws :: "research_lib \<Rightarrow> bool" where
  "text_laws lib \<longleftrightarrow> (\<forall>s. rs_str lib (TextCell s) = s) \<and>
     (\<forall>s. (\<forall>c \<in> set s. (of_char c :: nat) < 128) \<longrightarrow> rs_nfkc lib s = s)"

lemma inside_word: "lower_alnum p \<Longrightarrow> \<forall>c \<in> set s. lower_alnum c \<Longrightarrow> re_search training_fix_at (Some p) s = None"
  by (induction s arbitrary: p) (simp_all add: training_fix_at_def)

lemma whole_word:
  assumes "\<forall>c \<in> set w. lower_alnum c"
  shows "starts_with w v \<and> (case drop (length v) w of c # _ \<Rightarrow> \<not> lower_alnum c | [] \<Rightarrow> True) \<longleftrightarrow> w = v"
proof -
  have "drop (length v) w = c # cs \<Longrightarrow> lower_alnum c" for c cs
    using assms in_set_dropD [of c "length v" w] by simp
  then show ?thesis by (cases "drop (length v) w") (auto simp: starts_with_def dest: append_take_drop_id [of "length v" w, THEN subst])
qed

lemma training_rule_word:
  assumes "w \<noteq> []" and "\<forall>c \<in> set w. lower_alnum c"
  shows "re_search training_fix_at None w \<noteq> None \<longleftrightarrow> w \<in> set training_fix_words"
proof -
  from assms obtain c cs where w: "w = c # cs" "lower_alnum c" "\<forall>c \<in> set cs. lower_alnum c" by (cases w) auto
  have "re_search training_fix_at None w = training_fix_at None w"
    unfolding w(1) by (simp add: inside_word [OF w(2,3)] split: option.split)
  also have "\<dots> = find (\<lambda>v. w = v) training_fix_words" by (simp add: training_fix_at_def whole_word [OF assms(2)])
  finally show ?thesis by (auto simp: find_None_iff)
qed

lemma lower_alnum_word: "lower_alnum c \<Longrightarrow> py_word c \<and> ascii_lower_char c = c \<and> (of_char c :: nat) < 128"
  by (auto simp: lower_alnum_def py_word_def ascii_lower_char_def Let_def)

lemma one_run: "w \<noteq> [] \<Longrightarrow> \<forall>c \<in> set w. py_word c \<Longrightarrow> word_runs w = [w]"
  by (induction w rule: word_runs.induct) (auto split: list.splits)

lemma runtime_rule_word:
  assumes "w \<noteq> []" and "\<forall>c \<in> set w. lower_alnum c"
  shows "looks_like_fix [(''title'', JStr w)] [] \<longleftrightarrow> w \<in> set fix_words"
proof -
  have "word_runs w = [w]" using assms lower_alnum_word by (intro one_run) auto
  moreover have "py_lower w = w" unfolding py_lower_def by (rule map_idI) (use assms(2) lower_alnum_word in auto)
  ultimately show ?thesis by (simp add: looks_like_fix_def dict_get_def List.map_filter_simps)
qed

text \<open>
  C35: The rule that the loader compares with the prepared \<^verbatim>\<open>FIX\<close> values is not the rule the engine
  applies: on a message of one word each says yes exactly for its own list, so they disagree on seven
  words, four that only the engine counts and three that only the loader does.
\<close>

theorem fix_rules_differ:
  assumes "text_laws lib" and "w \<noteq> []" and "\<forall>c \<in> set w. lower_alnum c"
  shows "(message_matches_runtime_fix_rule lib (TextCell w) = 1 \<longleftrightarrow> w \<in> set training_fix_words) \<and>
    (looks_like_fix [(''title'', JStr w)] [] \<longleftrightarrow> w \<in> set fix_words) \<and>
    ((message_matches_runtime_fix_rule lib (TextCell w) = 1) \<noteq> looks_like_fix [(''title'', JStr w)] [] \<longleftrightarrow>
       w \<in> {''revert'', ''issue'', ''resolve'', ''resolved'', ''bugfix'', ''fixing'', ''regression''})"
proof -
  have "py_lower w = w" unfolding py_lower_def by (rule map_idI) (use assms(3) lower_alnum_word in auto)
  moreover have "rs_nfkc lib w = w" using assms(1,3) lower_alnum_word by (simp add: text_laws_def)
  ultimately have "message_matches_runtime_fix_rule lib (TextCell w) = 1 \<longleftrightarrow> re_search training_fix_at None w \<noteq> None"
    using assms(1) by (simp add: message_matches_runtime_fix_rule_def text_laws_def split: option.split)
  then have m: "message_matches_runtime_fix_rule lib (TextCell w) = 1 \<longleftrightarrow> w \<in> set training_fix_words"
    by (simp only: training_rule_word [OF assms(2,3)])
  note r = runtime_rule_word [OF assms(2,3)]
  have "(w \<in> set training_fix_words) \<noteq> (w \<in> set fix_words) \<longleftrightarrow>
      w \<in> {''revert'', ''issue'', ''resolve'', ''resolved'', ''bugfix'', ''fixing'', ''regression''}"
    unfolding training_fix_words_def fix_words_def by auto
  with m r show ?thesis by simp
qed

end
