(* ===== verification/Training_Model.thy ===== *)
theory Training_Model
  imports Training_Facts "HOL-Library.Char_ord" "HOL-Library.List_Lexorder"
begin

text \<open>
  From a data set to the artifact the engine loads: the thresholds of
  \<^verbatim>\<open>ml_training/src/evaluation.py\<close>, \<^verbatim>\<open>artifact_export.py\<close> and \<^verbatim>\<open>train\<close> of
  \<^verbatim>\<open>train_jitfine_expert_mvp.py\<close>.  The classifier, the precision-recall curve, joblib, SHA-256 and the
  text of JSON are the record \<open>training_lib\<close>.
\<close>

section \<open>Thresholds\<close>

record threshold_selection =
  ts_medium :: rat
  ts_high :: rat
  ts_critical :: rat
  ts_method :: string

definition ts_as_dict :: "threshold_selection \<Rightarrow> dict" where
  "ts_as_dict t = [(''medium'', JFloat (ts_medium t)), (''high'', JFloat (ts_high t)), (''critical'', JFloat (ts_critical t))]"

text \<open>\<^verbatim>\<open>precision_recall_curve\<close>: precisions, recalls and the thresholds, one fewer.\<close>

type_synonym pr_curve = "rat list \<times> rat list \<times> rat list"

definition fbeta :: "rat \<Rightarrow> rat \<Rightarrow> rat \<Rightarrow> rat" where
  "fbeta beta precision recall =
     (let denominator = beta ^ 2 * precision + recall in
      if denominator = 0 then 0 else (1 + beta ^ 2) * precision * recall / denominator)"

definition fbeta_scores :: "rat \<Rightarrow> pr_curve \<Rightarrow> rat list" where
  "fbeta_scores beta c = (case c of (precision, recall, thresholds) \<Rightarrow> map2 (fbeta beta) (butlast precision) (butlast recall))"

text \<open>\<^verbatim>\<open>np.argmax\<close>: the first position of the greatest value.\<close>

definition argmax :: "rat list \<Rightarrow> nat" where
  "argmax xs = length (takeWhile (\<lambda>x. x \<noteq> Max (set xs)) xs)"

definition best_fbeta_threshold :: "pr_curve \<Rightarrow> rat \<Rightarrow> rat result" where
  "best_fbeta_threshold c beta =
     (case c of (precision, recall, thresholds) \<Rightarrow>
        if thresholds = [] then Inl (ValueError ''validation probabilities do not provide a threshold'')
        else Inr (thresholds ! argmax (fbeta_scores beta c)))"

definition threshold_method :: string where
  "threshold_method = ''Validation-only thresholds maximizing F-beta: medium=F2 (recall weighted), '' @
     ''high=F1, critical=F0.5 (precision weighted); lower threshold wins ties.''"

definition select_thresholds :: "(int list \<Rightarrow> py_float list \<Rightarrow> pr_curve result) \<Rightarrow> int list \<Rightarrow> py_float list \<Rightarrow> threshold_selection result" where
  "select_thresholds precision_recall_curve labels probabilities =
     bindr (precision_recall_curve labels probabilities) (\<lambda>c.
     bindr (best_fbeta_threshold c 2) (\<lambda>medium.
     bindr (best_fbeta_threshold c 1) (\<lambda>high.
     bindr (best_fbeta_threshold c (1 / 2)) (\<lambda>critical.
     if \<not> (0 \<le> medium \<and> medium < high \<and> high < critical \<and> critical \<le> 1)
     then Inl (ValueError ''validation-selected F2/F1/F0.5 thresholds are not strictly ordered'')
     else Inr \<lparr>ts_medium = medium, ts_high = high, ts_critical = critical, ts_method = threshold_method\<rparr>))))"

section \<open>The artifact\<close>

definition training_MODEL_NAME :: string where "training_MODEL_NAME = ''jitfine-expert-pr-risk-mvp''"
definition training_MODEL_VERSION :: string where "training_MODEL_VERSION = ''jitfine-expert-pr-risk-mvp-v1''"
definition training_FEATURE_SCHEMA_VERSION :: string where "training_FEATURE_SCHEMA_VERSION = ''jitfine-pr-features-v1''"

text \<open>A fitted classifier: \<open>es_classes\<close> says which class is 1, \<open>es_proba\<close> is \<^verbatim>\<open>predict_proba\<close> of one row.\<close>

record estimator =
  es_features_in :: "int option"
  es_classes :: "bool list"
  es_proba :: "rat list \<Rightarrow> py_float list"
  es_importances :: "rat list"

record training_lib =
  tl_research :: research_lib
  tl_fit :: "rat list list \<Rightarrow> int list \<Rightarrow> estimator"
  tl_curve :: "int list \<Rightarrow> py_float list \<Rightarrow> pr_curve result"
  tl_report :: "dataset_split list \<Rightarrow> estimator \<Rightarrow> threshold_selection \<Rightarrow> json result"
  tl_python :: string
  tl_versions :: "string \<times> string \<times> string"
  tl_dumps :: "json \<Rightarrow> string"
  tl_loads :: "string \<Rightarrow> json option"
  tl_dump_model :: "estimator \<Rightarrow> string"
  tl_load_model :: "string \<Rightarrow> estimator option"
  tl_sha256 :: "string \<Rightarrow> string"

definition LIMITATIONS :: "string list" where
  "LIMITATIONS =
     [''The training records are commit-level while runtime predictions aggregate a whole pull request.'',
      ''Training projects and languages may differ from repositories analysed by Adept.'',
      ''The score ranks estimated review risk and does not prove that a defect exists.'',
      ''The prepared dataset FIX field is used for training; runtime keyword matching is an MVP approximation.'',
      ''The prepared change metrics exclude some non-source files; the later runtime extractor '' @
        ''must make and document a file-scope decision before claiming training/runtime parity.'']"

text \<open>The artifact directory: the contents of its three files.\<close>

record artifact_files =
  af_model :: string
  af_report :: string
  af_metadata :: string

text \<open>\<^verbatim>\<open>json.dumps(..., sort_keys=True)\<close> sorts the keys of every object.\<close>

primrec sorted_json :: "json \<Rightarrow> json" where
  "sorted_json JNull = JNull"
| "sorted_json (JBool b) = JBool b"
| "sorted_json (JInt k) = JInt k"
| "sorted_json (JFloat r) = JFloat r"
| "sorted_json (JStr s) = JStr s"
| "sorted_json (JList vs) = JList (map sorted_json vs)"
| "sorted_json (JObj d) = JObj (sort_key fst (map (map_prod id sorted_json) d))"

definition write_json :: "training_lib \<Rightarrow> json \<Rightarrow> string" where
  "write_json env payload = tl_dumps env payload @ [char_of (10 :: nat)]"

text \<open>
  What is relied on: reading the metadata that were written gives them back, with the keys sorted, and
  joblib gives back a fitted classifier.
\<close>

definition storage_laws :: "training_lib \<Rightarrow> dict \<Rightarrow> bool" where
  "storage_laws env metadata \<longleftrightarrow> tl_loads env (write_json env (JObj metadata)) = Some (sorted_json (JObj metadata)) \<and>
     (\<forall>rows labels. tl_load_model env (tl_dump_model env (tl_fit env rows labels)) = Some (tl_fit env rows labels))"

definition library_identity :: "training_lib \<Rightarrow> dict" where
  "library_identity env =
     (case tl_versions env of (sklearn, numpy, joblib) \<Rightarrow>
        [(''scikitLearnVersion'', JStr sklearn), (''numpyVersion'', JStr numpy), (''joblibVersion'', JStr joblib)])"

definition expected_identity :: "training_lib \<Rightarrow> dict" where
  "expected_identity env =
     [(''modelName'', JStr training_MODEL_NAME), (''modelVersion'', JStr training_MODEL_VERSION),
      (''featureSchemaVersion'', JStr training_FEATURE_SCHEMA_VERSION),
      (''featureOrder'', JList (map JStr training_FEATURE_ORDER)), (''pythonVersion'', JStr (tl_python env))] @ library_identity env"

definition file_of :: "artifact_files \<Rightarrow> string \<Rightarrow> string" where
  "file_of files name = (if name = ''model.joblib'' then af_model files else af_report files)"

definition checksum_files :: "string list" where
  "checksum_files = [''model.joblib'', ''training-report.json'']"

text \<open>\<^verbatim>\<open>isinstance(value, (int, float))\<close> with the value as a float.\<close>

fun number_of :: "json \<Rightarrow> rat option" where
  "number_of (JInt k) = Some (of_int k)"
| "number_of (JFloat r) = Some r"
| "number_of (JBool b) = Some (if b then 1 else 0)"
| "number_of _ = None"

definition positive_positions :: "estimator \<Rightarrow> nat list" where
  "positive_positions e = filter (\<lambda>i. es_classes e ! i) [0..<length (es_classes e)]"

text \<open>The \<^verbatim>\<open>get\<close> of a value that is no dictionary is an \<^verbatim>\<open>AttributeError\<close>.\<close>

fun sub_dict :: "json \<Rightarrow> dict result" where
  "sub_dict (JObj d) = Inr d"
| "sub_dict _ = Inl (OtherError ''object has no attribute get'')"

definition verify_identity :: "training_lib \<Rightarrow> dict \<Rightarrow> unit result" where
  "verify_identity env metadata =
     (case find (\<lambda>(key, expected). dict_get metadata key \<noteq> expected) (expected_identity env) of
        Some (key, _) \<Rightarrow> Inl (ValueError (''artifact metadata mismatch for '' @ key))
      | None \<Rightarrow> Inr ())"

definition verify_checksums :: "training_lib \<Rightarrow> artifact_files \<Rightarrow> dict \<Rightarrow> unit result" where
  "verify_checksums env files metadata =
     bindr (sub_dict (dict_get_or metadata ''sha256'' (JObj []))) (\<lambda>digests.
     case find (\<lambda>f. dict_get digests f \<noteq> JStr (tl_sha256 env (file_of files f))) checksum_files of
       Some f \<Rightarrow> Inl (ValueError (''artifact checksum mismatch for '' @ f))
     | None \<Rightarrow> Inr ())"

definition verify_thresholds :: "dict \<Rightarrow> unit result" where
  "verify_thresholds metadata =
     bindr (sub_dict (dict_get_or metadata ''thresholds'' (JObj []))) (\<lambda>d.
     case (number_of (dict_get d ''medium''), number_of (dict_get d ''high''), number_of (dict_get d ''critical'')) of
       (Some m, Some h, Some c) \<Rightarrow>
         if \<not> (0 \<le> m \<and> m < h \<and> h < c \<and> c \<le> 1) then Inl (ValueError ''artifact thresholds are not strictly ordered'') else Inr ()
     | _ \<Rightarrow> Inl (ValueError ''artifact thresholds must be numeric''))"

definition verify_model :: "training_lib \<Rightarrow> string \<Rightarrow> unit result" where
  "verify_model env content =
     (case tl_load_model env content of
        None \<Rightarrow> Inl (OtherError ''joblib'')
      | Some e \<Rightarrow>
          if es_features_in e \<noteq> Some (int (length training_FEATURE_ORDER))
          then Inl (ValueError ''artifact input width does not match the feature contract'')
          else (case positive_positions e of
                  [i] \<Rightarrow>
                    (let row = es_proba e (replicate (length training_FEATURE_ORDER) 0) in
                     if length row \<le> i then Inl (OtherError ''index is out of bounds'')
                     else (case row ! i of
                             Finite p \<Rightarrow> if \<not> (0 \<le> p \<and> p \<le> 1) then Inl (ValueError ''artifact did not produce a finite probability'') else Inr ()
                           | _ \<Rightarrow> Inl (ValueError ''artifact did not produce a finite probability'')))
                | _ \<Rightarrow> Inl (ValueError ''artifact positive class cannot be identified'')))"

definition verify_exported_artifact :: "training_lib \<Rightarrow> artifact_files \<Rightarrow> unit result" where
  "verify_exported_artifact env files =
     (case tl_loads env (af_metadata files) of
        None \<Rightarrow> Inl (ValueError ''JSON'')
      | Some j \<Rightarrow>
          bindr (sub_dict j) (\<lambda>metadata.
          bindr (verify_identity env metadata) (\<lambda>_.
          bindr (verify_checksums env files metadata) (\<lambda>_.
          bindr (verify_thresholds metadata) (\<lambda>_.
          verify_model env (af_model files))))))"

definition artifact_metadata :: "training_lib \<Rightarrow> threshold_selection \<Rightarrow> string \<Rightarrow> string \<Rightarrow> dict" where
  "artifact_metadata env thresholds model_content report_content =
     [(''modelName'', JStr training_MODEL_NAME), (''modelVersion'', JStr training_MODEL_VERSION),
      (''featureSchemaVersion'', JStr training_FEATURE_SCHEMA_VERSION),
      (''featureOrder'', JList (map JStr training_FEATURE_ORDER)), (''trainingUnit'', JStr ''commit''),
      (''runtimePredictionUnit'', JStr ''pull_request_aggregate''), (''pythonVersion'', JStr (tl_python env))]
     @ library_identity env @
     [(''trainingDataset'', JStr ''JIT-Fine replication package data.zip''), (''thresholds'', JObj (ts_as_dict thresholds)),
      (''sha256'', JObj [(''model.joblib'', JStr (tl_sha256 env model_content)),
                         (''training-report.json'', JStr (tl_sha256 env report_content))]),
      (''limitations'', JList (map JStr LIMITATIONS))]"

text \<open>The files stay as written when the verification raises.\<close>

definition export_artifact ::
  "training_lib \<Rightarrow> estimator \<Rightarrow> json \<Rightarrow> threshold_selection \<Rightarrow> dict result \<times> artifact_files" where
  "export_artifact env model report thresholds =
     (let model_content = tl_dump_model env model;
          report_content = write_json env report;
          metadata = artifact_metadata env thresholds model_content report_content;
          files = \<lparr>af_model = model_content, af_report = report_content,
                   af_metadata = write_json env (JObj metadata)\<rparr>
      in (bindr (verify_exported_artifact env files) (\<lambda>_. Inr metadata), files))"

section \<open>Training\<close>

definition split_named :: "string \<Rightarrow> dataset_split list \<Rightarrow> dataset_split option" where
  "split_named name splits = find (\<lambda>s. ds_name s = name) splits"

text \<open>\<^verbatim>\<open>model.predict_proba(features)[:, position]\<close>.\<close>

definition class_probabilities :: "estimator \<Rightarrow> nat \<Rightarrow> rat list list \<Rightarrow> py_float list" where
  "class_probabilities e position rows = map (\<lambda>row. es_proba e row ! position) rows"

text \<open>
  The splits are loaded; the report, which holds the metrics of the evaluation, is a parameter that
  may raise.
\<close>

definition trained_model ::
  "training_lib \<Rightarrow> dataset_split list \<Rightarrow> dataset_split \<Rightarrow> dataset_split \<Rightarrow> (dict result \<times> artifact_files) result" where
  "trained_model env splits train_split valid_split =
     (let model = tl_fit env (ds_features train_split) (ds_labels train_split) in
      case positive_positions model of
        [position] \<Rightarrow>
          bindr (select_thresholds (tl_curve env) (ds_labels valid_split)
                   (class_probabilities model position (ds_features valid_split))) (\<lambda>thresholds.
          bindr (tl_report env splits model thresholds) (\<lambda>report.
          Inr (export_artifact env model report thresholds)))
      | _ \<Rightarrow> Inl (OtherError ''cannot identify positive class''))"

definition train :: "training_lib \<Rightarrow> bool \<Rightarrow> (dict result \<times> artifact_files) result" where
  "train env allow_unsafe_pickle =
     bindr (load_jitfine_dataset (tl_research env) allow_unsafe_pickle True) (\<lambda>splits.
     case (split_named ''train'' splits, split_named ''valid'' splits, split_named ''test'' splits) of
       (Some train_split, Some valid_split, Some test_split) \<Rightarrow> trained_model env splits train_split valid_split
     | _ \<Rightarrow> Inl (OtherError ''KeyError''))"

end
