(* ===== verification/Artifact_Facts.thy ===== *)
theory Artifact_Facts
  imports Training_Model
begin

text \<open>
  The thresholds are the best ones, and the engine (\<open>Risk\<close>) loads every artifact the training exports:
  the two programs check the same file by different code.
\<close>

section \<open>Thresholds\<close>

text \<open>What scikit-learn documents of the curve: the lengths, and that the thresholds increase.\<close>

definition curve_ok :: "pr_curve \<Rightarrow> bool" where
  "curve_ok c \<longleftrightarrow> (case c of (precision, recall, thresholds) \<Rightarrow>
     length precision = Suc (length thresholds) \<and> length recall = Suc (length thresholds) \<and> sorted_wrt (<) thresholds)"

lemma takeWhile_shorter: "x \<in> set xs \<Longrightarrow> \<not> P x \<Longrightarrow> length (takeWhile P xs) < length xs"
  by (induction xs) auto

lemma argmax_spec:
  assumes "xs \<noteq> []"
  shows "argmax xs < length xs \<and> xs ! argmax xs = Max (set xs) \<and> (\<forall>i < argmax xs. xs ! i < Max (set xs))"
proof -
  let ?P = "\<lambda>x. x \<noteq> Max (set xs)"
  have "Max (set xs) \<in> set xs" using assms by simp
  then have l: "argmax xs < length xs" unfolding argmax_def by (rule takeWhile_shorter) simp
  then have "xs ! argmax xs = Max (set xs)" using nth_length_takeWhile [of ?P xs] by (simp add: argmax_def)
  moreover have "xs ! i < Max (set xs)" if "i < argmax xs" for i
  proof -
    have "takeWhile ?P xs ! i \<in> set (takeWhile ?P xs)" using that unfolding argmax_def by (rule nth_mem)
    then have "?P (xs ! i)" using that takeWhile_nth [of i ?P xs] unfolding argmax_def by (auto dest: set_takeWhileD)
    moreover have "xs ! i \<in> set xs" using that l by simp
    ultimately show ?thesis by (simp add: order.not_eq_order_implies_strict)
  qed
  ultimately show ?thesis using l by blast
qed

text \<open>\<open>t\<close> is the threshold with the best score, and the lowest of these.\<close>

definition best_threshold :: "pr_curve \<Rightarrow> rat \<Rightarrow> rat \<Rightarrow> bool" where
  "best_threshold c beta t \<longleftrightarrow> (case c of (precision, recall, thresholds) \<Rightarrow>
     \<exists>k < length thresholds. t = thresholds ! k \<and>
       (\<forall>i < length thresholds. fbeta beta (precision ! i) (recall ! i) \<le> fbeta beta (precision ! k) (recall ! k) \<and>
          (fbeta beta (precision ! i) (recall ! i) = fbeta beta (precision ! k) (recall ! k) \<longrightarrow> t \<le> thresholds ! i)))"

lemma best_fbeta_exact:
  assumes "curve_ok c" and "best_fbeta_threshold c beta = Inr t"
  shows "best_threshold c beta t"
proof -
  obtain p r th where c: "c = (p, r, th)" by (cases c)
  let ?s = "fbeta_scores beta c"
  from assms(1) have l: "length p = Suc (length th)" "length r = Suc (length th)" and o: "sorted_wrt (<) th"
    by (simp_all add: c curve_ok_def)
  then have n: "length ?s = length th" and nth: "\<And>i. i < length th \<Longrightarrow> ?s ! i = fbeta beta (p ! i) (r ! i)"
    by (simp_all add: c fbeta_scores_def nth_butlast)
  from assms(2) have th: "th \<noteq> []" "t = th ! argmax ?s" by (simp_all add: c best_fbeta_threshold_def split: if_splits)
  with n have "?s \<noteq> []" by auto
  from argmax_spec [OF this] n have k: "argmax ?s < length th" "?s ! argmax ?s = Max (set ?s)"
    and least: "\<forall>i < argmax ?s. ?s ! i < Max (set ?s)" by simp_all
  have "?s ! i \<le> ?s ! argmax ?s \<and> (?s ! i = ?s ! argmax ?s \<longrightarrow> t \<le> th ! i)" if i: "i < length th" for i
  proof
    show "?s ! i \<le> ?s ! argmax ?s" unfolding k(2) using i n by simp
    show "?s ! i = ?s ! argmax ?s \<longrightarrow> t \<le> th ! i"
    proof
      assume "?s ! i = ?s ! argmax ?s"
      with least k(2) have "argmax ?s \<le> i" by (metis less_irrefl not_le)
      with i o show "t \<le> th ! i" unfolding th(2) by (auto simp: sorted_wrt_iff_nth_less le_less)
    qed
  qed
  with k(1) th(2) nth show ?thesis unfolding best_threshold_def c by (auto intro!: exI [of _ "argmax ?s"] simp: c)
qed


section \<open>The artifact in the engine\<close>

text \<open>What the engine finds in the artifact directory, with its own Python version.\<close>

definition deployed :: "training_lib \<Rightarrow> string \<Rightarrow> (string \<Rightarrow> py_float option) \<Rightarrow> artifact_files \<Rightarrow> risk_artifact" where
  "deployed env python floats files =
     (let e = (case tl_load_model env (af_model files) of
                 Some e \<Rightarrow> e | None \<Rightarrow> \<lparr>es_features_in = None, es_classes = [], es_proba = (\<lambda>_. []), es_importances = []\<rparr>) in
      \<lparr>ra_metadata = (case tl_loads env (af_metadata files) of Some (JObj d) \<Rightarrow> d | _ \<Rightarrow> []),
       ra_library_versions = library_identity env, ra_python_version = python,
       ra_sha256 = (\<lambda>name. tl_sha256 env (file_of files name)),
       ra_features_in = (case es_features_in e of Some k \<Rightarrow> k | None \<Rightarrow> -1),
       ra_classes = es_classes e, ra_proba = es_proba e, ra_importances = es_importances e, ra_float = floats,
       ra_log2 = rs_log2 (tl_research env)\<rparr>)"

lemma training_constants:
  "training_MODEL_NAME = MODEL_NAME" "training_MODEL_VERSION = MODEL_VERSION"
  "training_FEATURE_SCHEMA_VERSION = FEATURE_SCHEMA_VERSION" "training_FEATURE_ORDER = FEATURE_ORDER"
  by (simp_all add: training_MODEL_NAME_def MODEL_NAME_def training_MODEL_VERSION_def MODEL_VERSION_def
      training_FEATURE_SCHEMA_VERSION_def FEATURE_SCHEMA_VERSION_def training_FEATURE_ORDER_def FEATURE_ORDER_def)

lemma sub_dict_Inr: "sub_dict j = Inr d \<longleftrightarrow> j = JObj d"
  by (cases j) auto

lemma find_keys_None: "find (\<lambda>(k, v). f k \<noteq> v) xs = None \<longleftrightarrow> (\<forall>(k, v) \<in> set xs. f k = v)"
  by (auto simp: find_None_iff)

lemma identity_verified:
  assumes "verify_identity env metadata = Inr u"
  shows "\<forall>(k, v) \<in> set (expected_identity env). dict_get metadata k = v"
  using assms unfolding find_keys_None [symmetric] by (simp add: verify_identity_def split: option.splits prod.splits)

lemma checksums_verified:
  assumes "verify_checksums env files metadata = Inr u"
  obtains digests where "dict_get metadata ''sha256'' = JObj digests"
    "\<forall>f \<in> set checksum_files. dict_get digests f = JStr (tl_sha256 env (file_of files f))"
proof -
  from assms obtain digests where d: "dict_get_or metadata ''sha256'' (JObj []) = JObj digests"
    "find (\<lambda>f. dict_get digests f \<noteq> JStr (tl_sha256 env (file_of files f))) checksum_files = None"
    by (auto simp: verify_checksums_def bindr_Inr sub_dict_Inr split: option.splits)
  have ok: "\<forall>f \<in> set checksum_files. dict_get digests f = JStr (tl_sha256 env (file_of files f))"
    using d(2) by (auto simp: find_None_iff)
  then have "digests \<noteq> []" by (auto simp: checksum_files_def dict_get_def)
  with d(1) have "dict_get metadata ''sha256'' = JObj digests" by (auto simp: dict_get_or_def dict_get_def split: option.splits)
  with ok that show thesis by blast
qed

lemma number_float: "number_of j = Some q \<Longrightarrow> float_of_json ra j = Some (Finite q)"
  by (cases j) (auto split: if_splits)

lemma thresholds_verified:
  assumes "verify_thresholds (ra_metadata ra) = Inr u"
  obtains d m h c where "dict_get (ra_metadata ra) ''thresholds'' = JObj d" "number_of (dict_get d ''medium'') = Some m"
    "number_of (dict_get d ''high'') = Some h" "number_of (dict_get d ''critical'') = Some c"
    "validated_thresholds ra = Inr (m, h, c)"
proof -
  from assms obtain d where d: "dict_get_or (ra_metadata ra) ''thresholds'' (JObj []) = JObj d"
    and x: "(case (number_of (dict_get d ''medium''), number_of (dict_get d ''high''), number_of (dict_get d ''critical'')) of
       (Some m, Some h, Some c) \<Rightarrow>
         if \<not> (0 \<le> m \<and> m < h \<and> h < c \<and> c \<le> 1) then Inl (ValueError ''artifact thresholds are not strictly ordered'') else Inr ()
     | _ \<Rightarrow> Inl (ValueError ''artifact thresholds must be numeric'')) = Inr u"
    unfolding verify_thresholds_def bindr_Inr sub_dict_Inr by blast
  from x obtain m h c where n: "number_of (dict_get d ''medium'') = Some m" "number_of (dict_get d ''high'') = Some h"
      "number_of (dict_get d ''critical'') = Some c"
    and o: "0 \<le> m" "m < h" "h < c" "c \<le> 1"
    by (cases "number_of (dict_get d ''medium'')"; cases "number_of (dict_get d ''high'')"; cases "number_of (dict_get d ''critical'')")
       (auto split: if_splits)
  from n(1) have "d \<noteq> []" by (auto simp: dict_get_def)
  with d have t: "dict_get (ra_metadata ra) ''thresholds'' = JObj d" by (auto simp: dict_get_or_def dict_get_def split: option.splits)
  have get: "Option.bind (map_of d k) (float_of_json ra) = Some (Finite q)" if "number_of (dict_get d k) = Some q" for k q
    using that number_float [of _ q ra] by (auto simp: dict_get_def split: option.splits)
  from t n o get have "validated_thresholds ra = Inr (m, h, c)" by (simp add: validated_thresholds_def)
  with that t n show thesis by blast
qed

lemma verified_metadata:
  assumes "verify_exported_artifact env files = Inr u"
  obtains d where "tl_loads env (af_metadata files) = Some (JObj d)" "verify_identity env d = Inr ()"
    "verify_checksums env files d = Inr ()" "verify_thresholds d = Inr ()" "verify_model env (af_model files) = Inr ()"
  using assms by (auto simp: verify_exported_artifact_def bindr_Inr sub_dict_Inr split: option.splits)

lemma verified_model:
  assumes "verify_model env content = Inr u"
  obtains e i p where "tl_load_model env content = Some e" "es_features_in e = Some (int (length FEATURE_ORDER))" "positive_positions e = [i]"
    "i < length (es_proba e (replicate (length FEATURE_ORDER) 0))" "es_proba e (replicate (length FEATURE_ORDER) 0) ! i = Finite p"
    "0 \<le> p" "p \<le> 1"
  using assms unfolding verify_model_def training_constants Let_def
  by (auto simp: not_le not_less split: option.splits list.splits if_splits py_float.splits)

definition untouched :: risk_features where
  "untouched = \<lparr>ft_ns = 0, ft_nd = 0, ft_nf = 0, ft_entropy = 0, ft_la = 0, ft_ld = 0, ft_fix = 0\<rparr>"

text \<open>The exporter's verification implies the engine's, on any patch release of the same Python.\<close>

lemma verified_loads:
  fixes floats :: "string \<Rightarrow> py_float option"
  assumes "verify_exported_artifact env files = Inr u" and "same_python_minor (JStr (tl_python env)) python"
  defines "ra \<equiv> deployed env python floats files"
  shows "\<exists>position p. load_model ra = Inr position \<and> ra_classes ra ! position \<and> predict ra untouched = Inr p"
proof -
  from assms(1) obtain d where d: "tl_loads env (af_metadata files) = Some (JObj d)" and v: "verify_identity env d = Inr ()"
    "verify_checksums env files d = Inr ()" "verify_thresholds d = Inr ()" "verify_model env (af_model files) = Inr ()"
    by (rule verified_metadata)
  from v(4) obtain e i p where e: "tl_load_model env (af_model files) = Some e" "es_features_in e = Some (int (length FEATURE_ORDER))"
      "positive_positions e = [i]"
    and p: "i < length (es_proba e (replicate (length FEATURE_ORDER) 0))"
      "es_proba e (replicate (length FEATURE_ORDER) 0) ! i = Finite p" "0 \<le> p" "p \<le> 1"
    by (rule verified_model)
  have ra: "ra_metadata ra = d" "ra_library_versions ra = library_identity env" "ra_python_version ra = python"
    "ra_sha256 ra = (\<lambda>name. tl_sha256 env (file_of files name))" "ra_features_in ra = int (length FEATURE_ORDER)" "ra_classes ra = es_classes e"
    "ra_proba ra = es_proba e"
    using d e by (simp_all add: ra_def deployed_def Let_def)
  from v(3) obtain m h c where th: "validated_thresholds ra = Inr (m, h, c)"
    using thresholds_verified [of ra "()"] unfolding ra(1) by metis
  from v(2) obtain digests where s: "dict_get d ''sha256'' = JObj digests"
    "\<forall>f \<in> set checksum_files. dict_get digests f = JStr (tl_sha256 env (file_of files f))" by (rule checksums_verified)
  note id = identity_verified [OF v(1), unfolded expected_identity_def training_constants]
  have "find (\<lambda>(k, v). dict_get (ra_metadata ra) k \<noteq> v) (expected_metadata ra) = None"
    unfolding find_keys_None using id by (auto simp: expected_metadata_def ra)
  moreover have "dict_get d ''pythonVersion'' = JStr (tl_python env)" using id by simp
  moreover have "find (\<lambda>f. dict_get digests f \<noteq> JStr (ra_sha256 ra f)) [''model.joblib'', ''training-report.json''] = None"
    using s(2) by (simp add: ra checksum_files_def)
  ultimately have "verify_metadata ra = Inr ()" using assms(2) s(1) th by (simp add: verify_metadata_def ra)
  then have l: "load_model ra = Inr i"
    using e(3) by (simp add: load_model_def ra positive_positions_def)
  moreover have "ra_classes ra ! i" proof -
    have "i \<in> set (positive_positions e)" using e(3) by simp
    then show ?thesis by (simp add: ra positive_positions_def)
  qed
  moreover have "as_ordered_values untouched = replicate (length FEATURE_ORDER) 0" by code_simp
  then have "\<exists>r. predict ra untouched = Inr r" using l p th by (simp add: predict_def ra Let_def)
  ultimately show ?thesis by blast
qed

section \<open>What was exported is what is loaded\<close>

lemma sorted_lookup:
  assumes "distinct (map fst d)"
  shows "map_of (sort_key fst (map (map_prod id sorted_json) d)) k = map_option sorted_json (map_of d k)"
proof -
  let ?e = "map (map_prod id sorted_json) d"
  have k: "map fst ?e = map fst d" by simp
  have "map fst (sort_key fst ?e) = sort (map fst d)"
    by (metis (no_types) k sort_key_id_if_sorted sorted_sort_key properties_for_sort mset_map mset_sort)
  then have "distinct (map fst (sort_key fst ?e))" using assms by simp
  then have "map_of (sort_key fst ?e) = map_of ?e" using assms k by (intro map_of_inject_set [THEN iffD2]) simp_all
  moreover have "map_of ?e k = map_option sorted_json (map_of d k)" by (induction d) auto
  ultimately show ?thesis by simp
qed

lemma exported_thresholds:
  assumes "storage_laws env metadata" and "export_artifact env model report t = (Inr metadata, files)"
  shows "validated_thresholds (deployed env python floats files) = Inr (ts_medium t, ts_high t, ts_critical t)"
proof -
  let ?d = "artifact_metadata env t (tl_dump_model env model) (write_json env report)"
  let ?s = "sort_key fst (map (map_prod id sorted_json) ?d)"
  from assms(2) have f: "af_metadata files = write_json env (JObj ?d)" "metadata = ?d" and v: "\<exists>u. verify_exported_artifact env files = Inr u"
    by (auto simp: export_artifact_def Let_def bindr_Inr)
  have m: "tl_loads env (af_metadata files) = Some (JObj ?s)" using assms(1) by (simp add: storage_laws_def f)
  then have ra: "ra_metadata (deployed env python floats files) = ?s" by (simp add: deployed_def Let_def)
  have dist: "distinct (map fst ?d)" by (cases "tl_versions env") (simp add: artifact_metadata_def library_identity_def)
  have td: "distinct (map fst (ts_as_dict t))" by (simp add: ts_as_dict_def)
  have "map_of ?d ''thresholds'' = Some (JObj (ts_as_dict t))"
    by (cases "tl_versions env") (simp add: artifact_metadata_def library_identity_def)
  then have th: "dict_get ?s ''thresholds'' = JObj (sort_key fst (map (map_prod id sorted_json) (ts_as_dict t)))"
    using sorted_lookup [OF dist] by (simp add: dict_get_def)
  have n: "number_of (dict_get (sort_key fst (map (map_prod id sorted_json) (ts_as_dict t))) k) = Option.bind (map_of (ts_as_dict t) k) number_of" for k
    using sorted_lookup [OF td] by (auto simp: dict_get_def ts_as_dict_def)
  from v m have "verify_thresholds ?s = Inr ()" by (auto elim!: verified_metadata)
  with ra obtain d a b c where "dict_get ?s ''thresholds'' = JObj d" "number_of (dict_get d ''medium'') = Some a"
    "number_of (dict_get d ''high'') = Some b" "number_of (dict_get d ''critical'') = Some c"
    "validated_thresholds (deployed env python floats files) = Inr (a, b, c)"
    using thresholds_verified [of "deployed env python floats files" "()"] by metis
  with th n show ?thesis by (auto simp: ts_as_dict_def)
qed

text \<open>
  C32: What training produces the engine accepts: when \<^verbatim>\<open>train\<close> returns, the engine of the same
  libraries, on any patch release of the same Python, loads the exported artifact, finds its positive
  class, answers a request, and classifies with exactly the thresholds that the selection chose on
  the validation split, whatever order the JSON file keeps its keys in.
\<close>

theorem training_deploys:
  fixes floats :: "string \<Rightarrow> py_float option"
  assumes "storage_laws env metadata" and "train env allow = Inr (Inr metadata, files)"
    and "same_python_minor (JStr (tl_python env)) python"
  defines "ra \<equiv> deployed env python floats files"
  shows "\<exists>splits valid position t p. load_jitfine_dataset (tl_research env) allow True = Inr splits \<and>
    split_named ''valid'' splits = Some valid \<and> load_model ra = Inr position \<and> ra_classes ra ! position \<and>
    select_thresholds (tl_curve env) (ds_labels valid) (map (\<lambda>row. ra_proba ra row ! position) (ds_features valid)) = Inr t \<and>
    validated_thresholds ra = Inr (ts_medium t, ts_high t, ts_critical t) \<and> predict ra untouched = Inr p"
proof -
  obtain splits where l: "load_jitfine_dataset (tl_research env) allow True = Inr splits"
    and x: "(case (split_named ''train'' splits, split_named ''valid'' splits, split_named ''test'' splits) of
       (Some train_split, Some valid_split, Some test_split) \<Rightarrow>
         trained_model env splits train_split valid_split
     | _ \<Rightarrow> Inl (OtherError ''KeyError'')) = Inr (Inr metadata, files)"
    using assms(2) unfolding train_def bindr_Inr by blast
  from x obtain trained valid where s: "split_named ''valid'' splits = Some valid"
    and y: "trained_model env splits trained valid = Inr (Inr metadata, files)"
    by (cases "split_named ''train'' splits"; cases "split_named ''valid'' splits"; cases "split_named ''test'' splits") auto
  from y obtain position report t where
      m: "positive_positions (tl_fit env (ds_features trained) (ds_labels trained)) = [position]"
    and t: "select_thresholds (tl_curve env) (ds_labels valid)
        (class_probabilities (tl_fit env (ds_features trained) (ds_labels trained)) position (ds_features valid)) = Inr t"
    and e: "export_artifact env (tl_fit env (ds_features trained) (ds_labels trained)) report t = (Inr metadata, files)"
    by (auto simp: trained_model_def bindr_Inr Let_def split: list.splits)
  let ?m = "tl_fit env (ds_features trained) (ds_labels trained)"
  from e obtain u where v: "verify_exported_artifact env files = Inr u" and f: "af_model files = tl_dump_model env ?m"
    by (auto simp: export_artifact_def Let_def bindr_Inr)
  from verified_loads [OF v assms(3), of floats] obtain i p where i: "load_model ra = Inr i" "ra_classes ra ! i" "predict ra untouched = Inr p"
    unfolding ra_def by blast
  have model: "ra_classes ra = es_classes ?m" "ra_proba ra = es_proba ?m"
    using assms(1) f by (simp_all add: ra_def deployed_def Let_def storage_laws_def)
  have "i = position" using i(1) m by (auto simp: load_model_def bindr_Inr model positive_positions_def runtime_error_def split: if_splits)
  with i t l s exported_thresholds [OF assms(1) e, of python floats] show ?thesis
    unfolding ra_def [symmetric] by (auto simp: class_probabilities_def model)
qed

end
