(* ===== verification/Training_Examples.thy ===== *)
theory Training_Examples
  imports Artifact_Facts
begin

text \<open>The properties of the training at concrete inputs: three splits of two commits each.\<close>

section \<open>A research environment\<close>

definition joined_rows :: "label_row list \<Rightarrow> measured_row list \<Rightarrow> (label_row \<times> measured_row) list" where
  "joined_rows ls ms = List.map_filter (\<lambda>l. map_option (Pair l) (find (\<lambda>m. mr_hash m = lb_hash l) ms)) ls"

definition repeated :: "string list \<Rightarrow> bool list" where
  "repeated hs = map (\<lambda>i. \<exists>j \<in> {0..<length hs}. j \<noteq> i \<and> hs ! i = hs ! j) [0..<length hs]"

fun cell_float :: "cell \<Rightarrow> py_float option" where
  "cell_float (NumberCell x) = Some x"
| "cell_float _ = None"

fun cell_int8 :: "cell \<Rightarrow> int option" where
  "cell_int8 (NumberCell (Finite q)) = Some (Py_Values.truncate q)"
| "cell_int8 _ = None"

definition sample_hashes :: "string \<Rightarrow> cell list" where
  "sample_hashes name = [TextCell ('' A'' @ name), TextCell (''b'' @ name)]"

definition sample_cells :: "string \<Rightarrow> rat \<Rightarrow> string \<Rightarrow> cell" where
  "sample_cells h label name =
     (if name = ''commit_hash'' then TextCell h
      else if name = ''is_buggy_commit'' then NumberCell (Finite label)
      else if name = ''fix'' then TextCell ''False''
      else if name = ''entropy'' then NumberCell (Finite 0) else NumberCell (Finite 1))"

definition sample_split_files :: "string \<Rightarrow> (string \<times> pickled) list" where
  "sample_split_files split =
     [(''changes_'' @ split @ ''.pkl'',
       Sequences [sample_hashes split, [NumberCell (Finite 0), NumberCell (Finite 1)], [TextCell ''fix'', TextCell ''revert''], []]),
      (''features_'' @ split @ ''.pkl'',
       Frame ([''commit_hash'', ''is_buggy_commit''] @ training_FEATURE_ORDER)
         [sample_cells (''b'' @ split) 1, sample_cells (''a'' @ split) 0])]"

definition sample_research :: research_lib where
  "sample_research =
     \<lparr>rs_str = (\<lambda>c. case c of TextCell s \<Rightarrow> s | _ \<Rightarrow> []), rs_nfkc = id, rs_is_file = (\<lambda>_. True),
      rs_sha256 = (\<lambda>name. the (map_of EXPECTED_SOURCE_SHA256 name)),
      rs_pickle = (\<lambda>name. case map_of (concat (map sample_split_files SPLITS)) name of Some p \<Rightarrow> Inr p | None \<Rightarrow> Inr OtherPickled),
      rs_duplicated = repeated, rs_merge = joined_rows, rs_int8 = cell_int8, rs_float64 = cell_float, rs_log2 = (\<lambda>x. x - 1)\<rparr>"

lemma joined_rows_fst:
  assumes "\<forall>l \<in> set ls. lb_hash l \<in> mr_hash ` set ms"
  shows "map fst (joined_rows ls ms) = ls"
  using assms
proof (induction ls)
  case (Cons l ls)
  from Cons.prems obtain m where "m \<in> set ms" "mr_hash m = lb_hash l" by (auto simp: image_iff)
  then have "find (\<lambda>m. mr_hash m = lb_hash l) ms \<noteq> None" unfolding find_None_iff by blast
  with Cons show ?case by (auto simp: joined_rows_def List.map_filter_simps split: option.split)
qed (simp add: joined_rows_def List.map_filter_simps)

lemma joined_rows_match: "(l, m) \<in> set (joined_rows ls ms) \<Longrightarrow> m \<in> set ms \<and> mr_hash m = lb_hash l"
  by (induction ls) (auto simp: joined_rows_def List.map_filter_simps find_Some_iff split: option.splits)

lemma repeated_distinct: "True \<in> set (repeated hs) \<longleftrightarrow> \<not> distinct hs"
  unfolding repeated_def distinct_conv_nth set_map set_upt image_iff by fastforce

lemma sample_frame_laws: "frame_laws sample_research"
  using joined_rows_fst joined_rows_match repeated_distinct by (fastforce simp: frame_laws_def sample_research_def)

section \<open>Witnesses\<close>

lemma sample_dataset: "\<not> isl (load_jitfine_dataset sample_research True True)"
  by code_simp

theorem dataset_sound_witness:
  "\<exists>splits. load_jitfine_dataset sample_research True True = Inr splits \<and> map ds_name splits = SPLITS \<and>
     distinct (concat (map ds_commit_hashes splits))"
proof -
  obtain splits where l: "load_jitfine_dataset sample_research True True = Inr splits"
    using sample_dataset by (cases "load_jitfine_dataset sample_research True True") auto
  from dataset_sound [OF sample_frame_laws l] l show ?thesis by blast
qed

definition sample_curve :: pr_curve where
  "sample_curve = ([1 / 2, 3 / 4, 1, 1], [1, 3 / 4, 1 / 2, 0], [1 / 4, 1 / 2, 3 / 4])"

lemma sample_curve_ok: "curve_ok sample_curve"
  by (simp add: curve_ok_def sample_curve_def)

definition sample_thresholds :: threshold_selection where
  "sample_thresholds = \<lparr>ts_medium = 1 / 4, ts_high = 1 / 2, ts_critical = 3 / 4, ts_method = threshold_method\<rparr>"

lemma sample_selected: "select_thresholds (\<lambda>_ _. Inr sample_curve) labels probabilities = Inr sample_thresholds"
proof -
  have "best_fbeta_threshold sample_curve 2 = Inr (1 / 4)" "best_fbeta_threshold sample_curve 1 = Inr (1 / 2)"
    "best_fbeta_threshold sample_curve (1 / 2) = Inr (3 / 4)" by code_simp+
  then show ?thesis by (simp add: select_thresholds_def sample_thresholds_def)
qed


definition sample_estimator :: estimator where
  "sample_estimator = \<lparr>es_features_in = Some 7, es_classes = [False, True],
     es_proba = (\<lambda>_. [Finite (3 / 4), Finite (1 / 4)]), es_importances = []\<rparr>"

definition sample_training :: training_lib where
  "sample_training =
     \<lparr>tl_research = sample_research, tl_fit = (\<lambda>_ _. sample_estimator), tl_curve = (\<lambda>_ _. Inr sample_curve),
      tl_report = (\<lambda>_ _ _. Inr (JObj [])), tl_python = ''3.12.4'', tl_versions = (''1.5'', ''2.1'', ''1.4''),
      tl_dumps = (\<lambda>_. ''{}''), tl_loads = (\<lambda>_. None), tl_dump_model = (\<lambda>_. ''m''),
      tl_load_model = (\<lambda>_. Some sample_estimator), tl_sha256 = (\<lambda>_. ''d'')\<rparr>"

definition sample_metadata :: dict where
  "sample_metadata = artifact_metadata sample_training sample_thresholds ''m'' ''{}''"

definition sample_training_env :: training_lib where
  "sample_training_env = sample_training\<lparr>tl_loads := (\<lambda>_. Some (sorted_json (JObj sample_metadata)))\<rparr>"

lemma sample_storage: "storage_laws sample_training_env sample_metadata"
  by (simp add: storage_laws_def sample_training_env_def sample_training_def)

lemma sample_trained: "map_sum id fst (train sample_training_env True) = Inr (Inr sample_metadata)"
  by code_simp

theorem training_deploys_witness:
  "\<exists>files position. train sample_training_env True = Inr (Inr sample_metadata, files) \<and>
     load_model (deployed sample_training_env ''3.12.9'' (\<lambda>_. None) files) = Inr position \<and>
     validated_thresholds (deployed sample_training_env ''3.12.9'' (\<lambda>_. None) files) = Inr (1 / 4, 1 / 2, 3 / 4)"
proof -
  obtain files where t: "train sample_training_env True = Inr (Inr sample_metadata, files)"
    using sample_trained by (cases "train sample_training_env True") auto
  have v: "same_python_minor (JStr (tl_python sample_training_env)) ''3.12.9''" by code_simp
  have c: "tl_curve sample_training_env = (\<lambda>_ _. Inr sample_curve)" by (simp add: sample_training_env_def sample_training_def)
  from training_deploys [OF sample_storage t v, where floats = "\<lambda>_. None"] t show ?thesis
    by (auto simp: c sample_selected sample_thresholds_def)
qed

theorem fix_rules_differ_witness:
  "message_matches_runtime_fix_rule sample_research (TextCell ''revert'') \<noteq> 1 \<and> looks_like_fix [(''title'', JStr ''revert'')] []"
proof -
  have t: "text_laws sample_research" by (simp add: text_laws_def sample_research_def)
  have "\<forall>c \<in> set ''revert''. lower_alnum c" by code_simp
  from fix_rules_differ [OF t _ this] show ?thesis by (simp add: training_fix_words_def fix_words_def)
qed

end
